(* ===== verification/Prelude.thy ===== *)
theory Prelude
  imports Main "HOL-Library.Word"
begin

text \<open>
  Shared vocabulary of the development.

  \<^item> The machine integers of the sources (\<open>uint8_t\<close> to \<open>uint64_t\<close>; a signed integer is kept as
    the word with the same bits and is read with \<^const>\<open>sint\<close> where its sign matters).
  \<^item> \<open>fault\<close>, the ways a call of the program does not return (the \<open>FATAL\<close> family of
    \<open>external/logging/logging/logging.h\<close> aborts the process; a read outside an array is
    undefined behaviour), and \<open>'a res\<close>, the result of code that may do so.
  \<^item> The bit-field macros of \<open>source/include/utility_macro.h\<close>.
  \<^item> Little-endian images of words as byte lists, with their round trips.
  \<^item> Generic lemmas on lists, words and results that several components use.
\<close>

unbundle bit_operations_syntax

type_synonym u8 = "8 word"
type_synonym u16 = "16 word"
type_synonym u32 = "32 word"
type_synonym u64 = "64 word"

named_theorems enc_simps "field encodings of emitted instructions"
named_theorems len_simps "sizes of emitted code"

section \<open>Results\<close>

datatype fault =
    Unreachable    \<comment> \<open>\<open>UNREACHABLE()\<close>\<close>
  | Unimplemented  \<comment> \<open>\<open>UNIMPLEMENTED()\<close>\<close>
  | Fatal          \<comment> \<open>\<open>FATAL(...)\<close> with another message, or a failed \<open>CHECK\<close>\<close>
  | OutOfBounds    \<comment> \<open>an access outside an array or an allocated block\<close>
  | Uninitialized  \<comment> \<open>use of a variable no path has written\<close>
  | NullPointer    \<comment> \<open>an access through \<open>NULL\<close>\<close>

type_synonym 'a res = "fault + 'a"

definition rbind :: "'a res \<Rightarrow> ('a \<Rightarrow> 'b res) \<Rightarrow> 'b res" where
  "rbind m f = (case m of Inl e \<Rightarrow> Inl e | Inr x \<Rightarrow> f x)"

lemma rbind_Inl [simp]: "rbind (Inl e) f = Inl e"
  by (simp add: rbind_def)

lemma rbind_Inr [simp]: "rbind (Inr x) f = f x"
  by (simp add: rbind_def)

lemma rbind_eq_Inr: "rbind m f = Inr y \<longleftrightarrow> (\<exists>x. m = Inr x \<and> f x = Inr y)"
  by (cases m) auto

lemma rbind_eq_Inl: "rbind m f = Inl e \<longleftrightarrow> m = Inl e \<or> (\<exists>x. m = Inr x \<and> f x = Inl e)"
  by (cases m) auto

lemma rbindE [elim!]:
  assumes "rbind m f = Inr y"
  obtains x where "m = Inr x" "f x = Inr y"
  using assms by (auto simp: rbind_eq_Inr)

lemma rbind_cong [fundef_cong]:
  "m = m' \<Longrightarrow> (\<And>x. m' = Inr x \<Longrightarrow> f x = g x) \<Longrightarrow> rbind m f = rbind m' g"
  by (cases m') auto

text \<open>
  A result faults at most in the listed ways: the contract a caller states about code that may
  abort. \<open>returns\<close> is the case with no fault.
\<close>

definition faults_within :: "fault set \<Rightarrow> 'a res \<Rightarrow> bool" where
  "faults_within F m \<longleftrightarrow> (case m of Inl e \<Rightarrow> e \<in> F | Inr _ \<Rightarrow> True)"

lemma faults_within_Inl [simp]: "faults_within F (Inl e) \<longleftrightarrow> e \<in> F"
  and faults_within_Inr [simp]: "faults_within F (Inr x)"
  by (simp_all add: faults_within_def)

lemma faults_within_rbind:
  "faults_within F m \<Longrightarrow> (\<And>x. m = Inr x \<Longrightarrow> faults_within F (f x)) \<Longrightarrow> faults_within F (rbind m f)"
  by (cases m) auto

lemma faults_within_empty: "faults_within {} m \<longleftrightarrow> (\<exists>x. m = Inr x)"
  by (cases m) auto

text \<open>
  Code with a loop that may not end has a result in \<open>'a run\<close>: \<open>None\<close> when it does not end, \<open>Some (Inl e)\<close> for a fault.
\<close>

type_synonym 'a run = "'a res option"

definition run_bind :: "'a run \<Rightarrow> ('a \<Rightarrow> 'b run) \<Rightarrow> 'b run" where
  "run_bind m f = (case m of None \<Rightarrow> None | Some (Inl e) \<Rightarrow> Some (Inl e) | Some (Inr x) \<Rightarrow> f x)"

lemma run_bind_simps [simp]:
  "run_bind None f = None" "run_bind (Some (Inl e)) f = Some (Inl e)" "run_bind (Some (Inr x)) f = f x"
  by (simp_all add: run_bind_def)

section \<open>The bit-field macros\<close>

text \<open>
  \<open>LeftShift(a, b, c)\<close> keeps the low \<open>b\<close> bits of \<open>a\<close> and moves them up by \<open>c\<close>; \<open>bits(obj, st, fn)\<close>
  reads the field from bit \<open>st\<close> to bit \<open>fn\<close>, both included; \<open>set_bit\<close> and \<open>set_bits\<close> assign to
  their first argument. \<open>ALIGN\<close> is \<open>ALIGN_FLOOR\<close>.
\<close>

definition LeftShift :: "'a::len word \<Rightarrow> nat \<Rightarrow> nat \<Rightarrow> 'a word" where
  "LeftShift a b c = push_bit c (a AND (push_bit b 1 - 1))"

definition submask :: "nat \<Rightarrow> 'a::len word" where
  "submask x = push_bit (x + 1) 1 - 1"

definition bits :: "'a::len word \<Rightarrow> nat \<Rightarrow> nat \<Rightarrow> 'a word" where
  "bits obj st fn = drop_bit st obj AND submask (fn - st)"

definition bit1 :: "'a::len word \<Rightarrow> nat \<Rightarrow> 'a word" where
  "bit1 obj st = drop_bit st obj AND 1"

definition set_bit1 :: "'a::len word \<Rightarrow> nat \<Rightarrow> 'a word \<Rightarrow> 'a word" where
  "set_bit1 obj st b = (NOT (push_bit st 1) AND obj) OR push_bit st b"

definition set_bits :: "'a::len word \<Rightarrow> nat \<Rightarrow> nat \<Rightarrow> 'a word \<Rightarrow> 'a word" where
  "set_bits obj st fn bs = (NOT (push_bit st (submask (fn - st))) AND obj) OR push_bit st bs"

definition ALIGN_FLOOR :: "'a::len word \<Rightarrow> 'a word \<Rightarrow> 'a word" where
  "ALIGN_FLOOR address rng = address AND NOT (rng - 1)"

definition ALIGN_CEIL :: "'a::len word \<Rightarrow> 'a word \<Rightarrow> 'a word" where
  "ALIGN_CEIL address rng = (address + rng - 1) AND NOT (rng - 1)"

lemma push_bit_one_minus_one: "push_bit n 1 - 1 = (mask n :: 'a::len word)"
  by (simp add: mask_eq_decr_exp push_bit_eq_mult)

lemma LeftShift_mask [enc_simps]: "LeftShift a b c = push_bit c (take_bit b a)"
  unfolding LeftShift_def push_bit_one_minus_one take_bit_eq_mask by (rule refl)

lemma bits_mask [enc_simps]: "bits obj st fn = take_bit (Suc (fn - st)) (drop_bit st obj)"
  unfolding bits_def submask_def push_bit_one_minus_one take_bit_eq_mask by simp

lemma bit1_mask [enc_simps]: "bit1 obj st = take_bit 1 (drop_bit st obj)"
  by (simp add: bit1_def take_bit_eq_mask)

lemma bit_set_bits_iff:
  fixes obj :: "'a::len word"
  shows "bit (set_bits obj st fn bs) n \<longleftrightarrow>
    n < LENGTH('a) \<and> ((st \<le> n \<and> bit bs (n - st)) \<or> (\<not> (st \<le> n \<and> n \<le> st + (fn - st)) \<and> bit obj n))"
  unfolding set_bits_def submask_def push_bit_one_minus_one
  by (auto simp: bit_simps dest: bit_imp_le_length)

lemma bit_set_bit1_iff:
  fixes obj :: "'a::len word"
  shows "bit (set_bit1 obj st b) n \<longleftrightarrow>
    n < LENGTH('a) \<and> ((st \<le> n \<and> bit b (n - st)) \<or> (n \<noteq> st \<and> bit obj n))"
  unfolding set_bit1_def
  by (auto simp: bit_simps dest: bit_imp_le_length)

lemma ALIGN_FLOOR_pow2: "ALIGN_FLOOR x (2 ^ k) = x - take_bit k (x :: 'a::len word)"
proof -
  have "x - take_bit k x = x AND NOT (take_bit k x)"
    by (rule disjunctive_diff) (simp add: bit_simps)
  also have "\<dots> = x AND NOT (mask k)"
    by (rule bit_word_eqI) (auto simp: bit_simps)
  finally show ?thesis
    by (simp add: ALIGN_FLOOR_def mask_eq_decr_exp)
qed

lemma unat_ALIGN_FLOOR: "unat (ALIGN_FLOOR x (2 ^ k)) = unat x - unat x mod 2 ^ k"
proof -
  have t: "unat (take_bit k x) = unat x mod 2 ^ k"
    unfolding unsigned_take_bit_eq by (simp add: take_bit_eq_mod)
  then have "take_bit k x \<le> x"
    by (simp add: word_le_nat_alt)
  with t show ?thesis by (simp add: ALIGN_FLOOR_pow2 unat_sub)
qed

section \<open>Conversions between widths\<close>

lemma ucast_of_nat_u8 [simp]:
  "ucast (of_nat n :: u32) = (of_nat n :: u8)"
  "ucast (1 + of_nat n :: u32) = (1 + of_nat n :: u8)"
proof -
  show "ucast (of_nat n :: u32) = (of_nat n :: u8)" for n
    by (rule bit_word_eqI) (auto simp: bit_simps)
  from this [of "Suc n"] show "ucast (1 + of_nat n :: u32) = (1 + of_nat n :: u8)"
    by simp
qed

lemma ucast_u32_u64_u32 [simp]: "ucast (ucast (x :: u32) :: u64) = x"
  by (rule bit_word_eqI) (auto simp: bit_simps)

lemma unat_of_nat_u32: "n < 2 ^ 32 \<Longrightarrow> unat (of_nat n :: u32) = n"
  by (simp add: unat_of_nat)

section \<open>Little-endian images\<close>

text \<open>
  What a store of a \<open>uint16_t\<close>, \<open>uint32_t\<close> or \<open>uint64_t\<close> leaves in memory on the targets of the
  program, all of them little-endian, and what a load reads back.
\<close>

primrec le_bytes :: "nat \<Rightarrow> 'a::len word \<Rightarrow> u8 list" where
  "le_bytes 0 w = []"
| "le_bytes (Suc n) w = ucast w # le_bytes n (drop_bit 8 w)"

primrec of_le_bytes :: "u8 list \<Rightarrow> 'a::len word" where
  "of_le_bytes [] = 0"
| "of_le_bytes (b # bs) = ucast b OR push_bit 8 (of_le_bytes bs)"

lemma length_le_bytes [simp, len_simps]: "length (le_bytes n w) = n"
  by (induction n arbitrary: w) auto

lemma le_bytes_numeral: "le_bytes (numeral k) w = ucast w # le_bytes (pred_numeral k) (drop_bit 8 w)"
  by (simp add: numeral_eq_Suc)

lemma of_le_bytes_le_bytes: "of_le_bytes (le_bytes n w) = take_bit (8 * n) (w :: 'a::len word)"
proof (induction n arbitrary: w)
  case 0
  then show ?case by simp
next
  case (Suc n)
  show ?case
    by (rule bit_word_eqI) (auto simp: Suc bit_simps dest: bit_imp_le_length)
qed

lemma of_le_bytes_u16 [simp]: "of_le_bytes (le_bytes 2 w) = (w :: u16)"
  by (simp add: of_le_bytes_le_bytes take_bit_word_eq_self)

lemma of_le_bytes_u32 [simp]: "of_le_bytes (le_bytes 4 w) = (w :: u32)"
  by (simp add: of_le_bytes_le_bytes take_bit_word_eq_self)

lemma of_le_bytes_u64 [simp]: "of_le_bytes (le_bytes 8 w) = (w :: u64)"
  by (simp add: of_le_bytes_le_bytes take_bit_word_eq_self)

section \<open>Lists\<close>

lemma nth_take_drop_append:
  "take n (drop (length xs) (xs @ ys @ zs)) = take n (ys @ zs)"
  by simp

text \<open>Overwriting a block of a list, as a store of several bytes does.\<close>

definition overwrite :: "'a list \<Rightarrow> nat \<Rightarrow> 'a list \<Rightarrow> 'a list" where
  "overwrite xs i ys = take i xs @ ys @ drop (i + length ys) xs"

lemma length_overwrite [simp, len_simps]:
  "i + length ys \<le> length xs \<Longrightarrow> length (overwrite xs i ys) = length xs"
  by (simp add: overwrite_def)

lemma overwrite_read:
  "i \<le> length xs \<Longrightarrow> take (length ys) (drop i (overwrite xs i ys)) = ys"
  by (simp add: overwrite_def)

lemma overwrite_take_before:
  "n \<le> i \<Longrightarrow> i \<le> length xs \<Longrightarrow> take n (overwrite xs i ys) = take n xs"
  by (simp add: overwrite_def min_def)

lemma overwrite_append1:
  "i + length zs \<le> length xs \<Longrightarrow> overwrite (xs @ ys) i zs = overwrite xs i zs @ ys"
  by (simp add: overwrite_def)

lemma overwrite_at_end: "overwrite xs (length xs) ys = xs @ ys"
  by (simp add: overwrite_def)

lemma take_overwrite:
  "i + length ys \<le> n \<Longrightarrow> n \<le> length xs \<Longrightarrow> take n (overwrite xs i ys) = overwrite (take n xs) i ys"
  by (cases "n = i") (auto simp: overwrite_def min_def drop_take)

lemma overwrite_other:
  assumes "j + n \<le> i \<or> i + length ys \<le> j" "i + length ys \<le> length xs"
  shows "take n (drop j (overwrite xs i ys)) = take n (drop j xs)"
proof (cases "j + n \<le> i")
  case True
  then have "take n (drop j (overwrite xs i ys)) = drop j (take (j + n) (overwrite xs i ys))"
    by (simp add: drop_take)
  also have "take (j + n) (overwrite xs i ys) = take (j + n) xs"
    using True assms(2) by (intro overwrite_take_before) auto
  finally show ?thesis by (simp add: drop_take)
next
  case False
  with assms have "i + length ys \<le> j" by simp
  then obtain k where "j = i + length ys + k" by (metis le_Suc_ex)
  with assms(2) show ?thesis by (simp add: overwrite_def min_def add.commute add.left_commute)
qed

end
