(* ===== verification/X86Spec.thy ===== *)
theory X86Spec
  imports Prelude
begin

text \<open>
  The data of the x86 instruction decoder, from \<open>x86_insn_decode/x86_insn_decode.h\<close> and the macros at
  the head of \<open>x86_insn_decode.c\<close>: the encoding specification of an opcode (name, three operand
  specifications of two characters, flags), the numbering of the opcode groups, the prefix and
  decode flags, the ModRM and SIB unions, and the record the decoder fills.

  A flag word packs the group of an opcode at bit 5; group numbers 1 to 18 are extensions by the
  \<open>reg\<close> field of ModRM, 20 to 34 are SSE groups.
\<close>

section \<open>Encoding specifications\<close>

record x86_insn_operand_spec =
  code :: char
  type :: char

record x86_insn_spec =
  name :: "string option"
  operands :: "x86_insn_operand_spec list"
  flags :: u16

definition X86_INSN_SPEC_DEFAULT_64_BIT :: u16 where
  "X86_INSN_SPEC_DEFAULT_64_BIT = push_bit 0 1"

text \<open>Initialising \<open>uint8_t data[2]\<close> from a string literal: a short literal is padded with zeros.\<close>

fun operand_data :: "string \<Rightarrow> x86_insn_operand_spec" where
  "operand_data [] = \<lparr>code = CHR 0x00, type = CHR 0x00\<rparr>"
| "operand_data [c] = \<lparr>code = c, type = CHR 0x00\<rparr>"
| "operand_data (c # t # _) = \<lparr>code = c, type = t\<rparr>"

definition op3_flag :: "string \<Rightarrow> u16 \<Rightarrow> string \<Rightarrow> string \<Rightarrow> string \<Rightarrow> x86_insn_spec" where
  "op3_flag x f o0 o1 o2 =
    \<lparr>name = Some x, operands = [operand_data o0, operand_data o1, operand_data o2], flags = f\<rparr>"

definition op2_flag :: "string \<Rightarrow> u16 \<Rightarrow> string \<Rightarrow> string \<Rightarrow> x86_insn_spec" where
  "op2_flag x f o0 o1 = op3_flag x f o0 o1 ''__''"

definition op1_flag :: "string \<Rightarrow> u16 \<Rightarrow> string \<Rightarrow> x86_insn_spec" where
  "op1_flag x f o0 = op2_flag x f o0 ''__''"

definition op0_flag :: "string \<Rightarrow> u16 \<Rightarrow> x86_insn_spec" where
  "op0_flag x f = op1_flag x f ''__''"

definition op3 :: "string \<Rightarrow> string \<Rightarrow> string \<Rightarrow> string \<Rightarrow> x86_insn_spec" where
  "op3 x o0 o1 o2 = op3_flag x 0 o0 o1 o2"

definition op2 :: "string \<Rightarrow> string \<Rightarrow> string \<Rightarrow> x86_insn_spec" where
  "op2 x o0 o1 = op2_flag x 0 o0 o1"

definition op1 :: "string \<Rightarrow> string \<Rightarrow> x86_insn_spec" where
  "op1 x o0 = op1_flag x 0 o0"

definition op0 :: "string \<Rightarrow> x86_insn_spec" where
  "op0 x = op0_flag x 0"

lemmas op_defs = op3_flag_def op2_flag_def op1_flag_def op0_flag_def op3_def op2_def op1_def op0_def

text \<open>An array element no initialiser names is all zero.\<close>

definition zero_spec :: x86_insn_spec where
  "zero_spec = \<lparr>name = None, operands = replicate 3 (operand_data []), flags = 0\<rparr>"

section \<open>Opcode groups\<close>

datatype modrm_reg_group =
  MG_1 | MG_1a | MG_2 | MG_3 | MG_4 | MG_5 | MG_6 | MG_7 | MG_8 | MG_9 | MG_10 | MG_11 | MG_12
  | MG_13 | MG_14 | MG_15 | MG_16 | MG_p

datatype sse_group =
  SG_10 | SG_28 | SG_50 | SG_58 | SG_60 | SG_68 | SG_70 | SG_78 | SG_c0 | SG_d0 | SG_d8 | SG_e0
  | SG_e8 | SG_f0 | SG_f8

definition X86_INSN_GROUP_START :: nat where
  "X86_INSN_GROUP_START = 0"

definition X86_INSN_SSE_GROUP_START :: nat where
  "X86_INSN_SSE_GROUP_START = 19"

primrec X86_INSN_MODRM_REG_GROUP :: "modrm_reg_group \<Rightarrow> nat" where
  "X86_INSN_MODRM_REG_GROUP MG_1 = 1" | "X86_INSN_MODRM_REG_GROUP MG_1a = 2"
| "X86_INSN_MODRM_REG_GROUP MG_2 = 3" | "X86_INSN_MODRM_REG_GROUP MG_3 = 4"
| "X86_INSN_MODRM_REG_GROUP MG_4 = 5" | "X86_INSN_MODRM_REG_GROUP MG_5 = 6"
| "X86_INSN_MODRM_REG_GROUP MG_6 = 7" | "X86_INSN_MODRM_REG_GROUP MG_7 = 8"
| "X86_INSN_MODRM_REG_GROUP MG_8 = 9" | "X86_INSN_MODRM_REG_GROUP MG_9 = 10"
| "X86_INSN_MODRM_REG_GROUP MG_10 = 11" | "X86_INSN_MODRM_REG_GROUP MG_11 = 12"
| "X86_INSN_MODRM_REG_GROUP MG_12 = 13" | "X86_INSN_MODRM_REG_GROUP MG_13 = 14"
| "X86_INSN_MODRM_REG_GROUP MG_14 = 15" | "X86_INSN_MODRM_REG_GROUP MG_15 = 16"
| "X86_INSN_MODRM_REG_GROUP MG_16 = 17" | "X86_INSN_MODRM_REG_GROUP MG_p = 18"

primrec X86_INSN_SSE_GROUP :: "sse_group \<Rightarrow> nat" where
  "X86_INSN_SSE_GROUP SG_10 = 20" | "X86_INSN_SSE_GROUP SG_28 = 21"
| "X86_INSN_SSE_GROUP SG_50 = 22" | "X86_INSN_SSE_GROUP SG_58 = 23"
| "X86_INSN_SSE_GROUP SG_60 = 24" | "X86_INSN_SSE_GROUP SG_68 = 25"
| "X86_INSN_SSE_GROUP SG_70 = 26" | "X86_INSN_SSE_GROUP SG_78 = 27"
| "X86_INSN_SSE_GROUP SG_c0 = 28" | "X86_INSN_SSE_GROUP SG_d0 = 29"
| "X86_INSN_SSE_GROUP SG_d8 = 30" | "X86_INSN_SSE_GROUP SG_e0 = 31"
| "X86_INSN_SSE_GROUP SG_e8 = 32" | "X86_INSN_SSE_GROUP SG_f0 = 33"
| "X86_INSN_SSE_GROUP SG_f8 = 34"

definition X86_INSN_GROUP_END_MASK :: u16 where
  "X86_INSN_GROUP_END_MASK = push_bit 6 1 - 1"

definition X86_INSN_FLAG_SET_GROUP :: "nat \<Rightarrow> u16" where
  "X86_INSN_FLAG_SET_GROUP n = push_bit 5 (of_nat n)"

definition X86_INSN_FLAG_GET_GROUP :: "u16 \<Rightarrow> nat" where
  "X86_INSN_FLAG_GET_GROUP f = unat (drop_bit 5 f AND X86_INSN_GROUP_END_MASK)"

definition X86_INSN_FLAG_MODRM_REG_GROUP :: "modrm_reg_group \<Rightarrow> u16" where
  "X86_INSN_FLAG_MODRM_REG_GROUP g = X86_INSN_FLAG_SET_GROUP (X86_INSN_MODRM_REG_GROUP g)"

definition X86_INSN_FLAG_SSE_GROUP :: "sse_group \<Rightarrow> u16" where
  "X86_INSN_FLAG_SSE_GROUP g = X86_INSN_FLAG_SET_GROUP (X86_INSN_SSE_GROUP g)"

text \<open>
  What the decoder relies on in a table entry: three operands, a name, and a group number that
  is 0 (no group), a ModRM register group or an SSE group, never the gap 19.
\<close>

definition spec_wf :: "x86_insn_spec \<Rightarrow> bool" where
  "spec_wf s \<longleftrightarrow> length (operands s) = 3 \<and> name s \<noteq> None \<and>
     X86_INSN_FLAG_GET_GROUP (flags s) \<le> 34 \<and> X86_INSN_FLAG_GET_GROUP (flags s) \<noteq> 19"

lemma GET_GROUP_SET_GROUP: "n < 64 \<Longrightarrow> X86_INSN_FLAG_GET_GROUP (X86_INSN_FLAG_SET_GROUP n) = n"
proof -
  assume n: "n < 64"
  have "drop_bit 5 (push_bit 5 (of_nat n :: u16)) AND X86_INSN_GROUP_END_MASK = of_nat n AND mask 6"
    unfolding X86_INSN_GROUP_END_MASK_def push_bit_one_minus_one
    by (rule bit_word_eqI) (auto simp: bit_simps dest: bit_imp_le_length)
  also have "\<dots> = of_nat n"
    using n by (simp add: take_bit_nat_eq_self flip: take_bit_eq_mask of_nat_take_bit)
  finally show ?thesis
    using n by (simp add: X86_INSN_FLAG_GET_GROUP_def X86_INSN_FLAG_SET_GROUP_def unat_of_nat)
qed

lemma GET_GROUP_simps [simp]:
  "X86_INSN_FLAG_GET_GROUP 0 = 0"
  "X86_INSN_FLAG_GET_GROUP X86_INSN_SPEC_DEFAULT_64_BIT = 0"
  "X86_INSN_FLAG_GET_GROUP (X86_INSN_FLAG_MODRM_REG_GROUP g) = X86_INSN_MODRM_REG_GROUP g"
  "X86_INSN_FLAG_GET_GROUP (X86_INSN_FLAG_SSE_GROUP h) = X86_INSN_SSE_GROUP h"
proof -
  have "X86_INSN_MODRM_REG_GROUP g < 64" by (cases g) simp_all
  then show "X86_INSN_FLAG_GET_GROUP (X86_INSN_FLAG_MODRM_REG_GROUP g) = X86_INSN_MODRM_REG_GROUP g"
    by (simp add: X86_INSN_FLAG_MODRM_REG_GROUP_def GET_GROUP_SET_GROUP)
  have "X86_INSN_SSE_GROUP h < 64" by (cases h) simp_all
  then show "X86_INSN_FLAG_GET_GROUP (X86_INSN_FLAG_SSE_GROUP h) = X86_INSN_SSE_GROUP h"
    by (simp add: X86_INSN_FLAG_SSE_GROUP_def GET_GROUP_SET_GROUP)
qed (simp_all add: X86_INSN_FLAG_GET_GROUP_def X86_INSN_SPEC_DEFAULT_64_BIT_def X86_INSN_GROUP_END_MASK_def)

lemma spec_wf_op [simp]:
  "spec_wf (op3_flag x f o0 o1 o2) \<longleftrightarrow>
     X86_INSN_FLAG_GET_GROUP f \<le> 34 \<and> X86_INSN_FLAG_GET_GROUP f \<noteq> 19"
  "spec_wf (op2_flag x f o0 o1) \<longleftrightarrow>
     X86_INSN_FLAG_GET_GROUP f \<le> 34 \<and> X86_INSN_FLAG_GET_GROUP f \<noteq> 19"
  "spec_wf (op1_flag x f o0) \<longleftrightarrow>
     X86_INSN_FLAG_GET_GROUP f \<le> 34 \<and> X86_INSN_FLAG_GET_GROUP f \<noteq> 19"
  "spec_wf (op0_flag x f) \<longleftrightarrow>
     X86_INSN_FLAG_GET_GROUP f \<le> 34 \<and> X86_INSN_FLAG_GET_GROUP f \<noteq> 19"
  "spec_wf (op3 x o0 o1 o2)" "spec_wf (op2 x o0 o1)" "spec_wf (op1 x o0)" "spec_wf (op0 x)"
  by (simp_all add: spec_wf_def op_defs)

text \<open>The enumeration macros the opcode tables are written with.\<close>

definition foreach_x86_operand_combine :: "string \<Rightarrow> x86_insn_spec list" where
  "foreach_x86_operand_combine x =
    [op2 x ''Eb'' ''Gb'', op2 x ''Ev'' ''Gv'', op2 x ''Gb'' ''Eb'', op2 x ''Gv'' ''Ev'',
     op2 x ''AL'' ''Ib'', op2 x ''AX'' ''Iz'']"

definition foreach_x86_gp_reg :: "(string \<Rightarrow> x86_insn_spec) \<Rightarrow> x86_insn_spec list" where
  "foreach_x86_gp_reg f = map f [''AX'', ''CX'', ''DX'', ''BX'', ''SP'', ''BP'', ''SI'', ''DI'']"

definition foreach_x86_condition :: "(string \<Rightarrow> x86_insn_spec) \<Rightarrow> x86_insn_spec list" where
  "foreach_x86_condition f =
    map f [''o'', ''no'', ''b'', ''nb'', ''z'', ''nz'', ''be'', ''nbe'', ''s'', ''ns'', ''p'',
           ''np'', ''l'', ''nl'', ''le'', ''nle'']"

text \<open>Indexing a table written in rows.\<close>

lemma nth_concat_rows:
  "list_all (\<lambda>xs. length xs = k) xss \<Longrightarrow> r < length xss \<Longrightarrow> c < k \<Longrightarrow> concat xss ! (k * r + c) = xss ! r ! c"
proof (induction xss arbitrary: r)
  case Nil
  then show ?case by simp
next
  case (Cons xs xss)
  then show ?case
    by (cases r) (auto simp: nth_append)
qed

type_synonym x86_insn_group8 = "x86_insn_spec list"

section \<open>Flags and registers\<close>

definition X86_INSN_DECODE_FLAG_HAS_BASE :: u32 where
  "X86_INSN_DECODE_FLAG_HAS_BASE = push_bit 0 1"

definition X86_INSN_DECODE_FLAG_HAS_INDEX :: u32 where
  "X86_INSN_DECODE_FLAG_HAS_INDEX = push_bit 1 1"

definition X86_INSN_DECODE_FLAG_IS_ADDRESS :: u32 where
  "X86_INSN_DECODE_FLAG_IS_ADDRESS = push_bit 2 1"

definition X86_INSN_DECODE_FLAG_IP_RELATIVE :: u32 where
  "X86_INSN_DECODE_FLAG_IP_RELATIVE = push_bit 3 1"

definition X86_INSN_DECODE_FLAG_OPERAND_SIZE_64 :: u32 where
  "X86_INSN_DECODE_FLAG_OPERAND_SIZE_64 = push_bit 4 1"

lemmas decode_flag_defs =
  X86_INSN_DECODE_FLAG_HAS_BASE_def X86_INSN_DECODE_FLAG_HAS_INDEX_def
  X86_INSN_DECODE_FLAG_IS_ADDRESS_def X86_INSN_DECODE_FLAG_IP_RELATIVE_def
  X86_INSN_DECODE_FLAG_OPERAND_SIZE_64_def

definition INSN_PREFIX_LOCK :: u32 where "INSN_PREFIX_LOCK = 0x01"
definition INSN_PREFIX_REPNE :: u32 where "INSN_PREFIX_REPNE = 0x02"
definition INSN_PREFIX_REPE :: u32 where "INSN_PREFIX_REPE = 0x04"
definition INSN_PREFIX_ES :: u32 where "INSN_PREFIX_ES = 0x0008"
definition INSN_PREFIX_CS :: u32 where "INSN_PREFIX_CS = 0x0010"
definition INSN_PREFIX_SS :: u32 where "INSN_PREFIX_SS = 0x0020"
definition INSN_PREFIX_DS :: u32 where "INSN_PREFIX_DS = 0x0040"
definition INSN_PREFIX_FS :: u32 where "INSN_PREFIX_FS = 0x0080"
definition INSN_PREFIX_GS :: u32 where "INSN_PREFIX_GS = 0x0100"
definition INSN_PREFIX_OPERAND_SIZE :: u32 where "INSN_PREFIX_OPERAND_SIZE = 0x0200"
definition INSN_PREFIX_ADDRESS_SIZE :: u32 where "INSN_PREFIX_ADDRESS_SIZE = 0x0400"

lemmas prefix_defs =
  INSN_PREFIX_LOCK_def INSN_PREFIX_REPNE_def INSN_PREFIX_REPE_def INSN_PREFIX_ES_def
  INSN_PREFIX_CS_def INSN_PREFIX_SS_def INSN_PREFIX_DS_def INSN_PREFIX_FS_def INSN_PREFIX_GS_def
  INSN_PREFIX_OPERAND_SIZE_def INSN_PREFIX_ADDRESS_SIZE_def

datatype x86_insn_gp_register = GP_AX | GP_CX | GP_DX | GP_BX | GP_SP | GP_BP | GP_SI | GP_DI

primrec X86_INSN_GP_REG :: "x86_insn_gp_register \<Rightarrow> u8" where
  "X86_INSN_GP_REG GP_AX = 0" | "X86_INSN_GP_REG GP_CX = 1" | "X86_INSN_GP_REG GP_DX = 2"
| "X86_INSN_GP_REG GP_BX = 3" | "X86_INSN_GP_REG GP_SP = 4" | "X86_INSN_GP_REG GP_BP = 5"
| "X86_INSN_GP_REG GP_SI = 6" | "X86_INSN_GP_REG GP_DI = 7"

text \<open>
  The enumeration the decoder names registers with when it compares them. It is not the
  hardware numbering: \<open>RBX\<close> comes second, \<open>RBP\<close> is 7.
\<close>

datatype x86_ia32e_register =
  RNone | RAX | RBX | RCX | RDX | RDI | RSI | RBP | RSP | R8 | R9 | R10 | R11 | R12 | R13 | R14
  | R15 | RIP

primrec ia32e_code :: "x86_ia32e_register \<Rightarrow> u8" where
  "ia32e_code RNone = 0" | "ia32e_code RAX = 1" | "ia32e_code RBX = 2" | "ia32e_code RCX = 3"
| "ia32e_code RDX = 4" | "ia32e_code RDI = 5" | "ia32e_code RSI = 6" | "ia32e_code RBP = 7"
| "ia32e_code RSP = 8" | "ia32e_code R8 = 9" | "ia32e_code R9 = 10" | "ia32e_code R10 = 11"
| "ia32e_code R11 = 12" | "ia32e_code R12 = 13" | "ia32e_code R13 = 14" | "ia32e_code R14 = 15"
| "ia32e_code R15 = 16" | "ia32e_code RIP = 17"

section \<open>ModRM, SIB and REX\<close>

definition modrm_rm :: "u8 \<Rightarrow> u8" where "modrm_rm b = b AND 7"
definition modrm_reg :: "u8 \<Rightarrow> u8" where "modrm_reg b = drop_bit 3 b AND 7"
definition modrm_mode :: "u8 \<Rightarrow> u8" where "modrm_mode b = drop_bit 6 b AND 3"

definition sib_base :: "u8 \<Rightarrow> u8" where "sib_base b = b AND 7"
definition sib_index :: "u8 \<Rightarrow> u8" where "sib_index b = drop_bit 3 b AND 7"
definition sib_log2_scale :: "u8 \<Rightarrow> u8" where "sib_log2_scale b = drop_bit 6 b AND 3"

definition REX_W :: "u8 \<Rightarrow> u8" where "REX_W b = drop_bit 3 (b AND 0b00001000)"
definition REX_R :: "u8 \<Rightarrow> u8" where "REX_R b = drop_bit 2 (b AND 0b00000100)"
definition REX_X :: "u8 \<Rightarrow> u8" where "REX_X b = drop_bit 1 (b AND 0b00000010)"
definition REX_B :: "u8 \<Rightarrow> u8" where "REX_B b = drop_bit 0 (b AND 0b00000001)"

lemma modrm_bounds [simp]:
  "modrm_rm b < 8" "modrm_reg b < 8" "modrm_mode b < 4" "sib_base b < 8" "sib_index b < 8"
  "sib_log2_scale b < 4"
proof -
  have mask: "x AND 7 < 8" "x AND 3 < 4" for x :: u8
    by (rule le_less_trans [OF word_and_le1], simp)+
  show "modrm_rm b < 8" "modrm_reg b < 8" "modrm_mode b < 4" "sib_base b < 8" "sib_index b < 8"
    "sib_log2_scale b < 4"
    by (simp_all add: modrm_rm_def modrm_reg_def modrm_mode_def sib_base_def sib_index_def
        sib_log2_scale_def mask)
qed

lemma unat_modrm_reg_less [simp]: "unat (modrm_reg b) < 8"
  using modrm_bounds(2) [of b] by (simp add: word_less_nat_alt)

section \<open>The decoded instruction\<close>

record x86_insn_mem =
  base :: u8
  index :: u8
  scale :: u8
  disp :: u32

record x86_insn_operand =
  reg :: u8
  mem :: x86_insn_mem

record x86_insn_decode_t =
  insn_flags :: u32
  insn_length :: u32
  displacement_offset :: u8
  immediate_offset :: u8
  reg_op :: x86_insn_operand      \<comment> \<open>\<open>operands[0]\<close>\<close>
  mem_op :: x86_insn_operand      \<comment> \<open>\<open>operands[1]\<close>\<close>
  third_op :: x86_insn_operand    \<comment> \<open>\<open>operands[2]\<close>\<close>
  insn_prefix :: u32
  rex :: u8
  primary_opcode :: u8
  modrm :: u8
  sib :: u8
  immediate :: u64
  insn_spec :: x86_insn_spec

record x86_options =
  mode :: int

definition zero_mem :: x86_insn_mem where
  "zero_mem = \<lparr>base = 0, index = 0, scale = 0, disp = 0\<rparr>"

definition zero_operand :: x86_insn_operand where
  "zero_operand = \<lparr>reg = 0, mem = zero_mem\<rparr>"

text \<open>What \<open>memset(&insn, 0, sizeof(insn))\<close> leaves, the state the relocators start from.\<close>

definition zero_insn :: x86_insn_decode_t where
  "zero_insn = \<lparr>insn_flags = 0, insn_length = 0, displacement_offset = 0, immediate_offset = 0,
     reg_op = zero_operand, mem_op = zero_operand, third_op = zero_operand, insn_prefix = 0, rex = 0,
     primary_opcode = 0, modrm = 0, sib = 0, immediate = 0, insn_spec = zero_spec\<rparr>"

end
