(* ===== verification/X86OneByte.thy ===== *)
theory X86OneByte
  imports X86Spec
begin

text \<open>
  The one-byte opcode map of \<open>x86_opcode_one_byte.c\<close>, one definition for each row of sixteen
  opcodes, as the comments of the source divide the table.
\<close>

section \<open>The one-byte opcode map\<close>

definition one_byte_00 :: "x86_insn_spec list" where
  "one_byte_00 =
    foreach_x86_operand_combine ''add'' @
    [op0 ''push_es'',
     op0_flag ''pop_es'' X86_INSN_SPEC_DEFAULT_64_BIT] @
    foreach_x86_operand_combine ''or'' @
    [op0_flag ''push_cs'' X86_INSN_SPEC_DEFAULT_64_BIT,
     op0 ''escape_two_byte'']"

definition one_byte_10 :: "x86_insn_spec list" where
  "one_byte_10 =
    foreach_x86_operand_combine ''adc'' @
    [op0 ''push_ss'',
     op0 ''pop_ss''] @
    foreach_x86_operand_combine ''sbb'' @
    [op0 ''push_ds'',
     op0 ''pop_ds'']"

definition one_byte_20 :: "x86_insn_spec list" where
  "one_byte_20 =
    foreach_x86_operand_combine ''and'' @
    [op0 ''segment_es'',
     op0 ''daa''] @
    foreach_x86_operand_combine ''sub'' @
    [op0 ''segment_cs'',
     op0 ''das'']"

definition one_byte_30 :: "x86_insn_spec list" where
  "one_byte_30 =
    foreach_x86_operand_combine ''xor'' @
    [op0 ''segment_ss'',
     op0 ''aaa''] @
    foreach_x86_operand_combine ''cmp'' @
    [op0 ''segment_ds'',
     op0 ''aas'']"

definition one_byte_40 :: "x86_insn_spec list" where
  "one_byte_40 =
    foreach_x86_gp_reg (\<lambda>r. op1 ''inc'' r) @
    foreach_x86_gp_reg (\<lambda>r. op1 ''dec'' r)"

definition one_byte_50 :: "x86_insn_spec list" where
  "one_byte_50 =
    foreach_x86_gp_reg (\<lambda>r. op1_flag ''push'' X86_INSN_SPEC_DEFAULT_64_BIT r) @
    foreach_x86_gp_reg (\<lambda>r. op1_flag ''pop'' X86_INSN_SPEC_DEFAULT_64_BIT r)"

definition one_byte_60 :: "x86_insn_spec list" where
  "one_byte_60 =
    [op0 ''pusha'',
     op0 ''popa'',
     op2 ''bound'' ''Gv'' ''Ma'',
     op2 ''movsxd'' ''Gv'' ''Ed'',
     op0 ''segment_fs'',
     op0 ''segment_gs'',
     op0 ''operand_type'',
     op0 ''address_size'',
     op1_flag ''push'' X86_INSN_SPEC_DEFAULT_64_BIT ''Iz'',
     op3 ''imul'' ''Gv'' ''Ev'' ''Iz'',
     op1_flag ''push'' X86_INSN_SPEC_DEFAULT_64_BIT ''Ib'',
     op3 ''imul'' ''Gv'' ''Ev'' ''Ib'',
     op1 ''insb'' ''DX'',
     op1 ''insw'' ''DX'',
     op1 ''outsb'' ''DX'',
     op1 ''outsw'' ''DX'']"

definition one_byte_70 :: "x86_insn_spec list" where
  "one_byte_70 =
    foreach_x86_condition (\<lambda>x. op1 (''j'' @ x) ''Jb'')"

definition one_byte_80 :: "x86_insn_spec list" where
  "one_byte_80 =
    [op2_flag ''modrm_group_1'' (X86_INSN_FLAG_MODRM_REG_GROUP MG_1) ''Eb'' ''Ib'',
     op2_flag ''modrm_group_1'' (X86_INSN_FLAG_MODRM_REG_GROUP MG_1) ''Ev'' ''Iz'',
     op2_flag ''modrm_group_1'' (X86_INSN_FLAG_MODRM_REG_GROUP MG_1) ''Eb'' ''Ib'',
     op2_flag ''modrm_group_1'' (X86_INSN_FLAG_MODRM_REG_GROUP MG_1) ''Ev'' ''Ib'',
     op2 ''test'' ''Eb'' ''Gb'',
     op2 ''test'' ''Ev'' ''Gv'',
     op2 ''xchg'' ''Eb'' ''Gb'',
     op2 ''xchg'' ''Ev'' ''Gv'',
     op2 ''mov'' ''Eb'' ''Gb'',
     op2 ''mov'' ''Ev'' ''Gv'',
     op2 ''mov'' ''Gb'' ''Eb'',
     op2 ''mov'' ''Gv'' ''Ev'',
     op2 ''mov'' ''Ev'' ''Sw'',
     op2 ''lea'' ''Gv'' ''Ev'',
     op2 ''mov'' ''Sw'' ''Ew'',
     op1_flag ''modrm_group_1a'' (X86_INSN_FLAG_MODRM_REG_GROUP MG_1a) ''Ev'']"

definition one_byte_90 :: "x86_insn_spec list" where
  "one_byte_90 =
    [op0 ''nop'',
     op1 ''xchg'' ''CX'',
     op1 ''xchg'' ''DX'',
     op1 ''xchg'' ''BX'',
     op1 ''xchg'' ''SP'',
     op1 ''xchg'' ''BP'',
     op1 ''xchg'' ''SI'',
     op1 ''xchg'' ''DI'',
     op0 ''cbw'',
     op0 ''cwd'',
     op1 ''call'' ''Ap'',
     op0 ''wait'',
     op0 ''pushf'',
     op0 ''popf'',
     op0 ''sahf'',
     op0 ''lahf'']"

definition one_byte_a0 :: "x86_insn_spec list" where
  "one_byte_a0 =
    [op2 ''mov'' ''AL'' ''Ob'',
     op2 ''mov'' ''AX'' ''Ov'',
     op2 ''mov'' ''Ob'' ''AL'',
     op2 ''mov'' ''Ov'' ''AX'',
     op0 ''movsb'',
     op0 ''movsw'',
     op0 ''cmpsb'',
     op0 ''cmpsw'',
     op2 ''test'' ''AL'' ''Ib'',
     op2 ''test'' ''AX'' ''Iz'',
     op1 ''stosb'' ''AL'',
     op1 ''stosw'' ''AX'',
     op1 ''lodsb'' ''AL'',
     op1 ''lodsw'' ''AX'',
     op1 ''scasb'' ''AL'',
     op1 ''scasw'' ''AX'']"

definition one_byte_b0 :: "x86_insn_spec list" where
  "one_byte_b0 =
    [op2 ''mov'' ''AL'' ''Ib'',
     op2 ''mov'' ''CL'' ''Ib'',
     op2 ''mov'' ''DL'' ''Ib'',
     op2 ''mov'' ''BL'' ''Ib'',
     op2 ''mov'' ''AH'' ''Ib'',
     op2 ''mov'' ''CH'' ''Ib'',
     op2 ''mov'' ''DH'' ''Ib'',
     op2 ''mov'' ''BH'' ''Ib''] @
    foreach_x86_gp_reg (\<lambda>r. op2 ''mov'' r ''Iv'')"

definition one_byte_c0 :: "x86_insn_spec list" where
  "one_byte_c0 =
    [op2_flag ''modrm_group_2'' (X86_INSN_FLAG_MODRM_REG_GROUP MG_2) ''Eb'' ''Ib'',
     op2_flag ''modrm_group_2'' (X86_INSN_FLAG_MODRM_REG_GROUP MG_2) ''Ev'' ''Ib'',
     op1 ''ret'' ''Iw'',
     op0 ''ret'',
     op2 ''les'' ''Gz'' ''Mp'',
     op2 ''lds'' ''Gz'' ''Mp'',
     op2_flag ''modrm_group_11'' (X86_INSN_FLAG_MODRM_REG_GROUP MG_11) ''Eb'' ''Ib'',
     op2_flag ''modrm_group_11'' (X86_INSN_FLAG_MODRM_REG_GROUP MG_11) ''Ev'' ''Iz'',
     op2 ''enter'' ''Iw'' ''Ib'',
     op0 ''leave'',
     op1 ''ret'' ''Iw'',
     op0 ''ret'',
     op0 ''int3'',
     op1 ''int'' ''Ib'',
     op0 ''into'',
     op0 ''iret'']"

definition one_byte_d0 :: "x86_insn_spec list" where
  "one_byte_d0 =
    [op2_flag ''modrm_group_2'' (X86_INSN_FLAG_MODRM_REG_GROUP MG_2) ''Eb'' ''1b'',
     op2_flag ''modrm_group_2'' (X86_INSN_FLAG_MODRM_REG_GROUP MG_2) ''Ev'' ''1b'',
     op2_flag ''modrm_group_2'' (X86_INSN_FLAG_MODRM_REG_GROUP MG_2) ''Eb'' ''CL'',
     op2_flag ''modrm_group_2'' (X86_INSN_FLAG_MODRM_REG_GROUP MG_2) ''Ev'' ''CL'',
     op0 ''aam'',
     op0 ''aad'',
     op0 ''salc'',
     op0 ''xlat'',
     op0 ''bad'',
     op0 ''bad'',
     op0 ''bad'',
     op0 ''bad'',
     op0 ''bad'',
     op0 ''bad'',
     op0 ''bad'',
     op0 ''bad'']"

definition one_byte_e0 :: "x86_insn_spec list" where
  "one_byte_e0 =
    [op1 ''loopnz'' ''Jb'',
     op1 ''loopz'' ''Jb'',
     op1 ''loop'' ''Jb'',
     op1 ''jcxz'' ''Jb'',
     op2 ''in'' ''AL'' ''Ib'',
     op2 ''in'' ''AX'' ''Ib'',
     op2 ''out'' ''Ib'' ''AL'',
     op2 ''out'' ''Ib'' ''AX'',
     op1_flag ''call'' X86_INSN_SPEC_DEFAULT_64_BIT ''Jz'',
     op1_flag ''jmp'' X86_INSN_SPEC_DEFAULT_64_BIT ''Jz'',
     op1 ''jmp'' ''Ap'',
     op1 ''jmp'' ''Jb'',
     op2 ''in'' ''AL'' ''DX'',
     op2 ''in'' ''AX'' ''DX'',
     op2 ''out'' ''DX'' ''AL'',
     op2 ''out'' ''DX'' ''AX'']"

definition one_byte_f0 :: "x86_insn_spec list" where
  "one_byte_f0 =
    [op0 ''lock'',
     op0 ''int1'',
     op0 ''repne'',
     op0 ''rep'',
     op0 ''hlt'',
     op0 ''cmc'',
     op0_flag ''modrm_group_3'' (X86_INSN_FLAG_MODRM_REG_GROUP MG_3),
     op0_flag ''modrm_group_3'' (X86_INSN_FLAG_MODRM_REG_GROUP MG_3),
     op0 ''clc'',
     op0 ''stc'',
     op0 ''cli'',
     op0 ''sti'',
     op0 ''cld'',
     op0 ''std'',
     op1_flag ''modrm_group_4'' (X86_INSN_FLAG_MODRM_REG_GROUP MG_4) ''Eb'',
     op0_flag ''modrm_group_5'' (X86_INSN_FLAG_MODRM_REG_GROUP MG_5)]"

definition x86_opcode_map_one_byte :: "x86_insn_spec list" where
  "x86_opcode_map_one_byte = concat
    [one_byte_00, one_byte_10, one_byte_20, one_byte_30,
     one_byte_40, one_byte_50, one_byte_60, one_byte_70,
     one_byte_80, one_byte_90, one_byte_a0, one_byte_b0,
     one_byte_c0, one_byte_d0, one_byte_e0, one_byte_f0]"

lemmas one_byte_defs =
  one_byte_00_def one_byte_10_def one_byte_20_def one_byte_30_def
  one_byte_40_def one_byte_50_def one_byte_60_def one_byte_70_def
  one_byte_80_def one_byte_90_def one_byte_a0_def one_byte_b0_def
  one_byte_c0_def one_byte_d0_def one_byte_e0_def one_byte_f0_def

lemma length_one_byte [simp]: "length x86_opcode_map_one_byte = 256"
  by (simp add: x86_opcode_map_one_byte_def one_byte_defs foreach_x86_operand_combine_def
      foreach_x86_gp_reg_def foreach_x86_condition_def)

lemma one_byte_wf: "list_all spec_wf x86_opcode_map_one_byte"
  by (simp add: x86_opcode_map_one_byte_def one_byte_defs foreach_x86_operand_combine_def
      foreach_x86_gp_reg_def foreach_x86_condition_def)

lemma one_byte_nth:
  "r < 16 \<Longrightarrow> c < 16 \<Longrightarrow> x86_opcode_map_one_byte ! (16 * r + c) =
    [one_byte_00, one_byte_10, one_byte_20, one_byte_30,
     one_byte_40, one_byte_50, one_byte_60, one_byte_70,
     one_byte_80, one_byte_90, one_byte_a0, one_byte_b0,
     one_byte_c0, one_byte_d0, one_byte_e0, one_byte_f0] ! r ! c"
  unfolding x86_opcode_map_one_byte_def
  by (rule nth_concat_rows) (simp_all add: one_byte_defs foreach_x86_operand_combine_def
      foreach_x86_gp_reg_def foreach_x86_condition_def)

end
