(* ===== verification/X86TwoByte.thy ===== *)
theory X86TwoByte
  imports X86Spec
begin

text \<open>
  The opcode map behind the escape byte \<open>0x0f\<close>, \<open>x86_opcode_two_byte.c\<close>, one definition for each
  row of sixteen opcodes.
\<close>

section \<open>The two-byte opcode map\<close>

definition two_byte_00 :: "x86_insn_spec list" where
  "two_byte_00 =
    [op0_flag ''modrm_group_6'' (X86_INSN_FLAG_MODRM_REG_GROUP MG_6),
     op0_flag ''modrm_group_7'' (X86_INSN_FLAG_MODRM_REG_GROUP MG_7),
     op2 ''lar'' ''Gv'' ''Ew'',
     op2 ''lsl'' ''Gv'' ''Ew'',
     op0 ''bad'',
     op0 ''syscall'',
     op0 ''clts'',
     op0 ''sysret'',
     op0 ''invd'',
     op0 ''wbinvd'',
     op0 ''bad'',
     op0 ''ud2'',
     op0 ''bad'',
     op0_flag ''modrm_group_p'' (X86_INSN_FLAG_MODRM_REG_GROUP MG_p),
     op0 ''femms'',
     op0 ''escape_3dnow'']"

definition two_byte_10 :: "x86_insn_spec list" where
  "two_byte_10 =
    [op2_flag ''movups'' (X86_INSN_FLAG_SSE_GROUP SG_10) ''Gx'' ''Ex'',
     op2_flag ''movups'' (X86_INSN_FLAG_SSE_GROUP SG_10) ''Ex'' ''Gx'',
     op2_flag ''movlps'' (X86_INSN_FLAG_SSE_GROUP SG_10) ''Ex'' ''Gx'',
     op2_flag ''movlps'' (X86_INSN_FLAG_SSE_GROUP SG_10) ''Gx'' ''Ex'',
     op2_flag ''unpcklps'' (X86_INSN_FLAG_SSE_GROUP SG_10) ''Gx'' ''Ex'',
     op2_flag ''unpckhps'' (X86_INSN_FLAG_SSE_GROUP SG_10) ''Gx'' ''Ex'',
     op2_flag ''movhps'' (X86_INSN_FLAG_SSE_GROUP SG_10) ''Ex'' ''Gx'',
     op2_flag ''movhps'' (X86_INSN_FLAG_SSE_GROUP SG_10) ''Gx'' ''Ex'',
     op0_flag ''modrm_group_16'' (X86_INSN_FLAG_MODRM_REG_GROUP MG_16),
     op0 ''nop'',
     op0 ''nop'',
     op0 ''nop'',
     op0 ''nop'',
     op0 ''nop'',
     op0 ''nop'',
     op0 ''nop'']"

definition two_byte_20 :: "x86_insn_spec list" where
  "two_byte_20 =
    [op2 ''mov'' ''Rv'' ''Cv'',
     op2 ''mov'' ''Rv'' ''Dv'',
     op2 ''mov'' ''Cv'' ''Rv'',
     op2 ''mov'' ''Dv'' ''Rv'',
     op0 ''bad'',
     op0 ''bad'',
     op0 ''bad'',
     op0 ''bad'',
     op2_flag ''movaps'' (X86_INSN_FLAG_SSE_GROUP SG_28) ''Gx'' ''Ex'',
     op2_flag ''movaps'' (X86_INSN_FLAG_SSE_GROUP SG_28) ''Ex'' ''Gx'',
     op2_flag ''cvtpi2ps'' (X86_INSN_FLAG_SSE_GROUP SG_28) ''Gx'' ''Ex'',
     op2_flag ''movntps'' (X86_INSN_FLAG_SSE_GROUP SG_28) ''Mx'' ''Gx'',
     op2_flag ''cvttps2pi'' (X86_INSN_FLAG_SSE_GROUP SG_28) ''Gx'' ''Ex'',
     op2_flag ''cvtps2pi'' (X86_INSN_FLAG_SSE_GROUP SG_28) ''Gx'' ''Ex'',
     op2_flag ''ucomiss'' (X86_INSN_FLAG_SSE_GROUP SG_28) ''Gx'' ''Ex'',
     op2_flag ''comiss'' (X86_INSN_FLAG_SSE_GROUP SG_28) ''Gx'' ''Ex'']"

definition two_byte_30 :: "x86_insn_spec list" where
  "two_byte_30 =
    [op0 ''wrmsr'',
     op0 ''rdtsc'',
     op0 ''rdmsr'',
     op0 ''rdpmc'',
     op0 ''sysenter'',
     op0 ''sysexit'',
     op0 ''bad'',
     op0 ''bad'',
     op0 ''bad'',
     op0 ''bad'',
     op0 ''bad'',
     op0 ''bad'',
     op0 ''bad'',
     op0 ''bad'',
     op0 ''bad'',
     op0 ''bad'']"

definition two_byte_40 :: "x86_insn_spec list" where
  "two_byte_40 =
    foreach_x86_condition (\<lambda>x. op2 (''cmov'' @ x) ''Gv'' ''Ev'')"

definition two_byte_50 :: "x86_insn_spec list" where
  "two_byte_50 =
    [op2_flag ''movmskps'' (X86_INSN_FLAG_SSE_GROUP SG_50) ''Gd'' ''Rx'',
     op2_flag ''sqrtps'' (X86_INSN_FLAG_SSE_GROUP SG_50) ''Gx'' ''Ex'',
     op2_flag ''rsqrtps'' (X86_INSN_FLAG_SSE_GROUP SG_50) ''Gx'' ''Ex'',
     op2_flag ''rcpps'' (X86_INSN_FLAG_SSE_GROUP SG_50) ''Gx'' ''Ex'',
     op2_flag ''andps'' (X86_INSN_FLAG_SSE_GROUP SG_50) ''Gx'' ''Ex'',
     op2_flag ''andnps'' (X86_INSN_FLAG_SSE_GROUP SG_50) ''Gx'' ''Ex'',
     op2_flag ''orps'' (X86_INSN_FLAG_SSE_GROUP SG_50) ''Gx'' ''Ex'',
     op2_flag ''xorps'' (X86_INSN_FLAG_SSE_GROUP SG_50) ''Gx'' ''Ex'',
     op2_flag ''addps'' (X86_INSN_FLAG_SSE_GROUP SG_58) ''Gx'' ''Ex'',
     op2_flag ''mulps'' (X86_INSN_FLAG_SSE_GROUP SG_58) ''Gx'' ''Ex'',
     op2_flag ''cvtps2pd'' (X86_INSN_FLAG_SSE_GROUP SG_58) ''Gx'' ''Ex'',
     op2_flag ''cvtdq2ps'' (X86_INSN_FLAG_SSE_GROUP SG_58) ''Gx'' ''Ex'',
     op2_flag ''subps'' (X86_INSN_FLAG_SSE_GROUP SG_58) ''Gx'' ''Ex'',
     op2_flag ''minps'' (X86_INSN_FLAG_SSE_GROUP SG_58) ''Gx'' ''Ex'',
     op2_flag ''divps'' (X86_INSN_FLAG_SSE_GROUP SG_58) ''Gx'' ''Ex'',
     op2_flag ''maxps'' (X86_INSN_FLAG_SSE_GROUP SG_58) ''Gx'' ''Ex'']"

definition two_byte_60 :: "x86_insn_spec list" where
  "two_byte_60 =
    [op2_flag ''punpcklbw'' (X86_INSN_FLAG_SSE_GROUP SG_60) ''Gm'' ''Em'',
     op2_flag ''punpcklwd'' (X86_INSN_FLAG_SSE_GROUP SG_60) ''Gm'' ''Em'',
     op2_flag ''punpckldq'' (X86_INSN_FLAG_SSE_GROUP SG_60) ''Gm'' ''Em'',
     op2_flag ''packsswb'' (X86_INSN_FLAG_SSE_GROUP SG_60) ''Gm'' ''Em'',
     op2_flag ''pcmpgtb'' (X86_INSN_FLAG_SSE_GROUP SG_60) ''Gm'' ''Em'',
     op2_flag ''pcmpgtw'' (X86_INSN_FLAG_SSE_GROUP SG_60) ''Gm'' ''Em'',
     op2_flag ''pcmpgtd'' (X86_INSN_FLAG_SSE_GROUP SG_60) ''Gm'' ''Em'',
     op2_flag ''packuswb'' (X86_INSN_FLAG_SSE_GROUP SG_60) ''Gm'' ''Em'',
     op2_flag ''punpckhbw'' (X86_INSN_FLAG_SSE_GROUP SG_68) ''Gm'' ''Em'',
     op2_flag ''punpckhwd'' (X86_INSN_FLAG_SSE_GROUP SG_68) ''Gm'' ''Em'',
     op2_flag ''punpckhdq'' (X86_INSN_FLAG_SSE_GROUP SG_68) ''Gm'' ''Em'',
     op2_flag ''packssdw'' (X86_INSN_FLAG_SSE_GROUP SG_68) ''Gm'' ''Em'',
     op0_flag ''bad'' (X86_INSN_FLAG_SSE_GROUP SG_68),
     op0_flag ''bad'' (X86_INSN_FLAG_SSE_GROUP SG_68),
     op2_flag ''movd'' (X86_INSN_FLAG_SSE_GROUP SG_68) ''Gm'' ''Em'',
     op2_flag ''movq'' (X86_INSN_FLAG_SSE_GROUP SG_68) ''Gm'' ''Em'']"

definition two_byte_70 :: "x86_insn_spec list" where
  "two_byte_70 =
    [op3_flag ''pshufw'' (X86_INSN_FLAG_SSE_GROUP SG_70) ''Gm'' ''Em'' ''Ib'',
     op0_flag ''modrm_group_12'' (X86_INSN_FLAG_MODRM_REG_GROUP MG_12),
     op0_flag ''modrm_group_13'' (X86_INSN_FLAG_MODRM_REG_GROUP MG_13),
     op0_flag ''modrm_group_14'' (X86_INSN_FLAG_MODRM_REG_GROUP MG_14),
     op2_flag ''pcmpeqb'' (X86_INSN_FLAG_SSE_GROUP SG_70) ''Gm'' ''Em'',
     op2_flag ''pcmpeqw'' (X86_INSN_FLAG_SSE_GROUP SG_70) ''Gm'' ''Em'',
     op2_flag ''pcmpeqd'' (X86_INSN_FLAG_SSE_GROUP SG_70) ''Gm'' ''Em'',
     op0_flag ''emms'' (X86_INSN_FLAG_SSE_GROUP SG_70),
     op0_flag ''bad'' (X86_INSN_FLAG_SSE_GROUP SG_78),
     op0_flag ''bad'' (X86_INSN_FLAG_SSE_GROUP SG_78),
     op0_flag ''bad'' (X86_INSN_FLAG_SSE_GROUP SG_78),
     op0_flag ''bad'' (X86_INSN_FLAG_SSE_GROUP SG_78),
     op0_flag ''bad'' (X86_INSN_FLAG_SSE_GROUP SG_78),
     op0_flag ''bad'' (X86_INSN_FLAG_SSE_GROUP SG_78),
     op2_flag ''movd'' (X86_INSN_FLAG_SSE_GROUP SG_78) ''Em'' ''Gm'',
     op2_flag ''movq'' (X86_INSN_FLAG_SSE_GROUP SG_78) ''Em'' ''Gm'']"

definition two_byte_80 :: "x86_insn_spec list" where
  "two_byte_80 =
    foreach_x86_condition (\<lambda>x. op1 (''jmp'' @ x) ''Jz'')"

definition two_byte_90 :: "x86_insn_spec list" where
  "two_byte_90 =
    foreach_x86_condition (\<lambda>x. op1 (''set'' @ x) ''Eb'')"

definition two_byte_a0 :: "x86_insn_spec list" where
  "two_byte_a0 =
    [op0 ''push_fs'',
     op0 ''pop_fs'',
     op0 ''cpuid'',
     op2 ''bt'' ''Ev'' ''Gv'',
     op3 ''shld'' ''Ev'' ''Gv'' ''Ib'',
     op3 ''shld'' ''Ev'' ''Gv'' ''CL'',
     op0 ''bad'',
     op0 ''bad'',
     op0 ''push_gs'',
     op0 ''pop_gs'',
     op0 ''rsm'',
     op2 ''bts'' ''Ev'' ''Gv'',
     op3 ''shrd'' ''Ev'' ''Gv'' ''Ib'',
     op3 ''shrd'' ''Ev'' ''Gv'' ''CL'',
     op0_flag ''modrm_group_15'' (X86_INSN_FLAG_MODRM_REG_GROUP MG_15),
     op2 ''imul'' ''Gv'' ''Ev'']"

definition two_byte_b0 :: "x86_insn_spec list" where
  "two_byte_b0 =
    [op2 ''cmpxchg'' ''Eb'' ''Gb'',
     op2 ''cmpxchg'' ''Ev'' ''Gv'',
     op2 ''lss'' ''Gz'' ''Mp'',
     op2 ''btr'' ''Ev'' ''Gv'',
     op2 ''lfs'' ''Gz'' ''Mp'',
     op2 ''lgs'' ''Gz'' ''Mp'',
     op2 ''movzbl'' ''Gv'' ''Eb'',
     op2 ''movzwl'' ''Gv'' ''Ew'',
     op0 ''bad'',
     op0_flag ''modrm_group_10'' (X86_INSN_FLAG_MODRM_REG_GROUP MG_10),
     op2_flag ''modrm_group_8'' (X86_INSN_FLAG_MODRM_REG_GROUP MG_8) ''Ev'' ''Ib'',
     op2 ''btc'' ''Ev'' ''Gv'',
     op2 ''bsf'' ''Gv'' ''Ev'',
     op2 ''bsr'' ''Gv'' ''Ev'',
     op2 ''movsx'' ''Gv'' ''Eb'',
     op2 ''movsx'' ''Gv'' ''Ew'']"

definition two_byte_c0 :: "x86_insn_spec list" where
  "two_byte_c0 =
    [op2 ''xadd'' ''Eb'' ''Gb'',
     op2 ''xadd'' ''Ev'' ''Gv'',
     op3_flag ''cmpps'' (X86_INSN_FLAG_SSE_GROUP SG_c0) ''Gx'' ''Ex'' ''Ib'',
     op2 ''movnti'' ''Mv'' ''Gv'',
     op3_flag ''pinsrw'' (X86_INSN_FLAG_SSE_GROUP SG_c0) ''Gm'' ''Ew'' ''Ib'',
     op3_flag ''pextrw'' (X86_INSN_FLAG_SSE_GROUP SG_c0) ''Gd'' ''Rm'' ''Ib'',
     op3_flag ''shufps'' (X86_INSN_FLAG_SSE_GROUP SG_c0) ''Gx'' ''Ex'' ''Ib'',
     op1_flag ''modrm_group_9'' (X86_INSN_FLAG_MODRM_REG_GROUP MG_9) ''Mx''] @
    foreach_x86_gp_reg (\<lambda>r. op1 ''bswap'' r)"

definition two_byte_d0 :: "x86_insn_spec list" where
  "two_byte_d0 =
    [op0_flag ''bad'' (X86_INSN_FLAG_SSE_GROUP SG_d0),
     op2_flag ''psrlw'' (X86_INSN_FLAG_SSE_GROUP SG_d0) ''Gm'' ''Em'',
     op2_flag ''psrld'' (X86_INSN_FLAG_SSE_GROUP SG_d0) ''Gm'' ''Em'',
     op2_flag ''psrlq'' (X86_INSN_FLAG_SSE_GROUP SG_d0) ''Gm'' ''Em'',
     op2_flag ''paddq'' (X86_INSN_FLAG_SSE_GROUP SG_d0) ''Gm'' ''Em'',
     op2_flag ''pmullw'' (X86_INSN_FLAG_SSE_GROUP SG_d0) ''Gm'' ''Em'',
     op0_flag ''bad'' (X86_INSN_FLAG_SSE_GROUP SG_d0),
     op2_flag ''pmovmskb'' (X86_INSN_FLAG_SSE_GROUP SG_d0) ''Gd'' ''Rm'',
     op2_flag ''psubusb'' (X86_INSN_FLAG_SSE_GROUP SG_d8) ''Gm'' ''Em'',
     op2_flag ''psubusw'' (X86_INSN_FLAG_SSE_GROUP SG_d8) ''Gm'' ''Em'',
     op2_flag ''pminub'' (X86_INSN_FLAG_SSE_GROUP SG_d8) ''Gm'' ''Em'',
     op2_flag ''pand'' (X86_INSN_FLAG_SSE_GROUP SG_d8) ''Gm'' ''Em'',
     op2_flag ''paddusb'' (X86_INSN_FLAG_SSE_GROUP SG_d8) ''Gm'' ''Em'',
     op2_flag ''paddusw'' (X86_INSN_FLAG_SSE_GROUP SG_d8) ''Gm'' ''Em'',
     op2_flag ''pmaxub'' (X86_INSN_FLAG_SSE_GROUP SG_d8) ''Gm'' ''Em'',
     op2_flag ''pandn'' (X86_INSN_FLAG_SSE_GROUP SG_d8) ''Gm'' ''Em'']"

definition two_byte_e0 :: "x86_insn_spec list" where
  "two_byte_e0 =
    [op2_flag ''pavgb'' (X86_INSN_FLAG_SSE_GROUP SG_e0) ''Gm'' ''Em'',
     op2_flag ''psraw'' (X86_INSN_FLAG_SSE_GROUP SG_e0) ''Gm'' ''Em'',
     op2_flag ''psrad'' (X86_INSN_FLAG_SSE_GROUP SG_e0) ''Gm'' ''Em'',
     op2_flag ''pavgw'' (X86_INSN_FLAG_SSE_GROUP SG_e0) ''Gm'' ''Em'',
     op2_flag ''pmulhuw'' (X86_INSN_FLAG_SSE_GROUP SG_e0) ''Gm'' ''Em'',
     op2_flag ''pmulhw'' (X86_INSN_FLAG_SSE_GROUP SG_e0) ''Gm'' ''Em'',
     op2_flag ''bad'' (X86_INSN_FLAG_SSE_GROUP SG_e0) ''Gm'' ''Em'',
     op2_flag ''movntq'' (X86_INSN_FLAG_SSE_GROUP SG_e0) ''Mm'' ''Gm'',
     op2_flag ''psubsb'' (X86_INSN_FLAG_SSE_GROUP SG_e8) ''Gm'' ''Em'',
     op2_flag ''psubsw'' (X86_INSN_FLAG_SSE_GROUP SG_e8) ''Gm'' ''Em'',
     op2_flag ''pminsw'' (X86_INSN_FLAG_SSE_GROUP SG_e8) ''Gm'' ''Em'',
     op2_flag ''por'' (X86_INSN_FLAG_SSE_GROUP SG_e8) ''Gm'' ''Em'',
     op2_flag ''paddsb'' (X86_INSN_FLAG_SSE_GROUP SG_e8) ''Gm'' ''Em'',
     op2_flag ''paddsw'' (X86_INSN_FLAG_SSE_GROUP SG_e8) ''Gm'' ''Em'',
     op2_flag ''pmaxsw'' (X86_INSN_FLAG_SSE_GROUP SG_e8) ''Gm'' ''Em'',
     op2_flag ''pxor'' (X86_INSN_FLAG_SSE_GROUP SG_e8) ''Gm'' ''Em'']"

definition two_byte_f0 :: "x86_insn_spec list" where
  "two_byte_f0 =
    [op0_flag ''bad'' (X86_INSN_FLAG_SSE_GROUP SG_f0),
     op2_flag ''psllw'' (X86_INSN_FLAG_SSE_GROUP SG_f0) ''Gm'' ''Em'',
     op2_flag ''pslld'' (X86_INSN_FLAG_SSE_GROUP SG_f0) ''Gm'' ''Em'',
     op2_flag ''psllq'' (X86_INSN_FLAG_SSE_GROUP SG_f0) ''Gm'' ''Em'',
     op2_flag ''pmuludq'' (X86_INSN_FLAG_SSE_GROUP SG_f0) ''Gm'' ''Em'',
     op2_flag ''pmaddwd'' (X86_INSN_FLAG_SSE_GROUP SG_f0) ''Gm'' ''Em'',
     op2_flag ''psadbw'' (X86_INSN_FLAG_SSE_GROUP SG_f0) ''Gm'' ''Em'',
     op2_flag ''maskmovq'' (X86_INSN_FLAG_SSE_GROUP SG_f0) ''Gm'' ''Em'',
     op2_flag ''psubb'' (X86_INSN_FLAG_SSE_GROUP SG_f8) ''Gm'' ''Em'',
     op2_flag ''psubw'' (X86_INSN_FLAG_SSE_GROUP SG_f8) ''Gm'' ''Em'',
     op2_flag ''psubd'' (X86_INSN_FLAG_SSE_GROUP SG_f8) ''Gm'' ''Em'',
     op2_flag ''psubq'' (X86_INSN_FLAG_SSE_GROUP SG_f8) ''Gm'' ''Em'',
     op2_flag ''paddb'' (X86_INSN_FLAG_SSE_GROUP SG_f8) ''Gm'' ''Em'',
     op2_flag ''paddw'' (X86_INSN_FLAG_SSE_GROUP SG_f8) ''Gm'' ''Em'',
     op2_flag ''paddd'' (X86_INSN_FLAG_SSE_GROUP SG_f8) ''Gm'' ''Em'',
     op0_flag ''bad'' (X86_INSN_FLAG_SSE_GROUP SG_f8)]"

definition x86_opcode_map_two_byte :: "x86_insn_spec list" where
  "x86_opcode_map_two_byte = concat
    [two_byte_00, two_byte_10, two_byte_20, two_byte_30,
     two_byte_40, two_byte_50, two_byte_60, two_byte_70,
     two_byte_80, two_byte_90, two_byte_a0, two_byte_b0,
     two_byte_c0, two_byte_d0, two_byte_e0, two_byte_f0]"

lemmas two_byte_defs =
  two_byte_00_def two_byte_10_def two_byte_20_def two_byte_30_def
  two_byte_40_def two_byte_50_def two_byte_60_def two_byte_70_def
  two_byte_80_def two_byte_90_def two_byte_a0_def two_byte_b0_def
  two_byte_c0_def two_byte_d0_def two_byte_e0_def two_byte_f0_def

lemma length_two_byte [simp]: "length x86_opcode_map_two_byte = 256"
  by (simp add: x86_opcode_map_two_byte_def two_byte_defs foreach_x86_operand_combine_def
      foreach_x86_gp_reg_def foreach_x86_condition_def)

lemma two_byte_wf: "list_all spec_wf x86_opcode_map_two_byte"
  by (simp add: x86_opcode_map_two_byte_def two_byte_defs foreach_x86_operand_combine_def
      foreach_x86_gp_reg_def foreach_x86_condition_def)

lemma two_byte_nth:
  "r < 16 \<Longrightarrow> c < 16 \<Longrightarrow> x86_opcode_map_two_byte ! (16 * r + c) =
    [two_byte_00, two_byte_10, two_byte_20, two_byte_30,
     two_byte_40, two_byte_50, two_byte_60, two_byte_70,
     two_byte_80, two_byte_90, two_byte_a0, two_byte_b0,
     two_byte_c0, two_byte_d0, two_byte_e0, two_byte_f0] ! r ! c"
  unfolding x86_opcode_map_two_byte_def
  by (rule nth_concat_rows) (simp_all add: two_byte_defs foreach_x86_operand_combine_def
      foreach_x86_gp_reg_def foreach_x86_condition_def)

end
