(* ===== verification/X86Groups.thy ===== *)
theory X86Groups
  imports X86Spec
begin

text \<open>
  The opcodes extended by the \<open>reg\<close> field of the ModRM byte, \<open>x86_opcode_modrm_reg_group.c\<close>: one
  definition for each group of eight. The array is indexed by the group number, which starts at
  1, so element 0 is the zero the initialiser leaves there.
\<close>

section \<open>ModRM register groups\<close>

definition modrm_reg_group_1 :: x86_insn_group8 where
  "modrm_reg_group_1 =
    [op0 ''add'',
     op0 ''or'',
     op0 ''adc'',
     op0 ''sbb'',
     op0 ''and'',
     op0 ''sub'',
     op0 ''xor'',
     op0 ''cmp'']"

definition modrm_reg_group_1a :: x86_insn_group8 where
  "modrm_reg_group_1a =
    [op0_flag ''pop'' X86_INSN_SPEC_DEFAULT_64_BIT,
     op0 ''bad'',
     op0 ''bad'',
     op0 ''bad'',
     op0 ''bad'',
     op0 ''bad'',
     op0 ''bad'',
     op0 ''bad'']"

definition modrm_reg_group_2 :: x86_insn_group8 where
  "modrm_reg_group_2 =
    [op0 ''rol'',
     op0 ''ror'',
     op0 ''rcl'',
     op0 ''rcr'',
     op0 ''shl'',
     op0 ''shr'',
     op0 ''sal'',
     op0 ''sar'']"

definition modrm_reg_group_3 :: x86_insn_group8 where
  "modrm_reg_group_3 =
    [op0 ''test'',
     op0 ''test'',
     op0 ''not'',
     op0 ''neg'',
     op0 ''mul'',
     op0 ''imul'',
     op0 ''div'',
     op0 ''idiv'']"

definition modrm_reg_group_4 :: x86_insn_group8 where
  "modrm_reg_group_4 =
    [op0 ''inc'',
     op0 ''dec'',
     op0 ''bad'',
     op0 ''bad'',
     op0 ''bad'',
     op0 ''bad'',
     op0 ''bad'',
     op0 ''bad'']"

definition modrm_reg_group_5 :: x86_insn_group8 where
  "modrm_reg_group_5 =
    [op1 ''inc'' ''Ev'',
     op1 ''dec'' ''Ev'',
     op1_flag ''call'' X86_INSN_SPEC_DEFAULT_64_BIT ''Ev'',
     op1 ''call'' ''Mp'',
     op1_flag ''jmp'' X86_INSN_SPEC_DEFAULT_64_BIT ''Ev'',
     op1 ''jmp'' ''Mp'',
     op1_flag ''push'' X86_INSN_SPEC_DEFAULT_64_BIT ''Ev'',
     op0 ''bad'']"

definition modrm_reg_group_6 :: x86_insn_group8 where
  "modrm_reg_group_6 =
    [op1 ''sldt'' ''Ev'',
     op1 ''str'' ''Ev'',
     op1 ''lldt'' ''Ev'',
     op1 ''ltr'' ''Ev'',
     op1 ''verr'' ''Ev'',
     op1 ''verw'' ''Ev'',
     op0 ''bad'',
     op0 ''bad'']"

definition modrm_reg_group_7 :: x86_insn_group8 where
  "modrm_reg_group_7 =
    [op1 ''sgdt'' ''Mv'',
     op1 ''sidt'' ''Mv'',
     op1 ''lgdt'' ''Mv'',
     op1 ''lidt'' ''Mv'',
     op1 ''smsw'' ''Ev'',
     op0 ''bad'',
     op1 ''lmsw'' ''Ew'',
     op1 ''invlpg'' ''Mv'']"

definition modrm_reg_group_8 :: x86_insn_group8 where
  "modrm_reg_group_8 =
    [op0 ''bad'',
     op0 ''bad'',
     op0 ''bad'',
     op0 ''bad'',
     op2 ''bt'' ''Ev'' ''Ib'',
     op2 ''bts'' ''Ev'' ''Ib'',
     op2 ''btr'' ''Ev'' ''Ib'',
     op2 ''btc'' ''Ev'' ''Ib'']"

definition modrm_reg_group_9 :: x86_insn_group8 where
  "modrm_reg_group_9 =
    [op0 ''bad'',
     op1 ''cmpxchg'' ''Mx'',
     op0 ''bad'',
     op0 ''bad'',
     op0 ''bad'',
     op0 ''bad'',
     op0 ''bad'',
     op0 ''bad'']"

definition modrm_reg_group_10 :: x86_insn_group8 where
  "modrm_reg_group_10 =
    [op0 ''bad'',
     op0 ''bad'',
     op0 ''bad'',
     op0 ''bad'',
     op0 ''bad'',
     op0 ''bad'',
     op0 ''bad'',
     op0 ''bad'']"

definition modrm_reg_group_11 :: x86_insn_group8 where
  "modrm_reg_group_11 =
    [op0 ''mov'',
     op0 ''bad'',
     op0 ''bad'',
     op0 ''bad'',
     op0 ''bad'',
     op0 ''bad'',
     op0 ''bad'',
     op0 ''bad'']"

definition modrm_reg_group_12 :: x86_insn_group8 where
  "modrm_reg_group_12 =
    [op0 ''bad'',
     op0 ''bad'',
     op2 ''psrlw'' ''Rm'' ''Ib'',
     op0 ''bad'',
     op2 ''psraw'' ''Rm'' ''Ib'',
     op0 ''bad'',
     op2 ''psllw'' ''Rm'' ''Ib'',
     op0 ''bad'']"

definition modrm_reg_group_13 :: x86_insn_group8 where
  "modrm_reg_group_13 =
    [op0 ''bad'',
     op0 ''bad'',
     op2 ''psrld'' ''Rm'' ''Ib'',
     op0 ''bad'',
     op2 ''psrad'' ''Rm'' ''Ib'',
     op0 ''bad'',
     op2 ''pslld'' ''Rm'' ''Ib'',
     op0 ''bad'']"

definition modrm_reg_group_14 :: x86_insn_group8 where
  "modrm_reg_group_14 =
    [op0 ''bad'',
     op0 ''bad'',
     op2 ''psrlq'' ''Rm'' ''Ib'',
     op0_flag ''bad'' 0,
     op0 ''bad'',
     op0 ''bad'',
     op2 ''psllq'' ''Rm'' ''Ib'',
     op0_flag ''bad'' 0]"

definition modrm_reg_group_15 :: x86_insn_group8 where
  "modrm_reg_group_15 =
    [op1 ''fxsave'' ''Mv'',
     op1 ''fxrstor'' ''Mv'',
     op1 ''ldmxcsr'' ''Mv'',
     op1 ''stmxcsr'' ''Mv'',
     op0 ''bad'',
     op1 ''lfence'' ''Mv'',
     op1 ''mfence'' ''Mv'',
     op1 ''sfence'' ''Mv'']"

definition modrm_reg_group_16 :: x86_insn_group8 where
  "modrm_reg_group_16 =
    [op1 ''prefetch_nta'' ''Mv'',
     op1 ''prefetch_t0'' ''Mv'',
     op1 ''prefetch_t1'' ''Mv'',
     op1 ''prefetch_t2'' ''Mv'',
     op1 ''prefetch_nop'' ''Mv'',
     op1 ''prefetch_nop'' ''Mv'',
     op1 ''prefetch_nop'' ''Mv'',
     op1 ''prefetch_nop'' ''Mv'']"

definition modrm_reg_group_p :: x86_insn_group8 where
  "modrm_reg_group_p =
    [op1 ''prefetch_exclusive'' ''Mv'',
     op1 ''prefetch_modified'' ''Mv'',
     op1 ''prefetch_nop'' ''Mv'',
     op1 ''prefetch_modified'' ''Mv'',
     op1 ''prefetch_nop'' ''Mv'',
     op1 ''prefetch_nop'' ''Mv'',
     op1 ''prefetch_nop'' ''Mv'',
     op1 ''prefetch_nop'' ''Mv'']"

definition x86_insn_modrm_reg_groups :: "x86_insn_group8 list" where
  "x86_insn_modrm_reg_groups =
    [replicate 8 zero_spec,
     modrm_reg_group_1, modrm_reg_group_1a, modrm_reg_group_2,
     modrm_reg_group_3, modrm_reg_group_4, modrm_reg_group_5,
     modrm_reg_group_6, modrm_reg_group_7, modrm_reg_group_8,
     modrm_reg_group_9, modrm_reg_group_10, modrm_reg_group_11,
     modrm_reg_group_12, modrm_reg_group_13, modrm_reg_group_14,
     modrm_reg_group_15, modrm_reg_group_16, modrm_reg_group_p]"

lemmas modrm_reg_group_defs =
  modrm_reg_group_1_def modrm_reg_group_1a_def modrm_reg_group_2_def
  modrm_reg_group_3_def modrm_reg_group_4_def modrm_reg_group_5_def
  modrm_reg_group_6_def modrm_reg_group_7_def modrm_reg_group_8_def
  modrm_reg_group_9_def modrm_reg_group_10_def modrm_reg_group_11_def
  modrm_reg_group_12_def modrm_reg_group_13_def modrm_reg_group_14_def
  modrm_reg_group_15_def modrm_reg_group_16_def modrm_reg_group_p_def

lemma length_modrm_reg_groups [simp]: "length x86_insn_modrm_reg_groups = 19"
  by (simp add: x86_insn_modrm_reg_groups_def)

lemma modrm_reg_groups_wf:
  "list_all (\<lambda>g. length g = 8 \<and> list_all spec_wf g) (tl x86_insn_modrm_reg_groups)"
  by (simp add: x86_insn_modrm_reg_groups_def modrm_reg_group_defs)

end
