(* ===== verification/X86SseGroups.thy ===== *)
theory X86SseGroups
  imports X86Spec
begin

text \<open>
  The SSE opcode groups of \<open>x86_opcode_sse_group.c\<close>, selected by a mandatory prefix (\<open>F3\<close>, \<open>66\<close>,
  \<open>F2\<close>): one array per prefix, indexed by the group number, which starts at 20, so the first
  twenty elements are zero.
\<close>

section \<open>SSE groups\<close>

definition sse_repz_10 :: x86_insn_group8 where
  "sse_repz_10 =
    [op2 ''movss'' ''Gx'' ''Ex'',
     op2 ''movss'' ''Ex'' ''Gx'',
     op2 ''movsldup'' ''Gx'' ''Ex'',
     op0 ''bad'',
     op0 ''bad'',
     op0 ''bad'',
     op2 ''movshdup'' ''Gx'' ''Ex'',
     op0 ''bad'']"

definition sse_repz_28 :: x86_insn_group8 where
  "sse_repz_28 =
    [op0 ''bad'',
     op0 ''bad'',
     op2 ''cvtsi2ss'' ''Gx'' ''Ev'',
     op0 ''bad'',
     op2 ''cvttss2si'' ''Gv'' ''Ex'',
     op2 ''cvtss2si'' ''Gv'' ''Ex'',
     op0 ''bad'',
     op0 ''bad'']"

definition sse_repz_50 :: x86_insn_group8 where
  "sse_repz_50 =
    [op0 ''bad'',
     op2 ''sqrtss'' ''Gx'' ''Ex'',
     op2 ''rsqrtps'' ''Gx'' ''Ex'',
     op2 ''rcpss'' ''Gx'' ''Ex'',
     op0 ''bad'',
     op0 ''bad'',
     op0 ''bad'',
     op0 ''bad'']"

definition sse_repz_58 :: x86_insn_group8 where
  "sse_repz_58 =
    [op2 ''addss'' ''Gx'' ''Ex'',
     op2 ''mulss'' ''Gx'' ''Ex'',
     op2 ''cvtss2sd'' ''Gx'' ''Ex'',
     op2 ''cvttps2dq'' ''Gx'' ''Ex'',
     op2 ''subss'' ''Gx'' ''Ex'',
     op2 ''minss'' ''Gx'' ''Ex'',
     op2 ''divss'' ''Gx'' ''Ex'',
     op2 ''maxss'' ''Gx'' ''Ex'']"

definition sse_repz_60 :: x86_insn_group8 where
  "sse_repz_60 =
    [op0 ''bad'',
     op0 ''bad'',
     op0 ''bad'',
     op0 ''bad'',
     op0 ''bad'',
     op0 ''bad'',
     op0 ''bad'',
     op0 ''bad'']"

definition sse_repz_68 :: x86_insn_group8 where
  "sse_repz_68 =
    [op0 ''bad'',
     op0 ''bad'',
     op0 ''bad'',
     op0 ''bad'',
     op0 ''bad'',
     op0 ''bad'',
     op0 ''bad'',
     op2 ''movdqu'' ''Gx'' ''Ex'']"

definition sse_repz_70 :: x86_insn_group8 where
  "sse_repz_70 =
    [op3 ''pshufhw'' ''Gx'' ''Ex'' ''Ib'',
     op0 ''bad'',
     op0 ''bad'',
     op0 ''bad'',
     op0 ''bad'',
     op0 ''bad'',
     op0 ''bad'',
     op0 ''bad'']"

definition sse_repz_78 :: x86_insn_group8 where
  "sse_repz_78 =
    [op0 ''bad'',
     op0 ''bad'',
     op0 ''bad'',
     op0 ''bad'',
     op0 ''bad'',
     op0 ''bad'',
     op2 ''movq'' ''Gx'' ''Ex'',
     op2 ''movdqu'' ''Ex'' ''Gx'']"

definition sse_repz_c0 :: x86_insn_group8 where
  "sse_repz_c0 =
    [op0 ''bad'',
     op0 ''bad'',
     op3 ''cmpss'' ''Gx'' ''Ex'' ''Ib'',
     op0 ''bad'',
     op0 ''bad'',
     op0 ''bad'',
     op0 ''bad'',
     op0 ''bad'']"

definition sse_repz_d0 :: x86_insn_group8 where
  "sse_repz_d0 =
    [op0 ''bad'',
     op0 ''bad'',
     op0 ''bad'',
     op0 ''bad'',
     op0 ''bad'',
     op0 ''bad'',
     op2 ''movq2dq'' ''Gx'' ''Em'',
     op0 ''bad'']"

definition sse_repz_d8 :: x86_insn_group8 where
  "sse_repz_d8 =
    [op0 ''bad'',
     op0 ''bad'',
     op0 ''bad'',
     op0 ''bad'',
     op0 ''bad'',
     op0 ''bad'',
     op0 ''bad'',
     op0 ''bad'']"

definition sse_repz_e0 :: x86_insn_group8 where
  "sse_repz_e0 =
    [op0 ''bad'',
     op0 ''bad'',
     op0 ''bad'',
     op0 ''bad'',
     op0 ''bad'',
     op0 ''bad'',
     op2 ''cvtdq2pd'' ''Gx'' ''Ex'',
     op0 ''bad'']"

definition sse_repz_e8 :: x86_insn_group8 where
  "sse_repz_e8 =
    [op0 ''bad'',
     op0 ''bad'',
     op0 ''bad'',
     op0 ''bad'',
     op0 ''bad'',
     op0 ''bad'',
     op0 ''bad'',
     op0 ''bad'']"

definition sse_repz_f0 :: x86_insn_group8 where
  "sse_repz_f0 =
    [op0 ''bad'',
     op0 ''bad'',
     op0 ''bad'',
     op0 ''bad'',
     op0 ''bad'',
     op0 ''bad'',
     op0 ''bad'',
     op0 ''bad'']"

definition sse_repz_f8 :: x86_insn_group8 where
  "sse_repz_f8 =
    [op0 ''bad'',
     op0 ''bad'',
     op0 ''bad'',
     op0 ''bad'',
     op0 ''bad'',
     op0 ''bad'',
     op0 ''bad'',
     op0 ''bad'']"

definition x86_insn_sse_groups_repz :: "x86_insn_group8 list" where
  "x86_insn_sse_groups_repz =
    replicate 20 (replicate 8 zero_spec) @
    [sse_repz_10, sse_repz_28, sse_repz_50, sse_repz_58,
     sse_repz_60, sse_repz_68, sse_repz_70, sse_repz_78,
     sse_repz_c0, sse_repz_d0, sse_repz_d8, sse_repz_e0,
     sse_repz_e8, sse_repz_f0, sse_repz_f8]"

lemmas sse_repz_defs =
  sse_repz_10_def sse_repz_28_def sse_repz_50_def sse_repz_58_def
  sse_repz_60_def sse_repz_68_def sse_repz_70_def sse_repz_78_def
  sse_repz_c0_def sse_repz_d0_def sse_repz_d8_def sse_repz_e0_def
  sse_repz_e8_def sse_repz_f0_def sse_repz_f8_def

definition sse_operand_size_10 :: x86_insn_group8 where
  "sse_operand_size_10 =
    [op2 ''movupd'' ''Gx'' ''Ex'',
     op2 ''movupd'' ''Ex'' ''Gx'',
     op2 ''movlpd'' ''Gx'' ''Ex'',
     op2 ''movlpd'' ''Ex'' ''Gx'',
     op2 ''unpcklpd'' ''Gx'' ''Ex'',
     op2 ''unpckhpd'' ''Gx'' ''Ex'',
     op2 ''movhpd'' ''Gx'' ''Mx'',
     op2 ''movhpd'' ''Mx'' ''Gx'']"

definition sse_operand_size_28 :: x86_insn_group8 where
  "sse_operand_size_28 =
    [op2 ''movapd'' ''Gx'' ''Ex'',
     op2 ''movapd'' ''Ex'' ''Gx'',
     op2 ''cvtpi2pd'' ''Gx'' ''Ex'',
     op2 ''movntpd'' ''Mx'' ''Gx'',
     op2 ''cvttpd2pi'' ''Gx'' ''Mx'',
     op2 ''cvtpd2pi'' ''Gx'' ''Mx'',
     op2 ''ucomisd'' ''Gx'' ''Ex'',
     op2 ''comisd'' ''Gx'' ''Ex'']"

definition sse_operand_size_50 :: x86_insn_group8 where
  "sse_operand_size_50 =
    [op2 ''movmskpd'' ''Gd'' ''Rx'',
     op2 ''sqrtpd'' ''Gx'' ''Ex'',
     op0 ''bad'',
     op0 ''bad'',
     op2 ''andpd'' ''Gx'' ''Ex'',
     op2 ''andnpd'' ''Gx'' ''Ex'',
     op2 ''orpd'' ''Gx'' ''Ex'',
     op2 ''xorpd'' ''Gx'' ''Ex'']"

definition sse_operand_size_58 :: x86_insn_group8 where
  "sse_operand_size_58 =
    [op2 ''addpd'' ''Gx'' ''Ex'',
     op2 ''mulpd'' ''Gx'' ''Ex'',
     op2 ''cvtpd2ps'' ''Gx'' ''Ex'',
     op2 ''cvtps2dq'' ''Gx'' ''Ex'',
     op2 ''subpd'' ''Gx'' ''Ex'',
     op2 ''minpd'' ''Gx'' ''Ex'',
     op2 ''divpd'' ''Gx'' ''Ex'',
     op2 ''maxpd'' ''Gx'' ''Ex'']"

definition sse_operand_size_60 :: x86_insn_group8 where
  "sse_operand_size_60 =
    [op2 ''punpcklbw'' ''Gx'' ''Ex'',
     op2 ''punpcklwd'' ''Gx'' ''Ex'',
     op2 ''punpckldq'' ''Gx'' ''Ex'',
     op2 ''packsswb'' ''Gx'' ''Ex'',
     op2 ''pcmpgtb'' ''Gx'' ''Ex'',
     op2 ''pcmpgtw'' ''Gx'' ''Ex'',
     op2 ''pcmpgtd'' ''Gx'' ''Ex'',
     op2 ''packuswb'' ''Gx'' ''Ex'']"

definition sse_operand_size_68 :: x86_insn_group8 where
  "sse_operand_size_68 =
    [op2 ''punpckhbw'' ''Gx'' ''Ex'',
     op2 ''punpckhwd'' ''Gx'' ''Ex'',
     op2 ''punpckhdq'' ''Gx'' ''Ex'',
     op2 ''packssdw'' ''Gx'' ''Ex'',
     op2 ''punpcklqdq'' ''Gx'' ''Ex'',
     op2 ''punpckhqdq'' ''Gx'' ''Ex'',
     op2 ''movd'' ''Gx'' ''Ev'',
     op2 ''movdqa'' ''Gx'' ''Ex'']"

definition sse_operand_size_70 :: x86_insn_group8 where
  "sse_operand_size_70 =
    [op3 ''pshufd'' ''Gx'' ''Ex'' ''Ib'',
     op0_flag ''modrm_group_12'' (X86_INSN_FLAG_MODRM_REG_GROUP MG_12),
     op0_flag ''modrm_group_13'' (X86_INSN_FLAG_MODRM_REG_GROUP MG_13),
     op0_flag ''modrm_group_14'' (X86_INSN_FLAG_MODRM_REG_GROUP MG_14),
     op2 ''pcmpeqb'' ''Gx'' ''Ex'',
     op2 ''pcmpeqw'' ''Gx'' ''Ex'',
     op2 ''pcmpeqd'' ''Gx'' ''Ex'',
     op0 ''bad'']"

definition sse_operand_size_78 :: x86_insn_group8 where
  "sse_operand_size_78 =
    [op0 ''bad'',
     op0 ''bad'',
     op0 ''bad'',
     op0 ''bad'',
     op2 ''haddpd'' ''Gx'' ''Ex'',
     op2 ''hsubpd'' ''Gx'' ''Ex'',
     op2 ''movd'' ''Ev'' ''Gx'',
     op2 ''movdqa'' ''Ex'' ''Gx'']"

definition sse_operand_size_c0 :: x86_insn_group8 where
  "sse_operand_size_c0 =
    [op0 ''bad'',
     op0 ''bad'',
     op3 ''cmppd'' ''Gx'' ''Ex'' ''Ib'',
     op0 ''bad'',
     op3 ''pinsrw'' ''Gx'' ''Ew'' ''Ib'',
     op3 ''pextrw'' ''Gd'' ''Gx'' ''Ib'',
     op3 ''shufpd'' ''Gx'' ''Ex'' ''Ib'',
     op0 ''bad'']"

definition sse_operand_size_d0 :: x86_insn_group8 where
  "sse_operand_size_d0 =
    [op2 ''addsubpd'' ''Gx'' ''Ex'',
     op2 ''psrlw'' ''Gx'' ''Ex'',
     op2 ''psrld'' ''Gx'' ''Ex'',
     op2 ''psrlq'' ''Gx'' ''Ex'',
     op2 ''paddq'' ''Gx'' ''Ex'',
     op2 ''pmullw'' ''Gx'' ''Ex'',
     op2 ''movq'' ''Ex'' ''Gx'',
     op2 ''pmovmskb'' ''Gd'' ''Rx'']"

definition sse_operand_size_d8 :: x86_insn_group8 where
  "sse_operand_size_d8 =
    [op2 ''psubusb'' ''Gx'' ''Ex'',
     op2 ''psubusw'' ''Gx'' ''Ex'',
     op2 ''pminub'' ''Gx'' ''Ex'',
     op2 ''pand'' ''Gx'' ''Ex'',
     op2 ''paddusb'' ''Gx'' ''Ex'',
     op2 ''paddusw'' ''Gx'' ''Ex'',
     op2 ''pmaxub'' ''Gx'' ''Ex'',
     op2 ''pandn'' ''Gx'' ''Ex'']"

definition sse_operand_size_e0 :: x86_insn_group8 where
  "sse_operand_size_e0 =
    [op2 ''pavgb'' ''Gx'' ''Ex'',
     op2 ''psraw'' ''Gx'' ''Ex'',
     op2 ''psrad'' ''Gx'' ''Ex'',
     op2 ''pavgw'' ''Gx'' ''Ex'',
     op2 ''pmulhuw'' ''Gx'' ''Ex'',
     op2 ''pmulhw'' ''Gx'' ''Ex'',
     op2 ''cvttpd2dq'' ''Gx'' ''Ex'',
     op2 ''movntdq'' ''Mx'' ''Gx'']"

definition sse_operand_size_e8 :: x86_insn_group8 where
  "sse_operand_size_e8 =
    [op2 ''psubsb'' ''Gx'' ''Ex'',
     op2 ''psubsw'' ''Gx'' ''Ex'',
     op2 ''pminsw'' ''Gx'' ''Ex'',
     op2 ''por'' ''Gx'' ''Ex'',
     op2 ''paddsb'' ''Gx'' ''Ex'',
     op2 ''paddsw'' ''Gx'' ''Ex'',
     op2 ''pmaxsw'' ''Gx'' ''Ex'',
     op2 ''pxor'' ''Gx'' ''Ex'']"

definition sse_operand_size_f0 :: x86_insn_group8 where
  "sse_operand_size_f0 =
    [op0 ''bad'',
     op2 ''psllw'' ''Gx'' ''Ex'',
     op2 ''pslld'' ''Gx'' ''Ex'',
     op2 ''psllq'' ''Gx'' ''Ex'',
     op2 ''pmuludq'' ''Gx'' ''Ex'',
     op2 ''pmaddwd'' ''Gx'' ''Ex'',
     op2 ''psadbw'' ''Gx'' ''Ex'',
     op2 ''maskmovdqu'' ''Gx'' ''Ex'']"

definition sse_operand_size_f8 :: x86_insn_group8 where
  "sse_operand_size_f8 =
    [op2 ''psubb'' ''Gx'' ''Ex'',
     op2 ''psubw'' ''Gx'' ''Ex'',
     op2 ''psubd'' ''Gx'' ''Ex'',
     op2 ''psubq'' ''Gx'' ''Ex'',
     op2 ''paddb'' ''Gx'' ''Ex'',
     op2 ''paddw'' ''Gx'' ''Ex'',
     op2 ''paddd'' ''Gx'' ''Ex'',
     op0 ''bad'']"

definition x86_insn_sse_groups_operand_size :: "x86_insn_group8 list" where
  "x86_insn_sse_groups_operand_size =
    replicate 20 (replicate 8 zero_spec) @
    [sse_operand_size_10, sse_operand_size_28, sse_operand_size_50, sse_operand_size_58,
     sse_operand_size_60, sse_operand_size_68, sse_operand_size_70, sse_operand_size_78,
     sse_operand_size_c0, sse_operand_size_d0, sse_operand_size_d8, sse_operand_size_e0,
     sse_operand_size_e8, sse_operand_size_f0, sse_operand_size_f8]"

lemmas sse_operand_size_defs =
  sse_operand_size_10_def sse_operand_size_28_def sse_operand_size_50_def sse_operand_size_58_def
  sse_operand_size_60_def sse_operand_size_68_def sse_operand_size_70_def sse_operand_size_78_def
  sse_operand_size_c0_def sse_operand_size_d0_def sse_operand_size_d8_def sse_operand_size_e0_def
  sse_operand_size_e8_def sse_operand_size_f0_def sse_operand_size_f8_def

definition sse_repnz_10 :: x86_insn_group8 where
  "sse_repnz_10 =
    [op2 ''movsd'' ''Gx'' ''Ex'',
     op2 ''movsd'' ''Ex'' ''Gx'',
     op2 ''movddup'' ''Gx'' ''Ex'',
     op0 ''bad'',
     op0 ''bad'',
     op0 ''bad'',
     op0 ''bad'',
     op0 ''bad'']"

definition sse_repnz_28 :: x86_insn_group8 where
  "sse_repnz_28 =
    [op0 ''bad'',
     op0 ''bad'',
     op2 ''cvtsi2sd'' ''Gx'' ''Ev'',
     op0 ''bad'',
     op2 ''cvttsd2si'' ''Gv'' ''Ex'',
     op2 ''cvtsd2si'' ''Gv'' ''Ex'',
     op0 ''bad'',
     op0 ''bad'']"

definition sse_repnz_50 :: x86_insn_group8 where
  "sse_repnz_50 =
    [op0 ''bad'',
     op2 ''sqrtsd'' ''Gx'' ''Ex'',
     op0 ''bad'',
     op0 ''bad'',
     op0 ''bad'',
     op0 ''bad'',
     op0 ''bad'',
     op0 ''bad'']"

definition sse_repnz_58 :: x86_insn_group8 where
  "sse_repnz_58 =
    [op2 ''addsd'' ''Gx'' ''Ex'',
     op2 ''mulsd'' ''Gx'' ''Ex'',
     op2 ''cvtsd2ss'' ''Gx'' ''Ex'',
     op0 ''bad'',
     op2 ''subsd'' ''Gx'' ''Ex'',
     op2 ''minsd'' ''Gx'' ''Ex'',
     op2 ''divsd'' ''Gx'' ''Ex'',
     op2 ''maxsd'' ''Gx'' ''Ex'']"

definition sse_repnz_60 :: x86_insn_group8 where
  "sse_repnz_60 =
    [op0 ''bad'',
     op0 ''bad'',
     op0 ''bad'',
     op0 ''bad'',
     op0 ''bad'',
     op0 ''bad'',
     op0 ''bad'',
     op0 ''bad'']"

definition sse_repnz_68 :: x86_insn_group8 where
  "sse_repnz_68 =
    [op0 ''bad'',
     op0 ''bad'',
     op0 ''bad'',
     op0 ''bad'',
     op0 ''bad'',
     op0 ''bad'',
     op0 ''bad'',
     op0 ''bad'']"

definition sse_repnz_70 :: x86_insn_group8 where
  "sse_repnz_70 =
    [op3 ''pshuflw'' ''Gx'' ''Ex'' ''Ib'',
     op0 ''bad'',
     op0 ''bad'',
     op0 ''bad'',
     op0 ''bad'',
     op0 ''bad'',
     op0 ''bad'',
     op0 ''bad'']"

definition sse_repnz_78 :: x86_insn_group8 where
  "sse_repnz_78 =
    [op0 ''bad'',
     op0 ''bad'',
     op0 ''bad'',
     op0 ''bad'',
     op2 ''haddps'' ''Gx'' ''Ex'',
     op2 ''hsubps'' ''Gx'' ''Ex'',
     op0 ''bad'',
     op0 ''bad'']"

definition sse_repnz_c0 :: x86_insn_group8 where
  "sse_repnz_c0 =
    [op0 ''bad'',
     op0 ''bad'',
     op3 ''cmpsd'' ''Gx'' ''Ex'' ''Ib'',
     op0 ''bad'',
     op0 ''bad'',
     op0 ''bad'',
     op0 ''bad'',
     op0 ''bad'']"

definition sse_repnz_d0 :: x86_insn_group8 where
  "sse_repnz_d0 =
    [op2 ''addsubps'' ''Gx'' ''Ex'',
     op0 ''bad'',
     op0 ''bad'',
     op0 ''bad'',
     op0 ''bad'',
     op0 ''bad'',
     op2 ''movdq2q'' ''Gm'' ''Ex'',
     op0 ''bad'']"

definition sse_repnz_d8 :: x86_insn_group8 where
  "sse_repnz_d8 =
    [op0 ''bad'',
     op0 ''bad'',
     op0 ''bad'',
     op0 ''bad'',
     op0 ''bad'',
     op0 ''bad'',
     op0 ''bad'',
     op0 ''bad'']"

definition sse_repnz_e0 :: x86_insn_group8 where
  "sse_repnz_e0 =
    [op0 ''bad'',
     op0 ''bad'',
     op0 ''bad'',
     op0 ''bad'',
     op0 ''bad'',
     op0 ''bad'',
     op2 ''cvtpd2dq'' ''Gx'' ''Ex'',
     op0 ''bad'']"

definition sse_repnz_e8 :: x86_insn_group8 where
  "sse_repnz_e8 =
    [op0 ''bad'',
     op0 ''bad'',
     op0 ''bad'',
     op0 ''bad'',
     op0 ''bad'',
     op0 ''bad'',
     op0 ''bad'',
     op0 ''bad'']"

definition sse_repnz_f0 :: x86_insn_group8 where
  "sse_repnz_f0 =
    [op2 ''lddqu'' ''Gx'' ''Mx'',
     op0 ''bad'',
     op0 ''bad'',
     op0 ''bad'',
     op0 ''bad'',
     op0 ''bad'',
     op0 ''bad'',
     op0 ''bad'']"

definition sse_repnz_f8 :: x86_insn_group8 where
  "sse_repnz_f8 =
    [op0 ''bad'',
     op0 ''bad'',
     op0 ''bad'',
     op0 ''bad'',
     op0 ''bad'',
     op0 ''bad'',
     op0 ''bad'',
     op0 ''bad'']"

definition x86_insn_sse_groups_repnz :: "x86_insn_group8 list" where
  "x86_insn_sse_groups_repnz =
    replicate 20 (replicate 8 zero_spec) @
    [sse_repnz_10, sse_repnz_28, sse_repnz_50, sse_repnz_58,
     sse_repnz_60, sse_repnz_68, sse_repnz_70, sse_repnz_78,
     sse_repnz_c0, sse_repnz_d0, sse_repnz_d8, sse_repnz_e0,
     sse_repnz_e8, sse_repnz_f0, sse_repnz_f8]"

lemmas sse_repnz_defs =
  sse_repnz_10_def sse_repnz_28_def sse_repnz_50_def sse_repnz_58_def
  sse_repnz_60_def sse_repnz_68_def sse_repnz_70_def sse_repnz_78_def
  sse_repnz_c0_def sse_repnz_d0_def sse_repnz_d8_def sse_repnz_e0_def
  sse_repnz_e8_def sse_repnz_f0_def sse_repnz_f8_def

text \<open>
  Every SSE group number an opcode can carry has a row of eight well-formed entries in each of
  the three arrays.
\<close>

lemma sse_groups_wf:
  "list_all (\<lambda>gs. length gs = 35 \<and>
      list_all (\<lambda>g. length g = 8 \<and> list_all spec_wf g) (drop 20 gs))
    [x86_insn_sse_groups_repz, x86_insn_sse_groups_operand_size, x86_insn_sse_groups_repnz]"
  by (simp add: x86_insn_sse_groups_repz_def x86_insn_sse_groups_operand_size_def
      x86_insn_sse_groups_repnz_def sse_repz_defs sse_operand_size_defs sse_repnz_defs)

end
