(* ===== verification/X86Reader.thy ===== *)
theory X86Reader
  imports Prelude
begin

text \<open>
  The instruction reader of \<open>x86_insn_decode/x86_insn_reader.c\<close>. The reader copies the bytes it may
  look at into its own 20-byte buffer and walks a cursor over it; a read outside the block the
  cursor walks is undefined behaviour in C and the fault \<open>OutOfBounds\<close> here.

  The pointers \<open>prefix\<close>, \<open>opcode\<close>, \<open>modrm\<close> and \<open>buffer_cursor\<close> are offsets into \<open>rd_block\<close>, which is the
  reader's own buffer when \<open>rd_own\<close> holds and the caller's memory otherwise.
\<close>

record x86_insn_reader =
  rd_block :: "u8 list"
  rd_own :: bool
  rd_prefix :: nat
  rd_opcode :: nat
  rd_modrm :: nat
  rd_cursor :: nat

definition reader_buffer_size :: nat where
  "reader_buffer_size = 20"

text \<open>\<open>begin\<close> is the memory from the caller's pointer on, \<open>n\<close> the distance to the end pointer.\<close>

definition init_reader :: "u8 list \<Rightarrow> nat \<Rightarrow> x86_insn_reader res" where
  "init_reader mem n =
    (if n < reader_buffer_size
     then if length mem < n then Inl OutOfBounds
          else Inr \<lparr>rd_block = take n mem @ replicate (reader_buffer_size - n) 0xcc, rd_own = True,
                    rd_prefix = 0, rd_opcode = 0, rd_modrm = 0, rd_cursor = 0\<rparr>
     else Inr \<lparr>rd_block = mem, rd_own = False,
               rd_prefix = 0, rd_opcode = 0, rd_modrm = 0, rd_cursor = 0\<rparr>)"

text \<open>The difference of pointers into different blocks is undefined.\<close>

definition reader_offset :: "x86_insn_reader \<Rightarrow> u32 res" where
  "reader_offset rd = (if rd_own rd then Inr (of_nat (rd_cursor rd)) else Inl OutOfBounds)"

definition fetch :: "x86_insn_reader \<Rightarrow> nat \<Rightarrow> u8 res" where
  "fetch rd i = (if i < length (rd_block rd) then Inr (rd_block rd ! i) else Inl OutOfBounds)"

definition peek_byte :: "x86_insn_reader \<Rightarrow> u8 res" where
  "peek_byte rd = fetch rd (rd_cursor rd)"

definition read_byte :: "x86_insn_reader \<Rightarrow> (u8 \<times> x86_insn_reader) res" where
  "read_byte rd =
    (let p = rd_cursor rd; rd' = rd\<lparr>rd_cursor := p + 1\<rparr> in
     rbind (fetch rd p) (\<lambda>b. Inr (b, rd')))"

definition read_word :: "x86_insn_reader \<Rightarrow> (u16 \<times> x86_insn_reader) res" where
  "read_word rd =
    (let p = rd_cursor rd; rd' = rd\<lparr>rd_cursor := p + 2\<rparr> in
     rbind (fetch rd p) (\<lambda>p0. rbind (fetch rd (p + 1)) (\<lambda>p1.
     Inr (ucast p0 OR push_bit 8 (ucast p1), rd'))))"

definition read_dword :: "x86_insn_reader \<Rightarrow> (u32 \<times> x86_insn_reader) res" where
  "read_dword rd =
    (let p = rd_cursor rd; rd' = rd\<lparr>rd_cursor := p + 4\<rparr> in
     rbind (fetch rd p) (\<lambda>p0. rbind (fetch rd (p + 1)) (\<lambda>p1.
     rbind (fetch rd (p + 2)) (\<lambda>p2. rbind (fetch rd (p + 3)) (\<lambda>p3.
     Inr (ucast p0 OR push_bit 8 (ucast p1) OR push_bit 16 (ucast p2) OR push_bit 24 (ucast p3), rd'))))))"

text \<open>
  \<open>p[0]\<close> through a \<open>uint64_t *\<close> reads the eight bytes at the cursor; the cursor then moves by four,
  as the source writes it.
\<close>

definition read_qword :: "x86_insn_reader \<Rightarrow> (u64 \<times> x86_insn_reader) res" where
  "read_qword rd =
    (let p = rd_cursor rd; rd' = rd\<lparr>rd_cursor := p + 4\<rparr> in
     if p + 8 \<le> length (rd_block rd)
     then Inr (of_le_bytes (take 8 (drop p (rd_block rd))), rd') else Inl OutOfBounds)"

definition read_imm :: "x86_insn_reader \<Rightarrow> int \<Rightarrow> (u32 \<times> x86_insn_reader) res" where
  "read_imm rd sz =
    (if sz = 8 then rbind (read_byte rd) (\<lambda>(v, rd'). Inr (ucast v, rd'))
     else if sz = 16 then rbind (read_word rd) (\<lambda>(v, rd'). Inr (ucast v, rd'))
     else if sz = 32 then read_dword rd
     else Inr (0, rd))"

definition read_modrm :: "x86_insn_reader \<Rightarrow> (u8 \<times> x86_insn_reader) res" where
  "read_modrm rd =
    (let rd' = (if rd_cursor rd = rd_modrm rd then rd\<lparr>rd_cursor := rd_cursor rd + 1\<rparr> else rd) in
     rbind (fetch rd' (rd_modrm rd')) (\<lambda>b. Inr (b, rd')))"

definition continue_modrm :: "x86_insn_reader \<Rightarrow> x86_insn_reader" where
  "continue_modrm rd = rd\<lparr>rd_modrm := rd_cursor rd\<rparr>"

definition continue_opcode :: "x86_insn_reader \<Rightarrow> x86_insn_reader" where
  "continue_opcode rd = rd\<lparr>rd_modrm := rd_cursor rd, rd_opcode := rd_cursor rd\<rparr>"

section \<open>Moving a reader\<close>

text \<open>
  Every read leaves the reader as it was but for the cursor. \<open>forward rd n\<close> is that reader; the
  lemmas below say for each operation whether it returns, what it returns and how far it moves,
  and are all the decoder's proofs use of the reader.
\<close>

definition forward :: "x86_insn_reader \<Rightarrow> nat \<Rightarrow> x86_insn_reader" where
  "forward rd n = rd\<lparr>rd_cursor := rd_cursor rd + n\<rparr>"

definition avail :: "x86_insn_reader \<Rightarrow> nat" where
  "avail rd = length (rd_block rd) - rd_cursor rd"

lemma forward_simps [simp]:
  "rd_block (forward rd n) = rd_block rd" "rd_own (forward rd n) = rd_own rd"
  "rd_cursor (forward rd n) = rd_cursor rd + n" "forward (forward rd n) m = forward rd (n + m)"
  "forward rd 0 = rd"
  by (simp_all add: forward_def add.assoc)

lemma avail_forward [simp]: "avail (forward rd n) = avail rd - n"
  by (simp add: avail_def)

text \<open>The \<open>i\<close>-th byte ahead of the cursor.\<close>

definition ahead :: "x86_insn_reader \<Rightarrow> nat \<Rightarrow> u8" where
  "ahead rd i = rd_block rd ! (rd_cursor rd + i)"

lemma ahead_forward [simp]: "ahead (forward rd n) i = ahead rd (n + i)"
  by (simp add: ahead_def add.assoc)

lemma fetch_ahead: "fetch rd (rd_cursor rd + i) = (if i < avail rd then Inr (ahead rd i) else Inl OutOfBounds)"
  by (auto simp: fetch_def avail_def ahead_def)

lemma peek_byte_eq:
  "peek_byte rd = (if 0 < avail rd then Inr (ahead rd 0) else Inl OutOfBounds)"
  using fetch_ahead [of rd 0] by (simp add: peek_byte_def)

lemma read_byte_eq:
  "read_byte rd = (if 0 < avail rd then Inr (ahead rd 0, forward rd 1) else Inl OutOfBounds)"
  using fetch_ahead [of rd 0] by (simp add: read_byte_def Let_def forward_def)

lemma read_word_eq:
  "read_word rd = (if 1 < avail rd
     then Inr (ucast (ahead rd 0) OR push_bit 8 (ucast (ahead rd 1)), forward rd 2)
     else Inl OutOfBounds)"
  using fetch_ahead [of rd 0] fetch_ahead [of rd 1] by (simp add: read_word_def Let_def forward_def)

lemma read_dword_eq:
  "read_dword rd = (if 3 < avail rd
     then Inr (ucast (ahead rd 0) OR push_bit 8 (ucast (ahead rd 1)) OR
               push_bit 16 (ucast (ahead rd 2)) OR push_bit 24 (ucast (ahead rd 3)), forward rd 4)
     else Inl OutOfBounds)"
  using fetch_ahead [of rd 0] fetch_ahead [of rd 1] fetch_ahead [of rd 2] fetch_ahead [of rd 3]
  by (simp add: read_dword_def Let_def forward_def)

lemma read_qword_eq:
  "read_qword rd = (if 7 < avail rd
     then Inr (of_le_bytes (take 8 (drop (rd_cursor rd) (rd_block rd))), forward rd 4)
     else Inl OutOfBounds)"
  by (auto simp: read_qword_def Let_def forward_def avail_def)

lemmas reader_eqs = peek_byte_eq read_byte_eq read_word_eq read_dword_eq read_qword_eq

text \<open>The bytes from the cursor on.\<close>

definition rest :: "x86_insn_reader \<Rightarrow> u8 list" where
  "rest rd = drop (rd_cursor rd) (rd_block rd)"

lemma rest_forward [simp]: "rest (forward rd n) = drop n (rest rd)"
  by (simp add: rest_def add.commute)

lemma avail_rest: "avail rd = length (rest rd)"
  by (simp add: avail_def rest_def)

lemma ahead_rest: "i < avail rd \<Longrightarrow> ahead rd i = rest rd ! i"
  by (simp add: ahead_def rest_def avail_def)

lemma rest_ConsD:
  assumes "rest rd = b # bs"
  shows "0 < avail rd" "ahead rd 0 = b" "rest (forward rd 1) = bs"
  using assms ahead_rest [of 0 rd] by (simp_all add: avail_rest)

text \<open>A multi-byte read is the little-endian value of the bytes ahead.\<close>

lemma take_4_drop:
  assumes "n + 4 \<le> length xs"
  shows "take 4 (drop n xs) = [xs ! n, xs ! (n + 1), xs ! (n + 2), xs ! (n + 3)]"
proof -
  have "drop n xs = xs ! n # xs ! (n + 1) # xs ! (n + 2) # xs ! (n + 3) # drop (n + 4) xs"
    using assms Cons_nth_drop_Suc [of n xs] Cons_nth_drop_Suc [of "n + 1" xs]
      Cons_nth_drop_Suc [of "n + 2" xs] Cons_nth_drop_Suc [of "n + 3" xs]
    by (simp add: numeral_3_eq_3 numeral_eq_Suc)
  then show ?thesis by simp
qed

lemma push_bit_or_word: "push_bit n (a OR b) = push_bit n a OR push_bit n (b :: 'a::len word)"
  by (rule bit_word_eqI) (auto simp: bit_simps)

lemma read_dword_le:
  assumes "rd_cursor rd + 4 \<le> length (rd_block rd)"
  shows "read_dword rd = Inr (of_le_bytes (take 4 (drop (rd_cursor rd) (rd_block rd))), forward rd 4)"
  using assms
  by (simp add: take_4_drop read_dword_eq avail_def ahead_def push_bit_or_word or.assoc)

lemma init_reader_15:
  assumes "15 \<le> length mem"
  shows "init_reader mem 15 = Inr \<lparr>rd_block = take 15 mem @ replicate 5 0xcc, rd_own = True,
    rd_prefix = 0, rd_opcode = 0, rd_modrm = 0, rd_cursor = 0\<rparr>"
  using assms by (simp add: init_reader_def reader_buffer_size_def)

end
