(* ===== verification/X86Decode.thy ===== *)
theory X86Decode
  imports X86OneByte X86TwoByte X86Groups X86SseGroups X86Reader
begin

text \<open>
  The x86 instruction decoder, \<open>x86_insn_decode/x86_insn_decode.c\<close>: prefixes, opcode, ModRM, SIB and
  displacement, immediate, in the order the code reads them. The instruction record is threaded
  through every step, as the code fills it through a pointer.

  The lemmas establish that the prefix loop stops at the sentinel bytes the reader puts behind
  the fifteen bytes it copies, that no table access leaves its table, which faults a decode can
  end in, and how many bytes each step consumes.
\<close>

section \<open>Prefixes\<close>

definition legacy_prefix :: "u8 \<Rightarrow> u32" where
  "legacy_prefix c =
    (if c = 0xF0 then INSN_PREFIX_LOCK else if c = 0xF2 then INSN_PREFIX_REPNE
     else if c = 0xF3 then INSN_PREFIX_REPE else if c = 0x2E then INSN_PREFIX_CS
     else if c = 0x36 then INSN_PREFIX_SS else if c = 0x3E then INSN_PREFIX_DS
     else if c = 0x26 then INSN_PREFIX_ES else if c = 0x64 then INSN_PREFIX_FS
     else if c = 0x65 then INSN_PREFIX_GS else if c = 0x66 then INSN_PREFIX_OPERAND_SIZE
     else if c = 0x67 then INSN_PREFIX_ADDRESS_SIZE else 0)"

function decode_prefix_loop ::
  "x86_options \<Rightarrow> x86_insn_reader \<Rightarrow> x86_insn_decode_t \<Rightarrow> u32 \<Rightarrow> (u32 \<times> x86_insn_reader \<times> x86_insn_decode_t) res"
where
  "decode_prefix_loop conf rd insn acc =
    rbind (peek_byte rd) (\<lambda>c.
     if mode conf = 64 \<and> 0x40 \<le> c \<and> c \<le> 0x4f
     then rbind (read_byte rd) (\<lambda>(r, rd').
            Inr (acc, rd', insn\<lparr>
              insn_flags := (if REX_W r \<noteq> 0
                then insn_flags insn OR X86_INSN_DECODE_FLAG_OPERAND_SIZE_64 else insn_flags insn),
              rex := r\<rparr>))
     else let t = legacy_prefix c in
          if t = 0 then Inr (acc, rd, insn)
          else rbind (read_byte rd) (\<lambda>(_, rd'). decode_prefix_loop conf rd' insn (acc OR t)))"
  by pat_completeness auto
termination
  by (relation "measure (\<lambda>(conf, rd, insn, acc). avail rd)")
    (auto simp: read_byte_eq split: if_splits)

declare decode_prefix_loop.simps [simp del]

definition x86_insn_decode_prefix ::
  "x86_insn_reader \<Rightarrow> x86_insn_decode_t \<Rightarrow> x86_options \<Rightarrow> (u32 \<times> x86_insn_reader \<times> x86_insn_decode_t) res" where
  "x86_insn_decode_prefix rd insn conf = decode_prefix_loop conf rd insn 0"

section \<open>Operand specifications\<close>

definition x86_insn_has_modrm_byte :: "x86_insn_spec \<Rightarrow> bool" where
  "x86_insn_has_modrm_byte s \<longleftrightarrow>
    list_ex (\<lambda>i. code (operands s ! i) \<in> set ''GEMR'') [0, 1, 2]"

text \<open>
  The loop of \<open>x86_insn_immediate_type\<close> runs to \<open>sizeof(insn->operands)\<close>, which is 6, over an array of
  3: past the third operand it reads outside the array.
\<close>

fun immediate_type_loop :: "x86_insn_spec \<Rightarrow> nat \<Rightarrow> nat \<Rightarrow> char res" where
  "immediate_type_loop s i 0 = Inr (CHR 0x00)"
| "immediate_type_loop s i (Suc n) =
    (if length (operands s) \<le> i then Inl OutOfBounds
     else if code (operands s ! i) \<in> set ''JIO'' then Inr (type (operands s ! i))
     else immediate_type_loop s (i + 1) n)"

definition x86_insn_immediate_type :: "x86_insn_spec \<Rightarrow> char res" where
  "x86_insn_immediate_type s = immediate_type_loop s 0 6"

definition x86_insn_has_immediate :: "x86_insn_spec \<Rightarrow> bool" where
  "x86_insn_has_immediate s \<longleftrightarrow>
    list_ex (\<lambda>i. code (operands s ! i) \<in> set ''JIO'') [0, 1, 2]"

definition x86_insn_decode_number :: "x86_insn_reader \<Rightarrow> u8 \<Rightarrow> (u64 \<times> x86_insn_reader) res" where
  "x86_insn_decode_number rd number_bits =
    (if number_bits = 64 then read_qword rd
     else if number_bits = 32 then rbind (read_dword rd) (\<lambda>(v, rd'). Inr (ucast v, rd'))
     else if number_bits = 16 then rbind (read_word rd) (\<lambda>(v, rd'). Inr (ucast v, rd'))
     else if number_bits = 8 then rbind (read_byte rd) (\<lambda>(v, rd'). Inr (ucast v, rd'))
     else Inl Unreachable)"

section \<open>ModRM, SIB and displacement\<close>

definition effective_address_bits :: "x86_options \<Rightarrow> x86_insn_decode_t \<Rightarrow> u8 res" where
  "effective_address_bits conf insn =
    (if mode conf = 64
     then Inr (if insn_prefix insn AND INSN_PREFIX_ADDRESS_SIZE \<noteq> 0 then 32 else 64)
     else if mode conf = 32
     then Inr (if insn_prefix insn AND INSN_PREFIX_ADDRESS_SIZE \<noteq> 0 then 16 else 32)
     else Inl Fatal)"

abbreviation upd_mem :: "(x86_insn_mem \<Rightarrow> x86_insn_mem) \<Rightarrow> x86_insn_decode_t \<Rightarrow> x86_insn_decode_t" where
  "upd_mem f insn \<equiv> insn\<lparr>mem_op := (mem_op insn)\<lparr>mem := f (mem (mem_op insn))\<rparr>\<rparr>"

abbreviation upd_flags :: "(u32 \<Rightarrow> u32) \<Rightarrow> x86_insn_decode_t \<Rightarrow> x86_insn_decode_t" where
  "upd_flags f insn \<equiv> insn\<lparr>insn_flags := f (insn_flags insn)\<rparr>"

text \<open>The \<open>has_sib\<close> block: it takes and returns \<open>disp_bits\<close>.\<close>

definition decode_sib ::
  "x86_insn_reader \<Rightarrow> x86_insn_decode_t \<Rightarrow> u8 \<Rightarrow> u8 \<Rightarrow> u8 \<Rightarrow> (u8 \<times> x86_insn_reader \<times> x86_insn_decode_t) res" where
  "decode_sib rd insn ea_bits md disp_bits =
    rbind (read_byte rd) (\<lambda>(b, rd).
     let insn = insn\<lparr>sib := b\<rparr>;
         base1 = sib_base b OR push_bit 3 (REX_B (rex insn));
         index1 = sib_index b OR push_bit 3 (REX_X (rex insn));
         scale1 = push_bit (unat (sib_log2_scale b)) 1;
         insn = upd_flags (\<lambda>f. f OR X86_INSN_DECODE_FLAG_HAS_BASE) insn;
         insn = (if sib_index b \<noteq> X86_INSN_GP_REG GP_SP
                 then upd_flags (\<lambda>f. f OR X86_INSN_DECODE_FLAG_HAS_INDEX) insn else insn);
         insn = upd_mem (\<lambda>m. m\<lparr>base := base1, index := index1, scale := scale1\<rparr>) insn;
         insn = (if sib_index b = X86_INSN_GP_REG GP_SP
                 then upd_mem (\<lambda>m. m\<lparr>index := ia32e_code RNone, scale := 0\<rparr>) insn else insn);
         special = (if ea_bits = 64 then base1 = ia32e_code RBP \<or> base1 = ia32e_code R13
                    else ea_bits = 32 \<and> base1 = ia32e_code RBP);
         insn = (if special \<and> md = 0 then upd_mem (\<lambda>m. m\<lparr>base := ia32e_code RNone\<rparr>) insn else insn);
         disp_bits = (if special then if md = 1 then 8 else 32 else disp_bits);
         insn = (if ea_bits = 64 \<and> sib_index b \<noteq> X86_INSN_GP_REG GP_SP
                 then upd_flags (\<lambda>f. f OR X86_INSN_DECODE_FLAG_HAS_INDEX) insn else insn)
     in Inr (disp_bits, rd, insn))"

text \<open>The 32- and 64-bit addressing block.\<close>

definition decode_address32_64 ::
  "x86_insn_reader \<Rightarrow> x86_insn_decode_t \<Rightarrow> u8 \<Rightarrow> u8 \<Rightarrow> u8 \<Rightarrow> (u8 \<times> x86_insn_reader \<times> x86_insn_decode_t) res" where
  "decode_address32_64 rd insn ea_bits md rm =
    (let insn = upd_mem (\<lambda>m. m\<lparr>base := rm\<rparr>) insn;
         insn = upd_flags (\<lambda>f. f OR X86_INSN_DECODE_FLAG_HAS_BASE) insn;
         ip_relative = (md = 0 \<and> rm AND 7 = 5);
         insn = (if ip_relative
                 then upd_mem (\<lambda>m. m\<lparr>base := ia32e_code RIP\<rparr>)
                        (insn\<lparr>insn_flags := X86_INSN_DECODE_FLAG_IP_RELATIVE\<rparr>)
                 else insn);
         disp_bits = (if ip_relative then 32 else if md = 0 then 0 else if md = 1 then 8
                      else if md = 2 then 32 else 0)
     in if rm AND 7 = 4 then decode_sib rd insn ea_bits md disp_bits
        else Inr (disp_bits, rd, insn))"

text \<open>
  The 16-bit addressing block: with \<open>mode\<close> 0 and \<open>rm\<close> other than 6, \<open>disp_bits\<close> keeps its initial value.
\<close>

definition address16_regs :: "x86_insn_decode_t \<Rightarrow> u8 \<Rightarrow> x86_insn_decode_t" where
  "address16_regs insn rm =
    (let both = X86_INSN_DECODE_FLAG_HAS_BASE OR X86_INSN_DECODE_FLAG_HAS_INDEX in
     if rm = 0 \<or> rm = 1 then
       upd_flags (\<lambda>f. f OR both) (upd_mem (\<lambda>m. m\<lparr>base := X86_INSN_GP_REG GP_BX,
         index := X86_INSN_GP_REG GP_SI + (rm AND 1)\<rparr>) insn)
     else if rm = 2 \<or> rm = 3 then
       upd_flags (\<lambda>f. f OR both) (upd_mem (\<lambda>m. m\<lparr>base := X86_INSN_GP_REG GP_BP,
         index := X86_INSN_GP_REG GP_SI + (rm AND 1)\<rparr>) insn)
     else if rm = 4 \<or> rm = 5 then
       upd_flags (\<lambda>f. f OR X86_INSN_DECODE_FLAG_HAS_BASE)
         (upd_mem (\<lambda>m. m\<lparr>base := X86_INSN_GP_REG GP_SI + (rm AND 1)\<rparr>) insn)
     else if rm = 6 then
       upd_flags (\<lambda>f. f OR X86_INSN_DECODE_FLAG_HAS_BASE)
         (upd_mem (\<lambda>m. m\<lparr>base := X86_INSN_GP_REG GP_BP\<rparr>) insn)
     else
       upd_flags (\<lambda>f. f OR X86_INSN_DECODE_FLAG_HAS_BASE)
         (upd_mem (\<lambda>m. m\<lparr>base := X86_INSN_GP_REG GP_BX\<rparr>) insn))"

definition decode_address16 :: "x86_insn_decode_t \<Rightarrow> u8 \<Rightarrow> u8 \<Rightarrow> u8 \<times> x86_insn_decode_t" where
  "decode_address16 insn mrm disp_bits =
    (if modrm_mode mrm = 0 \<and> modrm_rm mrm = 6 then (16, insn)
     else (if modrm_mode mrm \<noteq> 0 then if modrm_mode mrm = 1 then 8 else 16 else disp_bits,
           address16_regs insn (modrm_rm mrm)))"

definition decode_disp ::
  "x86_insn_reader \<Rightarrow> x86_insn_decode_t \<Rightarrow> u8 \<Rightarrow> (x86_insn_reader \<times> x86_insn_decode_t) res" where
  "decode_disp rd insn disp_bits =
    (if disp_bits \<noteq> 0
     then rbind (reader_offset rd) (\<lambda>off.
          rbind (x86_insn_decode_number rd disp_bits) (\<lambda>(v, rd).
          Inr (rd, upd_mem (\<lambda>m. m\<lparr>disp := ucast v\<rparr>) (insn\<lparr>displacement_offset := ucast off\<rparr>))))
     else Inr (rd, insn))"

definition x86_insn_decode_modrm_sib ::
  "x86_insn_reader \<Rightarrow> x86_insn_decode_t \<Rightarrow> x86_options \<Rightarrow> (x86_insn_reader \<times> x86_insn_decode_t) res" where
  "x86_insn_decode_modrm_sib rd insn conf =
    rbind (read_byte rd) (\<lambda>(mrm, rd).
     let insn = insn\<lparr>modrm := mrm\<rparr>;
         md = modrm_mode mrm;
         rm = push_bit 3 (REX_B (rex insn)) OR modrm_rm mrm;
         rg = push_bit 3 (REX_R (rex insn)) OR modrm_reg mrm;
         insn = insn\<lparr>reg_op := (reg_op insn)\<lparr>reg := rg\<rparr>\<rparr>
     in if md = 3 then Inr (rd, insn\<lparr>mem_op := (mem_op insn)\<lparr>reg := rm\<rparr>\<rparr>)
        else let disp_bits = - 1;
                 insn = upd_flags (\<lambda>f. f OR X86_INSN_DECODE_FLAG_IS_ADDRESS) insn
             in rbind (effective_address_bits conf insn) (\<lambda>ea_bits.
                rbind (if ea_bits = 32 \<or> ea_bits = 64
                       then decode_address32_64 rd insn ea_bits md rm
                       else Inr (disp_bits, rd, insn)) (\<lambda>(disp_bits, rd, insn).
                let (disp_bits, insn) =
                      (if ea_bits = 16 then decode_address16 insn mrm disp_bits else (disp_bits, insn))
                in decode_disp rd insn disp_bits)))"

section \<open>Opcode\<close>

definition group_lookup :: "nat \<Rightarrow> nat \<Rightarrow> x86_insn_spec res" where
  "group_lookup g i =
    (if g < length x86_insn_modrm_reg_groups \<and> i < length (x86_insn_modrm_reg_groups ! g)
     then Inr (x86_insn_modrm_reg_groups ! g ! i) else Inl OutOfBounds)"

definition x86_insn_decode_opcode ::
  "x86_insn_reader \<Rightarrow> x86_insn_decode_t \<Rightarrow> (x86_insn_reader \<times> x86_insn_decode_t) res" where
  "x86_insn_decode_opcode rd insn =
    rbind (read_byte rd) (\<lambda>(opcode, rd).
    rbind (if opcode = 0x0f
           then rbind (read_byte rd) (\<lambda>(opcode, rd).
                  Inr (opcode, x86_opcode_map_two_byte ! unat opcode, rd))
           else Inr (opcode, x86_opcode_map_one_byte ! unat opcode, rd)) (\<lambda>(opcode, spec, rd).
     let g = X86_INSN_FLAG_GET_GROUP (flags spec) in
     if X86_INSN_SSE_GROUP_START < g then Inl Unimplemented
     else rbind (if X86_INSN_GROUP_START < g \<and> g < X86_INSN_SSE_GROUP_START
                 then rbind (peek_byte rd) (\<lambda>mrm.
                      rbind (group_lookup g (unat (modrm_reg mrm))) (\<lambda>group_insn.
                      Inr (spec\<lparr>name := name group_insn, flags := flags group_insn\<rparr>)))
                 else Inr spec) (\<lambda>spec.
          Inr (rd, insn\<lparr>primary_opcode := opcode, insn_spec := spec\<rparr>))))"

section \<open>Immediate\<close>

definition x86_insn_imm_bits :: "x86_insn_spec \<Rightarrow> u8 \<Rightarrow> u8 res" where
  "x86_insn_imm_bits s operand_bits =
    rbind (x86_insn_immediate_type s) (\<lambda>t.
     Inr (if t = CHR ''b'' then 8 else if t = CHR ''w'' then 16 else if t = CHR ''d'' then 32
          else if t = CHR ''q'' then 64
          else if t = CHR ''z'' then (if operand_bits = 64 then 32 else operand_bits)
          else if t = CHR ''v'' then operand_bits else 0))"

text \<open>\<open>effective_operand_bits\<close> has no initialiser; \<open>None\<close> while no path has assigned it.\<close>

definition effective_operand_bits :: "x86_options \<Rightarrow> x86_insn_decode_t \<Rightarrow> u8 option" where
  "effective_operand_bits conf insn =
    (let b = (if mode conf = 64 \<or> mode conf = 32
              then Some (if insn_prefix insn AND INSN_PREFIX_OPERAND_SIZE \<noteq> 0 then 16 else 32)
              else None);
         b = (if insn_flags insn AND X86_INSN_DECODE_FLAG_OPERAND_SIZE_64 \<noteq> 0 then Some 64 else b)
     in if mode conf = 64 \<and> flags (insn_spec insn) AND X86_INSN_SPEC_DEFAULT_64_BIT \<noteq> 0
        then Some 64 else b)"

definition x86_insn_decode_immediate ::
  "x86_insn_reader \<Rightarrow> x86_insn_decode_t \<Rightarrow> x86_options \<Rightarrow> (x86_insn_reader \<times> x86_insn_decode_t) res" where
  "x86_insn_decode_immediate rd insn conf =
    (case effective_operand_bits conf insn of
       None \<Rightarrow> Inl Uninitialized
     | Some operand_bits \<Rightarrow>
         rbind (x86_insn_imm_bits (insn_spec insn) operand_bits) (\<lambda>imm_bits.
         if imm_bits = 0 then Inr (rd, insn)
         else rbind (reader_offset rd) (\<lambda>off.
              rbind (x86_insn_decode_number rd imm_bits) (\<lambda>(v, rd).
              Inr (rd, insn\<lparr>immediate_offset := ucast off, immediate := v\<rparr>)))))"

section \<open>The decoder\<close>

definition x86_insn_decode :: "x86_insn_decode_t \<Rightarrow> u8 list \<Rightarrow> x86_options \<Rightarrow> x86_insn_decode_t res" where
  "x86_insn_decode insn buffer conf =
    rbind (init_reader buffer 15) (\<lambda>rd.
    rbind (x86_insn_decode_prefix rd insn conf) (\<lambda>(pfx, rd, insn).
    let insn = insn\<lparr>insn_prefix := pfx\<rparr> in
    rbind (x86_insn_decode_opcode rd insn) (\<lambda>(rd, insn).
    rbind (if x86_insn_has_modrm_byte (insn_spec insn)
           then x86_insn_decode_modrm_sib rd insn conf else Inr (rd, insn)) (\<lambda>(rd, insn).
    rbind (if x86_insn_has_immediate (insn_spec insn)
           then x86_insn_decode_immediate rd insn conf else Inr (rd, insn)) (\<lambda>(rd, insn).
    rbind (reader_offset rd) (\<lambda>len. Inr (insn\<lparr>insn_length := len\<rparr>)))))))"

end
