(* ===== verification/X86DecodeCorrect.thy ===== *)
theory X86DecodeCorrect
  imports X86Decode
begin

text \<open>
  What the x86 decoder computes, stated on the bytes of the instruction alone: the prefix bytes,
  the table entry, the number of address bytes and immediate bytes. Each stage of the decoder is
  shown to return and to move the reader by exactly that many bytes, and the stages are put
  together in \<open>decode_ok\<close>: a decode in 64-bit mode returns, with a known length, unless
  the opcode belongs to an SSE group.
\<close>

section \<open>Prefixes\<close>

text \<open>
  The prefix bytes of an instruction, read off the code directly: the legacy prefixes at the
  front, and in 64-bit mode a REX byte behind them.
\<close>

definition is_rex :: "x86_options \<Rightarrow> u8 \<Rightarrow> bool" where
  "is_rex conf c \<longleftrightarrow> mode conf = 64 \<and> 0x40 \<le> c \<and> c \<le> 0x4f"

definition legacy_bytes :: "u8 list \<Rightarrow> u8 list" where
  "legacy_bytes bs = takeWhile (\<lambda>c. legacy_prefix c \<noteq> 0) bs"

definition rex_byte :: "x86_options \<Rightarrow> u8 list \<Rightarrow> u8 option" where
  "rex_byte conf bs =
    (case drop (length (legacy_bytes bs)) bs of
       c # _ \<Rightarrow> if is_rex conf c then Some c else None
     | [] \<Rightarrow> None)"

definition prefix_len :: "x86_options \<Rightarrow> u8 list \<Rightarrow> nat" where
  "prefix_len conf bs = length (legacy_bytes bs) + (if rex_byte conf bs = None then 0 else 1)"

definition set_rex :: "u8 option \<Rightarrow> x86_insn_decode_t \<Rightarrow> x86_insn_decode_t" where
  "set_rex r insn = (case r of None \<Rightarrow> insn
    | Some b \<Rightarrow> insn\<lparr>insn_flags := (if REX_W b \<noteq> 0
        then insn_flags insn OR X86_INSN_DECODE_FLAG_OPERAND_SIZE_64 else insn_flags insn), rex := b\<rparr>)"

definition prefix_mask :: "u8 list \<Rightarrow> u32" where
  "prefix_mask bs = foldr (\<lambda>c m. legacy_prefix c OR m) bs 0"

lemma legacy_not_rex: "is_rex conf c \<Longrightarrow> legacy_prefix c = 0"
  by (auto simp: is_rex_def legacy_prefix_def)

lemma sentinel [simp]: "legacy_prefix 0xcc = 0" "\<not> is_rex conf 0xcc"
  by (simp_all add: legacy_prefix_def is_rex_def)

lemma legacy_bytes_simps [simp]:
  "legacy_bytes [] = []"
  "legacy_bytes (c # cs) = (if legacy_prefix c \<noteq> 0 then c # legacy_bytes cs else [])"
  by (simp_all add: legacy_bytes_def)

lemma prefix_mask_simps [simp]:
  "prefix_mask [] = 0" "prefix_mask (c # cs) = legacy_prefix c OR prefix_mask cs"
  by (simp_all add: prefix_mask_def)

lemma rex_byte_simps [simp]:
  "rex_byte conf [] = None"
  "rex_byte conf (c # cs) =
    (if legacy_prefix c \<noteq> 0 then rex_byte conf cs else if is_rex conf c then Some c else None)"
  by (simp_all add: rex_byte_def)

lemma prefix_len_simps [simp]:
  "prefix_len conf [] = 0"
  "prefix_len conf (c # cs) =
    (if legacy_prefix c \<noteq> 0 then 1 + prefix_len conf cs else if is_rex conf c then 1 else 0)"
  by (simp_all add: prefix_len_def)

lemma prefix_len_le: "prefix_len conf bs \<le> length bs"
  by (induction bs) simp_all

lemma decode_prefix_loop_eq:
  assumes "rest rd = bs @ 0xcc # cs"
  shows "decode_prefix_loop conf rd insn acc =
    Inr (acc OR prefix_mask (legacy_bytes bs), forward rd (prefix_len conf bs),
         set_rex (rex_byte conf bs) insn)"
  using assms
proof (induction bs arbitrary: rd acc)
  case Nil
  then have "rest rd = 0xcc # cs" by simp
  note rest_ConsD [OF this]
  then show ?case
    by (subst decode_prefix_loop.simps)
      (simp add: peek_byte_eq read_byte_eq set_rex_def Let_def flip: is_rex_def)
next
  case (Cons b bs)
  then have "rest rd = b # bs @ 0xcc # cs" by simp
  note rd = rest_ConsD [OF this]
  show ?case
    by (subst decode_prefix_loop.simps)
      (auto simp: rd Cons.IH [OF rd(3)] peek_byte_eq read_byte_eq set_rex_def Let_def or.assoc
        legacy_not_rex simp del: rest_forward One_nat_def simp flip: is_rex_def)
qed

section \<open>Opcode\<close>

definition opcode_len :: "u8 \<Rightarrow> nat" where
  "opcode_len op = (if op = 0x0f then 2 else 1)"

definition raw_spec :: "u8 \<Rightarrow> u8 \<Rightarrow> x86_insn_spec" where
  "raw_spec op b = (if op = 0x0f then x86_opcode_map_two_byte ! unat b
                    else x86_opcode_map_one_byte ! unat op)"

definition spec_group :: "x86_insn_spec \<Rightarrow> nat" where
  "spec_group s = X86_INSN_FLAG_GET_GROUP (flags s)"

definition group_entry :: "x86_insn_spec \<Rightarrow> u8 \<Rightarrow> x86_insn_spec" where
  "group_entry s mrm =
    (if 0 < spec_group s \<and> spec_group s < 19
     then s\<lparr>name := name (x86_insn_modrm_reg_groups ! spec_group s ! unat (modrm_reg mrm)),
            flags := flags (x86_insn_modrm_reg_groups ! spec_group s ! unat (modrm_reg mrm))\<rparr>
     else s)"

lemma unat_u8_less [simp]: "unat (b :: u8) < 256"
  using unsigned_less [of b] by simp

lemma raw_spec_wf: "spec_wf (raw_spec op b)"
  using one_byte_wf two_byte_wf by (simp add: raw_spec_def list_all_length)

lemma operands_group_entry [simp]: "operands (group_entry s mrm) = operands s"
  by (simp add: group_entry_def)

lemma group_row:
  assumes "0 < g" "g < 19"
  shows "length (x86_insn_modrm_reg_groups ! g) = 8" "list_all spec_wf (x86_insn_modrm_reg_groups ! g)"
proof -
  have "x86_insn_modrm_reg_groups ! g = tl x86_insn_modrm_reg_groups ! (g - 1)"
    using assms by (simp add: nth_tl)
  with assms modrm_reg_groups_wf
  show "length (x86_insn_modrm_reg_groups ! g) = 8" "list_all spec_wf (x86_insn_modrm_reg_groups ! g)"
    by (simp_all add: list_all_length)
qed

lemma decode_opcode_eq:
  assumes "3 \<le> avail rd"
  shows "x86_insn_decode_opcode rd insn =
    (let op = ahead rd 0; raw = raw_spec op (ahead rd 1); n = opcode_len op in
     if 19 < spec_group raw then Inl Unimplemented
     else Inr (forward rd n, insn\<lparr>primary_opcode := ahead rd (n - 1),
            insn_spec := group_entry raw (ahead rd n)\<rparr>))"
proof -
  define op where "op = ahead rd 0"
  define raw where "raw = raw_spec op (ahead rd 1)"
  define n where "n = opcode_len op"
  have n: "n < avail rd" "0 < n"
    using assms by (simp_all add: n_def opcode_len_def)
  have fetched: "x86_insn_decode_opcode rd insn =
      (if 19 < spec_group raw then Inl Unimplemented
       else rbind (if 0 < spec_group raw \<and> spec_group raw < 19
                   then rbind (group_lookup (spec_group raw) (unat (modrm_reg (ahead rd n))))
                        (\<lambda>e. Inr (raw\<lparr>name := name e, flags := flags e\<rparr>))
                   else Inr raw) (\<lambda>spec.
            Inr (forward rd n, insn\<lparr>primary_opcode := ahead rd (n - 1), insn_spec := spec\<rparr>)))"
    using assms n
    by (simp add: x86_insn_decode_opcode_def read_byte_eq peek_byte_eq Let_def opcode_len_def
        raw_spec_def spec_group_def op_def raw_def n_def X86_INSN_SSE_GROUP_START_def
        X86_INSN_GROUP_START_def numeral_2_eq_2)
  have "group_lookup (spec_group raw) (unat (modrm_reg (ahead rd n))) =
      Inr (x86_insn_modrm_reg_groups ! spec_group raw ! unat (modrm_reg (ahead rd n)))"
    if "0 < spec_group raw" "spec_group raw < 19"
    using that by (simp add: group_lookup_def group_row)
  then show ?thesis
    unfolding fetched Let_def op_def [symmetric] raw_def [symmetric] n_def [symmetric] group_entry_def
    by auto
qed

section \<open>ModRM\<close>

definition sib_special :: "u8 \<Rightarrow> u8 \<Rightarrow> u8 \<Rightarrow> bool" where
  "sib_special ea r s \<longleftrightarrow>
    (let b = sib_base s OR push_bit 3 (REX_B r) in b = 7 \<or> ea = 64 \<and> b = 14)"

definition disp_len :: "u8 \<Rightarrow> u8 \<Rightarrow> u8 \<Rightarrow> u8 \<Rightarrow> nat" where
  "disp_len ea r mrm s =
    (if modrm_mode mrm = 0
     then if modrm_rm mrm = 5 \<or> modrm_rm mrm = 4 \<and> sib_special ea r s then 4 else 0
     else if modrm_mode mrm = 1 then 1 else 4)"

definition modrm_len :: "u8 \<Rightarrow> u8 \<Rightarrow> u8 \<Rightarrow> u8 \<Rightarrow> nat" where
  "modrm_len ea r mrm s =
    (if modrm_mode mrm = 3 then 1
     else 1 + (if modrm_rm mrm = 4 then 1 else 0) + disp_len ea r mrm s)"

lemma modrm_len_bounds: "1 \<le> modrm_len ea r mrm s" "modrm_len ea r mrm s \<le> 6"
  by (simp_all add: modrm_len_def disp_len_def)

lemma rm_low [simp]: "(push_bit 3 x OR modrm_rm b) AND 7 = modrm_rm b"
proof -
  have 7: "y AND 7 = take_bit 3 y" for y :: u8
    by (simp add: take_bit_eq_mask mask_eq_decr_exp)
  show ?thesis
    unfolding modrm_rm_def 7 by (rule bit_word_eqI) (auto simp: bit_simps)
qed

lemma mode_cases:
  assumes "modrm_mode b \<noteq> 3"
  obtains "modrm_mode b = 0" | "modrm_mode b = 1" | "modrm_mode b = 2"
proof -
  have "unat (modrm_mode b) < 4" using modrm_bounds(3) [of b] by (simp add: word_less_nat_alt)
  with assms consider "unat (modrm_mode b) = 0" | "unat (modrm_mode b) = 1" | "unat (modrm_mode b) = 2"
    by (fastforce simp: word_unat_eq_iff)
  then show thesis
    by cases (simp_all add: that word_unat_eq_iff)
qed

text \<open>What decoding the operands leaves alone.\<close>

definition same_insn :: "x86_insn_decode_t \<Rightarrow> x86_insn_decode_t \<Rightarrow> bool" where
  "same_insn i j \<longleftrightarrow> insn_spec i = insn_spec j \<and> insn_prefix i = insn_prefix j \<and>
     rex i = rex j \<and> primary_opcode i = primary_opcode j"

lemma decode_disp_ok:
  assumes "rd_own rd" "b \<in> {0, 8, 16, 32}" "unat b div 8 \<le> avail rd"
  shows "\<exists>insn'. decode_disp rd insn b = Inr (forward rd (unat b div 8), insn') \<and>
    same_insn insn' insn \<and> insn_flags insn' = insn_flags insn"
  using assms
  by (auto simp: decode_disp_def reader_offset_def x86_insn_decode_number_def reader_eqs same_insn_def)

lemma decode_sib_ok:
  assumes "ea = 32 \<or> ea = 64" "0 < avail rd"
  shows "\<exists>insn'. decode_sib rd insn ea md db =
     Inr (if sib_special ea (rex insn) (ahead rd 0) then if md = 1 then 8 else 32 else db,
          forward rd 1, insn') \<and>
     same_insn insn' insn \<and>
     insn_flags insn' AND X86_INSN_DECODE_FLAG_OPERAND_SIZE_64 = insn_flags insn AND X86_INSN_DECODE_FLAG_OPERAND_SIZE_64"
  using assms
  by (auto simp: decode_sib_def read_byte_eq same_insn_def sib_special_def Let_def
     decode_flag_defs bit.conj_disj_distrib2)

text \<open>
  Operand size 64 survives the address bytes, except that an IP-relative address overwrites all
  flags.
\<close>

definition rip_relative :: "u8 \<Rightarrow> bool" where
  "rip_relative mrm \<longleftrightarrow> modrm_mode mrm = 0 \<and> modrm_rm mrm = 5"

abbreviation size64 :: "x86_insn_decode_t \<Rightarrow> bool" where
  "size64 insn \<equiv> insn_flags insn AND X86_INSN_DECODE_FLAG_OPERAND_SIZE_64 \<noteq> 0"

lemma size64_or [simp]:
  "(f OR X86_INSN_DECODE_FLAG_HAS_BASE) AND X86_INSN_DECODE_FLAG_OPERAND_SIZE_64 =
    f AND X86_INSN_DECODE_FLAG_OPERAND_SIZE_64"
  "(f OR X86_INSN_DECODE_FLAG_HAS_INDEX) AND X86_INSN_DECODE_FLAG_OPERAND_SIZE_64 =
    f AND X86_INSN_DECODE_FLAG_OPERAND_SIZE_64"
  "(f OR X86_INSN_DECODE_FLAG_IS_ADDRESS) AND X86_INSN_DECODE_FLAG_OPERAND_SIZE_64 =
    f AND X86_INSN_DECODE_FLAG_OPERAND_SIZE_64"
  "X86_INSN_DECODE_FLAG_IP_RELATIVE AND X86_INSN_DECODE_FLAG_OPERAND_SIZE_64 = 0"
  by (simp_all add: decode_flag_defs bit.conj_disj_distrib2)

lemma decode_address_ok:
  assumes "ea = 32 \<or> ea = 64" "modrm_mode mrm \<noteq> 3" "modrm_rm mrm = 4 \<Longrightarrow> 0 < avail rd"
  shows "\<exists>db insn'. decode_address32_64 rd insn ea (modrm_mode mrm) (push_bit 3 x OR modrm_rm mrm) =
     Inr (db, forward rd (if modrm_rm mrm = 4 then 1 else 0), insn') \<and>
     db \<in> {0, 8, 16, 32} \<and> unat db div 8 = disp_len ea (rex insn) mrm (ahead rd 0) \<and>
     same_insn insn' insn \<and> (size64 insn' \<longleftrightarrow> size64 insn \<and> \<not> rip_relative mrm)"
proof (cases "modrm_rm mrm = 4")
  case True
  let ?i = "insn\<lparr>mem_op := (mem_op insn)\<lparr>mem := (mem (mem_op insn))\<lparr>base := push_bit 3 x OR modrm_rm mrm\<rparr>\<rparr>,
    insn_flags := insn_flags insn OR X86_INSN_DECODE_FLAG_HAS_BASE\<rparr>"
  let ?db = "if modrm_mode mrm = 0 then 0 else if modrm_mode mrm = 1 then 8 else if modrm_mode mrm = 2 then 32 else 0 :: u8"
  obtain insn' where *: "decode_sib rd ?i ea (modrm_mode mrm) ?db =
     Inr (if sib_special ea (rex ?i) (ahead rd 0) then if modrm_mode mrm = 1 then 8 else 32 else ?db,
          forward rd 1, insn')" "same_insn insn' ?i"
     "insn_flags insn' AND X86_INSN_DECODE_FLAG_OPERAND_SIZE_64 = insn_flags ?i AND X86_INSN_DECODE_FLAG_OPERAND_SIZE_64"
    using decode_sib_ok [OF assms(1) assms(3) [OF True], of ?i "modrm_mode mrm" ?db] by blast
  have "decode_address32_64 rd insn ea (modrm_mode mrm) (push_bit 3 x OR modrm_rm mrm) =
    decode_sib rd ?i ea (modrm_mode mrm) ?db"
    using True rm_low [of x mrm] by (simp add: decode_address32_64_def Let_def)
  with * True show ?thesis
    by (cases rule: mode_cases [OF assms(2)]) (auto simp: disp_len_def same_insn_def rip_relative_def)
next
  case False
  with assms(1) show ?thesis
    by (cases rule: mode_cases [OF assms(2)])
      (auto simp: decode_address32_64_def Let_def disp_len_def same_insn_def rip_relative_def)
qed

lemma decode_modrm_ok:
  assumes "effective_address_bits conf insn = Inr ea" "ea = 32 \<or> ea = 64" "rd_own rd"
    and "modrm_len ea (rex insn) (ahead rd 0) (ahead rd 1) \<le> avail rd"
  shows "\<exists>insn'. x86_insn_decode_modrm_sib rd insn conf =
      Inr (forward rd (modrm_len ea (rex insn) (ahead rd 0) (ahead rd 1)), insn') \<and>
     same_insn insn' insn \<and> (size64 insn' \<longleftrightarrow> size64 insn \<and> \<not> rip_relative (ahead rd 0))"
proof (cases "modrm_mode (ahead rd 0) = 3")
  case True
  with assms show ?thesis
    by (auto simp: x86_insn_decode_modrm_sib_def read_byte_eq Let_def modrm_len_def same_insn_def rip_relative_def)
next
  case False
  let ?m = "ahead rd 0"
  let ?i = "insn\<lparr>modrm := ?m, reg_op := (reg_op insn)\<lparr>reg := push_bit 3 (REX_R (rex insn)) OR modrm_reg ?m\<rparr>,
    insn_flags := insn_flags insn OR X86_INSN_DECODE_FLAG_IS_ADDRESS\<rparr>"
  have "effective_address_bits conf ?i = effective_address_bits conf insn"
    by (simp add: effective_address_bits_def)
  with assms(1,2) have ea: "effective_address_bits conf ?i = Inr ea" "ea \<noteq> 16"
    by auto
  have av: "0 < avail rd" "modrm_rm ?m = 4 \<Longrightarrow> 0 < avail (forward rd 1)"
    using assms(4) False by (auto simp: modrm_len_def)
  obtain db i1 where 1: "decode_address32_64 (forward rd 1) ?i ea (modrm_mode ?m)
        (push_bit 3 (REX_B (rex insn)) OR modrm_rm ?m) =
      Inr (db, forward (forward rd 1) (if modrm_rm ?m = 4 then 1 else 0), i1)"
     "db \<in> {0, 8, 16, 32}" "unat db div 8 = disp_len ea (rex insn) ?m (ahead rd 1)"
     "same_insn i1 ?i" "size64 i1 \<longleftrightarrow> size64 insn \<and> \<not> rip_relative ?m"
    using decode_address_ok [OF assms(2) False av(2), of "?i" "REX_B (rex insn)"] by auto
  let ?rd = "forward (forward rd 1) (if modrm_rm ?m = 4 then 1 else 0)"
  have "unat db div 8 \<le> avail ?rd"
    using assms(4) False 1(3) by (auto simp: modrm_len_def)
  then obtain i2 where 2: "decode_disp ?rd i1 db = Inr (forward ?rd (unat db div 8), i2)"
     "same_insn i2 i1" "insn_flags i2 = insn_flags i1"
    using decode_disp_ok [of ?rd db i1] 1(2) assms(3) by auto
  have "x86_insn_decode_modrm_sib rd insn conf = decode_disp ?rd i1 db"
    using av(1) False ea 1(1) assms(2)
    by (simp add: x86_insn_decode_modrm_sib_def read_byte_eq Let_def)
  moreover have "modrm_len ea (rex insn) ?m (ahead rd 1) =
      1 + (if modrm_rm ?m = 4 then 1 else 0) + unat db div 8"
    using False 1(3) by (simp add: modrm_len_def)
  ultimately show ?thesis
    using 1 2 by (auto simp: same_insn_def)
qed

section \<open>Immediate\<close>

text \<open>
  The operand that carries the immediate is found before the loop leaves the array whenever
  \<open>x86_insn_has_immediate\<close> holds.
\<close>

definition imm_type :: "x86_insn_spec \<Rightarrow> char" where
  "imm_type s = (case filter (\<lambda>p. code p \<in> set ''JIO'') (operands s) of
     [] \<Rightarrow> CHR 0x00 | p # _ \<Rightarrow> type p)"

lemma length_3_cases: "length xs = 3 \<Longrightarrow> (\<And>a b c. xs = [a, b, c] \<Longrightarrow> P) \<Longrightarrow> P"
  by (auto simp: length_Suc_conv numeral_3_eq_3)

lemma immediate_type_ok:
  assumes "length (operands s) = 3" "x86_insn_has_immediate s"
  shows "x86_insn_immediate_type s = Inr (imm_type s)"
  using assms(1)
proof (rule length_3_cases)
  fix a b c assume "operands s = [a, b, c]"
  with assms(2) show ?thesis
    by (auto simp: x86_insn_immediate_type_def x86_insn_has_immediate_def imm_type_def numeral_eq_Suc)
qed

definition imm_bits :: "x86_insn_spec \<Rightarrow> u8 \<Rightarrow> u8" where
  "imm_bits s ob = (let t = imm_type s in
     if t = CHR ''b'' then 8 else if t = CHR ''w'' then 16 else if t = CHR ''d'' then 32
     else if t = CHR ''q'' then 64 else if t = CHR ''z'' then (if ob = 64 then 32 else ob)
     else if t = CHR ''v'' then ob else 0)"

text \<open>A 64-bit immediate needs eight bytes and consumes four.\<close>

definition imm_need :: "u8 \<Rightarrow> nat" where
  "imm_need b = unat b div 8"

definition imm_len :: "u8 \<Rightarrow> nat" where
  "imm_len b = (if b = 64 then 4 else unat b div 8)"

lemma decode_immediate_ok:
  assumes "length (operands (insn_spec insn)) = 3" "x86_insn_has_immediate (insn_spec insn)"
    and "effective_operand_bits conf insn = Some ob" "ob \<in> {16, 32, 64}" "rd_own rd"
    and "imm_need (imm_bits (insn_spec insn) ob) \<le> avail rd"
  shows "\<exists>insn'. x86_insn_decode_immediate rd insn conf =
     Inr (forward rd (imm_len (imm_bits (insn_spec insn) ob)), insn') \<and> same_insn insn' insn"
proof -
  let ?b = "imm_bits (insn_spec insn) ob"
  have bits: "x86_insn_imm_bits (insn_spec insn) ob = Inr ?b"
    by (simp add: x86_insn_imm_bits_def immediate_type_ok [OF assms(1,2)] imm_bits_def Let_def)
  have "?b \<in> {0, 8, 16, 32, 64}"
    using assms(4) by (auto simp: imm_bits_def Let_def)
  then consider "?b = 0" | "?b = 8" | "?b = 16" | "?b = 32" | "?b = 64" by blast
  then show ?thesis
    using assms(3,5,6) bits
    by cases (simp_all add: x86_insn_decode_immediate_def reader_offset_def x86_insn_decode_number_def
        reader_eqs imm_need_def imm_len_def same_insn_def)
qed

definition max_imm :: "x86_insn_spec \<Rightarrow> nat" where
  "max_imm s = (if \<not> x86_insn_has_immediate s then 0 else
     let t = imm_type s in
     if t = CHR ''b'' then 1 else if t = CHR ''w'' then 2 else if t = CHR ''d'' then 4
     else if t = CHR ''z'' then 4 else 8)"

definition max_operand_bytes :: "x86_insn_spec \<Rightarrow> nat" where
  "max_operand_bytes s = (if x86_insn_has_modrm_byte s then 6 else 0) + max_imm s"

lemma one_byte_operands: "list_all (\<lambda>s. max_operand_bytes s \<le> 10) x86_opcode_map_one_byte"
  by (simp add: x86_opcode_map_one_byte_def one_byte_defs foreach_x86_operand_combine_def
      foreach_x86_gp_reg_def foreach_x86_condition_def max_operand_bytes_def max_imm_def imm_type_def
      x86_insn_has_immediate_def x86_insn_has_modrm_byte_def op_defs)

lemma two_byte_operands: "list_all (\<lambda>s. max_operand_bytes s \<le> 9) x86_opcode_map_two_byte"
  by (simp add: x86_opcode_map_two_byte_def two_byte_defs foreach_x86_operand_combine_def
      foreach_x86_gp_reg_def foreach_x86_condition_def max_operand_bytes_def max_imm_def imm_type_def
      x86_insn_has_immediate_def x86_insn_has_modrm_byte_def op_defs)

section \<open>A whole instruction\<close>

text \<open>
  \<open>flat_mode\<close> is the setting the relocators use: 64-bit code, or 32-bit code without the
  address-size prefix (with it, the addresses are the 16-bit ones).
\<close>

definition window :: "u8 list \<Rightarrow> u8 list" where
  "window buffer = take 15 buffer @ replicate 5 0xcc"

definition flat_mode :: "x86_options \<Rightarrow> u32 \<Rightarrow> bool" where
  "flat_mode conf m \<longleftrightarrow> mode conf = 64 \<or> mode conf = 32 \<and> m AND INSN_PREFIX_ADDRESS_SIZE = 0"

definition address_bits :: "x86_options \<Rightarrow> u32 \<Rightarrow> u8" where
  "address_bits conf m = (if mode conf = 64 \<and> m AND INSN_PREFIX_ADDRESS_SIZE = 0 then 64 else 32)"

definition operand_bits :: "x86_options \<Rightarrow> u32 \<Rightarrow> bool \<Rightarrow> x86_insn_spec \<Rightarrow> u8" where
  "operand_bits conf m w s =
    (if w \<or> mode conf = 64 \<and> flags s AND X86_INSN_SPEC_DEFAULT_64_BIT \<noteq> 0 then 64
     else if m AND INSN_PREFIX_OPERAND_SIZE \<noteq> 0 then 16 else 32)"

record insn_layout =
  lay_mask :: u32
  lay_rex :: u8
  lay_op_at :: nat          \<comment> \<open>offset of the opcode\<close>
  lay_raw :: x86_insn_spec
  lay_modrm_at :: nat       \<comment> \<open>offset behind the opcode\<close>
  lay_spec :: x86_insn_spec
  lay_modrm_len :: nat
  lay_imm_bits :: u8

definition layout :: "x86_options \<Rightarrow> u8 list \<Rightarrow> insn_layout" where
  "layout conf buffer =
    (let bs = take 15 buffer; w = window buffer;
         m = prefix_mask (legacy_bytes bs);
         r = (case rex_byte conf bs of None \<Rightarrow> 0 | Some b \<Rightarrow> b);
         p = prefix_len conf bs;
         raw = raw_spec (w ! p) (w ! (p + 1));
         n = p + opcode_len (w ! p);
         s = group_entry raw (w ! n);
         has_modrm = x86_insn_has_modrm_byte s
     in \<lparr>lay_mask = m, lay_rex = r, lay_op_at = p, lay_raw = raw, lay_modrm_at = n, lay_spec = s,
         lay_modrm_len = (if has_modrm then modrm_len (address_bits conf m) r (w ! n) (w ! (n + 1)) else 0),
         lay_imm_bits = (if x86_insn_has_immediate s
           then imm_bits s (operand_bits conf m (REX_W r \<noteq> 0 \<and> \<not> (has_modrm \<and> rip_relative (w ! n))) s)
           else 0)\<rparr>)"

definition layout_size :: "insn_layout \<Rightarrow> nat" where
  "layout_size l = lay_modrm_at l + lay_modrm_len l + imm_len (lay_imm_bits l)"

lemma imm_need_le: "ob \<in> {16, 32, 64} \<Longrightarrow> x86_insn_has_immediate s \<Longrightarrow> imm_need (imm_bits s ob) \<le> max_imm s"
  by (auto simp: imm_need_def imm_bits_def max_imm_def Let_def)

lemma imm_len_le: "imm_len b \<le> imm_need b"
  by (simp add: imm_len_def imm_need_def)

lemma operand_bits_range [simp]: "operand_bits conf m w s \<in> {16, 32, 64}"
  by (simp add: operand_bits_def)

lemma max_operand_bytes_cong:
  "operands s = operands t \<Longrightarrow> max_operand_bytes s = max_operand_bytes t"
  by (simp add: max_operand_bytes_def max_imm_def imm_type_def x86_insn_has_immediate_def
      x86_insn_has_modrm_byte_def)

lemma raw_operand_bytes: "opcode_len op + max_operand_bytes (group_entry (raw_spec op b) mrm) \<le> 11"
proof -
  have "max_operand_bytes (group_entry (raw_spec op b) mrm) = max_operand_bytes (raw_spec op b)"
    by (rule max_operand_bytes_cong) simp
  then show ?thesis
    using one_byte_operands two_byte_operands by (simp add: raw_spec_def opcode_len_def list_all_length)
qed

text \<open>The operand bytes of an instruction with at most nine prefix bytes lie in the window.\<close>

lemma layout_fits:
  assumes "prefix_len conf (take 15 buffer) \<le> 9"
  shows "lay_modrm_at (layout conf buffer) + lay_modrm_len (layout conf buffer) +
    imm_need (lay_imm_bits (layout conf buffer)) \<le> 20"
proof -
  let ?p = "prefix_len conf (take 15 buffer)" and ?w = "window buffer"
  let ?n = "?p + opcode_len (?w ! ?p)"
  let ?s = "group_entry (raw_spec (?w ! ?p) (?w ! (?p + 1))) (?w ! ?n)"
  have "lay_modrm_len (layout conf buffer) \<le> (if x86_insn_has_modrm_byte ?s then 6 else 0)"
    by (auto simp: layout_def Let_def modrm_len_bounds)
  moreover have "imm_need (lay_imm_bits (layout conf buffer)) \<le> max_imm ?s"
    using imm_need_le [OF operand_bits_range] by (auto simp: layout_def Let_def imm_need_def)
  moreover have "lay_modrm_at (layout conf buffer) = ?n"
    by (simp add: layout_def Let_def)
  ultimately show ?thesis
    using raw_operand_bytes [of "?w ! ?p" "?w ! (?p + 1)" "?w ! ?n"] assms
    by (simp add: max_operand_bytes_def)
qed

definition start_reader :: "u8 list \<Rightarrow> x86_insn_reader" where
  "start_reader buffer = \<lparr>rd_block = window buffer, rd_own = True, rd_prefix = 0, rd_opcode = 0,
     rd_modrm = 0, rd_cursor = 0\<rparr>"

lemma start_reader_simps [simp]:
  "rd_own (start_reader b)" "rd_cursor (start_reader b) = 0" "rest (start_reader b) = window b"
  "ahead (start_reader b) i = window b ! i"
  by (simp_all add: start_reader_def rest_def ahead_def)

lemma length_window [simp]: "15 \<le> length buffer \<Longrightarrow> length (window buffer) = 20"
  by (simp add: window_def)

lemma avail_start [simp]: "15 \<le> length buffer \<Longrightarrow> avail (start_reader buffer) = 20"
  by (simp add: avail_rest)

lemma decode_prefix_start:
  assumes "15 \<le> length buffer"
  shows "x86_insn_decode_prefix (start_reader buffer) insn conf =
    Inr (prefix_mask (legacy_bytes (take 15 buffer)),
         forward (start_reader buffer) (prefix_len conf (take 15 buffer)),
         set_rex (rex_byte conf (take 15 buffer)) insn)"
proof -
  have "rest (start_reader buffer) = take 15 buffer @ 0xcc # replicate 4 0xcc"
    by (simp add: window_def flip: replicate_Suc)
  from decode_prefix_loop_eq [OF this] show ?thesis
    by (simp add: x86_insn_decode_prefix_def)
qed

lemma effective_address_flat:
  "flat_mode conf (insn_prefix insn) \<Longrightarrow>
    effective_address_bits conf insn = Inr (address_bits conf (insn_prefix insn))"
  by (auto simp: flat_mode_def effective_address_bits_def address_bits_def)

lemma effective_operand_flat:
  "flat_mode conf m \<Longrightarrow> insn_prefix insn = m \<Longrightarrow> insn_spec insn = s \<Longrightarrow> (size64 insn \<longleftrightarrow> w) \<Longrightarrow>
    effective_operand_bits conf insn = Some (operand_bits conf m w s)"
  by (auto simp: flat_mode_def effective_operand_bits_def operand_bits_def)

lemma size64_set_rex:
  "size64 (set_rex r zero_insn) \<longleftrightarrow> REX_W (case r of None \<Rightarrow> 0 | Some b \<Rightarrow> b) \<noteq> 0"
  by (auto simp: set_rex_def zero_insn_def decode_flag_defs REX_W_def split: option.splits)

lemma rex_set_rex: "rex (set_rex r zero_insn) = (case r of None \<Rightarrow> 0 | Some b \<Rightarrow> b)"
  by (auto simp: set_rex_def zero_insn_def split: option.splits)

lemma modrm_stage:
  assumes "flat_mode conf (insn_prefix insn)" "rd_own rd"
  defines "has \<equiv> x86_insn_has_modrm_byte (insn_spec insn)"
    and "n \<equiv> modrm_len (address_bits conf (insn_prefix insn)) (rex insn) (ahead rd 0) (ahead rd 1)"
  assumes "has \<Longrightarrow> n \<le> avail rd"
  shows "\<exists>insn'. (if has then x86_insn_decode_modrm_sib rd insn conf else Inr (rd, insn)) =
      Inr (forward rd (if has then n else 0), insn') \<and>
     same_insn insn' insn \<and> (size64 insn' \<longleftrightarrow> size64 insn \<and> \<not> (has \<and> rip_relative (ahead rd 0)))"
proof (cases has)
  case True
  have "address_bits conf (insn_prefix insn) = 32 \<or> address_bits conf (insn_prefix insn) = 64"
    by (simp add: address_bits_def)
  from decode_modrm_ok [OF effective_address_flat [OF assms(1)] this assms(2)] assms(5) [OF True] True
  show ?thesis by (simp add: n_def)
qed (simp add: same_insn_def)

lemma immediate_stage:
  assumes "flat_mode conf (insn_prefix insn)" "rd_own rd" "length (operands (insn_spec insn)) = 3"
  defines "b \<equiv> if x86_insn_has_immediate (insn_spec insn)
    then imm_bits (insn_spec insn) (operand_bits conf (insn_prefix insn) (size64 insn) (insn_spec insn)) else 0"
  assumes "imm_need b \<le> avail rd"
  shows "\<exists>insn'. (if x86_insn_has_immediate (insn_spec insn)
      then x86_insn_decode_immediate rd insn conf else Inr (rd, insn)) =
      Inr (forward rd (imm_len b), insn') \<and> same_insn insn' insn"
proof (cases "x86_insn_has_immediate (insn_spec insn)")
  case True
  have "effective_operand_bits conf insn =
      Some (operand_bits conf (insn_prefix insn) (size64 insn) (insn_spec insn))"
    by (rule effective_operand_flat) (simp_all add: assms(1))
  from decode_immediate_ok [OF assms(3) True this operand_bits_range assms(2)] assms(5) True
  show ?thesis by (simp add: b_def)
qed (simp add: same_insn_def b_def imm_len_def)

text \<open>The instruction behind the opcode, and the stages that follow.\<close>

definition head_insn :: "x86_options \<Rightarrow> u8 list \<Rightarrow> x86_insn_decode_t" where
  "head_insn conf buffer = (let l = layout conf buffer in
     (set_rex (rex_byte conf (take 15 buffer)) zero_insn)\<lparr>insn_prefix := lay_mask l,
       primary_opcode := window buffer ! (lay_modrm_at l - 1), insn_spec := lay_spec l\<rparr>)"

lemma decode_head:
  assumes buf: "15 \<le> length buffer" and pfx: "prefix_len conf (take 15 buffer) \<le> 9"
  defines "l \<equiv> layout conf buffer"
  assumes sse: "\<not> 19 < spec_group (lay_raw l)"
  defines "rd \<equiv> forward (start_reader buffer) (lay_modrm_at l)"
  shows "x86_insn_decode zero_insn buffer conf =
    rbind (if x86_insn_has_modrm_byte (lay_spec l) then x86_insn_decode_modrm_sib rd (head_insn conf buffer) conf
           else Inr (rd, head_insn conf buffer)) (\<lambda>(rd, insn).
    rbind (if x86_insn_has_immediate (insn_spec insn) then x86_insn_decode_immediate rd insn conf else Inr (rd, insn)) (\<lambda>(rd, insn).
    rbind (reader_offset rd) (\<lambda>len. Inr (insn\<lparr>insn_length := len\<rparr>))))"
proof -
  let ?p = "prefix_len conf (take 15 buffer)" and ?rd0 = "start_reader buffer"
  let ?i0 = "(set_rex (rex_byte conf (take 15 buffer)) zero_insn)\<lparr>insn_prefix := lay_mask l\<rparr>"
  have prefix: "x86_insn_decode_prefix ?rd0 zero_insn conf =
      Inr (lay_mask l, forward ?rd0 ?p, set_rex (rex_byte conf (take 15 buffer)) zero_insn)"
    using decode_prefix_start [OF buf] by (simp add: l_def layout_def Let_def)
  have opcode: "x86_insn_decode_opcode (forward ?rd0 ?p) ?i0 = Inr (rd, head_insn conf buffer)"
    using sse pfx buf decode_opcode_eq [of "forward ?rd0 ?p" ?i0]
    by (simp add: l_def layout_def Let_def opcode_len_def rd_def head_insn_def)
  have "insn_spec (head_insn conf buffer) = lay_spec l" by (simp add: head_insn_def l_def Let_def)
  then show ?thesis
    unfolding x86_insn_decode_def init_reader_15 [OF buf] window_def [symmetric] start_reader_def [symmetric]
    by (simp add: prefix opcode Let_def split del: if_split)
qed

lemma decode_ok:
  assumes buf: "15 \<le> length buffer" and pfx: "prefix_len conf (take 15 buffer) \<le> 9"
  defines "l \<equiv> layout conf buffer"
  assumes flat: "flat_mode conf (lay_mask l)" and sse: "\<not> 19 < spec_group (lay_raw l)"
  shows "\<exists>i. x86_insn_decode zero_insn buffer conf = Inr i \<and> insn_length i = of_nat (layout_size l) \<and>
    insn_spec i = lay_spec l \<and> primary_opcode i = window buffer ! (lay_modrm_at l - 1) \<and>
    insn_prefix i = lay_mask l \<and> rex i = lay_rex l"
proof -
  let ?w = "window buffer" and ?rd0 = "start_reader buffer"
  let ?n = "lay_modrm_at l"
  define rd1 where "rd1 = forward ?rd0 ?n"
  define i1 where "i1 = head_insn conf buffer"
  have n: "?n \<le> 11" using pfx by (auto simp: l_def layout_def Let_def opcode_len_def)
  note head = decode_head [OF buf pfx, folded l_def, OF sse, folded rd1_def i1_def]
  have operands: "length (operands (lay_spec l)) = 3"
    using raw_spec_wf by (simp add: l_def layout_def Let_def spec_wf_def)
  have i1: "rex i1 = lay_rex l" "size64 i1 \<longleftrightarrow> REX_W (lay_rex l) \<noteq> 0" "insn_spec i1 = lay_spec l"
      "insn_prefix i1 = lay_mask l" "primary_opcode i1 = ?w ! (?n - 1)"
    by (simp_all add: i1_def head_insn_def l_def layout_def Let_def rex_set_rex size64_set_rex)
  have rd1: "rd_own rd1" "ahead rd1 0 = ?w ! ?n" "ahead rd1 1 = ?w ! (?n + 1)" "avail rd1 = 20 - ?n" "rd_cursor rd1 = ?n"
    using buf by (simp_all add: rd1_def)
  have mlen: "lay_modrm_len l = (if x86_insn_has_modrm_byte (lay_spec l)
      then modrm_len (address_bits conf (lay_mask l)) (lay_rex l) (?w ! ?n) (?w ! (?n + 1)) else 0)"
    by (simp add: l_def layout_def Let_def)
  have fits: "?n + lay_modrm_len l + imm_need (lay_imm_bits l) \<le> 20"
    using layout_fits [OF pfx] by (simp add: l_def)
  have "x86_insn_has_modrm_byte (lay_spec l) \<Longrightarrow>
      modrm_len (address_bits conf (lay_mask l)) (lay_rex l) (?w ! ?n) (?w ! (?n + 1)) \<le> 20 - ?n"
    using fits mlen by simp
  with modrm_stage [of conf i1 rd1, unfolded i1 rd1, OF flat rd1(1)]
  obtain i2 where modrm: "(if x86_insn_has_modrm_byte (lay_spec l)
        then x86_insn_decode_modrm_sib rd1 i1 conf else Inr (rd1, i1)) =
      Inr (forward rd1 (lay_modrm_len l), i2)" "same_insn i2 i1"
      "size64 i2 \<longleftrightarrow> REX_W (lay_rex l) \<noteq> 0 \<and> \<not> (x86_insn_has_modrm_byte (lay_spec l) \<and> rip_relative (?w ! ?n))"
    unfolding mlen [symmetric] by blast
  let ?rd2 = "forward rd1 (lay_modrm_len l)"
  have i2: "insn_spec i2 = lay_spec l" "insn_prefix i2 = lay_mask l" "rex i2 = lay_rex l"
      "primary_opcode i2 = ?w ! (?n - 1)"
    using modrm(2) i1 by (simp_all add: same_insn_def)
  have ib: "lay_imm_bits l = (if x86_insn_has_immediate (insn_spec i2)
      then imm_bits (insn_spec i2) (operand_bits conf (insn_prefix i2) (size64 i2) (insn_spec i2)) else 0)"
    unfolding i2 modrm(3) by (simp add: l_def layout_def Let_def)
  have "imm_need (lay_imm_bits l) \<le> avail ?rd2"
    using fits rd1 by simp
  with immediate_stage [of conf i2 ?rd2, folded ib, unfolded i2] flat operands rd1(1)
  obtain i3 where imm: "(if x86_insn_has_immediate (lay_spec l)
        then x86_insn_decode_immediate ?rd2 i2 conf else Inr (?rd2, i2)) =
      Inr (forward ?rd2 (imm_len (lay_imm_bits l)), i3)" "same_insn i3 i2"
    by auto
  have "x86_insn_decode zero_insn buffer conf = Inr (i3\<lparr>insn_length := of_nat (layout_size l)\<rparr>)"
    unfolding head by (simp add: modrm(1) imm(1) i2(1) rd1(1,5) reader_offset_def layout_size_def add.assoc split del: if_split)
  with imm(2) i2 show ?thesis by (simp add: same_insn_def)
qed

lemma decode_sse:
  assumes "15 \<le> length buffer" "prefix_len conf (take 15 buffer) \<le> 9"
    and "19 < spec_group (lay_raw (layout conf buffer))"
  shows "x86_insn_decode insn buffer conf = Inl Unimplemented"
proof -
  let ?p = "prefix_len conf (take 15 buffer)"
  have "3 \<le> avail (forward (start_reader buffer) ?p)"
    using assms by simp
  from decode_opcode_eq [OF this] assms(3)
  have "x86_insn_decode_opcode (forward (start_reader buffer) ?p) i = Inl Unimplemented" for i
    by (simp add: layout_def Let_def)
  then show ?thesis
    unfolding x86_insn_decode_def init_reader_15 [OF assms(1)] window_def [symmetric] start_reader_def [symmetric]
    by (simp add: decode_prefix_start [OF assms(1)] Let_def)
qed

section \<open>Reads only move forward\<close>

definition moves :: "x86_insn_reader \<Rightarrow> x86_insn_reader \<Rightarrow> bool" where
  "moves rd rd' \<longleftrightarrow> (\<exists>n. rd' = forward rd n \<and> n \<le> avail rd)"

lemma moves_refl [simp]: "moves rd rd"
  unfolding moves_def by (rule exI [of _ 0]) simp

lemma moves_forward: "n \<le> avail rd \<Longrightarrow> moves rd (forward rd n)"
  by (auto simp: moves_def)

lemma moves_trans: "moves rd rd' \<Longrightarrow> moves rd' rd'' \<Longrightarrow> moves rd rd''"
  unfolding moves_def
  by (elim exE conjE, rule_tac x = "n + na" in exI) simp

lemma moves_cursor: "moves rd rd' \<Longrightarrow> rd_cursor rd \<le> rd_cursor rd'"
  by (auto simp: moves_def)

lemma read_byte_moves: "read_byte rd = Inr (v, rd') \<Longrightarrow> moves rd rd' \<and> rd_cursor rd < rd_cursor rd'"
  by (auto simp: read_byte_eq intro!: moves_forward split: if_splits)

lemma decode_number_moves: "x86_insn_decode_number rd b = Inr (v, rd') \<Longrightarrow> moves rd rd'"
  by (auto simp: x86_insn_decode_number_def reader_eqs intro!: moves_forward split: if_splits)

lemma decode_disp_moves: "decode_disp rd insn b = Inr (rd', insn') \<Longrightarrow> moves rd rd'"
  by (auto simp: decode_disp_def dest: decode_number_moves split: if_splits)

lemma decode_prefix_moves:
  "decode_prefix_loop conf rd insn acc = Inr (m, rd', insn') \<Longrightarrow> moves rd rd'"
proof (induction conf rd insn acc rule: decode_prefix_loop.induct)
  case (1 conf rd insn acc)
  from "1.prems" obtain c where c: "peek_byte rd = Inr c"
    by (subst (asm) decode_prefix_loop.simps) auto
  show ?case
  proof (cases "mode conf = 64 \<and> 0x40 \<le> c \<and> c \<le> 0x4f \<or> legacy_prefix c = 0")
    case True
    with "1.prems" c show ?thesis
      by (subst (asm) decode_prefix_loop.simps) (auto simp: Let_def split: if_splits dest: read_byte_moves)
  next
    case False
    with "1.prems" c obtain v rd1 where rd1: "read_byte rd = Inr (v, rd1)"
      and loop: "decode_prefix_loop conf rd1 insn (acc OR legacy_prefix c) = Inr (m, rd', insn')"
      by (subst (asm) decode_prefix_loop.simps) (auto simp: Let_def split: if_splits)
    from "1.IH" [OF c _ refl _ rd1 refl loop] False have "moves rd1 rd'" by blast
    with rd1 show ?thesis by (blast dest: read_byte_moves intro: moves_trans)
  qed
qed

lemma decode_sib_moves: "decode_sib rd insn ea md db = Inr (db', rd', insn') \<Longrightarrow> moves rd rd'"
  by (auto simp: decode_sib_def Let_def dest: read_byte_moves)

lemma decode_address_moves:
  "decode_address32_64 rd insn ea md rm = Inr (db', rd', insn') \<Longrightarrow> moves rd rd'"
  by (auto simp: decode_address32_64_def Let_def dest: decode_sib_moves split: if_splits)

lemma decode_modrm_moves:
  "x86_insn_decode_modrm_sib rd insn conf = Inr (rd', insn') \<Longrightarrow> moves rd rd'"
  by (auto simp: x86_insn_decode_modrm_sib_def Let_def split: if_splits prod.splits
      dest!: read_byte_moves decode_address_moves decode_disp_moves)
    (blast intro: moves_trans)+

lemma decode_immediate_moves:
  "x86_insn_decode_immediate rd insn conf = Inr (rd', insn') \<Longrightarrow> moves rd rd'"
  by (auto simp: x86_insn_decode_immediate_def dest: decode_number_moves split: option.splits if_splits)

lemma decode_opcode_moves:
  "x86_insn_decode_opcode rd insn = Inr (rd', insn') \<Longrightarrow> moves rd rd' \<and> rd_cursor rd < rd_cursor rd'"
  by (auto simp: x86_insn_decode_opcode_def Let_def split: if_splits dest!: read_byte_moves)
    (blast intro: moves_trans)+

end
