(* ===== verification/X86Properties.thy ===== *)
theory X86Properties
  imports X86DecodeCorrect
begin

text \<open>
  The properties of the x86 decoder: it returns for every code the relocators pass it, always makes
  progress, consumes the address bytes the architecture defines, decodes the relative branches and the
  IP-relative operands the relocators rewrite, and, where it deviates from the architecture, how.
\<close>

section \<open>Opcodes without address bytes\<close>

text \<open>
  An opcode that is no prefix and no escape, belongs to no group and has no ModRM byte: the decoder
  reads the opcode and the immediate, and nothing else.
\<close>

definition plain_opcode :: "x86_options \<Rightarrow> u8 \<Rightarrow> bool" where
  "plain_opcode conf op \<longleftrightarrow> legacy_prefix op = 0 \<and> \<not> is_rex conf op \<and> op \<noteq> 0x0f \<and>
     spec_group (x86_opcode_map_one_byte ! unat op) = 0 \<and>
     \<not> x86_insn_has_modrm_byte (x86_opcode_map_one_byte ! unat op)"

lemma decode_plain:
  assumes "14 \<le> length bs" "plain_opcode conf op"
  defines "i \<equiv> zero_insn\<lparr>primary_opcode := op, insn_spec := x86_opcode_map_one_byte ! unat op\<rparr>"
  shows "x86_insn_decode zero_insn (op # bs) conf =
    rbind (if x86_insn_has_immediate (insn_spec i)
           then x86_insn_decode_immediate (forward (start_reader (op # bs)) 1) i conf
           else Inr (forward (start_reader (op # bs)) 1, i))
      (\<lambda>(rd, insn). rbind (reader_offset rd) (\<lambda>len. Inr (insn\<lparr>insn_length := len\<rparr>)))"
proof -
  let ?b = "op # bs"
  have len: "15 \<le> length ?b" using assms(1) by simp
  have pfx: "x86_insn_decode_prefix (start_reader ?b) zero_insn conf = Inr (0, start_reader ?b, zero_insn)"
    using assms(2) decode_prefix_start [OF len, of zero_insn conf]
    by (simp add: plain_opcode_def take_Cons' set_rex_def)
  have w: "window ?b ! 0 = op" by (simp add: window_def take_Cons')
  have "zero_insn\<lparr>insn_prefix := 0\<rparr> = zero_insn" by (simp add: zero_insn_def)
  moreover have "x86_insn_decode_opcode (start_reader ?b) zero_insn = Inr (forward (start_reader ?b) 1, i)"
    using assms(2) len w decode_opcode_eq [of "start_reader ?b" zero_insn]
    by (simp add: i_def plain_opcode_def Let_def opcode_len_def raw_spec_def group_entry_def)
  moreover have "\<not> x86_insn_has_modrm_byte (insn_spec i)"
    using assms(2) by (simp add: i_def plain_opcode_def)
  ultimately show ?thesis
    unfolding x86_insn_decode_def init_reader_15 [OF len] window_def [symmetric] start_reader_def [symmetric]
    by (simp add: pfx)
qed

lemmas spec_eval = x86_insn_has_modrm_byte_def x86_insn_has_immediate_def imm_type_def op_defs
  spec_group_def

lemma one_byte_rel32:
  "x86_opcode_map_one_byte ! 0xE8 = op1_flag ''call'' X86_INSN_SPEC_DEFAULT_64_BIT ''Jz''"
  "x86_opcode_map_one_byte ! 0xE9 = op1_flag ''jmp'' X86_INSN_SPEC_DEFAULT_64_BIT ''Jz''"
  using one_byte_nth [of 14 8] one_byte_nth [of 14 9] by (simp_all add: one_byte_e0_def)

lemma one_byte_jcc: "c < 16 \<Longrightarrow> \<exists>x. x86_opcode_map_one_byte ! (0x70 + c) = op1 x ''Jb''"
  using one_byte_nth [of 7 c]
  by (auto simp: one_byte_70_def foreach_x86_condition_def simp del: list.map)

lemma one_byte_EB: "x86_opcode_map_one_byte ! 0xEB = op1 ''jmp'' ''Jb''"
  using one_byte_nth [of 14 11] by (simp add: one_byte_e0_def)

lemma decode_immediate_value:
  assumes "length (operands (insn_spec insn)) = 3" "x86_insn_has_immediate (insn_spec insn)"
    and "effective_operand_bits conf insn = Some ob" "rd_own rd"
  shows "imm_bits (insn_spec insn) ob = 8 \<Longrightarrow> 0 < avail rd \<Longrightarrow> x86_insn_decode_immediate rd insn conf =
      Inr (forward rd 1, insn\<lparr>immediate_offset := of_nat (rd_cursor rd), immediate := ucast (ahead rd 0)\<rparr>)"
    and "imm_bits (insn_spec insn) ob = 32 \<Longrightarrow> 3 < avail rd \<Longrightarrow> x86_insn_decode_immediate rd insn conf =
      Inr (forward rd 4, insn\<lparr>immediate_offset := of_nat (rd_cursor rd),
        immediate := ucast (of_le_bytes (take 4 (rest rd)) :: u32)\<rparr>)"
proof -
  have bits: "x86_insn_imm_bits (insn_spec insn) ob = Inr (imm_bits (insn_spec insn) ob)"
    by (simp add: x86_insn_imm_bits_def immediate_type_ok [OF assms(1,2)] imm_bits_def Let_def)
  show "imm_bits (insn_spec insn) ob = 8 \<Longrightarrow> 0 < avail rd \<Longrightarrow> x86_insn_decode_immediate rd insn conf =
      Inr (forward rd 1, insn\<lparr>immediate_offset := of_nat (rd_cursor rd), immediate := ucast (ahead rd 0)\<rparr>)"
    using assms bits by (simp add: x86_insn_decode_immediate_def reader_offset_def x86_insn_decode_number_def
        read_byte_eq)
  show "imm_bits (insn_spec insn) ob = 32 \<Longrightarrow> 3 < avail rd \<Longrightarrow> x86_insn_decode_immediate rd insn conf =
      Inr (forward rd 4, insn\<lparr>immediate_offset := of_nat (rd_cursor rd),
        immediate := ucast (of_le_bytes (take 4 (rest rd)) :: u32)\<rparr>)"
    using assms bits read_dword_le [of rd]
    by (simp add: x86_insn_decode_immediate_def reader_offset_def x86_insn_decode_number_def
        avail_def rest_def)
qed

lemma window_drop: "14 \<le> length bs \<Longrightarrow> n \<le> 14 \<Longrightarrow> take n (drop 1 (window (op # bs))) = take n bs"
  by (simp add: window_def take_Cons' min_def)

lemma window_nth: "i < 15 \<Longrightarrow> 15 \<le> length bs \<Longrightarrow> window bs ! i = bs ! i"
  by (simp add: window_def nth_append)

text \<open>
  In 64-bit mode \<open>call rel32\<close> (\<open>E8\<close>) and \<open>jmp rel32\<close> (\<open>E9\<close>) decode to five bytes, with the immediate at offset 1
  and equal to the little-endian value of the four displacement bytes, whatever they are, and are not
  taken for IP-relative operands.
\<close>
lemma decode_call_jmp_rel32:
  assumes "14 \<le> length bs" "op = 0xE8 \<or> op = 0xE9"
  shows "\<exists>i. x86_insn_decode zero_insn (op # bs) \<lparr>mode = 64\<rparr> = Inr i \<and> insn_length i = 5 \<and>
    primary_opcode i = op \<and> immediate_offset i = 1 \<and> immediate i = ucast (of_le_bytes (take 4 bs) :: u32) \<and>
    insn_flags i = 0"
proof -
  let ?c = "\<lparr>mode = 64\<rparr>"
  obtain x where entry: "x86_opcode_map_one_byte ! unat op = op1_flag x X86_INSN_SPEC_DEFAULT_64_BIT ''Jz''"
    using assms(2) one_byte_rel32 by auto
  have plain: "plain_opcode ?c op"
    using assms(2) by (auto simp: plain_opcode_def entry spec_eval legacy_prefix_def is_rex_def)
  let ?i = "zero_insn\<lparr>primary_opcode := op, insn_spec := x86_opcode_map_one_byte ! unat op\<rparr>"
  have ob: "effective_operand_bits ?c ?i = Some 64"
    by (simp add: effective_operand_bits_def entry op_defs X86_INSN_SPEC_DEFAULT_64_BIT_def)
  have "x86_insn_decode_immediate (forward (start_reader (op # bs)) 1) ?i ?c =
     Inr (forward (forward (start_reader (op # bs)) 1) 4, ?i\<lparr>immediate_offset := of_nat 1,
        immediate := ucast (of_le_bytes (take 4 bs) :: u32)\<rparr>)"
    using decode_immediate_value(2) [of ?i ?c 64 "forward (start_reader (op # bs)) 1"] assms(1) ob
      window_drop [OF assms(1), of 4 op]
    by (simp add: entry spec_eval imm_bits_def)
  with decode_plain [OF assms(1) plain] show ?thesis
    by (simp add: entry spec_eval reader_offset_def zero_insn_def)
qed

text \<open>
  In 64-bit mode a short conditional jump (\<open>70\<close> to \<open>7F\<close>) or a short jump (\<open>EB\<close>) decodes to two bytes,
  with the displacement byte zero-extended in the immediate.
\<close>
lemma decode_jcc_jmp_rel8:
  assumes "13 \<le> length bs" "op = 0xEB \<or> 0x70 \<le> op \<and> op \<le> 0x7F"
  shows "\<exists>i. x86_insn_decode zero_insn (op # d # bs) \<lparr>mode = 64\<rparr> = Inr i \<and> insn_length i = 2 \<and>
    primary_opcode i = op \<and> immediate_offset i = 1 \<and> immediate i = ucast d \<and> insn_flags i = 0"
proof -
  let ?c = "\<lparr>mode = 64\<rparr>"
  have len: "14 \<le> length (d # bs)" using assms(1) by simp
  obtain x where entry: "x86_opcode_map_one_byte ! unat op = op1 x ''Jb''"
  proof (cases "op = 0xEB")
    case True
    then show thesis using one_byte_EB that by simp
  next
    case False
    with assms(2) have "unat op = 0x70 + (unat op - 0x70)" "unat op - 0x70 < 16"
      by (auto simp: word_le_nat_alt)
    with one_byte_jcc that show thesis by metis
  qed
  have plain: "plain_opcode ?c op"
    using assms(2) by (auto simp: plain_opcode_def entry spec_eval legacy_prefix_def is_rex_def word_le_nat_alt)
  let ?i = "zero_insn\<lparr>primary_opcode := op, insn_spec := x86_opcode_map_one_byte ! unat op\<rparr>"
  have ob: "effective_operand_bits ?c ?i = Some 32"
    by (simp add: effective_operand_bits_def entry op_defs zero_insn_def)
  have "x86_insn_decode_immediate (forward (start_reader (op # d # bs)) 1) ?i ?c =
     Inr (forward (forward (start_reader (op # d # bs)) 1) 1, ?i\<lparr>immediate_offset := of_nat 1,
        immediate := ucast d\<rparr>)"
    using decode_immediate_value(1) [of ?i ?c 32 "forward (start_reader (op # d # bs)) 1"] len ob
    by (simp add: entry spec_eval imm_bits_def window_nth)
  with decode_plain [OF len plain] show ?thesis
    by (simp add: entry spec_eval reader_offset_def zero_insn_def)
qed

text \<open>
  In 64-bit mode a memory operand relative to the instruction pointer (\<open>mod\<close> 0, \<open>rm\<close> 5) is
  recognised whatever the REX prefix: five bytes are consumed, the flags say so and nothing else, the
  base register is \<open>RIP\<close>, the displacement is the little-endian value of the four bytes behind ModRM,
  and its offset in the instruction is recorded.
\<close>
lemma decode_rip_relative:
  assumes "mode conf = 64" "rd_own rd" "rest rd = mrm # d0 # d1 # d2 # d3 # ds" "rip_relative mrm"
  shows "\<exists>i. x86_insn_decode_modrm_sib rd insn conf = Inr (forward rd 5, i) \<and>
    insn_flags i = X86_INSN_DECODE_FLAG_IP_RELATIVE \<and> base (mem (mem_op i)) = ia32e_code RIP \<and>
    disp (mem (mem_op i)) = of_le_bytes [d0, d1, d2, d3] \<and>
    displacement_offset i = of_nat (rd_cursor rd + 1) \<and> insn_spec i = insn_spec insn \<and>
    primary_opcode i = primary_opcode insn \<and> immediate_offset i = immediate_offset insn"
proof -
  have mrm: "ahead rd 0 = mrm" "0 < avail rd" using rest_ConsD [OF assms(3)] by simp_all
  have mode: "modrm_mode mrm = 0" "modrm_rm mrm = 5" using assms(4) by (simp_all add: rip_relative_def)
  have rm5: "(push_bit 3 x OR 5) AND 7 = 5" for x :: u8 using rm_low [of x mrm] mode by simp
  have "avail rd = 5 + length ds" using assms(3) by (simp add: avail_rest)
  then have "rd_cursor (forward rd 1) + 4 \<le> length (rd_block (forward rd 1))"
    by (simp add: avail_def)
  from read_dword_le [OF this] rest_ConsD(3) [OF assms(3), unfolded rest_def]
  have "read_dword (forward rd 1) = Inr (of_le_bytes [d0, d1, d2, d3], forward rd 5)"
    by simp
  moreover define v :: u32 where "v = of_le_bytes [d0, d1, d2, d3]"
  ultimately have "read_dword (forward rd 1) = Inr (v, forward rd 5)" by simp
  then show ?thesis
    unfolding v_def [symmetric] using assms(1,2) mode rm5
    by (simp add: x86_insn_decode_modrm_sib_def read_byte_eq mrm Let_def effective_address_bits_def
        decode_address32_64_def decode_disp_def reader_offset_def x86_insn_decode_number_def)
qed

text \<open>
  Every successful decode consumes at least one byte and at most the twenty of the reader's
  buffer, whatever the mode and the bytes: the loops over a function's instructions make progress.
\<close>
lemma decode_progress:
  assumes "x86_insn_decode insn buffer conf = Inr i"
  shows "0 < unat (insn_length i) \<and> unat (insn_length i) \<le> 20"
proof -
  from assms obtain rd pfx rd1 i1 rd2 i2 rd3 i3 rd4 i4 where
    init: "init_reader buffer 15 = Inr rd" and
    stages: "x86_insn_decode_prefix rd insn conf = Inr (pfx, rd1, i1)"
     "x86_insn_decode_opcode rd1 (i1\<lparr>insn_prefix := pfx\<rparr>) = Inr (rd2, i2)"
     "(if x86_insn_has_modrm_byte (insn_spec i2) then x86_insn_decode_modrm_sib rd2 i2 conf
       else Inr (rd2, i2)) = Inr (rd3, i3)"
     "(if x86_insn_has_immediate (insn_spec i3) then x86_insn_decode_immediate rd3 i3 conf
       else Inr (rd3, i3)) = Inr (rd4, i4)" and
    i: "reader_offset rd4 = Inr (insn_length i)"
    by (auto simp: x86_insn_decode_def Let_def)
  have rd: "rd_cursor rd = 0" "length (rd_block rd) = 20"
    using init by (auto simp: init_reader_def reader_buffer_size_def split: if_splits)
  have "moves rd rd1" "moves rd1 rd2" "rd_cursor rd1 < rd_cursor rd2" "moves rd2 rd3" "moves rd3 rd4"
    using stages by (auto simp: x86_insn_decode_prefix_def split: if_splits
        dest: decode_prefix_moves decode_opcode_moves decode_modrm_moves decode_immediate_moves)
  then have "rd_cursor rd1 < rd_cursor rd4" "moves rd rd4"
    using moves_cursor [of rd2 rd3] moves_cursor [of rd3 rd4] by (simp, meson moves_trans)
  moreover from this(2) rd have "rd_cursor rd4 \<le> 20"
    by (auto simp: moves_def avail_def)
  ultimately show ?thesis
    using i unat_of_nat_u32 [of "rd_cursor rd4"] by (simp add: reader_offset_def split: if_splits)
qed



text \<open>
  The number of bytes from ModRM to the end of the displacement, as the architecture manual gives
  it for 32- and 64-bit addressing.
\<close>

definition intel_modrm_len :: "u8 \<Rightarrow> u8 \<Rightarrow> nat" where
  "intel_modrm_len mrm s =
    (if modrm_mode mrm = 3 then 1
     else (if modrm_rm mrm = 4 then 2 else 1) +
       (if modrm_mode mrm = 1 then 1 else if modrm_mode mrm = 2 then 4
        else if modrm_rm mrm = 5 \<or> modrm_rm mrm = 4 \<and> sib_base s = 5 then 4 else 0))"

lemma modrm_len_intel:
  "modrm_len ea r mrm s = intel_modrm_len mrm s \<longleftrightarrow>
    \<not> (modrm_mode mrm = 0 \<and> modrm_rm mrm = 4 \<and> (sib_special ea r s \<longleftrightarrow> sib_base s \<noteq> 5))"
  by (cases "modrm_mode mrm = 3")
    (auto simp: modrm_len_def intel_modrm_len_def disp_len_def elim: mode_cases)

text \<open>
  C19. In 64-bit mode the decoder consumes exactly the address bytes the architecture defines for a
  ModRM byte, for every ModRM, SIB and REX byte, except for a SIB byte under \<open>mod\<close> 0 whose base field
  says "no base" (5) or whose base register has number 7 or 14, where the decoder compares register
  numbers with its own enumeration of register names: there the two lengths differ.
\<close>
theorem decode_modrm_length:
  assumes "mode conf = 64" "insn_prefix insn AND INSN_PREFIX_ADDRESS_SIZE = 0" "rd_own rd" "6 \<le> avail rd"
  defines "odd_base \<equiv> modrm_mode (ahead rd 0) = 0 \<and> modrm_rm (ahead rd 0) = 4 \<and>
    (sib_special 64 (rex insn) (ahead rd 1) \<longleftrightarrow> sib_base (ahead rd 1) \<noteq> 5)"
  shows "\<exists>n i. x86_insn_decode_modrm_sib rd insn conf = Inr (forward rd n, i) \<and>
    (n = intel_modrm_len (ahead rd 0) (ahead rd 1) \<longleftrightarrow> \<not> odd_base)"
proof -
  have "effective_address_bits conf insn = Inr 64"
    using assms(1,2) by (simp add: effective_address_bits_def)
  moreover have "modrm_len 64 (rex insn) (ahead rd 0) (ahead rd 1) \<le> avail rd"
    using modrm_len_bounds(2) assms(4) le_trans by blast
  ultimately obtain i where "x86_insn_decode_modrm_sib rd insn conf =
      Inr (forward rd (modrm_len 64 (rex insn) (ahead rd 0) (ahead rd 1)), i)"
    using decode_modrm_ok [of conf insn 64 rd] assms(3) by blast
  then show ?thesis
    using modrm_len_intel odd_base_def by blast
qed

theorem decode_modrm_length_witness:
  "\<exists>i. x86_insn_decode_modrm_sib (start_reader (0x44 # 0x24 # replicate 13 0x08)) zero_insn \<lparr>mode = 64\<rparr> =
    Inr (forward (start_reader (0x44 # 0x24 # replicate 13 0x08)) 3, i)"
proof -
  let ?rd = "start_reader (0x44 # 0x24 # replicate 13 0x08)"
  have "ahead ?rd 0 = 0x44" "ahead ?rd 1 = 0x24" by (simp_all add: window_def take_Cons')
  then show ?thesis
    using decode_modrm_length [of "\<lparr>mode = 64\<rparr>" zero_insn ?rd]
    by (auto simp: zero_insn_def intel_modrm_len_def modrm_mode_def modrm_rm_def)
qed

text \<open>
  The layout of an instruction with one REX byte and a one-byte opcode without ModRM, and of one with no
  prefix at all.
\<close>

lemma layout_rex_plain:
  assumes "is_rex conf r" "op \<noteq> 0x0f" "\<not> x86_insn_has_modrm_byte (x86_opcode_map_one_byte ! unat op)"
    and "spec_group (x86_opcode_map_one_byte ! unat op) = 0"
  defines "s \<equiv> x86_opcode_map_one_byte ! unat op"
  shows "layout conf (r # op # bs) = \<lparr>lay_mask = 0, lay_rex = r, lay_op_at = 1, lay_raw = s,
    lay_modrm_at = 2, lay_spec = s, lay_modrm_len = 0, lay_imm_bits = (if x86_insn_has_immediate s
      then imm_bits s (operand_bits conf 0 (REX_W r \<noteq> 0) s) else 0)\<rparr>"
  using assms legacy_not_rex [OF assms(1)]
  by (simp add: layout_def Let_def window_def take_Cons' opcode_len_def raw_spec_def group_entry_def)

lemma one_byte_mov_imm:
  "list_all (\<lambda>s. \<not> x86_insn_has_modrm_byte s \<and> x86_insn_has_immediate s \<and> imm_type s = CHR ''v'' \<and>
     spec_group s = 0) (drop 8 one_byte_b0)"
  by (simp add: one_byte_b0_def foreach_x86_gp_reg_def spec_eval)

text \<open>
  \<open>mov r64, imm64\<close> (a REX prefix with W, opcodes \<open>B8\<close> to \<open>BF\<close>, eight immediate bytes) is ten bytes long;
  the decoder reports six, whatever the immediate: \<open>read_qword\<close> reads eight bytes and moves by four.
\<close>
lemma decode_mov_imm64_length:
  assumes "13 \<le> length bs" "r \<in> {0x48, 0x49, 0x4A, 0x4B, 0x4C, 0x4D, 0x4E, 0x4F}"
    and "op \<in> {0xB8, 0xB9, 0xBA, 0xBB, 0xBC, 0xBD, 0xBE, 0xBF}"
  shows "\<exists>i. x86_insn_decode zero_insn (r # op # bs) \<lparr>mode = 64\<rparr> = Inr i \<and> insn_length i = 6"
proof -
  let ?b = "r # op # bs" and ?c = "\<lparr>mode = 64\<rparr>" and ?s = "x86_opcode_map_one_byte ! unat op"
  have "?s \<in> set (drop 8 one_byte_b0)"
    using assms(3) one_byte_nth [of 11 8] one_byte_nth [of 11 9] one_byte_nth [of 11 10]
      one_byte_nth [of 11 11] one_byte_nth [of 11 12] one_byte_nth [of 11 13] one_byte_nth [of 11 14]
      one_byte_nth [of 11 15]
    by (auto simp: one_byte_b0_def foreach_x86_gp_reg_def)
  then have s: "\<not> x86_insn_has_modrm_byte ?s" "x86_insn_has_immediate ?s" "imm_type ?s = CHR ''v''"
      "spec_group ?s = 0"
    using one_byte_mov_imm by (auto simp: list_all_iff)
  have r: "is_rex ?c r" "REX_W r \<noteq> 0" and op: "op \<noteq> 0x0f"
    using assms(2,3) by (auto simp: is_rex_def REX_W_def)
  have l: "layout ?c ?b = \<lparr>lay_mask = 0, lay_rex = r, lay_op_at = 1, lay_raw = ?s, lay_modrm_at = 2,
      lay_spec = ?s, lay_modrm_len = 0, lay_imm_bits = 64\<rparr>"
    using layout_rex_plain [OF r(1) op s(1,4), of bs] s r by (simp add: imm_bits_def operand_bits_def)
  have "prefix_len ?c (take 15 ?b) \<le> 9"
    using r legacy_not_rex [OF r(1)] by (simp add: take_Cons')
  from decode_ok [OF _ this] l s(4) assms(1) show ?thesis
    by (auto simp: layout_size_def imm_len_def flat_mode_def)
qed

lemma one_byte_no_operands:
  "x86_opcode_map_one_byte ! 0xF6 = op0_flag ''modrm_group_3'' (X86_INSN_FLAG_MODRM_REG_GROUP MG_3)"
  "x86_opcode_map_one_byte ! 0xF7 = op0_flag ''modrm_group_3'' (X86_INSN_FLAG_MODRM_REG_GROUP MG_3)"
  "x86_opcode_map_one_byte ! 0xFF = op0_flag ''modrm_group_5'' (X86_INSN_FLAG_MODRM_REG_GROUP MG_5)"
  using one_byte_nth [of 15 6] one_byte_nth [of 15 7] one_byte_nth [of 15 15]
  by (simp_all add: one_byte_f0_def)

text \<open>
  The opcodes \<open>F6\<close>, \<open>F7\<close> and \<open>FF\<close> (test, not, neg, mul, div; inc, dec, call, jmp, push through ModRM) always
  have a ModRM byte; the decoder reports a length of one byte for them, whatever follows, because it
  takes over the name and the flags of the group entry but not its operands.
\<close>
lemma decode_group_3_5_length:
  assumes "14 \<le> length bs" "op \<in> {0xF6, 0xF7, 0xFF}"
  shows "\<exists>i. x86_insn_decode zero_insn (op # bs) \<lparr>mode = 64\<rparr> = Inr i \<and> insn_length i = 1"
proof -
  let ?b = "op # bs" and ?c = "\<lparr>mode = 64\<rparr>"
  obtain x g where s: "x86_opcode_map_one_byte ! unat op = op0_flag x (X86_INSN_FLAG_MODRM_REG_GROUP g)"
    using assms(2) one_byte_no_operands by auto
  have g: "X86_INSN_MODRM_REG_GROUP g < 19" by (cases g) simp_all
  have op: "op \<noteq> 0x0f" "legacy_prefix op = 0" "\<not> is_rex ?c op"
    using assms(2) by (auto simp: legacy_prefix_def is_rex_def)
  have "operands (group_entry (op0_flag x (X86_INSN_FLAG_MODRM_REG_GROUP g)) m) =
      replicate 3 (operand_data ''__'')" for m
    by (simp add: op_defs numeral_3_eq_3)
  then have no_operands: "\<not> x86_insn_has_modrm_byte (group_entry (op0_flag x (X86_INSN_FLAG_MODRM_REG_GROUP g)) m)"
      "\<not> x86_insn_has_immediate (group_entry (op0_flag x (X86_INSN_FLAG_MODRM_REG_GROUP g)) m)" for m
    by (simp_all add: x86_insn_has_modrm_byte_def x86_insn_has_immediate_def numeral_3_eq_3)
  have w: "take 15 ?b = op # take 14 bs" "window ?b ! 0 = op"
    by (simp_all add: window_def take_Cons')
  have sse: "\<not> 19 < spec_group (lay_raw (layout ?c ?b))"
      and lay: "lay_mask (layout ?c ?b) = 0" "layout_size (layout ?c ?b) = 1"
    using g by (simp_all add: layout_def Let_def w op opcode_len_def raw_spec_def s no_operands
        layout_size_def imm_len_def) (simp add: spec_group_def op_defs)
  have "prefix_len ?c (take 15 ?b) \<le> 9"
    by (simp add: w op)
  from decode_ok [OF _ this _ sse] assms(1) lay show ?thesis
    by (auto simp: flat_mode_def)
qed

end
