(* ===== verification/LiteCollections.thy ===== *)
theory LiteCollections
  imports Prelude
begin

text \<open>
  The containers of \<open>external/xnucxx\<close>: the growing byte buffer \<open>LiteMutableBuffer\<close>, the growing array of
  object pointers \<open>LiteMutableArray\<close> and the iterator over it.

  \<open>malloc\<close> is the one function of the C library they depend on; it is an argument, which maps the
  requested size (a \<open>size_t\<close>) to a block of bytes or to \<open>None\<close> for a null pointer. What a fresh block
  contains is up to it. \<open>malloc_ok\<close> is what C promises of it. A block is the list of its bytes and a
  pointer into it an offset; the object pointers of an array are abstract values.
\<close>

type_synonym mallocator = "u64 \<Rightarrow> u8 list option"

definition malloc_ok :: "mallocator \<Rightarrow> bool" where
  "malloc_ok malloc \<longleftrightarrow> (\<forall>n bs. malloc n = Some bs \<longrightarrow> length bs = unat n)"

text \<open>\<open>LiteMemOpt::alloc\<close> takes an \<open>int\<close>, which \<open>malloc\<close> takes as a \<open>size_t\<close>.\<close>

definition LiteMemOpt_alloc :: "mallocator \<Rightarrow> u32 \<Rightarrow> u8 list option" where
  "LiteMemOpt_alloc malloc n = malloc (scast n)"

section \<open>Growing containers\<close>

text \<open>
  What the clients of the containers rely on: adding an item appends its image to the contents, as
  long as the total stays below a bound; and what follows for a sequence of items. The array of
  objects and the code buffer both provide it.
\<close>

locale appendable =
  fixes inv :: "'s \<Rightarrow> bool"
    and view :: "'s \<Rightarrow> 'b list"
    and put :: "'s \<Rightarrow> 'i \<Rightarrow> 's res"
    and image :: "'i \<Rightarrow> 'b list"
    and room :: nat
  assumes put_ok: "inv s \<Longrightarrow> length (view s) + length (image x) \<le> room \<Longrightarrow>
    \<exists>s'. put s x = Inr s' \<and> inv s' \<and> view s' = view s @ image x"
begin

primrec put_all :: "'s \<Rightarrow> 'i list \<Rightarrow> 's res" where
  "put_all s [] = Inr s"
| "put_all s (x # xs) = rbind (put s x) (\<lambda>s. put_all s xs)"

lemma put_all_ok:
  "inv s \<Longrightarrow> length (view s) + length (concat (map image xs)) \<le> room \<Longrightarrow>
    \<exists>s'. put_all s xs = Inr s' \<and> inv s' \<and> view s' = view s @ concat (map image xs)"
proof (induction xs arbitrary: s)
  case Nil
  then show ?case by simp
next
  case (Cons x xs)
  then obtain s1 where s1: "put s x = Inr s1" "inv s1" "view s1 = view s @ image x"
    using put_ok [of s x] by auto
  with Cons.IH [of s1] Cons.prems show ?case by auto
qed

lemma put_all_append:
  "put_all s (xs @ ys) = rbind (put_all s xs) (\<lambda>s. put_all s ys)"
proof (induction xs arbitrary: s)
  case Nil
  then show ?case by simp
next
  case (Cons x xs)
  then show ?case by (cases "put s x") auto
qed

end

section \<open>LiteMutableBuffer\<close>

record LiteMutableBuffer =
  buffer :: "u8 list option"
  buffer_cursor :: nat
  buffer_capacity :: u32

definition LiteMutableBuffer_initWithCapacity ::
  "mallocator \<Rightarrow> LiteMutableBuffer \<Rightarrow> u32 \<Rightarrow> bool \<times> LiteMutableBuffer" where
  "LiteMutableBuffer_initWithCapacity malloc b initCapacity =
    (if initCapacity \<le> 0 then (False, b)
     else (True, \<lparr>buffer = LiteMemOpt_alloc malloc initCapacity, buffer_cursor = 0,
                  buffer_capacity = initCapacity\<rparr>))"

definition LiteMutableBuffer_getSize :: "LiteMutableBuffer \<Rightarrow> u32" where
  "LiteMutableBuffer_getSize b = of_nat (buffer_cursor b)"

text \<open>
  The contents up to the cursor are copied into the new block, which has first been filled with
  \<open>'A'\<close>; copying more than the new block holds is out of bounds.
\<close>

definition LiteMutableBuffer_ensureCapacity ::
  "mallocator \<Rightarrow> LiteMutableBuffer \<Rightarrow> u32 \<Rightarrow> (u32 \<times> LiteMutableBuffer) res" where
  "LiteMutableBuffer_ensureCapacity malloc b newCapacity =
    (if newCapacity \<le> buffer_capacity b then Inr (buffer_capacity b, b)
     else let newCapacity = newCapacity + newCapacity div 2 in
       case LiteMemOpt_alloc malloc newCapacity of
         None \<Rightarrow> Inr (0, b)
       | Some newBuffer \<Rightarrow>
           (case buffer b of
              None \<Rightarrow> Inl NullPointer
            | Some old \<Rightarrow>
                let originContentSize = buffer_cursor b;
                    newBuffer = replicate (unat newCapacity) 0x41
                in if originContentSize \<le> length newBuffer \<and> originContentSize \<le> length old
                   then Inr (newCapacity,
                     b\<lparr>buffer := Some (overwrite newBuffer 0 (take originContentSize old)),
                       buffer_cursor := originContentSize, buffer_capacity := newCapacity\<rparr>)
                   else Inl OutOfBounds))"

definition LiteMutableBuffer_release :: "LiteMutableBuffer \<Rightarrow> LiteMutableBuffer" where
  "LiteMutableBuffer_release b = (if buffer b \<noteq> None then b\<lparr>buffer := None\<rparr> else b)"

text \<open>
  The contents of a buffer, and its invariant: the block is as long as the capacity says and the
  cursor lies within it.
\<close>

definition contents :: "LiteMutableBuffer \<Rightarrow> u8 list" where
  "contents b = (case buffer b of None \<Rightarrow> [] | Some bs \<Rightarrow> take (buffer_cursor b) bs)"

definition buffer_inv :: "LiteMutableBuffer \<Rightarrow> bool" where
  "buffer_inv b \<longleftrightarrow> (\<exists>bs. buffer b = Some bs \<and> length bs = unat (buffer_capacity b) \<and>
     buffer_cursor b \<le> length bs)"

lemma length_contents [simp]: "buffer_inv b \<Longrightarrow> length (contents b) = buffer_cursor b"
  by (auto simp: buffer_inv_def contents_def)

text \<open>
  The environment the lemmas assume: \<open>malloc\<close> behaves and does not run out of memory for requests
  below 2 GiB.
\<close>

definition heap_available :: "mallocator \<Rightarrow> bool" where
  "heap_available malloc \<longleftrightarrow> malloc_ok malloc \<and> (\<forall>n. unat n < 2 ^ 31 \<longrightarrow> malloc n \<noteq> None)"

lemma scast_ucast_small: "unat (n :: u32) < 2 ^ 31 \<Longrightarrow> scast n = (ucast n :: u64)"
proof -
  assume *: "unat n < 2 ^ 31"
  then have "unat n div 2 ^ 31 = 0" by (rule div_less)
  then have "\<not> bit (unat n) 31" by (simp only: bit_iff_odd) simp
  then have "\<not> bit n 31" by (simp add: bit_unsigned_iff)
  then show ?thesis
    by (intro bit_word_eqI) (auto simp: bit_simps min_def not_less le_less dest: bit_imp_le_length)
qed

lemma unat_ucast_u64 [simp]: "unat (ucast (n :: u32) :: u64) = unat n"
  by (simp add: unsigned_ucast_eq take_bit_nat_eq_self less_trans [OF unsigned_less])

lemma alloc_available:
  assumes "heap_available malloc" "unat n < 2 ^ 31"
  obtains bs where "LiteMemOpt_alloc malloc n = Some bs" "length bs = unat n"
proof -
  from assms obtain bs where "malloc (ucast n) = Some bs"
    unfolding heap_available_def by (metis not_None_eq unat_ucast_u64)
  moreover from this assms(1) have "length bs = unat n"
    by (auto simp: heap_available_def malloc_ok_def)
  ultimately show thesis
    using that assms(2) by (simp add: LiteMemOpt_alloc_def scast_ucast_small)
qed

lemma init_ok:
  fixes b :: LiteMutableBuffer
  assumes "heap_available malloc" "0 < n" "unat n < 2 ^ 31"
  defines "b' \<equiv> snd (LiteMutableBuffer_initWithCapacity malloc b n)"
  shows "buffer_inv b'" "contents b' = []"
proof -
  obtain bs where "LiteMemOpt_alloc malloc n = Some bs" "length bs = unat n"
    using alloc_available [OF assms(1,3)] by blast
  with assms(2) show "buffer_inv b'" "contents b' = []"
    by (auto simp: b'_def LiteMutableBuffer_initWithCapacity_def buffer_inv_def contents_def)
qed

lemma ensureCapacity_ok:
  assumes "heap_available malloc" "buffer_inv b" "unat n \<le> 2 ^ 30"
  shows "\<exists>c b'. LiteMutableBuffer_ensureCapacity malloc b n = Inr (c, b') \<and> buffer_inv b' \<and>
    contents b' = contents b \<and> buffer_cursor b' = buffer_cursor b \<and> n \<le> buffer_capacity b'"
proof (cases "n \<le> buffer_capacity b")
  case True
  with assms(2) show ?thesis by (simp add: LiteMutableBuffer_ensureCapacity_def)
next
  case False
  let ?m = "n + n div 2"
  have m: "unat ?m = unat n + unat n div 2"
    using assms(3) by (simp add: unat_add_lem [THEN iffD1] unat_div)
  then have lt: "unat ?m < 2 ^ 31" using assms(3) by simp
  obtain old where old: "buffer b = Some old" "length old = unat (buffer_capacity b)"
      "buffer_cursor b \<le> length old"
    using assms(2) by (auto simp: buffer_inv_def)
  have le: "buffer_cursor b \<le> unat ?m" "n \<le> ?m"
    using False old m by (auto simp: word_le_nat_alt not_le word_less_nat_alt)
  obtain blk where "LiteMemOpt_alloc malloc ?m = Some blk"
    using alloc_available [OF assms(1) lt] by blast
  then have "LiteMutableBuffer_ensureCapacity malloc b n = Inr (?m,
      b\<lparr>buffer := Some (overwrite (replicate (unat ?m) 0x41) 0 (take (buffer_cursor b) old)),
        buffer_cursor := buffer_cursor b, buffer_capacity := ?m\<rparr>)"
    using False old le by (simp add: LiteMutableBuffer_ensureCapacity_def Let_def)
  with old le show ?thesis
    by (auto simp: buffer_inv_def contents_def overwrite_def min_def)
qed

section \<open>LiteMutableArray\<close>

text \<open>
  A slot of the array is \<open>None\<close> while it holds no pointer anybody stored (fresh memory, or the bytes
  \<open>'A'\<close>). A pointer takes eight bytes.
\<close>

record 'a LiteMutableArray =
  array :: "'a option list option"
  array_count :: u32
  array_capacity :: u32

definition slots :: "u8 list \<Rightarrow> 'a option list" where
  "slots bs = replicate (length bs div 8) None"

definition LiteMutableArray_new :: "mallocator \<Rightarrow> u32 \<Rightarrow> 'a LiteMutableArray" where
  "LiteMutableArray_new malloc initCapacity =
    (let arraySize = initCapacity * 8 in
     \<lparr>array = map_option slots (LiteMemOpt_alloc malloc arraySize), array_count = 0,
      array_capacity = initCapacity\<rparr>)"

definition LiteMutableArray_getObject :: "'a LiteMutableArray \<Rightarrow> u32 \<Rightarrow> 'a res" where
  "LiteMutableArray_getObject a i =
    (case array a of None \<Rightarrow> Inl NullPointer
     | Some xs \<Rightarrow> if unat i < length xs
         then (case xs ! unat i of None \<Rightarrow> Inl Uninitialized | Some x \<Rightarrow> Inr x)
         else Inl OutOfBounds)"

definition LiteMutableArray_getCount :: "'a LiteMutableArray \<Rightarrow> u32" where
  "LiteMutableArray_getCount a = array_count a"

definition LiteMutableArray_ensureCapacity ::
  "mallocator \<Rightarrow> 'a LiteMutableArray \<Rightarrow> u32 \<Rightarrow> (u32 \<times> 'a LiteMutableArray) res" where
  "LiteMutableArray_ensureCapacity malloc a newCapacity =
    (if newCapacity \<le> array_capacity a then Inr (array_capacity a, a)
     else let newCapacity = ALIGN_FLOOR (newCapacity + 64) 64; newSize = 8 * newCapacity in
       case LiteMemOpt_alloc malloc newSize of
         None \<Rightarrow> Inr (0, a)
       | Some blk \<Rightarrow>
           (case array a of
              None \<Rightarrow> Inl NullPointer
            | Some old \<Rightarrow>
                if unat (array_count a) \<le> length blk div 8 \<and> unat (array_count a) \<le> length old
                then Inr (newCapacity, a\<lparr>array := Some (overwrite (slots blk) 0 (take (unat (array_count a)) old)),
                       array_capacity := newCapacity\<rparr>)
                else Inl OutOfBounds))"

definition LiteMutableArray_pushObject ::
  "mallocator \<Rightarrow> 'a LiteMutableArray \<Rightarrow> 'a \<Rightarrow> (bool \<times> 'a LiteMutableArray) res" where
  "LiteMutableArray_pushObject malloc a object =
    (let newCount = array_count a + 1 in
     rbind (if array_capacity a < newCount
            then rbind (LiteMutableArray_ensureCapacity malloc a newCount) (\<lambda>(c, a'). Inr (newCount \<le> c, a'))
            else Inr (True, a)) (\<lambda>(ok, a).
     if \<not> ok then Inr (False, a)
     else (case array a of None \<Rightarrow> Inl NullPointer
           | Some xs \<Rightarrow> if unat (array_count a) < length xs
               then Inr (True, a\<lparr>array := Some (xs[unat (array_count a) := Some object]),
                               array_count := array_count a + 1\<rparr>)
               else Inl OutOfBounds)))"

definition LiteMutableArray_release :: "'a LiteMutableArray \<Rightarrow> 'a LiteMutableArray" where
  "LiteMutableArray_release a = (if array a \<noteq> None then a\<lparr>array := None\<rparr> else a)"

text \<open>The iterator: an index, which the array advances on every call, past the end too.\<close>

definition LiteMutableArray_initIterator :: u32 where
  "LiteMutableArray_initIterator = 0"

definition LiteMutableArray_getNextObjectForIterator ::
  "'a LiteMutableArray \<Rightarrow> u32 \<Rightarrow> ('a option \<times> u32) res" where
  "LiteMutableArray_getNextObjectForIterator a ndx =
    (if ndx < array_count a
     then rbind (LiteMutableArray_getObject a ndx) (\<lambda>x. Inr (Some x, ndx + 1))
     else Inr (None, ndx + 1))"

definition elems :: "'a LiteMutableArray \<Rightarrow> 'a list" where
  "elems a = (case array a of None \<Rightarrow> [] | Some xs \<Rightarrow> map the (take (unat (array_count a)) xs))"

definition array_inv :: "'a LiteMutableArray \<Rightarrow> bool" where
  "array_inv a \<longleftrightarrow> (\<exists>xs. array a = Some xs \<and> length xs = unat (array_capacity a) \<and>
     array_count a \<le> array_capacity a \<and> (\<forall>i < unat (array_count a). xs ! i \<noteq> None))"

lemma array_new_ok:
  assumes "heap_available malloc" "unat n < 2 ^ 28"
  shows "array_inv (LiteMutableArray_new malloc n)" "elems (LiteMutableArray_new malloc n) = []"
proof -
  have m: "unat (n * 8) = unat n * 8" using assms(2) by (simp add: unat_mult_lem [THEN iffD1])
  then have "unat (n * 8) < 2 ^ 31" using assms(2) by simp
  from alloc_available [OF assms(1) this] m
  obtain bs where "LiteMemOpt_alloc malloc (n * 8) = Some bs" "length bs = unat n * 8"
    by metis
  then show "array_inv (LiteMutableArray_new malloc n)" "elems (LiteMutableArray_new malloc n) = []"
    by (simp_all add: LiteMutableArray_new_def Let_def array_inv_def elems_def slots_def)
qed

lemma array_ensureCapacity_ok:
  assumes "heap_available malloc" "array_inv a" "unat n \<le> 2 ^ 27"
  shows "\<exists>c a'. LiteMutableArray_ensureCapacity malloc a n = Inr (c, a') \<and> array_inv a' \<and> elems a' = elems a \<and>
    array_count a' = array_count a \<and> n \<le> array_capacity a' \<and> n \<le> c"
proof (cases "n \<le> array_capacity a")
  case True
  with assms(2) show ?thesis by (simp add: LiteMutableArray_ensureCapacity_def)
next
  case False
  let ?m = "ALIGN_FLOOR (n + 64) 64"
  have "unat (n + 64) = unat n + 64" using assms(3) by (simp add: unat_add_lem [THEN iffD1])
  then have m: "unat ?m = (unat n + 64) - (unat n + 64) mod 64"
    using unat_ALIGN_FLOOR [of "n + 64" 6] by simp
  then have m_le: "unat n \<le> unat ?m" "unat ?m \<le> unat n + 64" by simp_all
  then have size: "unat (8 * ?m) = 8 * unat ?m" using assms(3) by (simp add: unat_mult_lem [THEN iffD1])
  then have lt: "unat (8 * ?m) < 2 ^ 31" using m_le(2) assms(3) by simp
  obtain blk where blk: "LiteMemOpt_alloc malloc (8 * ?m) = Some blk" "length blk = unat (8 * ?m)"
    using alloc_available [OF assms(1) lt] by blast
  obtain old where old: "array a = Some old" "length old = unat (array_capacity a)"
      "unat (array_count a) \<le> length old" "\<forall>i < unat (array_count a). old ! i \<noteq> None"
    using assms(2) by (auto simp: array_inv_def word_le_nat_alt)
  have le: "unat (array_count a) \<le> unat ?m"
    using False old m_le by (simp add: word_le_nat_alt not_le)
  have "LiteMutableArray_ensureCapacity malloc a n = Inr (?m,
      a\<lparr>array := Some (overwrite (slots blk) 0 (take (unat (array_count a)) old)), array_capacity := ?m\<rparr>)"
    using False old le blk size by (simp add: LiteMutableArray_ensureCapacity_def Let_def)
  then show ?thesis
    using old le blk size m_le
    by (auto simp: array_inv_def elems_def overwrite_def slots_def min_def word_le_nat_alt nth_append)
qed

lemma array_push_ok:
  assumes "heap_available malloc" "array_inv a" "length (elems a) < 2 ^ 27"
  shows "\<exists>a'. LiteMutableArray_pushObject malloc a x = Inr (True, a') \<and> array_inv a' \<and>
    elems a' = elems a @ [x]"
proof -
  have len: "length (elems a) = unat (array_count a)"
    using assms(2) by (auto simp: array_inv_def elems_def word_le_nat_alt)
  then have c1: "unat (array_count a + 1) = unat (array_count a) + 1"
    using assms(3) by (simp add: unat_add_lem [THEN iffD1])
  have "\<exists>a1. (if array_capacity a < array_count a + 1
      then rbind (LiteMutableArray_ensureCapacity malloc a (array_count a + 1))
             (\<lambda>(c, a'). Inr (array_count a + 1 \<le> c, a'))
      else Inr (True, a)) = Inr (True, a1) \<and> array_inv a1 \<and> elems a1 = elems a \<and>
      array_count a1 = array_count a \<and> array_count a1 < array_capacity a1"
  proof (cases "array_capacity a < array_count a + 1")
    case True
    then show ?thesis
      using array_ensureCapacity_ok [OF assms(1,2), of "array_count a + 1"] c1 len assms(3)
      by (auto simp: word_le_nat_alt word_less_nat_alt)
  next
    case False
    with assms(2) c1 show ?thesis by (auto simp: word_less_nat_alt)
  qed
  then obtain a1 where a1: "array_inv a1" "elems a1 = elems a" "array_count a1 = array_count a"
      "array_count a1 < array_capacity a1"
    and push: "LiteMutableArray_pushObject malloc a x =
      (case array a1 of None \<Rightarrow> Inl NullPointer
       | Some xs \<Rightarrow> if unat (array_count a1) < length xs
           then Inr (True, a1\<lparr>array := Some (xs[unat (array_count a1) := Some x]),
                           array_count := array_count a1 + 1\<rparr>)
           else Inl OutOfBounds)"
    by (auto simp: LiteMutableArray_pushObject_def Let_def)
  from a1(1) obtain xs where xs: "array a1 = Some xs" "length xs = unat (array_capacity a1)"
      "\<forall>i < unat (array_count a1). xs ! i \<noteq> None"
    by (auto simp: array_inv_def)
  moreover have "unat (array_count a1) < length xs" using a1(4) xs(2) by (simp add: word_less_nat_alt)
  ultimately show ?thesis
    using push a1 c1
    by (auto simp: array_inv_def elems_def word_le_nat_alt word_less_nat_alt nth_list_update less_Suc_eq
        take_Suc_conv_app_nth)
qed

text \<open>The callers push without looking at the result.\<close>

definition array_push :: "mallocator \<Rightarrow> 'a LiteMutableArray \<Rightarrow> 'a \<Rightarrow> 'a LiteMutableArray res" where
  "array_push malloc a x = rbind (LiteMutableArray_pushObject malloc a x) (\<lambda>(_, a). Inr a)"

lemma array_push_item_ok:
  assumes "heap_available malloc" "array_inv a" "length (elems a) + length [x] \<le> 2 ^ 27"
  shows "\<exists>a'. array_push malloc a x = Inr a' \<and> array_inv a' \<and> elems a' = elems a @ [x]"
  using array_push_ok [OF assms(1,2), of x] assms(3) by (auto simp: array_push_def)

interpretation object_array: appendable
  "\<lambda>a. heap_available malloc \<and> array_inv a" elems "array_push malloc" "\<lambda>x. [x]" "2 ^ 27"
  for malloc
  by unfold_locales (simp add: array_push_item_ok)

lemma array_getObject_ok:
  assumes "array_inv a" "unat i < length (elems a)"
  shows "LiteMutableArray_getObject a i = Inr (elems a ! unat i)"
proof -
  obtain xs where xs: "array a = Some xs" "unat (array_count a) \<le> length xs"
      "\<forall>i < unat (array_count a). xs ! i \<noteq> None"
    using assms(1) by (auto simp: array_inv_def word_le_nat_alt)
  moreover have "unat i < unat (array_count a)" using assms(2) xs by (simp add: elems_def)
  ultimately show ?thesis
    by (auto simp: LiteMutableArray_getObject_def elems_def split: option.splits)
qed

text \<open>Walking an array with the iterator: \<open>while ((x = iter.getNextObject()) != NULL)\<close>.\<close>

fun iterate :: "'a LiteMutableArray \<Rightarrow> nat \<Rightarrow> u32 \<Rightarrow> 'a list res" where
  "iterate a 0 ndx = Inr []"
| "iterate a (Suc fuel) ndx =
    rbind (LiteMutableArray_getNextObjectForIterator a ndx) (\<lambda>(obj, ndx).
      case obj of None \<Rightarrow> Inr [] | Some x \<Rightarrow> rbind (iterate a fuel ndx) (\<lambda>xs. Inr (x # xs)))"

lemma iterate_ok:
  assumes "array_inv a" "length (elems a) < 2 ^ 32 - 1" "unat ndx \<le> length (elems a)"
    and "length (elems a) - unat ndx \<le> fuel"
  shows "iterate a fuel ndx = Inr (drop (unat ndx) (elems a))"
  using assms(3,4)
proof (induction fuel arbitrary: ndx)
  case 0
  then show ?case by simp
next
  case (Suc fuel)
  have len: "length (elems a) = unat (array_count a)"
    using assms(1) by (auto simp: array_inv_def elems_def word_le_nat_alt)
  show ?case
  proof (cases "unat ndx < length (elems a)")
    case True
    then have "unat (ndx + 1) = unat ndx + 1"
      using assms(2) by (simp add: unat_add_lem [THEN iffD1])
    moreover have "ndx < array_count a" using True len by (simp add: word_less_nat_alt)
    ultimately show ?thesis
      using Suc.IH [of "ndx + 1"] Suc.prems True array_getObject_ok [OF assms(1) True]
      by (simp add: LiteMutableArray_getNextObjectForIterator_def Cons_nth_drop_Suc)
  next
    case False
    then show ?thesis
      using len Suc.prems by (simp add: LiteMutableArray_getNextObjectForIterator_def word_less_nat_alt)
  qed
qed

text \<open>An allocator for the witnesses: zeroed blocks below 2 GiB.\<close>

definition zalloc :: mallocator where
  "zalloc n = (if unat n < 2 ^ 31 then Some (replicate (unat n) 0) else None)"

lemma zalloc_available: "heap_available zalloc"
  by (simp add: heap_available_def malloc_ok_def zalloc_def)

text \<open>
  Objects pushed one after the other into a fresh array are what the iterator hands back, in
  order and once each, before the null pointer that ends the walk, for up to \<open>2 ^ 27\<close> objects and any
  initial capacity.
\<close>
lemma push_then_iterate:
  assumes "heap_available malloc" "unat n < 2 ^ 28" "length xs \<le> 2 ^ 27"
  shows "\<exists>a. object_array.put_all malloc (LiteMutableArray_new malloc n) xs = Inr a \<and> array_inv a \<and>
    iterate a (length xs + 1) LiteMutableArray_initIterator = Inr xs"
proof -
  have new: "array_inv (LiteMutableArray_new malloc n :: 'a LiteMutableArray)"
      "elems (LiteMutableArray_new malloc n :: 'a LiteMutableArray) = []"
    using array_new_ok [OF assms(1,2)] by blast+
  have "concat (map (\<lambda>x. [x]) xs) = xs" by (induction xs) auto
  with object_array.put_all_ok [of malloc "LiteMutableArray_new malloc n" xs] assms(1,3) new
  obtain a where a: "object_array.put_all malloc (LiteMutableArray_new malloc n) xs = Inr a" "array_inv a"
      "elems a = xs"
    by auto
  with iterate_ok [of a LiteMutableArray_initIterator "length xs + 1"] assms(3)
  show ?thesis by (simp add: LiteMutableArray_initIterator_def)
qed

end
