(* ===== verification/CodeBuffer.thy ===== *)
theory CodeBuffer
  imports LiteCollections
begin

text \<open>
  The code buffers of \<open>source/MemoryAllocator/CodeBuffer\<close>: \<open>CodeBufferBase\<close> over \<open>LiteMutableBuffer\<close>, with the
  operations the ARM64 and x64 \<open>CodeBuffer\<close> classes add, and the interface under which the assemblers
  use them. An emit ignores whether the buffer could be grown, as the source does; if it could not,
  the store that follows is out of bounds.

  The interpretation of \<open>appendable\<close> on \<open>CodeBufferBase\<close> justifies modelling the buffer of an assembler by
  the list of bytes emitted so far.
\<close>

definition store_at :: "LiteMutableBuffer \<Rightarrow> nat \<Rightarrow> u8 list \<Rightarrow> LiteMutableBuffer res" where
  "store_at b off bs =
    (case buffer b of None \<Rightarrow> Inl NullPointer
     | Some blk \<Rightarrow> if off + length bs \<le> length blk
         then Inr (b\<lparr>buffer := Some (overwrite blk off bs)\<rparr>) else Inl OutOfBounds)"

definition load_at :: "LiteMutableBuffer \<Rightarrow> nat \<Rightarrow> nat \<Rightarrow> u8 list res" where
  "load_at b off n =
    (case buffer b of None \<Rightarrow> Inl NullPointer
     | Some blk \<Rightarrow> if off + n \<le> length blk then Inr (take n (drop off blk)) else Inl OutOfBounds)"

definition store_cursor :: "LiteMutableBuffer \<Rightarrow> u8 list \<Rightarrow> LiteMutableBuffer res" where
  "store_cursor b bs =
    rbind (store_at b (buffer_cursor b) bs) (\<lambda>b. Inr (b\<lparr>buffer_cursor := buffer_cursor b + length bs\<rparr>))"

definition CodeBufferBase_Emit8 :: "mallocator \<Rightarrow> LiteMutableBuffer \<Rightarrow> u8 \<Rightarrow> LiteMutableBuffer res" where
  "CodeBufferBase_Emit8 malloc b v =
    rbind (LiteMutableBuffer_ensureCapacity malloc b (1 + LiteMutableBuffer_getSize b)) (\<lambda>(_, b).
      store_cursor b (le_bytes 1 v))"

definition CodeBufferBase_Emit16 :: "mallocator \<Rightarrow> LiteMutableBuffer \<Rightarrow> u16 \<Rightarrow> LiteMutableBuffer res" where
  "CodeBufferBase_Emit16 malloc b v =
    rbind (LiteMutableBuffer_ensureCapacity malloc b (2 + LiteMutableBuffer_getSize b)) (\<lambda>(_, b).
      store_cursor b (le_bytes 2 v))"

definition CodeBufferBase_Emit32 :: "mallocator \<Rightarrow> LiteMutableBuffer \<Rightarrow> u32 \<Rightarrow> LiteMutableBuffer res" where
  "CodeBufferBase_Emit32 malloc b v =
    rbind (LiteMutableBuffer_ensureCapacity malloc b (4 + LiteMutableBuffer_getSize b)) (\<lambda>(_, b).
      store_cursor b (le_bytes 4 v))"

definition CodeBufferBase_Emit64 :: "mallocator \<Rightarrow> LiteMutableBuffer \<Rightarrow> u64 \<Rightarrow> LiteMutableBuffer res" where
  "CodeBufferBase_Emit64 malloc b v =
    rbind (LiteMutableBuffer_ensureCapacity malloc b (8 + LiteMutableBuffer_getSize b)) (\<lambda>(_, b).
      store_cursor b (le_bytes 8 v))"

text \<open>\<open>src\<close> is the memory \<open>buffer\<close> points to, of \<open>buffer_size\<close> bytes.\<close>

definition CodeBufferBase_EmitBuffer :: "mallocator \<Rightarrow> LiteMutableBuffer \<Rightarrow> u8 list \<Rightarrow> LiteMutableBuffer res" where
  "CodeBufferBase_EmitBuffer malloc b src =
    rbind (LiteMutableBuffer_ensureCapacity malloc b (of_nat (length src) + LiteMutableBuffer_getSize b))
      (\<lambda>(_, b). store_cursor b src)"

definition CodeBufferBase_new :: "mallocator \<Rightarrow> u32 \<Rightarrow> LiteMutableBuffer" where
  "CodeBufferBase_new malloc n =
    snd (LiteMutableBuffer_initWithCapacity malloc \<lparr>buffer = None, buffer_cursor = 0, buffer_capacity = 0\<rparr> n)"

definition CodeBufferBase_Copy :: "mallocator \<Rightarrow> LiteMutableBuffer \<Rightarrow> LiteMutableBuffer res" where
  "CodeBufferBase_Copy malloc b =
    rbind (load_at b 0 (buffer_cursor b)) (\<lambda>src.
      CodeBufferBase_EmitBuffer malloc (CodeBufferBase_new malloc (buffer_capacity b)) src)"

text \<open>The operations of the ARM64 and x64 classes.\<close>

definition CodeBuffer_LoadInst :: "LiteMutableBuffer \<Rightarrow> nat \<Rightarrow> u32 res" where
  "CodeBuffer_LoadInst b offset = rbind (load_at b offset 4) (\<lambda>bs. Inr (of_le_bytes bs))"

definition CodeBuffer_FixBindLabel :: "LiteMutableBuffer \<Rightarrow> nat \<Rightarrow> u32 \<Rightarrow> LiteMutableBuffer res" where
  "CodeBuffer_FixBindLabel b offset v = store_at b offset (le_bytes 4 v)"

definition CodeBuffer_EmitInst :: "mallocator \<Rightarrow> LiteMutableBuffer \<Rightarrow> u32 \<Rightarrow> LiteMutableBuffer res" where
  "CodeBuffer_EmitInst malloc b instr =
    rbind (LiteMutableBuffer_ensureCapacity malloc b (LiteMutableBuffer_getSize b + 4)) (\<lambda>(_, b).
      store_cursor b (le_bytes 4 instr))"

section \<open>What emitting does to the contents\<close>

lemma store_cursor_ok:
  assumes "buffer_inv b" "buffer_cursor b + length bs \<le> unat (buffer_capacity b)"
  shows "\<exists>b'. store_cursor b bs = Inr b' \<and> buffer_inv b' \<and> contents b' = contents b @ bs"
proof -
  obtain blk where blk: "buffer b = Some blk" "length blk = unat (buffer_capacity b)"
    using assms(1) by (auto simp: buffer_inv_def)
  with assms(2) have "store_cursor b bs = Inr (b\<lparr>buffer := Some (overwrite blk (buffer_cursor b) bs),
      buffer_cursor := buffer_cursor b + length bs\<rparr>)"
    by (simp add: store_cursor_def store_at_def)
  with blk assms(2) show ?thesis
    by (auto simp: buffer_inv_def contents_def overwrite_def)
qed

lemma emit_ok:
  assumes "heap_available malloc" "buffer_inv b" "length (contents b) + length bs \<le> 2 ^ 30"
    and "n = of_nat (length bs) + LiteMutableBuffer_getSize b"
  shows "\<exists>b'. rbind (LiteMutableBuffer_ensureCapacity malloc b n) (\<lambda>(_, b). store_cursor b bs) = Inr b' \<and>
    buffer_inv b' \<and> contents b' = contents b @ bs"
proof -
  have "n = of_nat (length bs + buffer_cursor b)"
    using assms(4) by (simp add: LiteMutableBuffer_getSize_def)
  then have n: "unat n = length bs + buffer_cursor b"
    using assms(2,3) unat_of_nat_u32 [of "length bs + buffer_cursor b"] by simp
  then have "unat n \<le> 2 ^ 30" using assms(2,3) by simp
  with ensureCapacity_ok [OF assms(1,2)] obtain c b1 where
    b1: "LiteMutableBuffer_ensureCapacity malloc b n = Inr (c, b1)" "buffer_inv b1"
      "contents b1 = contents b" "buffer_cursor b1 = buffer_cursor b" "n \<le> buffer_capacity b1"
    by blast
  then have "buffer_cursor b1 + length bs \<le> unat (buffer_capacity b1)"
    using n by (simp add: word_le_nat_alt)
  with store_cursor_ok [OF b1(2)] b1 show ?thesis by auto
qed

section \<open>The interface of the assemblers\<close>

text \<open>
  The items an assembler emits, and their emission by the operations of the code buffer.
\<close>

datatype emission = E8 u8 | E16 u16 | E32 u32 | E64 u64 | EBuf "u8 list" | EInst u32

fun emission_image :: "emission \<Rightarrow> u8 list" where
  "emission_image (E8 v) = le_bytes 1 v"
| "emission_image (E16 v) = le_bytes 2 v"
| "emission_image (E32 v) = le_bytes 4 v"
| "emission_image (E64 v) = le_bytes 8 v"
| "emission_image (EBuf bs) = bs"
| "emission_image (EInst v) = le_bytes 4 v"

fun emit :: "mallocator \<Rightarrow> LiteMutableBuffer \<Rightarrow> emission \<Rightarrow> LiteMutableBuffer res" where
  "emit malloc b (E8 v) = CodeBufferBase_Emit8 malloc b v"
| "emit malloc b (E16 v) = CodeBufferBase_Emit16 malloc b v"
| "emit malloc b (E32 v) = CodeBufferBase_Emit32 malloc b v"
| "emit malloc b (E64 v) = CodeBufferBase_Emit64 malloc b v"
| "emit malloc b (EBuf bs) = CodeBufferBase_EmitBuffer malloc b bs"
| "emit malloc b (EInst v) = CodeBuffer_EmitInst malloc b v"

lemma emit_item_ok:
  assumes "heap_available malloc" "buffer_inv b" "length (contents b) + length (emission_image x) \<le> 2 ^ 30"
  shows "\<exists>b'. emit malloc b x = Inr b' \<and> buffer_inv b' \<and> contents b' = contents b @ emission_image x"
  using emit_ok [OF assms(1,2), of "emission_image x"] assms(3)
  by (cases x) (simp_all add: CodeBufferBase_Emit8_def CodeBufferBase_Emit16_def CodeBufferBase_Emit32_def
      CodeBufferBase_Emit64_def CodeBufferBase_EmitBuffer_def CodeBuffer_EmitInst_def add.commute
      del: le_bytes.simps)

interpretation code_buffer: appendable
  "\<lambda>b. heap_available malloc \<and> buffer_inv b" contents "emit malloc" emission_image "2 ^ 30"
  for malloc
  by unfold_locales (use emit_item_ok in blast)

section \<open>Patching emitted code\<close>

lemma contents_store_at:
  assumes "buffer_inv b" "off + length bs \<le> length (contents b)"
  shows "\<exists>b'. store_at b off bs = Inr b' \<and> buffer_inv b' \<and> contents b' = overwrite (contents b) off bs"
proof -
  obtain blk where blk: "buffer b = Some blk" "length blk = unat (buffer_capacity b)"
      "buffer_cursor b \<le> length blk"
    using assms(1) by (auto simp: buffer_inv_def)
  have off: "off + length bs \<le> buffer_cursor b" using assms by simp
  then have "take (buffer_cursor b) (overwrite blk off bs) = overwrite (take (buffer_cursor b) blk) off bs"
    using blk(3) by (rule take_overwrite)
  with blk off show ?thesis
    by (auto simp: store_at_def buffer_inv_def contents_def)
qed

lemma load_at_contents:
  assumes "buffer_inv b" "off + n \<le> length (contents b)"
  shows "load_at b off n = Inr (take n (drop off (contents b)))"
proof -
  obtain blk where "buffer b = Some blk" "buffer_cursor b \<le> length blk"
    using assms(1) by (auto simp: buffer_inv_def)
  moreover have "off + n \<le> buffer_cursor b" using assms by simp
  ultimately show ?thesis by (simp add: load_at_def contents_def drop_take)
qed

section \<open>Properties\<close>

text \<open>
  C22. Emitting any sequence of bytes, words and blocks of at most 1 GiB in all into a fresh code buffer
  succeeds, whatever capacity the buffer starts with, and leaves exactly the concatenation of their
  little-endian images as its contents: growing the buffer loses and changes nothing.
\<close>
theorem emit_sequence:
  assumes "heap_available malloc" "0 < n" "unat n < 2 ^ 31" "length (concat (map emission_image xs)) \<le> 2 ^ 30"
  shows "\<exists>b. code_buffer.put_all malloc (CodeBufferBase_new malloc n) xs = Inr b \<and> buffer_inv b \<and>
    contents b = concat (map emission_image xs)"
proof -
  have "buffer_inv (CodeBufferBase_new malloc n)" "contents (CodeBufferBase_new malloc n) = []"
    unfolding CodeBufferBase_new_def by (rule init_ok [OF assms(1,2,3)])+
  with code_buffer.put_all_ok [of malloc "CodeBufferBase_new malloc n" xs] assms(1,4) show ?thesis by auto
qed

theorem emit_sequence_witness:
  "\<exists>b. code_buffer.put_all zalloc (CodeBufferBase_new zalloc 1) [E8 0xE8, E32 0x11223344] = Inr b \<and>
    buffer_inv b \<and> contents b = [0xE8, 0x44, 0x33, 0x22, 0x11]"
proof -
  have "concat (map emission_image [E8 0xE8, E32 0x11223344]) = [0xE8, 0x44, 0x33, 0x22, 0x11]"
    by code_simp
  with emit_sequence [OF zalloc_available, of 1 "[E8 0xE8, E32 0x11223344]"] show ?thesis by simp
qed

text \<open>
  Patching an instruction that has been emitted and reading it back gives the patched word, and
  changes no other byte of the contents: \<open>FixBindLabel\<close> and \<open>LoadInst\<close> agree on their offsets.
\<close>
lemma fix_bind_label_load:
  assumes "buffer_inv b" "off + 4 \<le> length (contents b)"
  shows "\<exists>b'. CodeBuffer_FixBindLabel b off v = Inr b' \<and> buffer_inv b' \<and>
    CodeBuffer_LoadInst b' off = Inr v \<and> contents b' = overwrite (contents b) off (le_bytes 4 v)"
proof -
  obtain b' where b': "store_at b off (le_bytes 4 v) = Inr b'" "buffer_inv b'"
      "contents b' = overwrite (contents b) off (le_bytes 4 v)"
    using contents_store_at [OF assms(1), of off "le_bytes 4 v"] assms(2) by auto
  then have "off + 4 \<le> length (contents b')" using assms(2) by simp
  with b' load_at_contents [OF b'(2)] overwrite_read [of off "contents b" "le_bytes 4 v"] assms(2)
  show ?thesis by (simp add: CodeBuffer_FixBindLabel_def CodeBuffer_LoadInst_def del: le_bytes.simps)
qed

text \<open>
  \<open>Copy\<close> gives a buffer with the same contents, for every buffer of at most 1 GiB that has a capacity.
\<close>
lemma code_buffer_copy:
  assumes "heap_available malloc" "buffer_inv b" "0 < buffer_capacity b" "unat (buffer_capacity b) \<le> 2 ^ 30"
  shows "\<exists>b'. CodeBufferBase_Copy malloc b = Inr b' \<and> buffer_inv b' \<and> contents b' = contents b"
proof -
  let ?new = "CodeBufferBase_new malloc (buffer_capacity b)"
  have new: "buffer_inv ?new" "contents ?new = []"
    unfolding CodeBufferBase_new_def using assms(4) by (intro init_ok [OF assms(1,3)]; simp)+
  have le: "length (contents b) \<le> 2 ^ 30"
    using assms(2,4) by (auto simp: buffer_inv_def)
  have "load_at b 0 (buffer_cursor b) = Inr (contents b)"
    using load_at_contents [OF assms(2), of 0 "buffer_cursor b"] assms(2) by simp
  then have "CodeBufferBase_Copy malloc b = emit malloc ?new (EBuf (contents b))"
    by (simp add: CodeBufferBase_Copy_def)
  with emit_item_ok [OF assms(1) new(1), of "EBuf (contents b)"] new le show ?thesis by simp
qed

end
