(* ===== verification/ProcessMemory.thy ===== *)
theory ProcessMemory
  imports Prelude
begin

text \<open>
  The memory of the process as a function from addresses to bytes: reading and writing a range of it, ranges that do not
  meet, and 64-bit words in it.
\<close>

section \<open>Memory\<close>

definition peek :: "(u64 \<Rightarrow> u8) \<Rightarrow> u64 \<Rightarrow> nat \<Rightarrow> u8 list" where
  "peek m addr n = map (\<lambda>i. m (addr + of_nat i)) [0..<n]"

definition poke :: "(u64 \<Rightarrow> u8) \<Rightarrow> u64 \<Rightarrow> u8 list \<Rightarrow> u64 \<Rightarrow> u8" where
  "poke m addr bs = (\<lambda>a. if unat (a - addr) < length bs then bs ! unat (a - addr) else m a)"

section \<open>Reading and patching\<close>

lemma length_peek [simp]: "length (peek m a n) = n"
  by (simp add: peek_def)

lemma unat_offset: "i < 2 ^ 64 \<Longrightarrow> unat ((a :: u64) + of_nat i - a) = i"
  by (simp add: unsigned_of_nat take_bit_nat_eq_self)

lemma peek_poke:
  assumes "length bs < 2 ^ 64"
  shows "peek (poke m a bs) a (length bs) = bs"
  using assms by (intro nth_equalityI) (simp_all add: peek_def poke_def unsigned_of_nat take_bit_nat_eq_self)

lemma poke_poke: "length bs = length cs \<Longrightarrow> poke (poke m a bs) a cs = poke m a cs"
  by (simp add: poke_def fun_eq_iff)

lemma poke_peek:
  assumes "n < 2 ^ 64"
  shows "poke m a (peek m a n) = m"
  by (rule ext) (simp add: poke_def peek_def)

text \<open>Two ranges that do not wrap around and do not meet.\<close>

definition apart :: "u64 \<Rightarrow> nat \<Rightarrow> u64 \<Rightarrow> nat \<Rightarrow> bool" where
  "apart a n b k \<longleftrightarrow> unat a + n \<le> 2 ^ 64 \<and> unat b + k \<le> 2 ^ 64 \<and> (unat a + n \<le> unat b \<or> unat b + k \<le> unat a)"

lemma apart_sym: "apart a n b k \<longleftrightarrow> apart b k a n"
  by (auto simp: apart_def)

lemma apart_outside:
  assumes "apart a n b k" "i < k"
  shows "\<not> unat (b + of_nat i - a) < n"
proof -
  have i: "unat (b + of_nat i) = unat b + i"
    using assms by (auto simp: apart_def unat_add_lem [THEN iffD1] unsigned_of_nat take_bit_nat_eq_self)
  show ?thesis
  proof (cases "unat a \<le> unat b + i")
    case True
    then have "unat (b + of_nat i - a) = unat b + i - unat a" by (simp add: unat_sub i word_le_nat_alt)
    then show ?thesis using True assms by (auto simp: apart_def)
  next
    case False
    then have "unat (b + of_nat i - a) = 2 ^ 64 - (unat a - (unat b + i))"
      by (simp add: unat_sub_if' i)
    then show ?thesis using False assms by (auto simp: apart_def)
  qed
qed

lemma peek_poke_apart: "apart a (length bs) b k \<Longrightarrow> peek (poke m a bs) b k = peek m b k"
  using apart_outside by (auto simp: peek_def poke_def)

lemma poke_commute:
  assumes "apart a (length bs) b (length cs)"
  shows "poke (poke m a bs) b cs = poke (poke m b cs) a bs"
proof
  fix x
  have "\<not> unat (x - a) < length bs" if "unat (x - b) < length cs"
    using apart_outside [OF assms that] by simp
  then show "poke (poke m a bs) b cs x = poke (poke m b cs) a bs x" by (auto simp: poke_def)
qed

section \<open>Words in memory\<close>

definition load64 :: "(u64 \<Rightarrow> u8) \<Rightarrow> u64 \<Rightarrow> u64" where
  "load64 m a = of_le_bytes (peek m a 8)"

definition store64 :: "(u64 \<Rightarrow> u8) \<Rightarrow> u64 \<Rightarrow> u64 \<Rightarrow> u64 \<Rightarrow> u8" where
  "store64 m a v = poke m a (le_bytes 8 v)"

lemma load64_store64_same [simp]: "load64 (store64 m a v) a = v"
  using peek_poke [of "le_bytes 8 v" m a] by (simp add: load64_def store64_def del: le_bytes.simps)

lemma load64_store64_other:
  assumes "8 \<le> b - a" "8 \<le> a - b"
  shows "load64 (store64 m a v) b = load64 m b"
proof -
  have "\<not> unat (b + of_nat i - a) < 8" if "i < 8" for i
  proof -
    have i: "unat (of_nat i :: u64) = i" using that by (simp add: unsigned_of_nat take_bit_nat_eq_self)
    have eq: "b + of_nat i - a = (b - a) + of_nat i" by simp
    have "unat (b - a) + i < 2 ^ 64"
    proof -
      have "b \<noteq> a" using assms by auto
      then have "unat (a - b) = 2 ^ 64 - unat (b - a)"
        using unsigned_less [of a, where ?'a = nat] unsigned_less [of b, where ?'a = nat] by (auto simp: unat_sub_if' word_unat_eq_iff)
      moreover have "8 \<le> unat (a - b)" using assms(2) by (simp add: word_le_nat_alt)
      ultimately show ?thesis using that by simp
    qed
    then have "unat (b + of_nat i - a) = unat (b - a) + i"
      unfolding eq using unat_add_lem [of "b - a" "of_nat i"] i by simp
    then show ?thesis using assms(1) by (simp add: word_le_nat_alt)
  qed
  then show ?thesis by (auto simp: load64_def store64_def peek_def poke_def simp del: le_bytes.simps cong: map_cong intro!: arg_cong [of _ _ of_le_bytes])
qed

lemma peek_store64_apart: "apart a 8 b k \<Longrightarrow> peek (store64 m a v) b k = peek m b k"
  using peek_poke_apart [of a "le_bytes 8 v" b k m] by (simp add: store64_def del: le_bytes.simps)

text \<open>A range of memory holds the given bytes.\<close>

definition holds_code :: "(u64 \<Rightarrow> u8) \<Rightarrow> u64 \<Rightarrow> u8 list \<Rightarrow> bool" where
  "holds_code m a code \<longleftrightarrow> peek m a (length code) = code"

lemma peek_append: "peek m a (n + k) = peek m a n @ peek m (a + of_nat n) k"
  by (rule nth_equalityI) (auto simp: peek_def nth_append algebra_simps)

lemma peek_take: "k \<le> n \<Longrightarrow> take k (peek m a n) = peek m a k"
  using peek_append [of m a k "n - k"] by simp

lemma peek_drop: "k \<le> n \<Longrightarrow> drop k (peek m a n) = peek m (a + of_nat k) (n - k)"
  using peek_append [of m a k "n - k"] by simp

lemma holds_code_append: "holds_code m a (xs @ ys) \<longleftrightarrow> holds_code m a xs \<and> holds_code m (a + of_nat (length xs)) ys"
  by (simp add: holds_code_def peek_append)

lemma holds_code_apart: "apart a (length bs) b (length code) \<Longrightarrow> holds_code (poke m a bs) b code \<longleftrightarrow> holds_code m b code"
  by (simp add: holds_code_def peek_poke_apart)

lemma holds_code_store64: "apart a 8 b (length code) \<Longrightarrow> holds_code (store64 m a v) b code \<longleftrightarrow> holds_code m b code"
  by (simp add: holds_code_def peek_store64_apart)

lemma holds_code_poke: "length code < 2 ^ 64 \<Longrightarrow> holds_code (poke m a code) a code"
  by (simp add: holds_code_def peek_poke)

lemma holds_code_word: "holds_code m a (le_bytes 8 v) \<Longrightarrow> load64 m a = v"
  by (simp add: holds_code_def load64_def del: le_bytes.simps)

lemma apart_sub:
  assumes "apart p n b k" "i + j \<le> k" "0 < j"
  shows "apart p n (b + of_nat i) j"
proof -
  have "unat b + i < 2 ^ 64" using assms by (simp add: apart_def)
  then have "unat (b + of_nat i) = unat b + i"
    using unat_add_lem [of b "of_nat i"] by (simp add: unsigned_of_nat take_bit_nat_eq_self)
  then show ?thesis using assms by (auto simp: apart_def)
qed

lemma holds_code_load64:
  assumes "holds_code m b (xs @ le_bytes 8 v @ ys)" "length xs = n"
  shows "load64 m (of_nat n + b) = v"
  using assms holds_code_word by (auto simp: holds_code_append add.commute simp del: le_bytes.simps)

lemma peek_frame: "apart p n b k \<Longrightarrow> (\<And>x. n \<le> unat (x - p) \<Longrightarrow> m x = m' x) \<Longrightarrow> peek m b k = peek m' b k"
  using apart_outside [of p n b k] by (force simp: peek_def)

lemma load64_cong: "(\<And>i. i < 8 \<Longrightarrow> m (a + of_nat i) = m' (a + of_nat i)) \<Longrightarrow> load64 m a = load64 m' a"
  by (auto simp: load64_def peek_def intro!: arg_cong [where f = of_le_bytes] map_cong)

end
