(* ===== verification/MemoryArena.thy ===== *)
theory MemoryArena
  imports LiteCollections
begin

text \<open>
  The allocator of executable memory, \<open>MemoryAllocator/MemoryArena.cc\<close>, over \<open>OSMemory\<close> of \<open>platform-posix.cc\<close>. The
  arrays of pages and chunks are lists here: \<open>LiteCollections\<close> shows that the growing arrays behave so. What \<open>mmap\<close>
  returns is a parameter of each call.
\<close>

section \<open>OSMemory\<close>

datatype MemoryPermission = kNoAccess | kRead | kReadWrite | kReadWriteExecute | kReadExecute

definition PROT_NONE :: u32 where "PROT_NONE = 0"
definition PROT_READ :: u32 where "PROT_READ = 1"
definition PROT_WRITE :: u32 where "PROT_WRITE = 2"
definition PROT_EXEC :: u32 where "PROT_EXEC = 4"
definition MAP_PRIVATE :: u32 where "MAP_PRIVATE = 2"
definition MAP_FIXED :: u32 where "MAP_FIXED = 0x10"
definition MAP_ANONYMOUS :: u32 where "MAP_ANONYMOUS = 0x20"

definition GetProtectionFromMemoryPermission :: "MemoryPermission \<Rightarrow> u32" where
  "GetProtectionFromMemoryPermission access =
    (case access of kNoAccess \<Rightarrow> PROT_NONE
     | kRead \<Rightarrow> PROT_READ
     | kReadWrite \<Rightarrow> PROT_READ OR PROT_WRITE
     | kReadWriteExecute \<Rightarrow> PROT_READ OR PROT_WRITE OR PROT_EXEC
     | kReadExecute \<Rightarrow> PROT_READ OR PROT_EXEC)"

text \<open>\<open>mmap address size prot flags\<close>; \<open>None\<close> is \<open>MAP_FAILED\<close>. The result 0 is the null pointer.\<close>

type_synonym mmap = "u64 \<Rightarrow> u32 \<Rightarrow> u32 \<Rightarrow> u32 \<Rightarrow> u64 option"

definition OSMemory_Allocate :: "mmap \<Rightarrow> u64 \<Rightarrow> u32 \<Rightarrow> MemoryPermission \<Rightarrow> u64" where
  "OSMemory_Allocate mmap address sz access =
    (let prot = GetProtectionFromMemoryPermission access;
         flags = MAP_PRIVATE OR MAP_ANONYMOUS;
         flags = (if address \<noteq> 0 then flags OR MAP_FIXED else flags)
     in case mmap address sz prot flags of None \<Rightarrow> 0 | Some result \<Rightarrow> result)"

section \<open>MemoryArena\<close>

record MemoryChunk =
  chunk_address :: u64
  chunk_length :: u64

definition raw_instruction_start :: "MemoryChunk \<Rightarrow> u64" where
  "raw_instruction_start c = chunk_address c"

definition raw_instruction_size :: "MemoryChunk \<Rightarrow> u64" where
  "raw_instruction_size c = chunk_length c"

definition init_region_range :: "u64 \<Rightarrow> u64 \<Rightarrow> MemoryChunk" where
  "init_region_range address sz = \<lparr>chunk_address = address, chunk_length = sz\<rparr>"

record PageChunk =
  page :: MemoryChunk
  page_cursor :: u64
  page_permission :: MemoryPermission
  page_chunk_list :: "MemoryChunk list"

text \<open>\<open>None\<close>: \<open>page_chunks\<close> is null.\<close>

type_synonym arena = "PageChunk list option"

text \<open>Whether the remaining space of a page is enough.\<close>

definition page_fits :: "u64 \<Rightarrow> MemoryPermission \<Rightarrow> PageChunk \<Rightarrow> bool" where
  "page_fits alloc_size permission p \<longleftrightarrow> page_permission p = permission \<and>
     page_cursor p + alloc_size < chunk_address (page p) + chunk_length (page p)"

text \<open>The index of the first page the loop stops at.\<close>

fun find_page :: "(PageChunk \<Rightarrow> bool) \<Rightarrow> PageChunk list \<Rightarrow> nat option" where
  "find_page P [] = None"
| "find_page P (p # ps) = (if P p then Some 0 else map_option Suc (find_page P ps))"

text \<open>Cutting a chunk off a page.\<close>

definition push_chunk :: "u64 \<Rightarrow> PageChunk \<Rightarrow> MemoryChunk \<times> PageChunk" where
  "push_chunk alloc_size p =
    (let chunk = \<lparr>chunk_address = page_cursor p, chunk_length = alloc_size\<rparr>
     in (chunk, p\<lparr>page_chunk_list := page_chunk_list p @ [chunk], page_cursor := page_cursor p + alloc_size\<rparr>))"

definition new_page :: "u64 \<Rightarrow> u32 \<Rightarrow> MemoryPermission \<Rightarrow> PageChunk" where
  "new_page pageAddress pageSize permission =
    \<lparr>page = \<lparr>chunk_address = pageAddress, chunk_length = scast pageSize\<rparr>, page_cursor = pageAddress,
     page_permission = permission, page_chunk_list = []\<rparr>"

definition MemoryArena_AllocateChunk ::
  "mmap \<Rightarrow> u32 \<Rightarrow> u32 \<Rightarrow> MemoryPermission \<Rightarrow> arena \<Rightarrow> MemoryChunk option \<times> arena" where
  "MemoryArena_AllocateChunk mmap pageSize alloc_size permission page_chunks =
    (let pages = (case page_chunks of None \<Rightarrow> [] | Some ps \<Rightarrow> ps);
         sz = scast alloc_size
     in case find_page (page_fits sz permission) pages of
       Some i \<Rightarrow> (case push_chunk sz (pages ! i) of (chunk, p) \<Rightarrow> (Some chunk, Some (pages[i := p])))
     | None \<Rightarrow>
       let pageAddress = OSMemory_Allocate mmap 0 pageSize permission
       in if pageAddress = 0 then (None, Some pages)
          else case push_chunk sz (new_page pageAddress pageSize permission) of
            (chunk, p) \<Rightarrow> (Some chunk, Some (pages @ [p])))"

definition MemoryArena_AllocateCodeChunk :: "mmap \<Rightarrow> u32 \<Rightarrow> u32 \<Rightarrow> arena \<Rightarrow> MemoryChunk option \<times> arena" where
  "MemoryArena_AllocateCodeChunk mmap pageSize alloc_size = MemoryArena_AllocateChunk mmap pageSize alloc_size kReadExecute"

definition MemoryArena_AllocateDataChunk :: "mmap \<Rightarrow> u32 \<Rightarrow> u32 \<Rightarrow> arena \<Rightarrow> MemoryChunk option \<times> arena" where
  "MemoryArena_AllocateDataChunk mmap pageSize alloc_size = MemoryArena_AllocateChunk mmap pageSize alloc_size kReadWrite"

section \<open>Invariant\<close>

definition chunk_range :: "MemoryChunk \<Rightarrow> nat set" where
  "chunk_range c = {unat (chunk_address c) ..< unat (chunk_address c) + unat (chunk_length c)}"

text \<open>Chunks one after the other between two addresses.\<close>

fun chain :: "nat \<Rightarrow> MemoryChunk list \<Rightarrow> nat \<Rightarrow> bool" where
  "chain lo [] hi \<longleftrightarrow> lo = hi"
| "chain lo (c # cs) hi \<longleftrightarrow> unat (chunk_address c) = lo \<and> chain (lo + unat (chunk_length c)) cs hi"

definition page_inv :: "PageChunk \<Rightarrow> bool" where
  "page_inv p \<longleftrightarrow> unat (chunk_address (page p)) + unat (chunk_length (page p)) < 2 ^ 63 \<and>
     chain (unat (chunk_address (page p))) (page_chunk_list p) (unat (page_cursor p)) \<and>
     unat (page_cursor p) \<le> unat (chunk_address (page p)) + unat (chunk_length (page p))"

abbreviation disjoint_chunks :: "MemoryChunk list \<Rightarrow> bool" where
  "disjoint_chunks \<equiv> sorted_wrt (\<lambda>c d. chunk_range c \<inter> chunk_range d = {})"

definition arena_pages :: "arena \<Rightarrow> PageChunk list" where
  "arena_pages a = (case a of None \<Rightarrow> [] | Some ps \<Rightarrow> ps)"

definition arena_chunks :: "arena \<Rightarrow> MemoryChunk list" where
  "arena_chunks a = concat (map page_chunk_list (arena_pages a))"

definition arena_inv :: "arena \<Rightarrow> bool" where
  "arena_inv a \<longleftrightarrow> list_all page_inv (arena_pages a) \<and> disjoint_chunks (map page (arena_pages a))"

lemma chain_append: "chain lo (xs @ ys) hi \<longleftrightarrow> (\<exists>m. chain lo xs m \<and> chain m ys hi)"
  by (induction xs arbitrary: lo) auto

lemma chain_le: "chain lo cs hi \<Longrightarrow> lo \<le> hi"
  by (induction cs arbitrary: lo) fastforce+

lemma chain_within: "chain lo cs hi \<Longrightarrow> c \<in> set cs \<Longrightarrow> chunk_range c \<subseteq> {lo..<hi}"
proof (induction cs arbitrary: lo)
  case (Cons d cs)
  then show ?case using chain_le [of "lo + unat (chunk_length d)" cs hi] by (fastforce simp: chunk_range_def)
qed simp

lemma push_chunk_inv:
  assumes "page_inv p" "unat (page_cursor p) + unat sz \<le> unat (chunk_address (page p)) + unat (chunk_length (page p))"
    "push_chunk sz p = (c, p')"
  shows "page_inv p'" "page p' = page p" "page_permission p' = page_permission p" "page_chunk_list p' = page_chunk_list p @ [c]"
    "chunk_length c = sz" "chunk_range c \<subseteq> chunk_range (page p)"
    "\<And>d. d \<in> set (page_chunk_list p) \<Longrightarrow> chunk_range d \<inter> chunk_range c = {}"
proof -
  have c: "c = \<lparr>chunk_address = page_cursor p, chunk_length = sz\<rparr>"
    and p': "p' = p\<lparr>page_chunk_list := page_chunk_list p @ [c], page_cursor := page_cursor p + sz\<rparr>"
    using assms(3) by (auto simp: push_chunk_def Let_def)
  have no: "unat (page_cursor p + sz) = unat (page_cursor p) + unat sz"
    using assms(1,2) by (simp add: page_inv_def unat_add_lem [THEN iffD1])
  then show "page_inv p'" using assms(1,2) by (auto simp: page_inv_def p' c chain_append)
  show "page p' = page p" "page_permission p' = page_permission p" "page_chunk_list p' = page_chunk_list p @ [c]" "chunk_length c = sz"
    by (simp_all add: p' c)
  have ch: "chain (unat (chunk_address (page p))) (page_chunk_list p) (unat (page_cursor p))" using assms(1) by (simp add: page_inv_def)
  show "chunk_range c \<subseteq> chunk_range (page p)"
    using assms(2) chain_le [OF ch] by (auto simp: chunk_range_def c)
  show "chunk_range d \<inter> chunk_range c = {}" if "d \<in> set (page_chunk_list p)" for d
    using chain_within [OF ch that] by (auto simp: chunk_range_def c)
qed

lemma find_page_Some: "find_page P ps = Some i \<Longrightarrow> i < length ps \<and> P (ps ! i)"
  by (induction ps arbitrary: i) (auto split: if_splits)

lemma chunks_in_pages: "arena_inv a \<Longrightarrow> p \<in> set (arena_pages a) \<Longrightarrow> d \<in> set (page_chunk_list p) \<Longrightarrow> chunk_range d \<subseteq> chunk_range (page p)"
proof -
  assume "arena_inv a" "p \<in> set (arena_pages a)" "d \<in> set (page_chunk_list p)"
  then have "chain (unat (chunk_address (page p))) (page_chunk_list p) (unat (page_cursor p))"
    "unat (page_cursor p) \<le> unat (chunk_address (page p)) + unat (chunk_length (page p))"
    by (auto simp: arena_inv_def list_all_iff page_inv_def)
  with \<open>d \<in> set (page_chunk_list p)\<close> show ?thesis using chain_within [of _ _ _ d] by (fastforce simp: chunk_range_def)
qed

text \<open>What is relied on of \<open>mmap\<close>: a new page, when there is one, is in the lower half of the address space and disjoint from the pages of the arena.\<close>

definition mmap_fresh :: "mmap \<Rightarrow> u32 \<Rightarrow> MemoryPermission \<Rightarrow> arena \<Rightarrow> bool" where
  "mmap_fresh mmap pageSize permission a \<longleftrightarrow>
    (let addr = OSMemory_Allocate mmap 0 pageSize permission in addr \<noteq> 0 \<longrightarrow>
       unat addr + unat pageSize < 2 ^ 63 \<and>
       list_all (\<lambda>p. chunk_range (page p) \<inter> chunk_range \<lparr>chunk_address = addr, chunk_length = scast pageSize\<rparr> = {}) (arena_pages a))"

lemma scast_small: "unat (n :: u32) < 2 ^ 31 \<Longrightarrow> unat (scast n :: u64) = unat n"
  by (simp add: scast_ucast_small unsigned_ucast_eq take_bit_nat_eq_self)

lemma fits_no_wrap:
  assumes "page_inv p" "page_fits sz perm p" "unat sz < 2 ^ 31"
  shows "unat (page_cursor p) + unat sz \<le> unat (chunk_address (page p)) + unat (chunk_length (page p))"
proof -
  have "unat (page_cursor p + sz) = unat (page_cursor p) + unat sz"
    "unat (chunk_address (page p) + chunk_length (page p)) = unat (chunk_address (page p)) + unat (chunk_length (page p))"
    using assms(1,3) by (simp_all add: page_inv_def unat_add_lem [THEN iffD1])
  then show ?thesis using assms(2) by (simp add: page_fits_def word_less_nat_alt)
qed

text \<open>The outcome of an allocation: what the arena held before and the new chunk.\<close>

definition allocated :: "MemoryPermission \<Rightarrow> u64 \<Rightarrow> arena \<Rightarrow> MemoryChunk \<Rightarrow> arena \<Rightarrow> bool" where
  "allocated perm sz a c a' \<longleftrightarrow> chunk_length c = sz \<and>
     (\<exists>p\<in>set (arena_pages a'). page_permission p = perm \<and> c \<in> set (page_chunk_list p) \<and> chunk_range c \<subseteq> chunk_range (page p)) \<and>
     (\<forall>d\<in>set (arena_chunks a). chunk_range d \<inter> chunk_range c = {}) \<and>
     set (arena_chunks a') = insert c (set (arena_chunks a))"

lemma allocate_in_page:
  assumes inv: "arena_inv a" and ps: "arena_pages a = us @ q # vs" and fits: "page_fits sz perm q" and sz: "unat sz < 2 ^ 31"
    and push: "push_chunk sz q = (c, p)"
  shows "arena_inv (Some (us @ p # vs))" "allocated perm sz a c (Some (us @ p # vs))"
proof -
  have q: "page_inv q" using inv ps by (simp add: arena_inv_def)
  note P = push_chunk_inv [OF q fits_no_wrap [OF q fits sz] push]
  show "arena_inv (Some (us @ p # vs))"
    using inv P(1,2) by (simp add: arena_inv_def ps) (simp add: arena_pages_def)
  have other: "chunk_range d \<inter> chunk_range c = {}" if "r \<in> set us \<union> set vs" "d \<in> set (page_chunk_list r)" for r d
  proof -
    have "chunk_range (page r) \<inter> chunk_range (page q) = {}"
      using inv that(1) by (auto simp: arena_inv_def ps sorted_wrt_append)
    moreover have "chunk_range d \<subseteq> chunk_range (page r)" using chunks_in_pages [OF inv _ that(2)] that(1) by (auto simp: ps)
    ultimately show ?thesis using P(6) by blast
  qed
  have "\<forall>d\<in>set (arena_chunks a). chunk_range d \<inter> chunk_range c = {}"
    using other P(7) by (auto simp: arena_chunks_def ps)
  moreover have "page_permission q = perm" using fits by (simp add: page_fits_def)
  moreover have "set (arena_chunks (Some (us @ p # vs))) = insert c (set (arena_chunks a))"
    using P(4) by (auto simp: arena_chunks_def ps) (auto simp: arena_pages_def)
  moreover have "arena_pages (Some (us @ p # vs)) = us @ p # vs" by (simp add: arena_pages_def)
  ultimately show "allocated perm sz a c (Some (us @ p # vs))" using P by (simp add: allocated_def)
qed

lemma allocate_new_page:
  assumes inv: "arena_inv a" and fresh: "mmap_fresh mmap pageSize perm a" and addr: "addr = OSMemory_Allocate mmap 0 pageSize perm" "addr \<noteq> 0"
    and sz: "unat sz \<le> unat pageSize" "unat pageSize < 2 ^ 31" and push: "push_chunk sz (new_page addr pageSize perm) = (c, p)"
  shows "arena_inv (Some (arena_pages a @ [p]))" "allocated perm sz a c (Some (arena_pages a @ [p]))"
proof -
  let ?q = "new_page addr pageSize perm"
  have f: "unat addr + unat pageSize < 2 ^ 63" "\<And>r. r \<in> set (arena_pages a) \<Longrightarrow> chunk_range (page r) \<inter> chunk_range (page ?q) = {}"
    using fresh addr by (auto simp: mmap_fresh_def Let_def new_page_def list_all_iff)
  have q: "page_inv ?q" "unat (page_cursor ?q) + unat sz \<le> unat (chunk_address (page ?q)) + unat (chunk_length (page ?q))"
    using f(1) sz by (simp_all add: page_inv_def new_page_def scast_small)
  note P = push_chunk_inv [OF q push]
  show "arena_inv (Some (arena_pages a @ [p]))"
    using inv P(1,2) f(2) unfolding arena_inv_def arena_pages_def [of "Some _"] by (simp add: sorted_wrt_append)
  have "\<forall>d\<in>set (arena_chunks a). chunk_range d \<inter> chunk_range c = {}"
    using f(2) chunks_in_pages [OF inv] P(6) by (fastforce simp: arena_chunks_def)
  moreover have "set (arena_chunks (Some (arena_pages a @ [p]))) = insert c (set (arena_chunks a))"
    unfolding arena_chunks_def arena_pages_def [of "Some _"] using P(4) by (simp add: new_page_def)
  moreover have "arena_pages (Some (arena_pages a @ [p])) = arena_pages a @ [p]" by (simp add: arena_pages_def)
  ultimately show "allocated perm sz a c (Some (arena_pages a @ [p]))" using P by (simp add: allocated_def new_page_def)
qed

lemma AllocateChunk_cases:
  assumes "arena_inv a" "mmap_fresh mmap pageSize perm a" "unat sz \<le> unat pageSize" "unat pageSize < 2 ^ 31"
  shows "case MemoryArena_AllocateChunk mmap pageSize sz perm a of
      (None, a') \<Rightarrow> OSMemory_Allocate mmap 0 pageSize perm = 0 \<and> arena_pages a' = arena_pages a
    | (Some c, a') \<Rightarrow> arena_inv a' \<and> allocated perm (scast sz) a c a'"
proof (cases "find_page (page_fits (scast sz) perm) (arena_pages a)")
  case (Some i)
  let ?ps = "arena_pages a"
  have i: "i < length ?ps" "page_fits (scast sz) perm (?ps ! i)" using find_page_Some [OF Some] by simp_all
  obtain c p where push: "push_chunk (scast sz) (?ps ! i) = (c, p)" by fastforce
  have "MemoryArena_AllocateChunk mmap pageSize sz perm a = (Some c, Some (take i ?ps @ p # drop (Suc i) ?ps))"
    using Some push i(1) by (simp add: MemoryArena_AllocateChunk_def arena_pages_def Let_def upd_conv_take_nth_drop)
  with allocate_in_page [OF assms(1) id_take_nth_drop [OF i(1)] i(2) _ push] assms(3,4) show ?thesis by (simp add: scast_small)
next
  case None
  define addr where "addr = OSMemory_Allocate mmap 0 pageSize perm"
  obtain c p where push: "push_chunk (scast sz) (new_page addr pageSize perm) = (c, p)" by fastforce
  have "MemoryArena_AllocateChunk mmap pageSize sz perm a =
      (if addr = 0 then (None, Some (arena_pages a)) else (Some c, Some (arena_pages a @ [p])))"
    using None push by (simp add: MemoryArena_AllocateChunk_def arena_pages_def Let_def addr_def)
  with allocate_new_page [OF assms(1,2) addr_def _ _ assms(4) push] assms(3,4) show ?thesis
    by (auto simp: scast_small addr_def) (simp add: arena_pages_def)
qed

lemma chain_disjoint: "chain lo cs hi \<Longrightarrow> disjoint_chunks cs"
proof (induction cs arbitrary: lo)
  case (Cons c cs)
  then show ?case using chain_within [of "lo + unat (chunk_length c)" cs hi] by (fastforce simp: chunk_range_def)
qed simp

lemma arena_inv_disjoint: "arena_inv a \<Longrightarrow> disjoint_chunks (arena_chunks a)"
proof -
  assume inv: "arena_inv a"
  have "disjoint_chunks (concat (map page_chunk_list ps))" if "list_all page_inv ps" "disjoint_chunks (map page ps)"
      "\<And>p d. p \<in> set ps \<Longrightarrow> d \<in> set (page_chunk_list p) \<Longrightarrow> chunk_range d \<subseteq> chunk_range (page p)" for ps
    using that
  proof (induction ps)
    case (Cons p ps)
    have "disjoint_chunks (page_chunk_list p)" using Cons.prems(1) chain_disjoint by (auto simp: page_inv_def)
    moreover have "disjoint_chunks (concat (map page_chunk_list ps))" using Cons by simp
    moreover have "chunk_range c \<inter> chunk_range d = {}" if "c \<in> set (page_chunk_list p)" "q \<in> set ps" "d \<in> set (page_chunk_list q)" for c q d
    proof -
      have "chunk_range (page p) \<inter> chunk_range (page q) = {}" using Cons.prems(2) that(2) by simp
      moreover have "chunk_range c \<subseteq> chunk_range (page p)" "chunk_range d \<subseteq> chunk_range (page q)"
        using Cons.prems(3) that by simp_all
      ultimately show ?thesis by blast
    qed
    ultimately show ?case by (auto simp: sorted_wrt_append)
  qed simp
  then show ?thesis using inv chunks_in_pages [OF inv] by (simp add: arena_chunks_def arena_inv_def)
qed

text \<open>The arenas a process reaches by allocating chunks of at most a page.\<close>

inductive arena_reachable :: "u32 \<Rightarrow> arena \<Rightarrow> bool" for pageSize where
  start: "arena_reachable pageSize None"
| alloc: "arena_reachable pageSize a \<Longrightarrow> mmap_fresh mmap pageSize perm a \<Longrightarrow> unat sz \<le> unat pageSize \<Longrightarrow>
    arena_reachable pageSize (snd (MemoryArena_AllocateChunk mmap pageSize sz perm a))"

lemma arena_reachable_inv:
  assumes "arena_reachable pageSize a" "unat pageSize < 2 ^ 31"
  shows "arena_inv a"
  using assms(1)
proof induction
  case start
  show ?case by (simp add: arena_inv_def arena_pages_def)
next
  case (alloc a mmap perm sz)
  from AllocateChunk_cases [OF alloc.IH alloc.hyps(2,3) assms(2)] alloc.IH show ?case
    by (auto simp: arena_inv_def split: prod.splits option.splits)
qed

section \<open>Properties\<close>

text \<open>
  C18. The chunks the arena has handed out never overlap and lie in its pages, after any sequence of allocations of at most
  a page each, as long as \<open>mmap\<close> returns memory that is not in use.
\<close>

theorem arena_chunks_never_overlap:
  assumes "arena_reachable pageSize a" "unat pageSize < 2 ^ 31"
  shows "disjoint_chunks (arena_chunks a) \<and>
    (\<forall>c\<in>set (arena_chunks a). \<exists>p\<in>set (arena_pages a). chunk_range c \<subseteq> chunk_range (page p))"
proof -
  have inv: "arena_inv a" by (rule arena_reachable_inv [OF assms])
  show ?thesis using arena_inv_disjoint [OF inv] chunks_in_pages [OF inv] by (fastforce simp: arena_chunks_def)
qed

lemma demo_arena_eq:
  "MemoryArena_AllocateChunk (\<lambda>_ _ _ _. Some 0x10000) 0x1000 48 kReadExecute None =
    (Some \<lparr>chunk_address = 0x10000, chunk_length = 48\<rparr>,
     Some [\<lparr>page = \<lparr>chunk_address = 0x10000, chunk_length = 0x1000\<rparr>, page_cursor = 0x10030, page_permission = kReadExecute,
       page_chunk_list = [\<lparr>chunk_address = 0x10000, chunk_length = 48\<rparr>]\<rparr>])"
  by (simp add: MemoryArena_AllocateChunk_def OSMemory_Allocate_def push_chunk_def new_page_def Let_def)

theorem arena_chunks_never_overlap_witness:
  "\<exists>a. arena_chunks a = [\<lparr>chunk_address = 0x10000, chunk_length = 48\<rparr>, \<lparr>chunk_address = 0x10030, chunk_length = 64\<rparr>] \<and>
    disjoint_chunks (arena_chunks a)"
proof -
  have fresh: "mmap_fresh (\<lambda>_ _ _ _. Some 0x10000) 0x1000 kReadExecute None"
    by (simp add: mmap_fresh_def OSMemory_Allocate_def arena_pages_def Let_def)
  have r1: "arena_reachable 0x1000 (snd (MemoryArena_AllocateChunk (\<lambda>_ _ _ _. Some 0x10000) 0x1000 48 kReadExecute None))"
    using arena_reachable.alloc [OF arena_reachable.start fresh] by simp
  let ?a = "snd (MemoryArena_AllocateChunk (\<lambda>_ _ _ _. None) 0x1000 64 kReadExecute
    (snd (MemoryArena_AllocateChunk (\<lambda>_ _ _ _. Some 0x10000) 0x1000 48 kReadExecute None)))"
  have "arena_reachable 0x1000 ?a"
    by (rule arena_reachable.alloc [OF r1]) (simp_all add: mmap_fresh_def OSMemory_Allocate_def)
  from arena_chunks_never_overlap [OF this] have "disjoint_chunks (arena_chunks ?a)" by simp
  moreover have "arena_chunks ?a = [\<lparr>chunk_address = 0x10000, chunk_length = 48\<rparr>, \<lparr>chunk_address = 0x10030, chunk_length = 64\<rparr>]"
    unfolding demo_arena_eq by (simp add: MemoryArena_AllocateChunk_def page_fits_def push_chunk_def arena_chunks_def arena_pages_def Let_def)
  ultimately show ?thesis by blast
qed

text \<open>
  The size of the request is compared with the space of existing pages only: a request of more than a page gets a
  chunk that runs past the end of the new page.
\<close>

lemma oversized_chunk_overruns:
  "\<exists>c a p. MemoryArena_AllocateChunk (\<lambda>_ _ _ _. Some 0x10000) 0x1000 0x2000 kReadExecute None = (Some c, Some [p]) \<and>
    chunk_range (page p) = {0x10000..<0x11000} \<and> chunk_range c = {0x10000..<0x12000}"
  by (simp add: MemoryArena_AllocateChunk_def OSMemory_Allocate_def push_chunk_def new_page_def chunk_range_def Let_def)

end
