(* ===== verification/HookRegistry.thy ===== *)
theory HookRegistry
  imports MemoryArena
begin

text \<open>
  The registry of hooks: the circular doubly linked list of \<open>include/list_structure.h\<close> and \<open>Interceptor.cpp\<close>. The links are
  two functions on addresses, one per field, so that the order of the assignments and their aliasing are those of the
  code. A node is at the address of its \<open>list_node\<close>, the first member.
\<close>

section \<open>Linked lists\<close>

record links =
  nxt :: "u64 \<Rightarrow> u64"
  prv :: "u64 \<Rightarrow> u64"

definition INIT_LIST_HEAD :: "u64 \<Rightarrow> links \<Rightarrow> links" where
  "INIT_LIST_HEAD p h = h\<lparr>nxt := (nxt h)(p := p), prv := (prv h)(p := p)\<rparr>"

definition list_empty :: "u64 \<Rightarrow> links \<Rightarrow> bool" where
  "list_empty head h \<longleftrightarrow> nxt h head = head"

definition list_add_between :: "u64 \<Rightarrow> u64 \<Rightarrow> u64 \<Rightarrow> links \<Rightarrow> links" where
  "list_add_between new_node prev next h =
    (let h = h\<lparr>prv := (prv h)(next := new_node)\<rparr>;
         h = h\<lparr>nxt := (nxt h)(new_node := next)\<rparr>;
         h = h\<lparr>prv := (prv h)(new_node := prev)\<rparr>
     in h\<lparr>nxt := (nxt h)(prev := new_node)\<rparr>)"

definition list_add :: "u64 \<Rightarrow> u64 \<Rightarrow> links \<Rightarrow> links" where
  "list_add new_node head h = list_add_between new_node head (nxt h head) h"

definition list_del_between :: "u64 \<Rightarrow> u64 \<Rightarrow> links \<Rightarrow> links" where
  "list_del_between prev next h =
    (let h = h\<lparr>prv := (prv h)(next := prev)\<rparr>
     in h\<lparr>nxt := (nxt h)(prev := next)\<rparr>)"

definition list_del :: "u64 \<Rightarrow> links \<Rightarrow> links" where
  "list_del entry h =
    (let h = list_del_between (prv h entry) (nxt h entry) h;
         h = h\<lparr>nxt := (nxt h)(entry := 0)\<rparr>
     in h\<lparr>prv := (prv h)(entry := 0)\<rparr>)"

text \<open>\<open>list_for_each_entry\<close> with a body that may return; the loop ends at the head.\<close>

partial_function (option) list_find :: "(u64 \<Rightarrow> u64) \<Rightarrow> u64 \<Rightarrow> (u64 \<Rightarrow> bool) \<Rightarrow> u64 \<Rightarrow> u64 option option" where
  "list_find next head P pos =
    (if pos = head then Some None else if P pos then Some (Some pos) else list_find next head P (next pos))"

partial_function (option) list_count :: "(u64 \<Rightarrow> u64) \<Rightarrow> u64 \<Rightarrow> u64 \<Rightarrow> int \<Rightarrow> int option" where
  "list_count next head pos n = (if pos = head then Some n else list_count next head (next pos) (n + 1))"

declare list_find.simps [code] list_count.simps [code]

text \<open>A sequence of nodes in which neighbours point to each other, and the ring of a head.\<close>

fun path :: "links \<Rightarrow> u64 list \<Rightarrow> bool" where
  "path h (x # y # zs) \<longleftrightarrow> nxt h x = y \<and> prv h y = x \<and> path h (y # zs)"
| "path h _ \<longleftrightarrow> True"

definition ring :: "links \<Rightarrow> u64 \<Rightarrow> u64 list \<Rightarrow> bool" where
  "ring h head ps \<longleftrightarrow> path h (head # ps @ [head]) \<and> distinct (head # ps)"

lemma path_append: "path h (xs @ x # ys) \<longleftrightarrow> path h (xs @ [x]) \<and> path h (x # ys)"
  by (induction xs rule: induct_list012) auto

lemma path_frame:
  "path h xs \<Longrightarrow> (\<And>x. x \<in> set (butlast xs) \<Longrightarrow> nxt h' x = nxt h x) \<Longrightarrow> (\<And>x. x \<in> set (tl xs) \<Longrightarrow> prv h' x = prv h x) \<Longrightarrow> path h' xs"
  by (induction h xs rule: path.induct) auto

lemma ring_init: "ring (INIT_LIST_HEAD p h) p []"
  by (simp add: ring_def INIT_LIST_HEAD_def)

lemma ring_empty: "ring h head ps \<Longrightarrow> list_empty head h \<longleftrightarrow> ps = []"
  by (cases ps) (auto simp: ring_def list_empty_def)

lemma ring_add:
  assumes "ring h head ps" "x \<notin> set (head # ps)"
  shows "ring (list_add x head h) head (x # ps)"
proof -
  obtain n ns where n: "ps @ [head] = n # ns" by (cases "ps @ [head]") auto
  have p: "nxt h head = n" "path h (n # ns)" using assms(1) by (simp_all add: ring_def n)
  have ne: "x \<noteq> n" "x \<notin> set ns" using assms(2) arg_cong [OF n, of set] by auto
  have d: "n \<notin> set ns" "head \<notin> set (butlast (n # ns))"
  proof -
    have "distinct (n # ns)" unfolding n [symmetric] using assms(1) by (auto simp: ring_def)
    moreover have "butlast (n # ns) = ps" unfolding n [symmetric] by simp
    ultimately show "n \<notin> set ns" "head \<notin> set (butlast (n # ns))" using assms(1) by (auto simp: ring_def)
  qed
  let ?h = "list_add x head h"
  have "path ?h (n # ns)"
  proof (rule path_frame [OF p(2)])
    fix y assume "y \<in> set (butlast (n # ns))"
    moreover then have "y \<in> set (n # ns)" by (rule in_set_butlastD)
    ultimately show "nxt ?h y = nxt h y" using d ne by (auto simp: list_add_def list_add_between_def Let_def)
  next
    fix y assume "y \<in> set (tl (n # ns))"
    then show "prv ?h y = prv h y" using d ne p(1) by (auto simp: list_add_def list_add_between_def Let_def)
  qed
  moreover have "nxt ?h head = x" "prv ?h x = head" "nxt ?h x = n" "prv ?h n = x"
    using assms(2) ne by (auto simp: list_add_def list_add_between_def Let_def p(1))
  ultimately show ?thesis using assms by (auto simp: ring_def n)
qed

lemma ring_del:
  assumes "ring h head (as @ x # bs)"
  shows "ring (list_del x h) head (as @ bs)"
proof -
  obtain ps p where a: "head # as = ps @ [p]" by (cases "head # as" rule: rev_cases) auto
  obtain n ns where b: "bs @ [head] = n # ns" by (cases "bs @ [head]") auto
  have dist: "distinct (head # as @ x # bs)" and path: "path h ((ps @ [p]) @ x # n # ns)"
    using assms by (simp_all add: ring_def flip: a b)
  have l: "path h (ps @ [p])" "nxt h p = x" "prv h x = p" "nxt h x = n" "prv h n = x" "path h (n # ns)"
    using path path_append [of h ps p "x # n # ns"] by simp_all
  have da: "distinct (ps @ [p])" "x \<notin> set (ps @ [p])"
    unfolding a [symmetric] using dist by auto
  have sb: "set (n # ns) = insert head (set bs)" "set (butlast (n # ns)) = set bs" by (simp_all flip: b)
  have nn: "n \<notin> set ns" "x \<notin> set (n # ns)" using dist arg_cong [OF b, of distinct] sb by auto
  have ta: "set (tl (ps @ [p])) = set as" by (simp flip: a)
  let ?h = "list_del x h"
  have upd: "nxt ?h = (nxt h)(p := n, x := 0)" "prv ?h = (prv h)(n := p, x := 0)"
    by (simp_all add: list_del_def list_del_between_def l Let_def)
  have "path ?h (ps @ [p])"
  proof (rule path_frame [OF l(1)])
    fix y assume "y \<in> set (butlast (ps @ [p]))"
    then show "nxt ?h y = nxt h y" using da by (auto simp: upd)
  next
    fix y assume "y \<in> set (tl (ps @ [p]))"
    then have "y \<in> set as" by (simp add: ta)
    moreover have "n \<in> insert head (set bs)" using sb(1) by auto
    ultimately show "prv ?h y = prv h y" using dist by (auto simp: upd)
  qed
  moreover have "path ?h (n # ns)"
  proof (rule path_frame [OF l(6)])
    fix y assume "y \<in> set (butlast (n # ns))"
    then have "y \<in> set bs" by (simp only: sb(2))
    moreover have "p \<in> set (head # as)" by (simp add: a)
    ultimately show "nxt ?h y = nxt h y" using dist by (auto simp: upd)
  next
    fix y assume "y \<in> set (tl (n # ns))"
    then show "prv ?h y = prv h y" using nn by (auto simp: upd)
  qed
  moreover have "nxt ?h p = n" "prv ?h n = p" using da nn by (auto simp: upd)
  ultimately have "path ?h (ps @ p # n # ns)" by (simp add: path_append [of _ ps p "n # ns"])
  then have "path ?h (head # as @ bs @ [head])" by (simp add: b flip: append_Cons append_assoc) (simp add: a)
  then show ?thesis using dist by (simp add: ring_def)
qed

section \<open>Interceptor\<close>

datatype HookEntryType = kFunctionWrapper | kFunctionInlineHook | kDynamicBinaryInstrument

text \<open>
  The entry of a hook with the parts of its route that are read again: the trampoline target, and the field the routing classes add,
  \<open>replace_call\<close> or \<open>handler\<close>, which is at the same place in both. \<open>he_origin_chunk\<close> and \<open>he_origin_buffer\<close> are \<open>origin_chunk_\<close>.
\<close>

record HookEntry =
  he_id :: int
  he_type :: HookEntryType
  he_address :: u64
  he_trampoline_target :: u64
  he_handler :: u64
  he_relocated :: u64
  he_origin_chunk :: MemoryChunk
  he_origin_buffer :: "u8 list"

text \<open>\<open>ic_head\<close> is the address of \<open>hook_entry_list_\<close>, 0 before the instance exists; \<open>ic_entry\<close> gives the entry of a node.\<close>

record Interceptor =
  ic_head :: u64
  ic_links :: links
  ic_entry :: "u64 \<Rightarrow> HookEntry"

definition SharedInstance :: "u64 \<Rightarrow> Interceptor \<Rightarrow> Interceptor" where
  "SharedInstance new_instance ic =
    (if ic_head ic = 0 then ic\<lparr>ic_head := new_instance, ic_links := INIT_LIST_HEAD new_instance (ic_links ic)\<rparr> else ic)"

definition find_hook_entry_node :: "u64 \<Rightarrow> Interceptor \<Rightarrow> u64 option option" where
  "find_hook_entry_node address ic =
    list_find (nxt (ic_links ic)) (ic_head ic) (\<lambda>p. he_address (ic_entry ic p) = address) (nxt (ic_links ic) (ic_head ic))"

definition FindHookEntry :: "u64 \<Rightarrow> Interceptor \<Rightarrow> HookEntry option option" where
  "FindHookEntry address ic = map_option (map_option (ic_entry ic)) (find_hook_entry_node address ic)"

definition AddHookEntry :: "u64 \<Rightarrow> HookEntry \<Rightarrow> Interceptor \<Rightarrow> Interceptor" where
  "AddHookEntry new_node entry ic =
    (let ic = ic\<lparr>ic_entry := (ic_entry ic)(new_node := entry)\<rparr>
     in ic\<lparr>ic_links := list_add new_node (ic_head ic) (ic_links ic)\<rparr>)"

definition RemoveHookEntry :: "u64 \<Rightarrow> Interceptor \<Rightarrow> Interceptor option" where
  "RemoveHookEntry address ic =
    map_option (\<lambda>r. case r of None \<Rightarrow> ic | Some entry_node \<Rightarrow> ic\<lparr>ic_links := list_del entry_node (ic_links ic)\<rparr>)
      (find_hook_entry_node address ic)"

definition GetHookEntryCount :: "Interceptor \<Rightarrow> int option" where
  "GetHookEntryCount ic = list_count (nxt (ic_links ic)) (ic_head ic) (nxt (ic_links ic) (ic_head ic)) 0"

text \<open>The instance holds these entries, at these nodes.\<close>

definition registry :: "Interceptor \<Rightarrow> u64 list \<Rightarrow> bool" where
  "registry ic ns \<longleftrightarrow> ic_head ic \<noteq> 0 \<and> ring (ic_links ic) (ic_head ic) ns"

definition entries :: "Interceptor \<Rightarrow> u64 list \<Rightarrow> HookEntry list" where
  "entries ic ns = map (ic_entry ic) ns"

lemma list_find_path:
  "path h (ps @ [head]) \<Longrightarrow> head \<notin> set ps \<Longrightarrow> list_find (nxt h) head P (hd (ps @ [head])) = Some (find P ps)"
proof (induction ps)
  case Nil
  show ?case by (subst list_find.simps) simp
next
  case (Cons p ps)
  then have "nxt h p = hd (ps @ [head])" "path h (ps @ [head])" by (cases ps; simp)+
  with Cons show ?case by (subst list_find.simps) auto
qed

lemma list_count_path:
  "path h (ps @ [head]) \<Longrightarrow> head \<notin> set ps \<Longrightarrow> list_count (nxt h) head (hd (ps @ [head])) n = Some (n + int (length ps))"
proof (induction ps arbitrary: n)
  case Nil
  show ?case by (subst list_count.simps) simp
next
  case (Cons p ps)
  then have "nxt h p = hd (ps @ [head])" "path h (ps @ [head])" by (cases ps; simp)+
  with Cons show ?case by (subst list_count.simps) auto
qed

lemma registry_path:
  assumes "registry ic ns"
  shows "path (ic_links ic) (ns @ [ic_head ic])" "ic_head ic \<notin> set ns" "nxt (ic_links ic) (ic_head ic) = hd (ns @ [ic_head ic])" "distinct ns"
  using assms by (cases ns; simp add: registry_def ring_def)+

lemma find_map: "find P (map f xs) = map_option f (find (P o f) xs)"
  by (induction xs) auto

lemma find_split: "find P xs = Some x \<Longrightarrow> \<exists>us vs. xs = us @ x # vs \<and> find P us = None"
proof (induction xs)
  case (Cons y ys)
  show ?case
  proof (cases "P y")
    case True
    with Cons.prems show ?thesis by (intro exI [of _ "[]"] exI [of _ ys]) simp
  next
    case False
    with Cons obtain us vs where "ys = us @ x # vs" "find P us = None" by auto
    with False show ?thesis by (intro exI [of _ "y # us"] exI [of _ vs]) simp
  qed
qed simp

lemma find_node_registry:
  "registry ic ns \<Longrightarrow> find_hook_entry_node a ic = Some (find (\<lambda>p. he_address (ic_entry ic p) = a) ns)"
  using registry_path [of ic ns] by (simp add: find_hook_entry_node_def list_find_path)

lemma FindHookEntry_registry:
  "registry ic ns \<Longrightarrow> FindHookEntry a ic = Some (find (\<lambda>e. he_address e = a) (entries ic ns))"
  by (simp add: FindHookEntry_def find_node_registry entries_def find_map o_def)

lemma GetHookEntryCount_registry: "registry ic ns \<Longrightarrow> GetHookEntryCount ic = Some (int (length ns))"
  using registry_path [of ic ns] by (simp add: GetHookEntryCount_def list_count_path)

lemma SharedInstance_registry:
  "registry ic ns \<Longrightarrow> SharedInstance p ic = ic"
  "ic_head ic = 0 \<Longrightarrow> p \<noteq> 0 \<Longrightarrow> registry (SharedInstance p ic) [] \<and> ic_entry (SharedInstance p ic) = ic_entry ic"
  by (simp_all add: registry_def SharedInstance_def ring_init)

lemma AddHookEntry_registry:
  assumes "registry ic ns" "n \<notin> set (ic_head ic # ns)"
  shows "registry (AddHookEntry n e ic) (n # ns)" "entries (AddHookEntry n e ic) (n # ns) = e # entries ic ns"
  using assms ring_add [of "ic_links ic" "ic_head ic" ns n]
  by (auto simp: registry_def AddHookEntry_def entries_def Let_def)

lemma RemoveHookEntry_registry:
  assumes "registry ic ns"
  shows "\<exists>ic' ns'. RemoveHookEntry a ic = Some ic' \<and> registry ic' ns' \<and>
    (case find (\<lambda>e. he_address e = a) (entries ic ns) of None \<Rightarrow> entries ic' ns' = entries ic ns
     | Some e \<Rightarrow> (\<exists>us vs. entries ic ns = us @ e # vs \<and> entries ic' ns' = us @ vs \<and> find (\<lambda>e. he_address e = a) us = None))"
proof (cases "find (\<lambda>p. he_address (ic_entry ic p) = a) ns")
  case None
  then have "RemoveHookEntry a ic = Some ic" "find (\<lambda>e. he_address e = a) (entries ic ns) = None"
    using assms by (simp_all add: RemoveHookEntry_def find_node_registry entries_def find_map o_def)
  with assms show ?thesis by auto
next
  case (Some p)
  from find_split [OF this] obtain us vs where ns: "ns = us @ p # vs" "find (\<lambda>p. he_address (ic_entry ic p) = a) us = None"
    by blast
  have "ring (list_del p (ic_links ic)) (ic_head ic) (us @ vs)"
    using assms ring_del by (simp add: registry_def ns)
  then have "registry (ic\<lparr>ic_links := list_del p (ic_links ic)\<rparr>) (us @ vs)" using assms by (simp add: registry_def)
  moreover have "RemoveHookEntry a ic = Some (ic\<lparr>ic_links := list_del p (ic_links ic)\<rparr>)"
    using Some assms by (simp add: RemoveHookEntry_def find_node_registry)
  moreover have "find (\<lambda>e. he_address e = a) (entries ic ns) = Some (ic_entry ic p)"
    using Some by (simp add: entries_def find_map o_def)
  moreover have "entries ic ns = map (ic_entry ic) us @ ic_entry ic p # map (ic_entry ic) vs"
    "entries (ic\<lparr>ic_links := list_del p (ic_links ic)\<rparr>) (us @ vs) = map (ic_entry ic) us @ map (ic_entry ic) vs"
    "find (\<lambda>e. he_address e = a) (map (ic_entry ic) us) = None"
    using ns by (simp_all add: entries_def find_map o_def)
  ultimately show ?thesis by auto
qed

section \<open>The registry as an interface\<close>

text \<open>The list without its first entry for an address.\<close>

fun drop_entry :: "u64 \<Rightarrow> HookEntry list \<Rightarrow> HookEntry list" where
  "drop_entry a [] = []"
| "drop_entry a (e # es) = (if he_address e = a then es else e # drop_entry a es)"

lemma drop_entry_split: "find (\<lambda>e. he_address e = a) us = None \<Longrightarrow> he_address e = a \<Longrightarrow> drop_entry a (us @ e # vs) = us @ vs"
  by (induction us) (auto split: if_splits)

lemma drop_entry_none: "find (\<lambda>e. he_address e = a) es = None \<Longrightarrow> drop_entry a es = es"
  by (induction es) (auto split: if_splits)

text \<open>What the hooking code relies on: a registry that represents a list of entries, newest first.\<close>

locale hook_registry =
  fixes holds :: "'s \<Rightarrow> HookEntry list \<Rightarrow> bool"
    and unused :: "u64 \<Rightarrow> 's \<Rightarrow> bool"
    and lookup :: "u64 \<Rightarrow> 's \<Rightarrow> HookEntry option option"
    and add :: "u64 \<Rightarrow> HookEntry \<Rightarrow> 's \<Rightarrow> 's"
    and delete :: "u64 \<Rightarrow> 's \<Rightarrow> 's option"
    and count :: "'s \<Rightarrow> int option"
  assumes lookup_holds: "holds s es \<Longrightarrow> lookup a s = Some (find (\<lambda>e. he_address e = a) es)"
    and add_holds: "holds s es \<Longrightarrow> unused n s \<Longrightarrow> holds (add n e s) (e # es)"
    and delete_holds: "holds s es \<Longrightarrow> \<exists>s'. delete a s = Some s' \<and> holds s' (drop_entry a es)"
    and count_holds: "holds s es \<Longrightarrow> count s = Some (int (length es))"
begin

lemma lookup_add:
  assumes "holds s es" "unused n s"
  shows "lookup a (add n e s) = (if he_address e = a then Some (Some e) else lookup a s)"
  using lookup_holds [OF add_holds [OF assms]] lookup_holds [OF assms(1)] by simp

lemma delete_add:
  assumes "holds s es" "unused n s"
  shows "\<exists>s'. delete (he_address e) (add n e s) = Some s' \<and> holds s' es"
  using delete_holds [OF add_holds [OF assms], of "he_address e" e] by simp

lemma count_add: "holds s es \<Longrightarrow> unused n s \<Longrightarrow> count (add n e s) = Some (int (length es) + 1)"
  using count_holds [OF add_holds] by fastforce

lemma lookup_delete_other:
  assumes "holds s es" "a \<noteq> b" "delete a s = Some s'"
  shows "lookup b s' = lookup b s"
proof -
  have "find (\<lambda>e. he_address e = b) (drop_entry a es) = find (\<lambda>e. he_address e = b) es"
    using assms(2) by (induction es) auto
  then show ?thesis using delete_holds [OF assms(1), of a] assms(3) lookup_holds [OF assms(1)] lookup_holds by force
qed

end

definition ic_holds :: "Interceptor \<Rightarrow> HookEntry list \<Rightarrow> bool" where
  "ic_holds ic es \<longleftrightarrow> (\<exists>ns. registry ic ns \<and> entries ic ns = es)"

text \<open>A node that \<open>new\<close> returns is neither the head nor a node of the list.\<close>

definition ic_unused :: "u64 \<Rightarrow> Interceptor \<Rightarrow> bool" where
  "ic_unused n ic \<longleftrightarrow> (\<forall>ns. registry ic ns \<longrightarrow> n \<notin> set (ic_head ic # ns))"

interpretation interceptor: hook_registry ic_holds ic_unused FindHookEntry AddHookEntry RemoveHookEntry GetHookEntryCount
proof
  fix ic es a n e
  assume "ic_holds ic es"
  then obtain ns where ns: "registry ic ns" "entries ic ns = es" by (auto simp: ic_holds_def)
  show "FindHookEntry a ic = Some (find (\<lambda>e. he_address e = a) es)"
    using FindHookEntry_registry [OF ns(1)] ns(2) by simp
  show "ic_holds (AddHookEntry n e ic) (e # es)" if "ic_unused n ic"
    using that ns AddHookEntry_registry [OF ns(1), of n e] unfolding ic_holds_def ic_unused_def by metis
  show "\<exists>s'. RemoveHookEntry a ic = Some s' \<and> ic_holds s' (drop_entry a es)"
  proof -
    obtain ic' ns' where r: "RemoveHookEntry a ic = Some ic'" "registry ic' ns'"
      "case find (\<lambda>e. he_address e = a) es of None \<Rightarrow> entries ic' ns' = es
       | Some e \<Rightarrow> (\<exists>us vs. es = us @ e # vs \<and> entries ic' ns' = us @ vs \<and> find (\<lambda>e. he_address e = a) us = None)"
      using RemoveHookEntry_registry [OF ns(1), of a] unfolding ns(2) by blast
    have "entries ic' ns' = drop_entry a es"
    proof (cases "find (\<lambda>e. he_address e = a) es")
      case None
      with r(3) show ?thesis by (simp add: drop_entry_none)
    next
      case (Some e)
      then have "he_address e = a" by (auto simp: find_Some_iff)
      with r(3) Some show ?thesis using drop_entry_split by fastforce
    qed
    with r show ?thesis by (auto simp: ic_holds_def)
  qed
  show "GetHookEntryCount ic = Some (int (length es))"
    using GetHookEntryCount_registry [OF ns(1)] ns(2) by (auto simp: entries_def)
qed

end
