(* ===== verification/CodeBuilder.thy ===== *)
theory CodeBuilder
  imports ProcessMemory HookRegistry
begin

text \<open>
  \<open>CodePatch\<close> of \<open>code-patch-tool-posix.cc\<close> and \<open>AssemblyCodeBuilder\<close>, which place generated code in executable memory, and the state of
  the hooking library they act on. All architectures share them.
\<close>

section \<open>CodePatch\<close>

text \<open>
  One page is made writable, the one of the first byte; code pages are not writable otherwise, so writing past its end faults.
  The instruction cache has no counterpart in the model.
\<close>

definition CodePatch :: "u32 \<Rightarrow> u64 \<Rightarrow> u8 list \<Rightarrow> (u64 \<Rightarrow> u8) \<Rightarrow> (u64 \<Rightarrow> u8) res" where
  "CodePatch page_size address bs m =
    (let page_align_address = ALIGN_FLOOR address (scast page_size);
         offset = address - page_align_address
     in if unat offset + length bs \<le> unat page_size then Inr (poke m (page_align_address + offset) bs) else Inl OutOfBounds)"

definition in_page :: "u32 \<Rightarrow> u64 \<Rightarrow> nat \<Rightarrow> bool" where
  "in_page page_size a n \<longleftrightarrow> unat (a - ALIGN_FLOOR a (scast page_size)) + n \<le> unat page_size"

lemma CodePatch_in_page: "in_page ps a (length bs) \<Longrightarrow> CodePatch ps a bs m = Inr (poke m a bs)"
  by (simp add: CodePatch_def in_page_def Let_def)

lemma CodePatch_across_pages: "\<not> in_page ps a (length bs) \<Longrightarrow> CodePatch ps a bs m = Inl OutOfBounds"
  by (simp add: CodePatch_def in_page_def Let_def)

lemma CodePatch_holds: "CodePatch ps a bs m = Inr m' \<Longrightarrow> holds_code m' a bs"
  using unsigned_less [of ps, where ?'a = nat] by (auto simp: CodePatch_def Let_def intro!: holds_code_poke split: if_splits)

section \<open>State\<close>

record dobby =
  db_memory :: "u64 \<Rightarrow> u8"
  db_arena :: arena
  db_interceptor :: Interceptor

text \<open>What the system provides to a call: \<open>mmap\<close>, the page size, and the objects \<open>new\<close> would return.\<close>

record hook_env =
  hv_mmap :: mmap
  hv_page_size :: u32
  hv_new_instance :: u64
  hv_new_node :: u64

definition new_HookEntry :: HookEntry where
  "new_HookEntry = \<lparr>he_id = 0, he_type = kFunctionWrapper, he_address = 0, he_trampoline_target = 0, he_handler = 0, he_relocated = 0,
     he_origin_chunk = \<lparr>chunk_address = 0, chunk_length = 0\<rparr>, he_origin_buffer = replicate 64 0\<rparr>"

section \<open>AssemblyCodeBuilder\<close>

definition FinalizeFromAddress :: "u64 \<Rightarrow> u64 \<Rightarrow> MemoryChunk" where
  "FinalizeFromAddress address sz = init_region_range address sz"

text \<open>The result is \<open>None\<close> when no memory can be allocated. An assembler without an address has \<open>realized_address\<close> 0.\<close>

definition FinalizeFromTurboAssembler ::
  "hook_env \<Rightarrow> u8 list \<Rightarrow> u64 \<Rightarrow> dobby \<Rightarrow> (MemoryChunk option \<times> dobby) res" where
  "FinalizeFromTurboAssembler env code realized_address st =
    (if realized_address = 0
     then let buffer_size = of_nat (length code) + 4;
              (result, a) = MemoryArena_AllocateCodeChunk (hv_mmap env) (hv_page_size env) buffer_size (db_arena st);
              st = st\<lparr>db_arena := a\<rparr>
       in case result of
            None \<Rightarrow> Inr (None, st)
          | Some c \<Rightarrow> rbind (CodePatch (hv_page_size env) (raw_instruction_start c) code (db_memory st)) (\<lambda>m.
              Inr (Some c, st\<lparr>db_memory := m\<rparr>))
     else rbind (CodePatch (hv_page_size env) realized_address code (db_memory st)) (\<lambda>m.
            Inr (Some (FinalizeFromAddress realized_address (of_nat (length code))), st\<lparr>db_memory := m\<rparr>)))"

section \<open>Shared by the routings\<close>

definition RS_FAILED :: int where "RS_FAILED = - 1"
definition RS_SUCCESS :: int where "RS_SUCCESS = 0"

text \<open>\<open>Active\<close>, which \<open>Commit\<close> calls: the trampoline goes over the function.\<close>

definition InterceptRouting_Active :: "hook_env \<Rightarrow> u64 \<Rightarrow> u8 list \<Rightarrow> dobby \<Rightarrow> dobby res" where
  "InterceptRouting_Active env patch_address trampoline st =
    rbind (CodePatch (hv_page_size env) patch_address trampoline (db_memory st)) (\<lambda>m. Inr (st\<lparr>db_memory := m\<rparr>))"

text \<open>The registry, created if need be, holds these entries, and the new node is not in it.\<close>

definition registry_ready :: "hook_env \<Rightarrow> dobby \<Rightarrow> HookEntry list \<Rightarrow> bool" where
  "registry_ready env st es \<longleftrightarrow>
    (let ic = SharedInstance (hv_new_instance env) (db_interceptor st) in ic_holds ic es \<and> ic_unused (hv_new_node env) ic)"

lemma fresh_registry_ready:
  assumes "ic_head (db_interceptor st) = 0" "hv_new_instance env \<noteq> 0" "hv_new_node env \<noteq> hv_new_instance env"
  shows "registry_ready env st []"
proof -
  let ?ic = "SharedInstance (hv_new_instance env) (db_interceptor st)"
  have r: "registry ?ic []" "ic_head ?ic = hv_new_instance env"
    using SharedInstance_registry(2) [OF assms(1,2)] assms(1) by (simp_all add: SharedInstance_def)
  have "ns = []" if "registry ?ic ns" for ns
    using interceptor.count_holds [of ?ic "entries ?ic ns"] interceptor.count_holds [of ?ic "[]"] r that
    by (auto simp: ic_holds_def entries_def)
  then have "ic_unused (hv_new_node env) ?ic" unfolding ic_unused_def using r(2) assms(3) by fastforce
  moreover have "ic_holds ?ic []" using r by (auto simp: ic_holds_def entries_def)
  ultimately show ?thesis by (simp add: registry_ready_def Let_def)
qed

end
