(* ===== verification/Arm64Constants.thy ===== *)
theory Arm64Constants
  imports Prelude
begin

text \<open>
  The instruction constants of \<open>source/core/arch/arm64/constants-arm64.h\<close> and the registers of
  \<open>registers-arm64.h\<close>. The enumerations generated from an operation list by the macros of the header are
  functions of the name of the operation; every constant is the 32-bit word of the enumeration value.
\<close>

section \<open>Fields\<close>

datatype Shift = NO_SHIFT | LSL | LSR | ASR | ROR | MSL

primrec Shift_code :: "Shift \<Rightarrow> u32" where
  "Shift_code NO_SHIFT = - 1" | "Shift_code LSL = 0" | "Shift_code LSR = 1" | "Shift_code ASR = 2"
| "Shift_code ROR = 3" | "Shift_code MSL = 4"

datatype Extend = NO_EXTEND | UXTB | UXTH | UXTW | UXTX | SXTB | SXTH | SXTW | SXTX

datatype AddrMode = Offset | PreIndex | PostIndex

definition kRdShift :: nat where "kRdShift = 0"
definition kRnShift :: nat where "kRnShift = 5"
definition kRmShift :: nat where "kRmShift = 16"
definition kRtShift :: nat where "kRtShift = 0"
definition kRt2Shift :: nat where "kRt2Shift = 10"

section \<open>Operations\<close>

definition ExceptionFixed :: u32 where "ExceptionFixed = 0xD4000000"
definition BRK :: u32 where "BRK = ExceptionFixed OR 0x00200000"

definition UnconditionalBranchFixed :: u32 where "UnconditionalBranchFixed = 0x14000000"
definition UnconditionalBranchFixedMask :: u32 where "UnconditionalBranchFixedMask = 0x7C000000"
definition UnconditionalBranchMask :: u32 where "UnconditionalBranchMask = 0xFC000000"
definition BranchB :: u32 where "BranchB = UnconditionalBranchFixed OR 0x00000000"
definition BranchBL :: u32 where "BranchBL = UnconditionalBranchFixed OR 0x80000000"

definition UnconditionalBranchToRegisterFixed :: u32 where
  "UnconditionalBranchToRegisterFixed = 0xD6000000"
definition BranchBR :: u32 where "BranchBR = UnconditionalBranchToRegisterFixed OR 0x001F0000"
definition BranchBLR :: u32 where "BranchBLR = UnconditionalBranchToRegisterFixed OR 0x003F0000"
definition BranchRET :: u32 where "BranchRET = UnconditionalBranchToRegisterFixed OR 0x005F0000"

definition LoadRegLiteralFixed :: u32 where "LoadRegLiteralFixed = 0x18000000"
definition LoadRegLiteralFixedMask :: u32 where "LoadRegLiteralFixedMask = 0x3B000000"

definition LoadRegLiteralSub :: "u32 \<Rightarrow> u32 \<Rightarrow> u32" where
  "LoadRegLiteralSub opc V = LoadRegLiteralFixed OR LeftShift opc 2 30 OR LeftShift V 1 26"

datatype literal_op = LDR_w_literal | LDR_x_literal | LDRSW_literal | PRFM_literal | LDR_s_literal
  | LDR_d_literal | LDR_q_literal

primrec LoadRegLiteralOp :: "literal_op \<Rightarrow> u32" where
  "LoadRegLiteralOp LDR_w_literal = LoadRegLiteralSub 0b00 0"
| "LoadRegLiteralOp LDR_x_literal = LoadRegLiteralSub 0b01 0"
| "LoadRegLiteralOp LDRSW_literal = LoadRegLiteralSub 0b10 0"
| "LoadRegLiteralOp PRFM_literal = LoadRegLiteralSub 0b11 0"
| "LoadRegLiteralOp LDR_s_literal = LoadRegLiteralSub 0b00 1"
| "LoadRegLiteralOp LDR_d_literal = LoadRegLiteralSub 0b01 1"
| "LoadRegLiteralOp LDR_q_literal = LoadRegLiteralSub 0b10 1"

subsection \<open>Loads and stores\<close>

datatype load_store_name =
  STRB_w | LDRB_w | LDRSB_x | LDRSB_w | STR_b | LDR_b | STR_q | LDR_q | STRH_w | LDRH_w | LDRSH_x
  | LDRSH_w | STR_h | LDR_h | STR_w | LDR_w | LDRSW | STR_s | LDR_s | STR_x | LDR_x | PRFM | STR_d
  | LDR_d

primrec LOAD_STORE_OP_LIST :: "load_store_name \<Rightarrow> u32 \<times> u32 \<times> u32" where
  "LOAD_STORE_OP_LIST STRB_w = (0b00, 0, 0b00)"
| "LOAD_STORE_OP_LIST LDRB_w = (0b00, 0, 0b01)"
| "LOAD_STORE_OP_LIST LDRSB_x = (0b00, 0, 0b10)"
| "LOAD_STORE_OP_LIST LDRSB_w = (0b00, 0, 0b11)"
| "LOAD_STORE_OP_LIST STR_b = (0b00, 1, 0b00)"
| "LOAD_STORE_OP_LIST LDR_b = (0b00, 1, 0b01)"
| "LOAD_STORE_OP_LIST STR_q = (0b00, 1, 0b10)"
| "LOAD_STORE_OP_LIST LDR_q = (0b00, 1, 0b11)"
| "LOAD_STORE_OP_LIST STRH_w = (0b01, 0, 0b00)"
| "LOAD_STORE_OP_LIST LDRH_w = (0b01, 0, 0b01)"
| "LOAD_STORE_OP_LIST LDRSH_x = (0b01, 0, 0b10)"
| "LOAD_STORE_OP_LIST LDRSH_w = (0b01, 0, 0b11)"
| "LOAD_STORE_OP_LIST STR_h = (0b01, 1, 0b00)"
| "LOAD_STORE_OP_LIST LDR_h = (0b01, 1, 0b01)"
| "LOAD_STORE_OP_LIST STR_w = (0b10, 0, 0b00)"
| "LOAD_STORE_OP_LIST LDR_w = (0b10, 0, 0b01)"
| "LOAD_STORE_OP_LIST LDRSW = (0b10, 0, 0b10)"
| "LOAD_STORE_OP_LIST STR_s = (0b10, 1, 0b00)"
| "LOAD_STORE_OP_LIST LDR_s = (0b10, 1, 0b01)"
| "LOAD_STORE_OP_LIST STR_x = (0b11, 0, 0b00)"
| "LOAD_STORE_OP_LIST LDR_x = (0b11, 0, 0b01)"
| "LOAD_STORE_OP_LIST PRFM = (0b11, 0, 0b10)"
| "LOAD_STORE_OP_LIST STR_d = (0b11, 1, 0b00)"
| "LOAD_STORE_OP_LIST LDR_d = (0b11, 1, 0b01)"

definition LoadStoreOpSub :: "u32 \<times> u32 \<times> u32 \<Rightarrow> u32" where
  "LoadStoreOpSub = (\<lambda>(size, V, opc). LeftShift size 2 30 OR LeftShift V 1 26 OR LeftShift opc 2 22)"

definition LoadStoreOp :: "load_store_name \<Rightarrow> u32" where
  "LoadStoreOp n = LoadStoreOpSub (LOAD_STORE_OP_LIST n)"

definition LoadStoreRegisterOffsetFixed :: u32 where "LoadStoreRegisterOffsetFixed = 0x38200800"

definition LoadStoreRegisterOffsetOp :: "load_store_name \<Rightarrow> u32" where
  "LoadStoreRegisterOffsetOp n =
    LoadStoreRegisterOffsetFixed OR LoadStoreOpSub (LOAD_STORE_OP_LIST n)"

definition LoadStoreUnscaledOffsetFixed :: u32 where "LoadStoreUnscaledOffsetFixed = 0x38000000"

definition LoadStoreUnscaledOffsetOp :: "load_store_name \<Rightarrow> u32" where
  "LoadStoreUnscaledOffsetOp n =
    LoadStoreUnscaledOffsetFixed OR LoadStoreOpSub (LOAD_STORE_OP_LIST n)"

definition LoadStoreUnsignedOffsetFixed :: u32 where "LoadStoreUnsignedOffsetFixed = 0x39000000"

definition LoadStoreUnsignedOffset :: "load_store_name \<Rightarrow> u32" where
  "LoadStoreUnsignedOffset n =
    LoadStoreUnsignedOffsetFixed OR LoadStoreOpSub (LOAD_STORE_OP_LIST n)"

datatype load_store_pair_name =
  STP_w | LDP_w | STP_s | LDP_s | LDPSW | STP_d | LDP_d | STP_x | LDP_x | STP_q | LDP_q

primrec LOAD_STORE_PAIR_OP_LIST :: "load_store_pair_name \<Rightarrow> u32 \<times> u32 \<times> u32" where
  "LOAD_STORE_PAIR_OP_LIST STP_w = (0b00, 0, 0)"
| "LOAD_STORE_PAIR_OP_LIST LDP_w = (0b00, 0, 1)"
| "LOAD_STORE_PAIR_OP_LIST STP_s = (0b00, 1, 0)"
| "LOAD_STORE_PAIR_OP_LIST LDP_s = (0b00, 1, 1)"
| "LOAD_STORE_PAIR_OP_LIST LDPSW = (0b01, 0, 1)"
| "LOAD_STORE_PAIR_OP_LIST STP_d = (0b01, 1, 0)"
| "LOAD_STORE_PAIR_OP_LIST LDP_d = (0b01, 1, 1)"
| "LOAD_STORE_PAIR_OP_LIST STP_x = (0b10, 0, 0)"
| "LOAD_STORE_PAIR_OP_LIST LDP_x = (0b10, 0, 1)"
| "LOAD_STORE_PAIR_OP_LIST STP_q = (0b10, 1, 0)"
| "LOAD_STORE_PAIR_OP_LIST LDP_q = (0b10, 1, 1)"

definition LoadStorePairOpSub :: "u32 \<times> u32 \<times> u32 \<Rightarrow> u32" where
  "LoadStorePairOpSub = (\<lambda>(opc, V, L). LeftShift opc 2 30 OR LeftShift V 1 26 OR LeftShift L 1 22)"

definition LoadStorePairOp :: "load_store_pair_name \<Rightarrow> u32" where
  "LoadStorePairOp n = LoadStorePairOpSub (LOAD_STORE_PAIR_OP_LIST n)"

definition LoadStorePairOffsetFixed :: u32 where "LoadStorePairOffsetFixed = 0x29000000"
definition LoadStorePairPostIndexFixed :: u32 where "LoadStorePairPostIndexFixed = 0x28800000"
definition LoadStorePairPreIndexFixed :: u32 where "LoadStorePairPreIndexFixed = 0x29800000"

definition LoadStorePairOffsetOp :: "load_store_pair_name \<Rightarrow> u32" where
  "LoadStorePairOffsetOp n =
    LoadStorePairOffsetFixed OR LoadStorePairOpSub (LOAD_STORE_PAIR_OP_LIST n)"

definition LoadStorePairPostIndexOp :: "load_store_pair_name \<Rightarrow> u32" where
  "LoadStorePairPostIndexOp n =
    LoadStorePairPostIndexFixed OR LoadStorePairOpSub (LOAD_STORE_PAIR_OP_LIST n)"

definition LoadStorePairPreIndexOp :: "load_store_pair_name \<Rightarrow> u32" where
  "LoadStorePairPreIndexOp n =
    LoadStorePairPreIndexFixed OR LoadStorePairOpSub (LOAD_STORE_PAIR_OP_LIST n)"

subsection \<open>Immediates and logic\<close>

definition SixtyFourBits :: u32 where "SixtyFourBits = 0x80000000"

definition MoveWideImmediateFixed :: u32 where "MoveWideImmediateFixed = 0x12800000"
definition MOVN :: u32 where "MOVN = 0x00000000"
definition MOVZ :: u32 where "MOVZ = 0x40000000"
definition MOVK :: u32 where "MOVK = 0x60000000"

datatype add_sub_name = ADD_w | ADDS_w | SUB_w | SUBS_w | ADD_x | ADDS_x | SUB_x | SUBS_x

primrec add_sub_fields :: "add_sub_name \<Rightarrow> u32 \<times> u32 \<times> u32" where
  "add_sub_fields ADD_w = (0, 0, 0)" | "add_sub_fields ADDS_w = (0, 0, 1)"
| "add_sub_fields SUB_w = (0, 1, 0)" | "add_sub_fields SUBS_w = (0, 1, 1)"
| "add_sub_fields ADD_x = (1, 0, 0)" | "add_sub_fields ADDS_x = (1, 0, 1)"
| "add_sub_fields SUB_x = (1, 1, 0)" | "add_sub_fields SUBS_x = (1, 1, 1)"

definition AddSubOpSub :: "u32 \<Rightarrow> u32 \<times> u32 \<times> u32 \<Rightarrow> u32" where
  "AddSubOpSub fixed = (\<lambda>(sf, op, S). fixed OR LeftShift sf 1 31 OR LeftShift op 1 30 OR LeftShift S 1 29)"

definition AddSubImmediateFixed :: u32 where "AddSubImmediateFixed = 0x11000000"
definition AddSubShiftedFixed :: u32 where "AddSubShiftedFixed = 0x0B000000"
definition AddSubExtendedFixed :: u32 where "AddSubExtendedFixed = 0x0B200000"

definition AddSubImmediateOp :: "add_sub_name \<Rightarrow> u32" where
  "AddSubImmediateOp n = AddSubOpSub AddSubImmediateFixed (add_sub_fields n)"

definition AddSubShiftedOp :: "add_sub_name \<Rightarrow> u32" where
  "AddSubShiftedOp n = AddSubOpSub AddSubShiftedFixed (add_sub_fields n)"

definition AddSubExtendedOp :: "add_sub_name \<Rightarrow> u32" where
  "AddSubExtendedOp n = AddSubOpSub AddSubExtendedFixed (add_sub_fields n)"

datatype logical_name = Logical_AND | Logical_BIC | Logical_ORR | Logical_ORN | Logical_EOR
  | Logical_EON | Logical_ANDS | Logical_BICS

definition LogicalNOT :: u32 where "LogicalNOT = 0x00200000"

primrec LogicalOp :: "logical_name \<Rightarrow> u32" where
  "LogicalOp Logical_AND = 0x00000000"
| "LogicalOp Logical_BIC = 0x00000000 OR LogicalNOT"
| "LogicalOp Logical_ORR = 0x20000000"
| "LogicalOp Logical_ORN = 0x20000000 OR LogicalNOT"
| "LogicalOp Logical_EOR = 0x40000000"
| "LogicalOp Logical_EON = 0x40000000 OR LogicalNOT"
| "LogicalOp Logical_ANDS = 0x60000000"
| "LogicalOp Logical_BICS = 0x60000000 OR LogicalNOT"

definition LogicalImmediateFixed :: u32 where "LogicalImmediateFixed = 0x12000000"
definition LogicalShiftedFixed :: u32 where "LogicalShiftedFixed = 0x0A000000"

definition PCRelAddressingFixed :: u32 where "PCRelAddressingFixed = 0x10000000"
definition PCRelAddressingFixedMask :: u32 where "PCRelAddressingFixedMask = 0x1F000000"
definition PCRelAddressingMask :: u32 where "PCRelAddressingMask = 0x9F000000"
definition ADR :: u32 where "ADR = PCRelAddressingFixed OR 0x00000000"
definition ADRP :: u32 where "ADRP = PCRelAddressingFixed OR 0x80000000"

section \<open>Registers\<close>

text \<open>
  The register types in the order of the enumeration, which the code compares (\<open>reg_type_ < kRegister\<close>).
\<close>

datatype RegisterType = kRegister_32 | kRegister_64 | kRegister | kVRegister | kSIMD_FP_Register_8
  | kSIMD_FP_Register_16 | kSIMD_FP_Register_32 | kSIMD_FP_Register_64 | kSIMD_FP_Register_128 | kInvalid

primrec RegisterType_code :: "RegisterType \<Rightarrow> nat" where
  "RegisterType_code kRegister_32 = 0" | "RegisterType_code kRegister_64 = 1"
| "RegisterType_code kRegister = 2" | "RegisterType_code kVRegister = 3"
| "RegisterType_code kSIMD_FP_Register_8 = 4" | "RegisterType_code kSIMD_FP_Register_16 = 5"
| "RegisterType_code kSIMD_FP_Register_32 = 6" | "RegisterType_code kSIMD_FP_Register_64 = 7"
| "RegisterType_code kSIMD_FP_Register_128 = 8" | "RegisterType_code kInvalid = 9"

lemma RegisterType_code_inject [simp]: "RegisterType_code a = RegisterType_code b \<longleftrightarrow> a = b"
  by (cases a; cases b) simp_all

instantiation RegisterType :: linorder
begin

definition less_eq_RegisterType :: "RegisterType \<Rightarrow> RegisterType \<Rightarrow> bool" where
  "less_eq_RegisterType a b \<longleftrightarrow> RegisterType_code a \<le> RegisterType_code b"

definition less_RegisterType :: "RegisterType \<Rightarrow> RegisterType \<Rightarrow> bool" where
  "less_RegisterType a b \<longleftrightarrow> RegisterType_code a < RegisterType_code b"

instance
  by standard (auto simp: less_eq_RegisterType_def less_RegisterType_def)

end

record CPURegister =
  reg_code :: u32
  reg_size :: int
  reg_type :: RegisterType

definition regX :: "u32 \<Rightarrow> CPURegister" where
  "regX c = \<lparr>reg_code = c, reg_size = 64, reg_type = kRegister_64\<rparr>"

definition regW :: "u32 \<Rightarrow> CPURegister" where
  "regW c = \<lparr>reg_code = c, reg_size = 32, reg_type = kRegister_32\<rparr>"

definition regQ :: "u32 \<Rightarrow> CPURegister" where
  "regQ c = \<lparr>reg_code = c, reg_size = 128, reg_type = kSIMD_FP_Register_128\<rparr>"

definition InvalidRegister :: CPURegister where
  "InvalidRegister = \<lparr>reg_code = 0, reg_size = 0, reg_type = kInvalid\<rparr>"

definition reg_Is :: "CPURegister \<Rightarrow> CPURegister \<Rightarrow> bool" where
  "reg_Is this reg \<longleftrightarrow> reg_code reg = reg_code this"

definition Is64Bits :: "CPURegister \<Rightarrow> bool" where "Is64Bits r \<longleftrightarrow> reg_size r = 64"
definition IsRegister :: "CPURegister \<Rightarrow> bool" where "IsRegister r \<longleftrightarrow> reg_type r < kRegister"
definition IsVRegister :: "CPURegister \<Rightarrow> bool" where "IsVRegister r \<longleftrightarrow> kVRegister < reg_type r"

definition xzr :: CPURegister where "xzr = regX 31"
definition wzr :: CPURegister where "wzr = regW 31"
definition SP :: CPURegister where "SP = regX 31"
definition FP :: CPURegister where "FP = regX 29"
definition LR :: CPURegister where "LR = regX 30"

lemmas a64_reg_defs = regX_def regW_def regQ_def InvalidRegister_def reg_Is_def Is64Bits_def

end
