(* ===== verification/Labels.thy ===== *)
theory Labels
  imports Prelude
begin

text \<open>
  The labels of \<open>source/core/modules/assembler/assembler.h\<close> and \<open>.cc\<close>. One integer encodes the state of a
  label: negative when it is bound, positive when an instruction refers to it, zero when unused;
  the position is stored off by one so that position 0 can be told from unused.
\<close>

record Label =
  label_pos :: int
  near_link_pos :: int

definition Label_new :: Label where
  "Label_new = \<lparr>label_pos = 0, near_link_pos = 0\<rparr>"

definition is_bound :: "'a Label_scheme \<Rightarrow> bool" where
  "is_bound l \<longleftrightarrow> label_pos l < 0"

definition is_unused :: "'a Label_scheme \<Rightarrow> bool" where
  "is_unused l \<longleftrightarrow> label_pos l = 0 \<and> near_link_pos l = 0"

definition is_linked :: "'a Label_scheme \<Rightarrow> bool" where
  "is_linked l \<longleftrightarrow> label_pos l > 0"

definition is_near_linked :: "'a Label_scheme \<Rightarrow> bool" where
  "is_near_linked l \<longleftrightarrow> near_link_pos l > 0"

definition pos :: "'a Label_scheme \<Rightarrow> int" where
  "pos l = (if label_pos l < 0 then - label_pos l - 1
            else if label_pos l > 0 then label_pos l - 1 else 0)"

definition bind_to :: "'a Label_scheme \<Rightarrow> int \<Rightarrow> 'a Label_scheme" where
  "bind_to l p = l\<lparr>label_pos := - p - 1\<rparr>"

definition link_to :: "'a Label_scheme \<Rightarrow> int \<Rightarrow> 'a Label_scheme" where
  "link_to l p = l\<lparr>label_pos := p + 1\<rparr>"

lemma bind_to_simps [simp]:
  "0 \<le> p \<Longrightarrow> is_bound (bind_to l p)" "0 \<le> p \<Longrightarrow> pos (bind_to l p) = p"
  "0 \<le> p \<Longrightarrow> \<not> is_linked (bind_to l p)" "near_link_pos (bind_to l p) = near_link_pos l"
  by (simp_all add: bind_to_def is_bound_def is_linked_def pos_def)

lemma link_to_simps [simp]:
  "0 \<le> p \<Longrightarrow> is_linked (link_to l p)" "0 \<le> p \<Longrightarrow> pos (link_to l p) = p"
  "0 \<le> p \<Longrightarrow> \<not> is_bound (link_to l p)" "\<not> is_linked (link_to l (- 1))" "\<not> is_bound (link_to l (- 1))"
  by (simp_all add: link_to_def is_bound_def is_linked_def pos_def)

text \<open>The state of a label is one of three, and \<open>pos\<close> undoes the encoding.\<close>

lemma label_states: "is_bound l \<or> is_linked l \<or> label_pos l = 0"
  by (auto simp: is_bound_def is_linked_def)

section \<open>Code as a list of bytes\<close>

text \<open>
  What \<open>LoadInst\<close> and \<open>FixBindLabel\<close> do to the bytes emitted so far; a position outside them is out of
  bounds.
\<close>

definition load32 :: "u8 list \<Rightarrow> int \<Rightarrow> u32 res" where
  "load32 bs off = (if 0 \<le> off \<and> nat off + 4 \<le> length bs
     then Inr (of_le_bytes (take 4 (drop (nat off) bs))) else Inl OutOfBounds)"

definition store32 :: "u8 list \<Rightarrow> int \<Rightarrow> u32 \<Rightarrow> u8 list res" where
  "store32 bs off v = (if 0 \<le> off \<and> nat off + 4 \<le> length bs
     then Inr (overwrite bs (nat off) (le_bytes 4 v)) else Inl OutOfBounds)"

lemma store32_ok:
  "n + 4 \<le> length bs \<Longrightarrow> store32 bs (int n) v = Inr (overwrite bs n (le_bytes 4 v))"
  by (simp add: store32_def)

lemma load32_ok: "n + 4 \<le> length bs \<Longrightarrow> load32 bs (int n) = Inr (of_le_bytes (take 4 (drop n bs)))"
  by (simp add: load32_def)

lemma load32_overwrite:
  assumes "n + 4 \<le> length bs"
  shows "load32 (overwrite bs n (le_bytes 4 v)) (int n) = Inr v"
  using overwrite_read [of n bs "le_bytes 4 v"] assms
  by (simp add: load32_def del: le_bytes.simps)

end
