(* ===== verification/Arm64Assembler.thy ===== *)
theory Arm64Assembler
  imports Arm64Constants Labels
begin

text \<open>
  The ARM64 assembler of \<open>source/core/modules/assembler/assembler-arm64.h\<close> and \<open>.cc\<close>, with \<open>LiteralLdrBranch\<close> of
  \<open>codegen-arm64.cc\<close>. The state of an assembler is the list of bytes its code buffer holds, the realized
  address and the data labels; a \<open>RelocLabelEntry\<close> pointer is the index of the entry in the data labels,
  which only grow. Offsets that the source computes in \<open>int\<close> are integers. Names carry the prefix
  \<open>a64\<close> for the namespace \<open>zz::arm64\<close>.
\<close>

section \<open>Labels with pending instructions\<close>

datatype PseudoLabelType = kLdrLiteral

record PseudoLabel = Label +
  instructions :: "(int \<times> PseudoLabelType) list"

record RelocLabelEntry = PseudoLabel +
  reloc_data :: u64
  data_size :: int

definition PseudoLabel_new :: PseudoLabel where
  "PseudoLabel_new = \<lparr>label_pos = 0, near_link_pos = 0, instructions = []\<rparr>"

definition RelocLabelEntry_new :: "u64 \<Rightarrow> RelocLabelEntry" where
  "RelocLabelEntry_new d = \<lparr>label_pos = 0, near_link_pos = 0, instructions = [], reloc_data = d, data_size = 0\<rparr>"

definition has_confused_instructions :: "'a PseudoLabel_scheme \<Rightarrow> bool" where
  "has_confused_instructions l \<longleftrightarrow> length (instructions l) > 0"

definition pseudo_link_to :: "'a PseudoLabel_scheme \<Rightarrow> int \<Rightarrow> PseudoLabelType \<Rightarrow> 'a PseudoLabel_scheme" where
  "pseudo_link_to l p t = l\<lparr>instructions := instructions l @ [(p, t)]\<rparr>"

text \<open>The rewriting of one pending instruction; \<open>offset >> 2\<close> is an arithmetic shift.\<close>

definition encode_ldr_literal :: "u32 \<Rightarrow> int \<Rightarrow> u32" where
  "encode_ldr_literal inst32 offset =
    (inst32 AND 0xFF00001F) OR LeftShift (signed_drop_bit 2 (word_of_int offset)) 19 5"

fun link_instructions :: "int \<Rightarrow> (int \<times> PseudoLabelType) list \<Rightarrow> u8 list \<Rightarrow> u8 list res" where
  "link_instructions p [] code = Inr code"
| "link_instructions p ((position, kLdrLiteral) # rest) code =
    rbind (load32 code position) (\<lambda>inst32.
    rbind (store32 code position (encode_ldr_literal inst32 (p - position))) (\<lambda>code.
    link_instructions p rest code))"

definition link_confused_instructions :: "'a PseudoLabel_scheme \<Rightarrow> u8 list \<Rightarrow> u8 list res" where
  "link_confused_instructions l code = link_instructions (pos l) (instructions l) code"

section \<open>Operands\<close>

record a64_operand =
  op_immediate :: u64
  op_reg :: CPURegister
  op_shift :: Shift
  op_extend :: Extend
  op_shift_extend_imm :: u32

definition Operand_imm :: "u64 \<Rightarrow> a64_operand" where
  "Operand_imm imm = \<lparr>op_immediate = imm, op_reg = InvalidRegister, op_shift = NO_SHIFT,
     op_extend = NO_EXTEND, op_shift_extend_imm = 0\<rparr>"

definition Operand_shift :: "CPURegister \<Rightarrow> Shift \<Rightarrow> u32 \<Rightarrow> a64_operand" where
  "Operand_shift r s n = \<lparr>op_immediate = 0, op_reg = r, op_shift = s, op_extend = NO_EXTEND,
     op_shift_extend_imm = n\<rparr>"

definition Operand_extend :: "CPURegister \<Rightarrow> Extend \<Rightarrow> u32 \<Rightarrow> a64_operand" where
  "Operand_extend r e n = \<lparr>op_immediate = 0, op_reg = r, op_shift = NO_SHIFT, op_extend = e,
     op_shift_extend_imm = n\<rparr>"

definition IsImmediate :: "a64_operand \<Rightarrow> bool" where
  "IsImmediate o' \<longleftrightarrow> reg_Is (op_reg o') InvalidRegister"

definition IsShiftedRegister :: "a64_operand \<Rightarrow> bool" where
  "IsShiftedRegister o' \<longleftrightarrow> op_shift o' \<noteq> NO_SHIFT"

definition IsExtendedRegister :: "a64_operand \<Rightarrow> bool" where
  "IsExtendedRegister o' \<longleftrightarrow> op_extend o' \<noteq> NO_EXTEND"

record a64_mem_operand =
  mo_base :: CPURegister
  mo_regoffset :: CPURegister
  mo_offset :: u64
  mo_shift :: Shift
  mo_extend :: Extend
  mo_shift_extend_imm :: u32
  mo_addrmode :: AddrMode

definition MemOperand :: "CPURegister \<Rightarrow> u64 \<Rightarrow> AddrMode \<Rightarrow> a64_mem_operand" where
  "MemOperand b off am = \<lparr>mo_base = b, mo_regoffset = InvalidRegister, mo_offset = off, mo_shift = NO_SHIFT,
     mo_extend = NO_EXTEND, mo_shift_extend_imm = 0, mo_addrmode = am\<rparr>"

definition MemOperand_extend :: "CPURegister \<Rightarrow> CPURegister \<Rightarrow> Extend \<Rightarrow> u32 \<Rightarrow> a64_mem_operand" where
  "MemOperand_extend b r e n = \<lparr>mo_base = b, mo_regoffset = r, mo_offset = 0, mo_shift = NO_SHIFT,
     mo_extend = e, mo_shift_extend_imm = n, mo_addrmode = Offset\<rparr>"

definition MemOperand_shift :: "CPURegister \<Rightarrow> CPURegister \<Rightarrow> Shift \<Rightarrow> u32 \<Rightarrow> a64_mem_operand" where
  "MemOperand_shift b r s n = \<lparr>mo_base = b, mo_regoffset = r, mo_offset = 0, mo_shift = s,
     mo_extend = NO_EXTEND, mo_shift_extend_imm = n, mo_addrmode = Offset\<rparr>"

text \<open>Built from an operand that is neither shifted nor extended, the offset and shift are left uninitialised.\<close>

definition MemOperand_operand :: "CPURegister \<Rightarrow> a64_operand \<Rightarrow> AddrMode \<Rightarrow> a64_mem_operand res" where
  "MemOperand_operand b off am =
    (if IsShiftedRegister off
     then Inr \<lparr>mo_base = b, mo_regoffset = op_reg off, mo_offset = 0, mo_shift = op_shift off,
            mo_extend = NO_EXTEND, mo_shift_extend_imm = op_shift_extend_imm off, mo_addrmode = am\<rparr>
     else if IsExtendedRegister off
     then Inr \<lparr>mo_base = b, mo_regoffset = op_reg off, mo_offset = 0, mo_shift = NO_SHIFT,
            mo_extend = op_extend off, mo_shift_extend_imm = op_shift_extend_imm off, mo_addrmode = am\<rparr>
     else Inl Uninitialized)"

definition IsImmediateOffset :: "a64_mem_operand \<Rightarrow> bool" where
  "IsImmediateOffset m \<longleftrightarrow> mo_addrmode m = Offset"

definition IsRegisterOffset :: "a64_mem_operand \<Rightarrow> bool" where
  "IsRegisterOffset m \<longleftrightarrow> mo_addrmode m = Offset"

definition IsPreIndex :: "a64_mem_operand \<Rightarrow> bool" where
  "IsPreIndex m \<longleftrightarrow> mo_addrmode m = PreIndex"

definition IsPostIndex :: "a64_mem_operand \<Rightarrow> bool" where
  "IsPostIndex m \<longleftrightarrow> mo_addrmode m = PostIndex"

section \<open>Encodings\<close>

definition enc_Rd :: "CPURegister \<Rightarrow> u32" where "enc_Rd r = push_bit kRdShift (reg_code r)"
definition enc_Rt :: "CPURegister \<Rightarrow> u32" where "enc_Rt r = push_bit kRtShift (reg_code r)"
definition enc_Rt2 :: "CPURegister \<Rightarrow> u32" where "enc_Rt2 r = push_bit kRt2Shift (reg_code r)"
definition enc_Rn :: "CPURegister \<Rightarrow> u32" where "enc_Rn r = push_bit kRnShift (reg_code r)"
definition enc_Rm :: "CPURegister \<Rightarrow> u32" where "enc_Rm r = push_bit kRmShift (reg_code r)"

definition OpEncode_sf :: "CPURegister \<Rightarrow> u32" where
  "OpEncode_sf r = (if Is64Bits r then LeftShift 1 1 31 else 0)"

definition OpEncode_V :: "CPURegister \<Rightarrow> u32" where
  "OpEncode_V r = (if IsVRegister r then LeftShift 1 1 26 else 0)"

definition OpEncode_L :: "bool \<Rightarrow> u32" where
  "OpEncode_L load_or_store = (if load_or_store then LeftShift 1 1 22 else 0)"

definition OpEncode_shift :: "Shift \<Rightarrow> u32" where
  "OpEncode_shift s = LeftShift (Shift_code s) 2 22"

text \<open>\<open>N\<close>, bit 12 of the immediate, is computed and not used.\<close>

definition EncodeLogicalImmediate :: "CPURegister \<Rightarrow> CPURegister \<Rightarrow> a64_operand \<Rightarrow> u32" where
  "EncodeLogicalImmediate rd rn oper =
    (let imm = op_immediate oper; immr = ucast (bits imm 0 5); imms = ucast (bits imm 6 11)
     in OpEncode_sf rd OR LeftShift immr 6 16 OR LeftShift imms 6 10 OR enc_Rd rd OR enc_Rn rn)"

definition EncodeLogicalShift :: "CPURegister \<Rightarrow> CPURegister \<Rightarrow> a64_operand \<Rightarrow> u32" where
  "EncodeLogicalShift rd rn oper =
    OpEncode_sf rd OR OpEncode_shift (op_shift oper) OR enc_Rm (op_reg oper) OR
    LeftShift (op_shift_extend_imm oper) 6 10 OR enc_Rn rn OR enc_Rd rd"

definition EncodeLoadStorePair :: "u32 \<Rightarrow> CPURegister \<Rightarrow> CPURegister \<Rightarrow> a64_mem_operand \<Rightarrow> u32" where
  "EncodeLoadStorePair op rt rt2 addr =
    (let opc = bits op 30 31;
         scale = 2 + (if IsRegister rt then unat (bit1 opc 1) else if IsVRegister rt then unat opc else 0);
         imm7 = ucast (signed_drop_bit scale (mo_offset addr))
     in LeftShift imm7 7 15)"

definition OpEncode_scale :: "u32 \<Rightarrow> nat" where
  "OpEncode_scale op =
    (if op AND LoadStoreUnsignedOffsetFixed = LoadStoreUnsignedOffsetFixed then unat (bits op 30 31) else 0)"

section \<open>The assembler\<close>

record a64_assembler =
  asm_buffer :: "u8 list"
  asm_realized_address :: u64
  asm_data_labels :: "RelocLabelEntry list option"

definition a64_new :: "u64 \<Rightarrow> a64_assembler" where
  "a64_new address = \<lparr>asm_buffer = [], asm_realized_address = address, asm_data_labels = None\<rparr>"

definition a64_pc_offset :: "a64_assembler \<Rightarrow> int" where
  "a64_pc_offset a = int (length (asm_buffer a))"

definition a64_Emit :: "a64_assembler \<Rightarrow> u32 \<Rightarrow> a64_assembler" where
  "a64_Emit a v = a\<lparr>asm_buffer := asm_buffer a @ le_bytes 4 v\<rparr>"

definition a64_EmitInt64 :: "a64_assembler \<Rightarrow> u64 \<Rightarrow> a64_assembler" where
  "a64_EmitInt64 a v = a\<lparr>asm_buffer := asm_buffer a @ le_bytes 8 v\<rparr>"

text \<open>
  One step of the chain that links the branches to a label: the instruction at the label's position
  is rewritten and the position of the previous one is taken from its old immediate.
\<close>

definition a64_bind_step :: "int \<Rightarrow> 'l Label_scheme \<Rightarrow> u8 list \<Rightarrow> ('l Label_scheme \<times> u8 list) res" where
  "a64_bind_step bound_pc label code =
    (let linkpos = pos label in
     rbind (load32 code linkpos) (\<lambda>instr.
     rbind (if instr AND UnconditionalBranchMask = UnconditionalBranchFixed
            then let offset = bound_pc - linkpos;
                     imm26 = bits (signed_drop_bit 2 (word_of_int offset)) 0 25;
                     rewrite_inst = (instr AND 0xfc000000) OR LeftShift imm26 26 0
                 in rbind (store32 code linkpos rewrite_inst) (\<lambda>code.
                    let next_label_offset = uint (push_bit 2 (bits instr 0 25))
                    in Inr (linkpos - next_label_offset, code))
            else Inr (0, code)) (\<lambda>(prevlinkpos, code).
     Inr (if linkpos - prevlinkpos = 0 then link_to label (- 1) else link_to label prevlinkpos, code))))"

lemma bind_step_decreases:
  assumes "is_linked label" "a64_bind_step bound_pc label code = Inr (label', code')"
  shows "nat (label_pos label') < nat (label_pos label)"
  using assms
  by (auto simp: a64_bind_step_def Let_def is_linked_def pos_def link_to_def split: if_splits)
    (metis order_le_less unsigned_greater_eq)

function a64_bind_loop :: "int \<Rightarrow> 'l Label_scheme \<Rightarrow> u8 list \<Rightarrow> ('l Label_scheme \<times> u8 list) res" where
  "a64_bind_loop bound_pc label code =
    (if is_linked label
     then rbind (a64_bind_step bound_pc label code) (\<lambda>(label, code). a64_bind_loop bound_pc label code)
     else Inr (label, code))"
  by pat_completeness auto
termination
  by (relation "measure (\<lambda>(_, label, _). nat (label_pos label))")
    (auto simp del: zless_nat_conj dest: bind_step_decreases)

declare a64_bind_loop.simps [simp del]

definition a64_bind :: "a64_assembler \<Rightarrow> 'l Label_scheme \<Rightarrow> (a64_assembler \<times> 'l Label_scheme) res" where
  "a64_bind a label =
    (let bound_pc = a64_pc_offset a in
     rbind (a64_bind_loop bound_pc label (asm_buffer a)) (\<lambda>(label, code).
       Inr (a\<lparr>asm_buffer := code\<rparr>, bind_to label bound_pc)))"

definition a64_LinkAndGetByteOffsetTo :: "a64_assembler \<Rightarrow> 'l Label_scheme \<Rightarrow> int \<times> 'l Label_scheme" where
  "a64_LinkAndGetByteOffsetTo a label =
    (if is_bound label then (pos label - a64_pc_offset a, label)
     else (if is_linked label then pos label - a64_pc_offset a else 0, link_to label (a64_pc_offset a)))"

definition a64_nop :: "a64_assembler \<Rightarrow> a64_assembler" where
  "a64_nop a = a64_Emit a 0xD503201F"

definition a64_brk :: "a64_assembler \<Rightarrow> u32 \<Rightarrow> a64_assembler" where
  "a64_brk a c = a64_Emit a (BRK OR LeftShift c 16 5)"

definition a64_ret :: "a64_assembler \<Rightarrow> a64_assembler" where
  "a64_ret a = a64_Emit a 0xD65F03C0"

definition a64_adrp :: "a64_assembler \<Rightarrow> CPURegister \<Rightarrow> u64 \<Rightarrow> a64_assembler" where
  "a64_adrp a rd imm =
    (let immlo = LeftShift (bits (signed_drop_bit 12 imm) 0 1) 2 29;
         immhi = LeftShift (bits (signed_drop_bit 12 imm) 2 20) 19 5
     in a64_Emit a (ADRP OR enc_Rd rd OR ucast immlo OR ucast immhi))"

definition a64_AddSubImmediate ::
  "a64_assembler \<Rightarrow> CPURegister \<Rightarrow> CPURegister \<Rightarrow> a64_operand \<Rightarrow> u32 \<Rightarrow> a64_assembler res" where
  "a64_AddSubImmediate a rd rn oper op =
    (if IsImmediate oper
     then Inr (a64_Emit a (op OR enc_Rd rd OR enc_Rn rn OR ucast (LeftShift (op_immediate oper) 12 10)))
     else Inl Unreachable)"

definition a64_add :: "a64_assembler \<Rightarrow> CPURegister \<Rightarrow> CPURegister \<Rightarrow> u64 \<Rightarrow> a64_assembler res" where
  "a64_add a rd rn imm =
    (if Is64Bits rd \<and> Is64Bits rn then a64_AddSubImmediate a rd rn (Operand_imm imm) (AddSubImmediateOp ADD_x)
     else a64_AddSubImmediate a rd rn (Operand_imm imm) (AddSubImmediateOp ADD_w))"

definition a64_sub :: "a64_assembler \<Rightarrow> CPURegister \<Rightarrow> CPURegister \<Rightarrow> u64 \<Rightarrow> a64_assembler res" where
  "a64_sub a rd rn imm =
    (if Is64Bits rd \<and> Is64Bits rn then a64_AddSubImmediate a rd rn (Operand_imm imm) (AddSubImmediateOp SUB_x)
     else a64_AddSubImmediate a rd rn (Operand_imm imm) (AddSubImmediateOp SUB_w))"

definition a64_adds :: "a64_assembler \<Rightarrow> CPURegister \<Rightarrow> CPURegister \<Rightarrow> u64 \<Rightarrow> a64_assembler res" where
  "a64_adds a rd rn imm = Inl Unreachable"

definition a64_subs :: "a64_assembler \<Rightarrow> CPURegister \<Rightarrow> CPURegister \<Rightarrow> u64 \<Rightarrow> a64_assembler res" where
  "a64_subs a rd rn imm = Inl Unreachable"

definition a64_b :: "a64_assembler \<Rightarrow> u64 \<Rightarrow> a64_assembler" where
  "a64_b a imm = a64_Emit a (BranchB OR ucast (bits (signed_drop_bit 2 imm) 0 25))"

definition a64_b_label :: "a64_assembler \<Rightarrow> 'l Label_scheme \<Rightarrow> a64_assembler \<times> 'l Label_scheme" where
  "a64_b_label a label =
    (let (offset, label) = a64_LinkAndGetByteOffsetTo a label in (a64_b a (word_of_int offset), label))"

definition a64_br :: "a64_assembler \<Rightarrow> CPURegister \<Rightarrow> a64_assembler" where
  "a64_br a rn = a64_Emit a (BranchBR OR enc_Rn rn)"

definition a64_blr :: "a64_assembler \<Rightarrow> CPURegister \<Rightarrow> a64_assembler" where
  "a64_blr a rn = a64_Emit a (BranchBLR OR enc_Rn rn)"

definition a64_EmitLoadRegLiteral :: "a64_assembler \<Rightarrow> u32 \<Rightarrow> CPURegister \<Rightarrow> u64 \<Rightarrow> a64_assembler" where
  "a64_EmitLoadRegLiteral a op rt imm = a64_Emit a (op OR ucast (LeftShift imm 26 5) OR enc_Rt rt)"

definition a64_ldr_literal :: "a64_assembler \<Rightarrow> CPURegister \<Rightarrow> u64 \<Rightarrow> a64_assembler res" where
  "a64_ldr_literal a rt imm =
    (let emit = (\<lambda>op. Inr (a64_EmitLoadRegLiteral a (LoadRegLiteralOp op) rt imm)) in
     case reg_type rt of
       kRegister_32 \<Rightarrow> emit LDR_w_literal
     | kRegister_64 \<Rightarrow> emit LDR_x_literal
     | kSIMD_FP_Register_32 \<Rightarrow> emit LDR_s_literal
     | kSIMD_FP_Register_64 \<Rightarrow> emit LDR_d_literal
     | kSIMD_FP_Register_128 \<Rightarrow> emit LDR_q_literal
     | _ \<Rightarrow> Inl Unreachable)"

definition a64_LoadStore :: "a64_assembler \<Rightarrow> u32 \<Rightarrow> CPURegister \<Rightarrow> a64_mem_operand \<Rightarrow> a64_assembler res" where
  "a64_LoadStore a op rt addr =
    (if IsImmediateOffset addr
     then let imm12 = signed_drop_bit (OpEncode_scale (LoadStoreUnsignedOffsetFixed OR op)) (mo_offset addr)
          in Inr (a64_Emit a (LoadStoreUnsignedOffsetFixed OR op OR ucast (LeftShift imm12 12 10) OR
               enc_Rn (mo_base addr) OR enc_Rt rt))
     else Inl Unreachable)"

definition a64_ldr :: "a64_assembler \<Rightarrow> CPURegister \<Rightarrow> a64_mem_operand \<Rightarrow> a64_assembler res" where
  "a64_ldr a rt src = a64_LoadStore a (LoadStoreOp LDR_x) rt src"

definition a64_str :: "a64_assembler \<Rightarrow> CPURegister \<Rightarrow> a64_mem_operand \<Rightarrow> a64_assembler res" where
  "a64_str a rt src = a64_LoadStore a (LoadStoreOp STR_x) rt src"

definition a64_LoadStorePair ::
  "a64_assembler \<Rightarrow> u32 \<Rightarrow> CPURegister \<Rightarrow> CPURegister \<Rightarrow> a64_mem_operand \<Rightarrow> a64_assembler" where
  "a64_LoadStorePair a op rt rt2 addr =
    (let combine_fields_op = EncodeLoadStorePair op rt rt2 addr OR enc_Rt2 rt2 OR enc_Rn (mo_base addr) OR enc_Rt rt;
         addrmodeop = (if IsImmediateOffset addr then LoadStorePairOffsetFixed
                       else if IsPreIndex addr then LoadStorePairPreIndexFixed
                       else LoadStorePairPostIndexFixed)
     in a64_Emit a (op OR addrmodeop OR combine_fields_op))"

definition a64_ldp ::
  "a64_assembler \<Rightarrow> CPURegister \<Rightarrow> CPURegister \<Rightarrow> a64_mem_operand \<Rightarrow> a64_assembler res" where
  "a64_ldp a rt rt2 src =
    (if reg_type rt = kSIMD_FP_Register_128 then Inr (a64_LoadStorePair a (LoadStorePairOp LDP_q) rt rt2 src)
     else if reg_type rt = kRegister_64 then Inr (a64_LoadStorePair a (LoadStorePairOp LDP_x) rt rt2 src)
     else Inl Unreachable)"

definition a64_stp ::
  "a64_assembler \<Rightarrow> CPURegister \<Rightarrow> CPURegister \<Rightarrow> a64_mem_operand \<Rightarrow> a64_assembler res" where
  "a64_stp a rt rt2 dst =
    (if reg_type rt = kSIMD_FP_Register_128 then Inr (a64_LoadStorePair a (LoadStorePairOp STP_q) rt rt2 dst)
     else if reg_type rt = kRegister_64 then Inr (a64_LoadStorePair a (LoadStorePairOp STP_x) rt rt2 dst)
     else Inl Unreachable)"

definition a64_LogicalImmediate ::
  "a64_assembler \<Rightarrow> CPURegister \<Rightarrow> CPURegister \<Rightarrow> a64_operand \<Rightarrow> u32 \<Rightarrow> a64_assembler" where
  "a64_LogicalImmediate a rd rn oper op = a64_Emit a (op OR EncodeLogicalImmediate rd rn oper)"

definition a64_LogicalShift ::
  "a64_assembler \<Rightarrow> CPURegister \<Rightarrow> CPURegister \<Rightarrow> a64_operand \<Rightarrow> u32 \<Rightarrow> a64_assembler" where
  "a64_LogicalShift a rd rn oper op = a64_Emit a (op OR LogicalShiftedFixed OR EncodeLogicalShift rd rn oper)"

definition a64_Logical ::
  "a64_assembler \<Rightarrow> CPURegister \<Rightarrow> CPURegister \<Rightarrow> a64_operand \<Rightarrow> u32 \<Rightarrow> a64_assembler" where
  "a64_Logical a rd rn oper op =
    (if IsImmediate oper then a64_LogicalImmediate a rd rn oper op else a64_LogicalShift a rd rn oper op)"

definition a64_orr :: "a64_assembler \<Rightarrow> CPURegister \<Rightarrow> CPURegister \<Rightarrow> a64_operand \<Rightarrow> a64_assembler" where
  "a64_orr a rd rn oper = a64_Logical a rd rn oper (LogicalOp Logical_ORR)"

definition a64_mov :: "a64_assembler \<Rightarrow> CPURegister \<Rightarrow> CPURegister \<Rightarrow> a64_assembler res" where
  "a64_mov a rd rn =
    (if reg_Is rd SP \<or> reg_Is rn SP then a64_add a rd rn 0
     else if Is64Bits rd then Inr (a64_orr a rd xzr (Operand_shift rn LSL 0))
     else Inr (a64_orr a rd wzr (Operand_shift rn LSL 0)))"

definition a64_MoveWide :: "a64_assembler \<Rightarrow> CPURegister \<Rightarrow> u64 \<Rightarrow> int \<Rightarrow> u32 \<Rightarrow> a64_assembler" where
  "a64_MoveWide a rd imm shift op =
    (let shift = (if shift > 0 then shift div 16 else 0);
         imm16 = ucast (LeftShift imm 16 5)
     in a64_Emit a (MoveWideImmediateFixed OR op OR OpEncode_sf rd OR LeftShift (word_of_int shift) 2 21 OR
          imm16 OR enc_Rd rd))"

definition a64_movk :: "a64_assembler \<Rightarrow> CPURegister \<Rightarrow> u64 \<Rightarrow> int \<Rightarrow> a64_assembler" where
  "a64_movk a rd imm shift = a64_MoveWide a rd imm shift MOVK"

definition a64_movn :: "a64_assembler \<Rightarrow> CPURegister \<Rightarrow> u64 \<Rightarrow> int \<Rightarrow> a64_assembler" where
  "a64_movn a rd imm shift = a64_MoveWide a rd imm shift MOVN"

definition a64_movz :: "a64_assembler \<Rightarrow> CPURegister \<Rightarrow> u64 \<Rightarrow> int \<Rightarrow> a64_assembler" where
  "a64_movz a rd imm shift = a64_MoveWide a rd imm shift MOVZ"

section \<open>The turbo assembler\<close>

definition Low16Bits :: "u32 \<Rightarrow> u32" where "Low16Bits v = v AND 0xffff"
definition High16Bits :: "u32 \<Rightarrow> u32" where "High16Bits v = signed_drop_bit 16 v"
definition Low32Bits :: "u64 \<Rightarrow> u32" where "Low32Bits v = ucast v"
definition High32Bits :: "u64 \<Rightarrow> u32" where "High32Bits v = ucast (signed_drop_bit 32 v)"

definition TMP_REG_0 :: CPURegister where "TMP_REG_0 = regX 17"

text \<open>The halves are stored in \<open>uint16_t\<close> before they are emitted.\<close>

definition a64_Mov :: "a64_assembler \<Rightarrow> CPURegister \<Rightarrow> u64 \<Rightarrow> a64_assembler" where
  "a64_Mov a rd imm =
    (let w0 = Low32Bits imm; w1 = High32Bits imm;
         h0 = ucast (Low16Bits w0) :: u16; h1 = ucast (High16Bits w0) :: u16;
         h2 = ucast (Low16Bits w1) :: u16; h3 = ucast (High16Bits w1) :: u16;
         a = a64_movz a rd (ucast h0) 0;
         a = a64_movk a rd (ucast h1) 16;
         a = a64_movk a rd (ucast h2) 32
     in a64_movk a rd (ucast h3) 48)"

definition a64_CallFunction :: "a64_assembler \<Rightarrow> u64 \<Rightarrow> a64_assembler" where
  "a64_CallFunction a function = a64_blr (a64_Mov a TMP_REG_0 function) TMP_REG_0"

definition a64_Ldr ::
  "a64_assembler \<Rightarrow> CPURegister \<Rightarrow> 'l PseudoLabel_scheme \<Rightarrow> (a64_assembler \<times> 'l PseudoLabel_scheme) res" where
  "a64_Ldr a rt label =
    (if is_bound label
     then let offset = pos label - int (length (asm_buffer a)) in
          rbind (a64_ldr_literal a rt (word_of_int offset)) (\<lambda>a. Inr (a, label))
     else let label = pseudo_link_to label (int (length (asm_buffer a))) kLdrLiteral in
          rbind (a64_ldr_literal a rt 0) (\<lambda>a. Inr (a, label)))"

definition a64_AdrpAdd :: "a64_assembler \<Rightarrow> CPURegister \<Rightarrow> u64 \<Rightarrow> u64 \<Rightarrow> a64_assembler res" where
  "a64_AdrpAdd a rd from to =
    (let from_PAGE = ALIGN_FLOOR from 0x1000; to_PAGE = ALIGN_FLOOR to 0x1000; to_PAGEOFF = to mod 0x1000;
         a = a64_adrp a rd (to_PAGE - from_PAGE)
     in a64_add a rd rd to_PAGEOFF)"

definition a64_PseudoBind ::
  "a64_assembler \<Rightarrow> 'l PseudoLabel_scheme \<Rightarrow> (a64_assembler \<times> 'l PseudoLabel_scheme) res" where
  "a64_PseudoBind a label =
    (let label = bind_to label (int (length (asm_buffer a))) in
     if has_confused_instructions label
     then rbind (link_confused_instructions label (asm_buffer a)) (\<lambda>code.
            Inr (a\<lparr>asm_buffer := code\<rparr>, label))
     else Inr (a, label))"

text \<open>\<open>RelocBind\<close> binds every entry at the end of the code and emits its data there.\<close>

fun a64_RelocBind_loop :: "a64_assembler \<Rightarrow> RelocLabelEntry list \<Rightarrow> (a64_assembler \<times> RelocLabelEntry list) res" where
  "a64_RelocBind_loop a [] = Inr (a, [])"
| "a64_RelocBind_loop a (label # labels) =
    rbind (a64_PseudoBind a label) (\<lambda>(a, label).
    rbind (a64_RelocBind_loop (a64_EmitInt64 a (reloc_data label)) labels) (\<lambda>(a, labels).
    Inr (a, label # labels)))"

definition a64_RelocBind :: "a64_assembler \<Rightarrow> a64_assembler res" where
  "a64_RelocBind a =
    (case asm_data_labels a of
       None \<Rightarrow> Inr a
     | Some labels \<Rightarrow> rbind (a64_RelocBind_loop a labels) (\<lambda>(a, labels).
         Inr (a\<lparr>asm_data_labels := Some labels\<rparr>)))"

definition a64_AppendRelocLabelEntry :: "a64_assembler \<Rightarrow> RelocLabelEntry \<Rightarrow> a64_assembler" where
  "a64_AppendRelocLabelEntry a label =
    a\<lparr>asm_data_labels := Some ((case asm_data_labels a of None \<Rightarrow> [] | Some ls \<Rightarrow> ls) @ [label])\<rparr>"

text \<open>\<open>CodeGen::LiteralLdrBranch\<close>.\<close>

definition a64_LiteralLdrBranch :: "a64_assembler \<Rightarrow> u64 \<Rightarrow> a64_assembler res" where
  "a64_LiteralLdrBranch a address =
    rbind (a64_Ldr a TMP_REG_0 PseudoLabel_new) (\<lambda>(a, address_ptr).
    let a = a64_br a TMP_REG_0 in
    rbind (a64_PseudoBind a address_ptr) (\<lambda>(a, address_ptr).
    Inr (a64_EmitInt64 a address)))"

end
