(* ===== verification/Arm64Relocation.thy ===== *)
theory Arm64Relocation
  imports Arm64Assembler
begin

text \<open>
  The ARM64 instruction relocator, \<open>source/InstructionRelocation/arm64/ARM64InstructionRelocation.cc\<close>: each
  instruction of the overwritten prologue is copied, or, when its meaning depends on its address,
  replaced by instructions that name the absolute address; a branch back to the rest of the function
  and the pool of branch addresses follow. Built without \<open>DOBBY_DEBUG\<close>.
\<close>

definition CompareBranchFixed :: u32 where "CompareBranchFixed = 0x34000000"
definition CompareBranchFixedMask :: u32 where "CompareBranchFixedMask = 0x7E000000"
definition ConditionalBranchFixed :: u32 where "ConditionalBranchFixed = 0x54000000"
definition ConditionalBranchFixedMask :: u32 where "ConditionalBranchFixedMask = 0xFE000000"
definition TestBranchFixed :: u32 where "TestBranchFixed = 0x36000000"
definition TestBranchFixedMask :: u32 where "TestBranchFixedMask = 0x7E000000"

section \<open>Reading the immediates\<close>

definition SignExtend :: "u64 \<Rightarrow> nat \<Rightarrow> nat \<Rightarrow> u64" where
  "SignExtend x M N = signed_drop_bit (N - M) (push_bit (N - M) x)"

definition decode_imm14_offset :: "u32 \<Rightarrow> u64" where
  "decode_imm14_offset instr = SignExtend (push_bit 2 (ucast (bits instr 5 18))) (2 + 14) 64"

definition decode_imm19_offset :: "u32 \<Rightarrow> u64" where
  "decode_imm19_offset instr = SignExtend (push_bit 2 (ucast (bits instr 5 23))) (2 + 19) 64"

definition decode_imm26_offset :: "u32 \<Rightarrow> u64" where
  "decode_imm26_offset instr = SignExtend (push_bit 2 (ucast (bits instr 0 25))) (2 + 26) 64"

text \<open>The bit-field structure: \<open>immhi\<close> is bits 5 to 23, \<open>immlo\<close> bits 29 and 30.\<close>

definition decode_immhi_immlo_offset :: "u32 \<Rightarrow> u64" where
  "decode_immhi_immlo_offset instr =
    (let immhi = take_bit 19 (drop_bit 5 instr); immlo = take_bit 2 (drop_bit 29 instr)
     in SignExtend (ucast (immlo + push_bit 2 immhi)) (2 + 19) 64)"

definition decode_immhi_immlo_zero12_offset :: "u32 \<Rightarrow> u64" where
  "decode_immhi_immlo_zero12_offset instr = push_bit 12 (decode_immhi_immlo_offset instr)"

definition decode_rt :: "u32 \<Rightarrow> u32" where "decode_rt instr = bits instr 0 4"
definition decode_rd :: "u32 \<Rightarrow> u32" where "decode_rd instr = bits instr 0 4"

section \<open>One instruction\<close>

text \<open>\<open>Ldr\<close> through a pointer to the entry that was appended last.\<close>

definition a64_Ldr_last :: "a64_assembler \<Rightarrow> CPURegister \<Rightarrow> a64_assembler res" where
  "a64_Ldr_last a rt =
    (case asm_data_labels a of
       None \<Rightarrow> Inl NullPointer
     | Some ls \<Rightarrow> if ls = [] then Inl OutOfBounds
         else rbind (a64_Ldr a rt (last ls)) (\<lambda>(a, l). Inr (a\<lparr>asm_data_labels := Some (butlast ls @ [l])\<rparr>)))"

definition a64_new_entry :: "a64_assembler \<Rightarrow> u64 \<Rightarrow> a64_assembler" where
  "a64_new_entry a address = a64_AppendRelocLabelEntry a (RelocLabelEntry_new address)"

definition relocate_ldr_literal :: "a64_assembler \<Rightarrow> u32 \<Rightarrow> u64 \<Rightarrow> a64_assembler res" where
  "relocate_ldr_literal a instr curr_orig_pc =
    (let rt = decode_rt instr; opc = bits instr 30 31;
         memory_address = decode_imm19_offset instr + curr_orig_pc;
         a = a64_Mov a TMP_REG_0 memory_address
     in if opc = 0b00 then a64_ldr a (regW rt) (MemOperand TMP_REG_0 0 Offset)
        else if opc = 0b01 then a64_ldr a (regX rt) (MemOperand TMP_REG_0 0 Offset)
        else Inl Unimplemented)"

definition relocate_pc_rel :: "a64_assembler \<Rightarrow> u32 \<Rightarrow> u64 \<Rightarrow> a64_assembler" where
  "relocate_pc_rel a instr curr_orig_pc =
    (let rd = decode_rd instr;
         runtime_address =
           (if instr AND PCRelAddressingMask = ADR then curr_orig_pc + decode_immhi_immlo_offset instr
            else ALIGN_FLOOR curr_orig_pc (push_bit 12 1) + decode_immhi_immlo_zero12_offset instr)
     in a64_Mov a (regX rd) runtime_address)"

definition relocate_branch :: "a64_assembler \<Rightarrow> u32 \<Rightarrow> u64 \<Rightarrow> a64_assembler res" where
  "relocate_branch a instr curr_orig_pc =
    (let branch_address = decode_imm26_offset instr + curr_orig_pc;
         a = a64_new_entry a branch_address
     in rbind (a64_Ldr_last a TMP_REG_0) (\<lambda>a.
        Inr (if instr AND UnconditionalBranchMask = BranchBL then a64_blr a TMP_REG_0
             else a64_br a TMP_REG_0)))"

text \<open>The inverted branch over \<open>ldr x17, #label; br x17\<close>.\<close>

definition relocate_inverted :: "a64_assembler \<Rightarrow> u32 \<Rightarrow> u64 \<Rightarrow> a64_assembler res" where
  "relocate_inverted a branch_instr branch_address =
    (let a = a64_new_entry a branch_address;
         a = a64_Emit a branch_instr
     in rbind (a64_Ldr_last a TMP_REG_0) (\<lambda>a. Inr (a64_br a TMP_REG_0)))"

definition invert_test_branch :: "u32 \<Rightarrow> u32" where
  "invert_test_branch instr = set_bits (set_bit1 instr 24 (bit1 instr 24 XOR 1)) 5 18 3"

definition invert_compare_branch :: "u32 \<Rightarrow> u32" where
  "invert_compare_branch instr = set_bits (set_bit1 instr 24 (bit1 instr 24 XOR 1)) 5 23 3"

definition invert_conditional_branch :: "u32 \<Rightarrow> u32" where
  "invert_conditional_branch instr = set_bits (set_bits instr 0 3 (bits instr 0 3 XOR 1)) 5 23 3"

definition a64_relocate_one :: "a64_assembler \<Rightarrow> u32 \<Rightarrow> u64 \<Rightarrow> a64_assembler res" where
  "a64_relocate_one a instr curr_orig_pc =
    (if instr AND LoadRegLiteralFixedMask = LoadRegLiteralFixed then relocate_ldr_literal a instr curr_orig_pc
     else if instr AND PCRelAddressingFixedMask = PCRelAddressingFixed then Inr (relocate_pc_rel a instr curr_orig_pc)
     else if instr AND UnconditionalBranchFixedMask = UnconditionalBranchFixed
     then relocate_branch a instr curr_orig_pc
     else if instr AND TestBranchFixedMask = TestBranchFixed
     then relocate_inverted a (invert_test_branch instr) (decode_imm14_offset instr + curr_orig_pc)
     else if instr AND CompareBranchFixedMask = CompareBranchFixed
     then relocate_inverted a (invert_compare_branch instr) (decode_imm19_offset instr + curr_orig_pc)
     else if instr AND ConditionalBranchFixedMask = ConditionalBranchFixed
     then relocate_inverted a (invert_conditional_branch instr) (decode_imm19_offset instr + curr_orig_pc)
     else Inr (a64_Emit a instr))"

section \<open>The loop over the prologue\<close>

text \<open>
  \<open>mem\<close> is the memory from \<open>buffer\<close> on. The loop reads the next instruction before it tests whether it is
  still wanted, so it reads one word past the prologue.
\<close>

function a64_relocate_loop :: "u8 list \<Rightarrow> nat \<Rightarrow> nat \<Rightarrow> u32 \<Rightarrow> u64 \<Rightarrow> a64_assembler \<Rightarrow> (u64 \<times> a64_assembler) res" where
  "a64_relocate_loop mem sz cursor instr curr_orig_pc a =
    (if cursor < sz
     then rbind (a64_relocate_one a instr curr_orig_pc) (\<lambda>a.
          rbind (load32 mem (int (cursor + 4))) (\<lambda>instr.
          a64_relocate_loop mem sz (cursor + 4) instr (curr_orig_pc + 4) a))
     else Inr (curr_orig_pc, a))"
  by pat_completeness auto
termination
  by (relation "measure (\<lambda>(mem, sz, cursor, instr, pc, a). sz - cursor)") auto

declare a64_relocate_loop.simps [simp del]

definition a64_relocate_code :: "u8 list \<Rightarrow> u64 \<Rightarrow> nat \<Rightarrow> a64_assembler res" where
  "a64_relocate_code mem origin_start origin_size =
    rbind (load32 mem 0) (\<lambda>instr.
    rbind (a64_relocate_loop mem origin_size 0 instr origin_start (a64_new 0)) (\<lambda>(curr_orig_pc, a).
    rbind (a64_LiteralLdrBranch a curr_orig_pc) (\<lambda>a.
    a64_RelocBind a)))"

end
