(* ===== verification/Arm64Machine.thy ===== *)
theory Arm64Machine
  imports Prelude
begin

text \<open>
  A reference semantics of the A64 instructions the relocator rewrites or emits, after the
  architecture manual and independent of the definitions of the assembler: addresses, moves of
  immediates, literal and register loads, branches. It serves to state that relocated code does what
  the original did; it models no code of the program.
\<close>

record a64_state =
  xreg :: "nat \<Rightarrow> u64"
  pc :: u64
  flag_n :: bool
  flag_z :: bool
  flag_c :: bool
  flag_v :: bool
  memory :: "u64 \<Rightarrow> u8"

text \<open>Register 31 reads as zero and ignores writes.\<close>

definition rd_x :: "a64_state \<Rightarrow> nat \<Rightarrow> u64" where
  "rd_x s r = (if r = 31 then 0 else xreg s r)"

definition wr_x :: "a64_state \<Rightarrow> nat \<Rightarrow> u64 \<Rightarrow> a64_state" where
  "wr_x s r v = (if r = 31 then s else s\<lparr>xreg := (xreg s)(r := v)\<rparr>)"

definition next_pc :: "a64_state \<Rightarrow> a64_state" where
  "next_pc s = s\<lparr>pc := pc s + 4\<rparr>"

definition read_mem :: "a64_state \<Rightarrow> u64 \<Rightarrow> nat \<Rightarrow> u8 list" where
  "read_mem s addr n = map (\<lambda>i. memory s (addr + of_nat i)) [0..<n]"

definition field :: "u32 \<Rightarrow> nat \<Rightarrow> nat \<Rightarrow> u32" where
  "field w lo n = take_bit n (drop_bit lo w)"

text \<open>A signed field of \<open>n\<close> bits, scaled by four.\<close>

definition branch_offset :: "u32 \<Rightarrow> nat \<Rightarrow> nat \<Rightarrow> u64" where
  "branch_offset w lo n = signed_take_bit (n + 1) (push_bit 2 (ucast (field w lo n)))"

definition adr_offset :: "u32 \<Rightarrow> u64" where
  "adr_offset w = signed_take_bit 20 (push_bit 2 (ucast (field w 5 19)) OR ucast (field w 29 2))"

definition ConditionHolds :: "a64_state \<Rightarrow> u32 \<Rightarrow> bool" where
  "ConditionHolds s cond =
    (let b = drop_bit 1 cond;
         r = (if b = 0 then flag_z s else if b = 1 then flag_c s else if b = 2 then flag_n s
              else if b = 3 then flag_v s else if b = 4 then flag_c s \<and> \<not> flag_z s
              else if b = 5 then flag_n s = flag_v s
              else if b = 6 then flag_n s = flag_v s \<and> \<not> flag_z s else True)
     in if cond AND 1 = 1 \<and> cond \<noteq> 15 then \<not> r else r)"

definition branch_if :: "bool \<Rightarrow> u64 \<Rightarrow> a64_state \<Rightarrow> a64_state" where
  "branch_if c off s = s\<lparr>pc := pc s + (if c then off else 4)\<rparr>"

text \<open>The value the register of width 64 or 32 (\<open>sf\<close>) has.\<close>

definition reg_value :: "a64_state \<Rightarrow> u32 \<Rightarrow> nat \<Rightarrow> u64" where
  "reg_value s w r = (if bit w 31 then rd_x s r else take_bit 32 (rd_x s r))"

definition a64_exec :: "u32 \<Rightarrow> a64_state \<Rightarrow> a64_state option" where
  "a64_exec w s =
    (let rd = unat (field w 0 5); rn = unat (field w 5 5) in
     if w AND 0x9F000000 = 0x10000000 then Some (next_pc (wr_x s rd (pc s + adr_offset w)))
     else if w AND 0x9F000000 = 0x90000000
     then Some (next_pc (wr_x s rd ((pc s AND NOT (mask 12)) + push_bit 12 (adr_offset w))))
     else if w AND 0xFC000000 = 0x14000000 then Some (s\<lparr>pc := pc s + branch_offset w 0 26\<rparr>)
     else if w AND 0xFC000000 = 0x94000000 then Some ((wr_x s 30 (pc s + 4))\<lparr>pc := pc s + branch_offset w 0 26\<rparr>)
     else if w AND 0xFF000010 = 0x54000000
     then Some (branch_if (ConditionHolds s (field w 0 4)) (branch_offset w 5 19) s)
     else if w AND 0x7F000000 = 0x34000000
     then Some (branch_if (reg_value s w rd = 0) (branch_offset w 5 19) s)
     else if w AND 0x7F000000 = 0x35000000
     then Some (branch_if (reg_value s w rd \<noteq> 0) (branch_offset w 5 19) s)
     else if w AND 0x7F000000 = 0x36000000
     then Some (branch_if (\<not> bit (rd_x s rd) (unat (field w 31 1 * 32 + field w 19 5))) (branch_offset w 5 14) s)
     else if w AND 0x7F000000 = 0x37000000
     then Some (branch_if (bit (rd_x s rd) (unat (field w 31 1 * 32 + field w 19 5))) (branch_offset w 5 14) s)
     else if w AND 0xFFFFFC1F = 0xD61F0000 then Some (s\<lparr>pc := rd_x s rn\<rparr>)
     else if w AND 0xFFFFFC1F = 0xD63F0000 then Some ((wr_x s 30 (pc s + 4))\<lparr>pc := rd_x s rn\<rparr>)
     else if w AND 0xFF000000 = 0x58000000
     then Some (next_pc (wr_x s rd (of_le_bytes (read_mem s (pc s + branch_offset w 5 19) 8))))
     else if w AND 0xFF000000 = 0x18000000
     then Some (next_pc (wr_x s rd (of_le_bytes (read_mem s (pc s + branch_offset w 5 19) 4))))
     else if w AND 0xFF800000 = 0xD2800000
     then Some (next_pc (wr_x s rd (push_bit (16 * unat (field w 21 2)) (ucast (field w 5 16)))))
     else if w AND 0xFF800000 = 0xF2800000
     then let h = 16 * unat (field w 21 2) in
       Some (next_pc (wr_x s rd ((rd_x s rd AND NOT (push_bit h (mask 16))) OR push_bit h (ucast (field w 5 16)))))
     else if w AND 0xFFC00000 = 0x91000000 \<and> rd \<noteq> 31 \<and> rn \<noteq> 31
     then Some (next_pc (wr_x s rd (rd_x s rn + ucast (field w 10 12))))
     else if w AND 0xFFC00000 = 0xF9400000 \<and> rn \<noteq> 31
     then Some (next_pc (wr_x s rd (of_le_bytes (read_mem s (rd_x s rn + 8 * ucast (field w 10 12)) 8))))
     else if w AND 0xFFC00000 = 0xB9400000 \<and> rn \<noteq> 31
     then Some (next_pc (wr_x s rd (of_le_bytes (read_mem s (rd_x s rn + 4 * ucast (field w 10 12)) 4))))
     else None)"

text \<open>Fetching, and running a number of steps.\<close>

definition a64_step :: "a64_state \<Rightarrow> a64_state option" where
  "a64_step s = a64_exec (of_le_bytes (read_mem s (pc s) 4)) s"

primrec a64_run :: "nat \<Rightarrow> a64_state \<Rightarrow> a64_state option" where
  "a64_run 0 s = Some s"
| "a64_run (Suc n) s = (case a64_step s of None \<Rightarrow> None | Some s' \<Rightarrow> a64_run n s')"

text \<open>Code loaded at an address.\<close>

definition loaded :: "a64_state \<Rightarrow> u64 \<Rightarrow> u8 list \<Rightarrow> bool" where
  "loaded s addr bs \<longleftrightarrow> read_mem s addr (length bs) = bs"

end
