(* ===== verification/Arm64Correct.thy ===== *)
theory Arm64Correct
  imports Arm64Relocation Arm64Machine
begin

text \<open>
  The code the ARM64 relocator emits, and what it does when it runs. The first sections are about the
  encodings: fields of instruction words and the execution of the words the assembler emits. Then
  comes the layout of the relocated code as a list of slots, with the pool of branch addresses behind
  it, and the proof that the assembler builds it and links it.
\<close>

section \<open>Fields of instruction words\<close>

lemma field_or [simp]: "field (a OR b) lo n = field a lo n OR field b lo n"
  by (rule bit_word_eqI) (auto simp: field_def bit_simps)

lemma field_below [simp]: "lo + n \<le> p \<Longrightarrow> field (push_bit p x) lo n = 0"
  by (rule bit_word_eqI) (auto simp: field_def bit_simps)

lemma field_above [simp]: "p + w \<le> lo \<Longrightarrow> field (push_bit p (take_bit w x)) lo n = 0"
  by (rule bit_word_eqI) (auto simp: field_def bit_simps)

lemma field_same [simp]: "p + w \<le> 32 \<Longrightarrow> field (push_bit p (take_bit w x)) p w = take_bit w x"
  by (rule bit_word_eqI) (auto simp: field_def bit_simps)

lemma field_take_above [simp]: "w \<le> lo \<Longrightarrow> field (take_bit w x) lo n = 0"
  by (rule bit_word_eqI) (auto simp: field_def bit_simps)

lemma field_take_same [simp]: "field (take_bit w x) 0 w = take_bit w x"
  by (rule bit_word_eqI) (auto simp: field_def bit_simps)

text \<open>A masked comparison as a statement about single bits.\<close>

lemma u32_eq_bits: "(x :: u32) = y \<longleftrightarrow> list_all (\<lambda>i. bit x i = bit y i) [0..<32]"
  by (auto simp: list_all_iff bit_eq_iff dest: bit_imp_le_length)

lemma and_eq_bits: "(x AND numeral m = (numeral c :: u32)) \<longleftrightarrow>
    list_all (\<lambda>i. (bit x i \<and> bit (numeral m :: u32) i) = bit (numeral c :: u32) i) [0..<32]"
  by (simp add: u32_eq_bits bit_simps)

lemma bit_u16_ge [simp]: "16 \<le> n \<Longrightarrow> \<not> bit (h :: u16) n"
  by (auto dest: bit_imp_le_length)

definition mov_word :: "u32 \<Rightarrow> u32 \<Rightarrow> u32 \<Rightarrow> u32 \<Rightarrow> u32" where
  "mov_word k hw h r = k OR push_bit 21 (take_bit 2 hw) OR push_bit 5 (take_bit 16 h) OR take_bit 5 r"

lemmas a64_exec_bits = a64_exec_def [unfolded Let_def, simplified and_eq_bits upt_conv_Cons, simplified]

lemma fields_mov_word [simp]:
  "field k 0 5 = 0 \<Longrightarrow> field (mov_word k hw h r) 0 5 = take_bit 5 r"
  "field k 21 2 = 0 \<Longrightarrow> field (mov_word k hw h r) 21 2 = take_bit 2 hw"
  "field k 5 16 = 0 \<Longrightarrow> field (mov_word k hw h r) 5 16 = take_bit 16 h"
  by (simp_all add: mov_word_def)

lemma field_movz [simp]: "field 0xD2800000 0 5 = 0" "field 0xD2800000 21 2 = 0" "field 0xD2800000 5 16 = 0"
  "field 0xF2800000 0 5 = 0" "field 0xF2800000 21 2 = 0" "field 0xF2800000 5 16 = 0"
  by (simp_all add: field_def)

lemma bits_mov_word: "bit (mov_word k hw h r) n \<longleftrightarrow> n < 32 \<and> (bit k n \<or> (21 \<le> n \<and> n < 23 \<and> bit hw (n - 21)) \<or>
    (5 \<le> n \<and> n < 21 \<and> bit h (n - 5)) \<or> (n < 5 \<and> bit r n))"
  by (auto simp: mov_word_def bit_simps dest: bit_imp_le_length)

lemma exec_movz:
  "a64_exec (mov_word 0xD2800000 hw h r) s = Some (next_pc (wr_x s (unat (take_bit 5 r))
     (push_bit (16 * unat (take_bit 2 hw)) (ucast (take_bit 16 h)))))"
  by (simp add: a64_exec_bits bits_mov_word)

lemma exec_movk:
  "a64_exec (mov_word 0xF2800000 hw h r) s = Some (next_pc (wr_x s (unat (take_bit 5 r))
     ((rd_x s (unat (take_bit 5 r)) AND NOT (push_bit (16 * unat (take_bit 2 hw)) (mask 16))) OR
      push_bit (16 * unat (take_bit 2 hw)) (ucast (take_bit 16 h)))))"
  by (simp add: a64_exec_bits bits_mov_word)

section \<open>Running loaded code\<close>

lemma read_mem_add: "read_mem s addr (m + n) = read_mem s addr m @ read_mem s (addr + of_nat m) n"
proof -
  have "[0..<m + n] = [0..<m] @ map (\<lambda>i. i + m) [0..<n]"
    using upt_add_eq_append [of 0 m n] map_add_upt [of m n] by (simp add: add.commute)
  then show ?thesis by (simp add: read_mem_def o_def ac_simps)
qed

lemma length_read_mem [simp]: "length (read_mem s addr n) = n"
  by (simp add: read_mem_def)

lemma loaded_append:
  "loaded s addr (xs @ ys) \<longleftrightarrow> loaded s addr xs \<and> loaded s (addr + of_nat (length xs)) ys"
  by (simp add: loaded_def read_mem_add append_eq_append_conv)

lemma loaded_word: "loaded s addr (le_bytes 4 w) \<Longrightarrow> of_le_bytes (read_mem s addr 4) = (w :: u32)"
  by (simp add: loaded_def del: le_bytes.simps)

lemma loaded_dword: "loaded s addr (le_bytes 8 w) \<Longrightarrow> of_le_bytes (read_mem s addr 8) = (w :: u64)"
  by (simp add: loaded_def del: le_bytes.simps)

lemma loaded_memory: "memory s' = memory s \<Longrightarrow> loaded s' addr bs = loaded s addr bs"
  by (simp add: loaded_def read_mem_def)

lemma memory_simps [simp]:
  "memory (wr_x s r v) = memory s" "memory (next_pc s) = memory s" "memory (branch_if c off s) = memory s"
  "pc (wr_x s r v) = pc s" "pc (next_pc s) = pc s + 4"
  by (simp_all add: wr_x_def next_pc_def branch_if_def)

lemma exec_memory: "a64_exec w s = Some s' \<Longrightarrow> memory s' = memory s"
  by (auto simp: a64_exec_def Let_def split: if_splits)

definition words :: "u32 list \<Rightarrow> u8 list" where
  "words ws = concat (map (le_bytes 4) ws)"

lemma words_simps [simp]:
  "words [] = []" "words (w # ws) = le_bytes 4 w @ words ws" "words (xs @ ys) = words xs @ words ys"
  by (simp_all add: words_def)

lemma length_words [simp]: "length (words ws) = 4 * length ws"
  by (induction ws) auto

text \<open>Executing a list of instructions in sequence; only the last one may branch.\<close>

fun exec_seq :: "u32 list \<Rightarrow> a64_state \<Rightarrow> a64_state option" where
  "exec_seq [] s = Some s"
| "exec_seq [w] s = a64_exec w s"
| "exec_seq (w # v # ws) s =
    (case a64_exec w s of None \<Rightarrow> None
     | Some s' \<Rightarrow> if pc s' = pc s + 4 then exec_seq (v # ws) s' else None)"

lemma run_seq:
  "loaded s (pc s) (words ws) \<Longrightarrow> exec_seq ws s = Some s' \<Longrightarrow> a64_run (length ws) s = Some s'"
proof (induction ws s rule: exec_seq.induct)
  case (1 s)
  then show ?case by simp
next
  case (2 w s)
  then have "a64_step s = a64_exec w s" by (simp add: a64_step_def loaded_word del: le_bytes.simps)
  with 2 show ?case by simp
next
  case (3 w v ws s)
  from 3(2) have w: "loaded s (pc s) (le_bytes 4 w)" and rest: "loaded s (pc s + 4) (words (v # ws))"
    by (simp_all add: loaded_append [of _ _ "le_bytes 4 w"] del: le_bytes.simps)
  have step: "a64_step s = a64_exec w s" using w by (simp add: a64_step_def loaded_word)
  from 3(3) obtain s1 where s1: "a64_exec w s = Some s1" "pc s1 = pc s + 4" "exec_seq (v # ws) s1 = Some s'"
    by (auto split: option.splits if_splits)
  then have "loaded s1 (pc s1) (words (v # ws))"
    using rest exec_memory loaded_memory by metis
  with 3(1) [OF s1(1,2) _ s1(3)] step s1(1) show ?case by simp
qed

lemma run_append:
  "a64_run (m + n) s = (case a64_run m s of None \<Rightarrow> None | Some s' \<Rightarrow> a64_run n s')"
proof (induction m arbitrary: s)
  case 0
  then show ?case by simp
next
  case (Suc m)
  then show ?case by (simp split: option.splits)
qed

section \<open>Moving an immediate\<close>

lemma ucast_field: "ucast (push_bit 5 (take_bit 16 (x :: u64))) = (push_bit 5 (take_bit 16 (ucast x)) :: u32)"
  by (rule bit_word_eqI) (auto simp: bit_simps)

definition half :: "u64 \<Rightarrow> nat \<Rightarrow> u32" where
  "half imm i = ucast (take_bit 16 (drop_bit (16 * i) imm))"

definition mov_words :: "u32 \<Rightarrow> u64 \<Rightarrow> u32 list" where
  "mov_words r imm = [mov_word 0xD2800000 0 (half imm 0) r, mov_word 0xF2800000 1 (half imm 1) r,
     mov_word 0xF2800000 2 (half imm 2) r, mov_word 0xF2800000 3 (half imm 3) r]"

lemma halves:
  "take_bit 16 (ucast (ucast (ucast (Low16Bits (Low32Bits imm)) :: u16) :: u64)) = half imm 0"
  "take_bit 16 (ucast (ucast (ucast (High16Bits (Low32Bits imm)) :: u16) :: u64)) = half imm 1"
  "take_bit 16 (ucast (ucast (ucast (Low16Bits (High32Bits imm)) :: u16) :: u64)) = half imm 2"
  "take_bit 16 (ucast (ucast (ucast (High16Bits (High32Bits imm)) :: u16) :: u64)) = half imm 3"
proof -
  have m: "x AND 0xffff = take_bit 16 x" for x :: u32
    by (simp add: take_bit_eq_mask mask_eq_decr_exp)
  show "take_bit 16 (ucast (ucast (ucast (Low16Bits (Low32Bits imm)) :: u16) :: u64)) = half imm 0"
  "take_bit 16 (ucast (ucast (ucast (High16Bits (Low32Bits imm)) :: u16) :: u64)) = half imm 1"
  "take_bit 16 (ucast (ucast (ucast (Low16Bits (High32Bits imm)) :: u16) :: u64)) = half imm 2"
  "take_bit 16 (ucast (ucast (ucast (High16Bits (High32Bits imm)) :: u16) :: u64)) = half imm 3"
    by (rule bit_word_eqI, auto simp: Low16Bits_def High16Bits_def Low32Bits_def High32Bits_def m half_def
        bit_simps)+
qed

lemma take_bit_half [simp]: "take_bit 16 (half imm i) = half imm i"
  by (rule bit_word_eqI) (auto simp: half_def bit_simps)

lemma Mov_words:
  assumes "take_bit 5 r = r"
  shows "a64_Mov a (regX r) imm = a\<lparr>asm_buffer := asm_buffer a @ words (mov_words r imm)\<rparr>"
proof -
  have sf: "OpEncode_sf (regX r) = 0x80000000" "enc_Rd (regX r) = r"
    by (simp_all add: OpEncode_sf_def Is64Bits_def regX_def LeftShift_def enc_Rd_def kRdShift_def)
  show ?thesis
    unfolding a64_Mov_def Let_def a64_movz_def a64_movk_def a64_MoveWide_def sf LeftShift_mask ucast_field halves
    by (simp add: a64_Emit_def mov_words_def mov_word_def assms or.assoc [symmetric]
        MoveWideImmediateFixed_def MOVZ_def MOVK_def del: le_bytes.simps)
qed

lemma set_halves:
  "(((push_bit 0 (ucast (half imm 0)) AND NOT (push_bit 16 (mask 16)) OR push_bit 16 (ucast (half imm 1)))
      AND NOT (push_bit 32 (mask 16)) OR push_bit 32 (ucast (half imm 2)))
      AND NOT (push_bit 48 (mask 16)) OR push_bit 48 (ucast (half imm 3))) = (imm :: u64)"
proof (rule bit_word_eqI)
  fix n assume "n < LENGTH(64)"
  then have "n < 16 \<or> 16 \<le> n \<and> n < 32 \<or> 32 \<le> n \<and> n < 48 \<or> 48 \<le> n \<and> n < 64" by auto
  then show "bit (((push_bit 0 (ucast (half imm 0) :: u64) AND NOT (push_bit 16 (mask 16)) OR push_bit 16 (ucast (half imm 1)))
      AND NOT (push_bit 32 (mask 16)) OR push_bit 32 (ucast (half imm 2)))
      AND NOT (push_bit 48 (mask 16)) OR push_bit 48 (ucast (half imm 3))) n = bit imm n"
    by (elim disjE) (auto simp: half_def bit_simps)
qed

lemma rd_wr_x [simp]: "rd_x (wr_x s r v) r = (if r = 31 then 0 else v)" "rd_x (next_pc s) r = rd_x s r"
  by (simp_all add: rd_x_def wr_x_def next_pc_def)

lemma wr_wr_x [simp]: "wr_x (next_pc s) r v = next_pc (wr_x s r v)" "wr_x (wr_x s r v) r v' = wr_x s r v'"
  by (simp_all add: wr_x_def next_pc_def)

lemma exec_mov_words:
  assumes "take_bit 5 r = r"
  shows "exec_seq (mov_words r imm) s = Some ((wr_x s (unat r) imm)\<lparr>pc := pc s + 16\<rparr>)"
proof -
  have tb: "take_bit 2 (1 :: u32) = 1" "take_bit 2 (2 :: u32) = 2" "take_bit 2 (3 :: u32) = 3" by simp_all
  have "exec_seq (mov_words r imm) s = Some (next_pc (next_pc (next_pc (next_pc (wr_x s (unat r) imm)))))"
    using set_halves [of imm]
    by (simp add: mov_words_def exec_movz exec_movk assms) (simp add: wr_x_def)
  then show ?thesis by (simp add: next_pc_def wr_x_def)
qed

section \<open>Loading and branching\<close>

definition ldr_word :: "u32 \<Rightarrow> u32" where
  "ldr_word k = 0x58000011 OR push_bit 5 (take_bit 19 k)"

lemma exec_ldr_word:
  "a64_exec (ldr_word k) s = Some (next_pc (wr_x s 17
     (of_le_bytes (read_mem s (pc s + branch_offset (ldr_word k) 5 19) 8))))"
proof -
  have "field (ldr_word k) 0 5 = 17" by (simp add: ldr_word_def) (simp add: field_def)
  then show ?thesis by (simp add: a64_exec_bits) (simp add: ldr_word_def bit_simps)
qed

lemma exec_br_tmp: "a64_exec 0xD61F0220 s = Some (s\<lparr>pc := xreg s 17\<rparr>)"
  by (simp add: a64_exec_bits field_def rd_x_def)

lemma exec_blr_tmp: "a64_exec 0xD63F0220 s = Some ((wr_x s 30 (pc s + 4))\<lparr>pc := xreg s 17\<rparr>)"
  by (simp add: a64_exec_bits field_def rd_x_def)

text \<open>The offset of a literal load reaches its label when the label is word-aligned and within 1 MiB.\<close>

lemma branch_offset_ldr_word:
  assumes "off mod 4 = 0" "0 \<le> off" "off < 2 ^ 20"
  shows "branch_offset (ldr_word (signed_drop_bit 2 (word_of_int off))) 5 19 = word_of_int off"
proof -
  define m where "m = nat (off div 4)"
  have "m < 2 ^ 18" using assms by (simp add: m_def nat_less_iff)
  then have m: "take_bit 18 m = m" by (simp add: take_bit_nat_eq_self)
  have "off = int (push_bit 2 m)" using assms by (simp add: m_def push_bit_eq_mult) presburger
  then have "off = int (push_bit 2 (take_bit 18 m))" by (simp only: m)
  then have w: "word_of_int off = (of_nat (push_bit 2 (take_bit 18 m)) :: u32)"
      "word_of_int off = (of_nat (push_bit 2 (take_bit 18 m)) :: u64)"
    by (simp_all only: of_int_of_nat_eq)
  have "field (ldr_word k) 5 19 = take_bit 19 k" for k
    by (simp add: ldr_word_def) (simp add: field_def)
  then show ?thesis
    unfolding branch_offset_def w by (intro bit_word_eqI) (auto simp: bit_simps)
qed

section \<open>The layout of relocated code\<close>

text \<open>
  The code the relocator builds, as a list of slots: a fixed word, or a load of \<open>x17\<close> from the pool
  entry holding the given address. Before \<open>RelocBind\<close> such a load has offset 0; afterwards it reaches its
  entry of the pool, which follows the code.
\<close>

datatype slot = W u32 | L u64

primrec unlinked :: "slot \<Rightarrow> u32" where
  "unlinked (W w) = w"
| "unlinked (L d) = 0x58000011"

fun lits :: "nat \<Rightarrow> slot list \<Rightarrow> (nat \<times> u64) list" where
  "lits i [] = []"
| "lits i (W w # xs) = lits (Suc i) xs"
| "lits i (L d # xs) = (i, d) # lits (Suc i) xs"

text \<open>\<open>link base j i\<close>: the pool starts at byte \<open>base\<close>, \<open>j\<close> entries and \<open>i\<close> slots come before.\<close>

fun link :: "nat \<Rightarrow> nat \<Rightarrow> nat \<Rightarrow> slot list \<Rightarrow> u32 list" where
  "link base j i [] = []"
| "link base j i (W w # xs) = w # link base j (Suc i) xs"
| "link base j i (L d # xs) =
    ldr_word (signed_drop_bit 2 (word_of_int (int (base + 8 * j) - int (4 * i)))) # link base (Suc j) (Suc i) xs"

definition pool :: "(nat \<times> u64) list \<Rightarrow> u8 list" where
  "pool ls = concat (map (\<lambda>(_, d). le_bytes 8 d) ls)"

lemma length_link [simp]: "length (link base j i xs) = length xs"
  by (induction base j i xs rule: link.induct) simp_all

lemma lits_append: "lits i (xs @ ys) = lits i xs @ lits (i + length xs) ys"
  by (induction i xs rule: lits.induct) simp_all

lemma link_append:
  "link base j i (xs @ ys) = link base j i xs @ link base (j + length (lits i xs)) (i + length xs) ys"
  by (induction base j i xs rule: link.induct) simp_all

lemma pool_simps [simp]:
  "pool [] = []" "pool ((i, d) # ls) = le_bytes 8 d @ pool ls" "pool (xs @ ys) = pool xs @ pool ys"
  by (simp_all add: pool_def)

lemma length_pool [simp]: "length (pool ls) = 8 * length ls"
  by (induction ls) (auto simp: pool_def split: prod.splits)

section \<open>The assembler builds the layout\<close>

definition entry :: "nat \<times> u64 \<Rightarrow> RelocLabelEntry" where
  "entry = (\<lambda>(i, d). \<lparr>label_pos = 0, near_link_pos = 0, instructions = [(int (4 * i), kLdrLiteral)],
     reloc_data = d, data_size = 0\<rparr>)"

definition labels_of :: "a64_assembler \<Rightarrow> RelocLabelEntry list" where
  "labels_of a = (case asm_data_labels a of None \<Rightarrow> [] | Some ls \<Rightarrow> ls)"

definition builds :: "a64_assembler \<Rightarrow> slot list \<Rightarrow> bool" where
  "builds a xs \<longleftrightarrow> asm_buffer a = words (map unlinked xs) \<and> labels_of a = map entry (lits 0 xs)"

lemma ldr_literal_tmp: "a64_ldr_literal a TMP_REG_0 0 = Inr (a64_Emit a 0x58000011)"
  by (simp add: a64_ldr_literal_def TMP_REG_0_def regX_def a64_EmitLoadRegLiteral_def enc_Rt_def kRtShift_def
      LoadRegLiteralSub_def LoadRegLiteralFixed_def LeftShift_def)

lemma br_tmp: "a64_br a TMP_REG_0 = a64_Emit a 0xD61F0220" "a64_blr a TMP_REG_0 = a64_Emit a 0xD63F0220"
  by (simp_all add: a64_br_def a64_blr_def BranchBR_def BranchBLR_def UnconditionalBranchToRegisterFixed_def
      enc_Rn_def kRnShift_def TMP_REG_0_def regX_def)

lemma builds_emit: "builds a xs \<Longrightarrow> builds (a64_Emit a w) (xs @ [W w])"
  by (simp add: builds_def a64_Emit_def labels_of_def lits_append del: le_bytes.simps)

lemma builds_words: "builds a xs \<Longrightarrow> builds (a\<lparr>asm_buffer := asm_buffer a @ words ws\<rparr>) (xs @ map W ws)"
proof (induction ws arbitrary: a xs)
  case Nil
  then show ?case by (simp add: builds_def labels_of_def)
next
  case (Cons w ws)
  from Cons.IH [OF builds_emit [OF Cons.prems]] show ?case by (simp add: a64_Emit_def del: le_bytes.simps)
qed

text \<open>Appending a label entry, emitting some words and loading from the label.\<close>

lemma builds_load:
  assumes "builds a xs"
  shows "\<exists>a'. a64_Ldr_last ((a64_new_entry a d)\<lparr>asm_buffer := asm_buffer a @ words ws\<rparr>) TMP_REG_0 = Inr a' \<and>
    builds a' (xs @ map W ws @ [L d])"
proof -
  let ?a1 = "(a64_new_entry a d)\<lparr>asm_buffer := asm_buffer a @ words ws\<rparr>"
  have ls: "asm_data_labels ?a1 = Some (map entry (lits 0 xs) @ [RelocLabelEntry_new d])"
    using assms by (simp add: a64_new_entry_def a64_AppendRelocLabelEntry_def builds_def labels_of_def)
  have buf: "asm_buffer ?a1 = words (map unlinked (xs @ map W ws))"
    using assms by (simp add: builds_def o_def)
  then have len: "int (length (asm_buffer ?a1)) = int (4 * (length xs + length ws))" by simp
  have nolits: "lits i (map W ws) = []" for i by (induction ws arbitrary: i) simp_all
  have "pseudo_link_to (RelocLabelEntry_new d) (int (length (asm_buffer ?a1))) kLdrLiteral =
      entry (length xs + length ws, d)"
    unfolding len by (simp add: pseudo_link_to_def RelocLabelEntry_new_def entry_def)
  then have "a64_Ldr_last ?a1 TMP_REG_0 = Inr ((a64_Emit ?a1 0x58000011)\<lparr>asm_data_labels :=
      Some (map entry (lits 0 xs) @ [entry (length xs + length ws, d)])\<rparr>)"
    by (simp add: a64_Ldr_last_def ls a64_Ldr_def ldr_literal_tmp is_bound_def RelocLabelEntry_new_def
        del: le_bytes.simps)
  then show ?thesis
    using buf by (simp add: builds_def labels_of_def a64_Emit_def lits_append nolits del: le_bytes.simps)
qed

section \<open>The slots of one instruction\<close>

definition branch_slots :: "u32 \<Rightarrow> u64 \<Rightarrow> slot list" where
  "branch_slots w target = [W w, L target, W 0xD61F0220]"

definition ldr_x_word :: "u32 \<Rightarrow> u32" where
  "ldr_x_word r = 0xF9400220 OR take_bit 5 r"

definition reloc_slots :: "u32 \<Rightarrow> u64 \<Rightarrow> slot list res" where
  "reloc_slots instr opc =
    (if instr AND 0x3B000000 = 0x18000000
     then if bits instr 30 31 = 0 \<or> bits instr 30 31 = 1
       then Inr (map W (mov_words 17 (decode_imm19_offset instr + opc)) @ [W (ldr_x_word instr)])
       else Inl Unimplemented
     else if instr AND 0x1F000000 = 0x10000000
     then Inr (map W (mov_words (take_bit 5 instr)
        (if instr AND 0x9F000000 = 0x10000000 then opc + decode_immhi_immlo_offset instr
         else ALIGN_FLOOR opc 0x1000 + push_bit 12 (decode_immhi_immlo_offset instr))))
     else if instr AND 0x7C000000 = 0x14000000
     then Inr [L (decode_imm26_offset instr + opc),
               W (if instr AND 0xFC000000 = 0x94000000 then 0xD63F0220 else 0xD61F0220)]
     else if instr AND 0x7E000000 = 0x36000000
     then Inr (branch_slots (invert_test_branch instr) (decode_imm14_offset instr + opc))
     else if instr AND 0x7E000000 = 0x34000000
     then Inr (branch_slots (invert_compare_branch instr) (decode_imm19_offset instr + opc))
     else if instr AND 0xFE000000 = 0x54000000
     then Inr (branch_slots (invert_conditional_branch instr) (decode_imm19_offset instr + opc))
     else Inr [W instr])"

lemmas a64_op_defs = LoadRegLiteralFixedMask_def LoadRegLiteralFixed_def PCRelAddressingFixedMask_def
  PCRelAddressingFixed_def PCRelAddressingMask_def ADR_def UnconditionalBranchFixedMask_def
  UnconditionalBranchFixed_def UnconditionalBranchMask_def BranchBL_def TestBranchFixedMask_def
  TestBranchFixed_def CompareBranchFixedMask_def CompareBranchFixed_def ConditionalBranchFixedMask_def
  ConditionalBranchFixed_def

lemma bits_0_4: "bits w 0 4 = take_bit 5 (w :: u32)"
  by (simp add: bits_mask)

lemma ldr_tmp:
  "a64_ldr a (regX (take_bit 5 r)) (MemOperand TMP_REG_0 0 Offset) = Inr (a64_Emit a (ldr_x_word r))"
  "a64_ldr a (regW (take_bit 5 r)) (MemOperand TMP_REG_0 0 Offset) = Inr (a64_Emit a (ldr_x_word r))"
  by (simp_all add: a64_ldr_def a64_LoadStore_def IsImmediateOffset_def MemOperand_def Let_def LoadStoreOp_def
      LoadStoreOpSub_def LoadStoreUnsignedOffsetFixed_def LeftShift_def enc_Rn_def enc_Rt_def kRnShift_def
      kRtShift_def TMP_REG_0_def regX_def regW_def ldr_x_word_def flip: or.assoc)

lemma builds_Mov:
  "builds a xs \<Longrightarrow> take_bit 5 r = r \<Longrightarrow> builds (a64_Mov a (regX r) v) (xs @ map W (mov_words r v))"
  by (simp add: Mov_words builds_words)

lemma relocate_branch_builds:
  assumes "builds a xs"
  shows "\<exists>a'. relocate_branch a instr opc = Inr a' \<and>
    builds a' (xs @ [L (decode_imm26_offset instr + opc),
               W (if instr AND 0xFC000000 = 0x94000000 then 0xD63F0220 else 0xD61F0220)])"
proof -
  let ?d = "decode_imm26_offset instr + opc"
  obtain a1 where a1: "a64_Ldr_last (a64_new_entry a ?d) TMP_REG_0 = Inr a1" "builds a1 (xs @ [L ?d])"
    using builds_load [OF assms, of "[]" ?d]
    by (auto simp: a64_new_entry_def a64_AppendRelocLabelEntry_def)
  then show ?thesis
    using builds_emit [OF a1(2)]
    by (simp add: relocate_branch_def Let_def br_tmp a64_op_defs)
qed

lemma relocate_inverted_builds:
  assumes "builds a xs"
  shows "\<exists>a'. relocate_inverted a w target = Inr a' \<and> builds a' (xs @ branch_slots w target)"
proof -
  have "a64_Emit (a64_new_entry a target) w = (a64_new_entry a target)\<lparr>asm_buffer := asm_buffer a @ words [w]\<rparr>"
    by (simp add: a64_Emit_def a64_new_entry_def a64_AppendRelocLabelEntry_def del: le_bytes.simps)
  moreover obtain a1 where a1: "a64_Ldr_last ((a64_new_entry a target)\<lparr>asm_buffer := asm_buffer a @ words [w]\<rparr>)
      TMP_REG_0 = Inr a1" "builds a1 (xs @ [W w, L target])"
    using builds_load [OF assms, of "[w]" target] by (auto simp del: words_simps)
  ultimately show ?thesis
    using builds_emit [OF a1(2)] by (simp add: relocate_inverted_def Let_def br_tmp branch_slots_def)
qed

lemma relocate_one_builds:
  assumes "builds a xs"
  shows "case reloc_slots instr opc of
      Inl e \<Rightarrow> a64_relocate_one a instr opc = Inl e
    | Inr blk \<Rightarrow> \<exists>a'. a64_relocate_one a instr opc = Inr a' \<and> builds a' (xs @ blk)"
proof -
  have t: "take_bit 5 (17 :: u32) = 17" "take_bit 5 (take_bit 5 instr) = take_bit 5 instr" by simp_all
  have mov: "builds (a64_Mov a TMP_REG_0 v) (xs @ map W (mov_words 17 v))" for v
    unfolding TMP_REG_0_def by (rule builds_Mov [OF assms]) simp
  show ?thesis
    using relocate_branch_builds [OF assms] relocate_inverted_builds [OF assms] builds_emit [OF assms]
      builds_Mov [OF assms t(2)] builds_emit [OF mov]
    by (simp add: a64_relocate_one_def reloc_slots_def a64_op_defs relocate_ldr_literal_def relocate_pc_rel_def
        Let_def decode_rt_def decode_rd_def bits_0_4 ldr_tmp decode_immhi_immlo_zero12_offset_def)
qed

section \<open>The whole prologue\<close>

definition orig_word :: "u8 list \<Rightarrow> nat \<Rightarrow> u32" where
  "orig_word mem i = of_le_bytes (take 4 (drop (4 * i) mem))"

fun reloc_blocks :: "u8 list \<Rightarrow> u64 \<Rightarrow> nat \<Rightarrow> nat \<Rightarrow> slot list list res" where
  "reloc_blocks mem start i 0 = Inr []"
| "reloc_blocks mem start i (Suc n) =
    rbind (reloc_slots (orig_word mem i) (start + of_nat (4 * i))) (\<lambda>blk.
    rbind (reloc_blocks mem start (Suc i) n) (\<lambda>blks. Inr (blk # blks)))"

lemma load_orig: "4 * i + 4 \<le> length mem \<Longrightarrow> load32 mem (int (4 * i)) = Inr (orig_word mem i)"
  by (simp add: load32_def orig_word_def nat_mult_distrib)

lemma relocate_loop_builds:
  assumes "4 * (i + n) + 4 \<le> length mem" "builds a xs" "reloc_blocks mem start i n = Inr blks"
  shows "\<exists>a'. a64_relocate_loop mem (4 * (i + n)) (4 * i) (orig_word mem i) (start + of_nat (4 * i)) a =
      Inr (start + of_nat (4 * (i + n)), a') \<and> builds a' (xs @ concat blks)"
  using assms
proof (induction n arbitrary: i a xs blks)
  case 0
  then show ?case by (subst a64_relocate_loop.simps) simp
next
  case (Suc n)
  from Suc.prems(3) obtain blk rest where blk: "reloc_slots (orig_word mem i) (start + of_nat (4 * i)) = Inr blk"
      and rest: "reloc_blocks mem start (Suc i) n = Inr rest" and blks: "blks = blk # rest"
    by auto
  obtain a1 where a1: "a64_relocate_one a (orig_word mem i) (start + of_nat (4 * i)) = Inr a1"
      "builds a1 (xs @ blk)"
    using relocate_one_builds [OF Suc.prems(2), of "orig_word mem i" "start + of_nat (4 * i)"] blk by auto
  have "load32 mem (int (4 * i + 4)) = Inr (orig_word mem (Suc i))"
    using load_orig [of "Suc i" mem] Suc.prems(1) by (simp add: add.commute)
  moreover have "start + of_nat (4 * i) + 4 = start + of_nat (4 * Suc i)" by simp
  moreover obtain a' where "a64_relocate_loop mem (4 * (Suc i + n)) (4 * Suc i) (orig_word mem (Suc i))
      (start + of_nat (4 * Suc i)) a1 = Inr (start + of_nat (4 * (Suc i + n)), a')"
      "builds a' ((xs @ blk) @ concat rest)"
    using Suc.IH [of "Suc i" a1 "xs @ blk" rest] Suc.prems(1) a1(2) rest by auto
  ultimately show ?case
    using a1(1) by (subst a64_relocate_loop.simps) (simp add: blks add.commute add.left_commute)
qed

lemma relocate_loop_fails:
  assumes "4 * (i + n) + 4 \<le> length mem" "builds a xs" "reloc_blocks mem start i n = Inl e"
  shows "a64_relocate_loop mem (4 * (i + n)) (4 * i) (orig_word mem i) (start + of_nat (4 * i)) a = Inl e"
  using assms
proof (induction n arbitrary: i a xs)
  case 0
  then show ?case by simp
next
  case (Suc n)
  note one = relocate_one_builds [OF Suc.prems(2), of "orig_word mem i" "start + of_nat (4 * i)"]
  show ?case
  proof (cases "reloc_slots (orig_word mem i) (start + of_nat (4 * i))")
    case (Inl e')
    with Suc.prems(3) one show ?thesis
      by (subst a64_relocate_loop.simps) simp
  next
    case (Inr blk)
    with one obtain a1 where a1: "a64_relocate_one a (orig_word mem i) (start + of_nat (4 * i)) = Inr a1"
        "builds a1 (xs @ blk)"
      by auto
    have "load32 mem (int (4 * i + 4)) = Inr (orig_word mem (Suc i))"
      using load_orig [of "Suc i" mem] Suc.prems(1) by (simp add: add.commute)
    moreover have "reloc_blocks mem start (Suc i) n = Inl e"
      using Suc.prems(3) Inr by (cases "reloc_blocks mem start (Suc i) n") auto
    ultimately show ?thesis
      using Suc.IH [of "Suc i" a1 "xs @ blk"] Suc.prems(1) a1
      by (subst a64_relocate_loop.simps) (simp add: add.commute add.left_commute)
  qed
qed

text \<open>The jump back to the rest of the function, with its address in the two words behind it.\<close>

definition jump_words :: "u64 \<Rightarrow> u32 list" where
  "jump_words address = [ldr_word 2, 0xD61F0220, ucast address, ucast (drop_bit 32 address)]"

lemma le_bytes_8_words: "le_bytes 8 (d :: u64) = words [ucast d, ucast (drop_bit 32 d)]"
proof -
  have u: "ucast (ucast x :: u32) = (ucast x :: u8)" for x :: u64
    by (rule bit_word_eqI) (auto simp: bit_simps)
  have d: "ucast (drop_bit n (ucast x :: u32)) = (ucast (drop_bit n x) :: u8)" if "n \<le> 24" for n and x :: u64
    using that by (intro bit_word_eqI) (auto simp: bit_simps)
  show ?thesis by (simp add: numeral_eq_Suc u d del: One_nat_def)
qed

lemma ldr_word_0: "0x58000011 AND 0xFF00001F = (0x58000011 :: u32)"
  by simp

lemma encode_ldr: "encode_ldr_literal 0x58000011 off = ldr_word (signed_drop_bit 2 (word_of_int off))"
  by (simp add: encode_ldr_literal_def ldr_word_def LeftShift_mask)

lemma drop_words: "drop (4 * n) (words ws @ bs) = (if n \<le> length ws then words (drop n ws) @ bs else drop (4 * (n - length ws)) bs)"
proof (induction n arbitrary: ws)
  case 0
  then show ?case by simp
next
  case (Suc n)
  then show ?case by (cases ws) (auto simp del: le_bytes.simps)
qed

text \<open>Binding a label rewrites the one load that refers to it.\<close>

lemma link_one:
  assumes "ws = us @ 0x58000011 # vs" "p = 4 * length us"
  shows "link_instructions q [(int p, kLdrLiteral)] (words ws @ bs) =
    Inr (words (us @ ldr_word (signed_drop_bit 2 (word_of_int (q - int p))) # vs) @ bs)"
proof -
  let ?c = "words ws @ bs"
  have len: "p + 4 \<le> length ?c" using assms by simp
  have "drop p ?c = words (0x58000011 # vs) @ bs"
    using drop_words [of "length us" ws bs] assms by simp
  then have load: "load32 ?c (int p) = Inr 0x58000011"
    using len by (simp add: load32_def del: le_bytes.simps)
  have take: "take p ?c = words us" using assms by simp
  have drop: "drop (p + 4) ?c = words vs @ bs"
    using drop_words [of "Suc (length us)" ws bs] assms by (simp add: add.commute)
  have "store32 ?c (int p) v = Inr (words (us @ v # vs) @ bs)" for v
    using len take drop by (simp add: store32_def overwrite_def del: le_bytes.simps take_append drop_append)
  then show ?thesis by (simp add: load encode_ldr)
qed

lemma LiteralLdrBranch_eq:
  assumes "asm_buffer a = words ws"
  shows "a64_LiteralLdrBranch a address = Inr (a\<lparr>asm_buffer := words (ws @ jump_words address)\<rparr>)"
proof -
  let ?a1 = "a64_Emit (a64_Emit a 0x58000011) 0xD61F0220"
  let ?l = "pseudo_link_to PseudoLabel_new (int (4 * length ws)) kLdrLiteral"
  have ldr: "a64_Ldr a TMP_REG_0 PseudoLabel_new = Inr (a64_Emit a 0x58000011, ?l)"
    using assms by (simp add: a64_Ldr_def ldr_literal_tmp is_bound_def PseudoLabel_new_def)
  have buf: "asm_buffer ?a1 = words (ws @ 0x58000011 # [0xD61F0220])"
    using assms by (simp add: a64_Emit_def del: le_bytes.simps)
  have "link_instructions (int (4 * length ws + 8)) [(int (4 * length ws), kLdrLiteral)] (asm_buffer ?a1) =
      Inr (words (ws @ [ldr_word 2, 0xD61F0220]))"
    using link_one [of "ws @ 0x58000011 # [0xD61F0220]" ws "[0xD61F0220]" _ "int (4 * length ws + 8)" "[]"]
    by (simp add: buf del: le_bytes.simps link_instructions.simps)
  then have "a64_PseudoBind ?a1 ?l =
      Inr (?a1\<lparr>asm_buffer := words (ws @ [ldr_word 2, 0xD61F0220])\<rparr>, bind_to ?l (int (4 * length ws + 8)))"
    by (simp add: a64_PseudoBind_def has_confused_instructions_def link_confused_instructions_def buf
        pseudo_link_to_def PseudoLabel_new_def bind_to_def pos_def add.commute
        del: le_bytes.simps link_instructions.simps)
  then show ?thesis
    by (simp add: a64_LiteralLdrBranch_def ldr br_tmp a64_EmitInt64_def jump_words_def le_bytes_8_words
        del: le_bytes.simps) (simp add: a64_Emit_def)
qed

lemma RelocBind_loop_links:
  assumes "asm_buffer a = words (ws @ map unlinked xs) @ pl" "length pl = 8 * j"
    and "base = 4 * (length ws + length xs)"
  shows "\<exists>ls. a64_RelocBind_loop a (map entry (lits (length ws) xs)) =
    Inr (a\<lparr>asm_buffer := words (ws @ link base j (length ws) xs) @ pl @ pool (lits (length ws) xs)\<rparr>, ls)"
  using assms
proof (induction xs arbitrary: a ws pl j)
  case Nil
  then show ?case by simp
next
  case (Cons x xs)
  show ?case
  proof (cases x)
    case (W w)
    then show ?thesis
      using Cons.IH [of a "ws @ [w]" pl j] Cons.prems by simp
  next
    case (L d)
    let ?e = "entry (length ws, d)" and ?q = "int (base + 8 * j)"
    let ?w = "ldr_word (signed_drop_bit 2 (word_of_int (?q - int (4 * length ws))))"
    let ?c = "words (ws @ ?w # map unlinked xs) @ pl"
    have buf: "asm_buffer a = words (ws @ 0x58000011 # map unlinked xs) @ pl"
      using Cons.prems(1) L by simp
    have len: "int (length (asm_buffer a)) = ?q"
      using Cons.prems by simp
    have link: "link_instructions ?q [(int (4 * length ws), kLdrLiteral)] (asm_buffer a) = Inr ?c"
      unfolding buf by (rule link_one [OF refl refl])
    have "a64_PseudoBind a ?e = Inr (a\<lparr>asm_buffer := ?c\<rparr>, bind_to ?e ?q)"
      unfolding a64_PseudoBind_def Let_def len
      using link by (simp add: has_confused_instructions_def link_confused_instructions_def entry_def bind_to_def
          pos_def del: link_instructions.simps)
    moreover have "reloc_data (bind_to ?e ?q) = d" by (simp add: bind_to_def entry_def)
    moreover let ?a1 = "a64_EmitInt64 (a\<lparr>asm_buffer := ?c\<rparr>) d"
    have a1: "asm_buffer ?a1 = words ((ws @ [?w]) @ map unlinked xs) @ (pl @ le_bytes 8 d)"
      by (simp add: a64_EmitInt64_def del: le_bytes.simps)
    obtain ls where "a64_RelocBind_loop ?a1 (map entry (lits (length (ws @ [?w])) xs)) =
        Inr (?a1\<lparr>asm_buffer := words ((ws @ [?w]) @ link base (Suc j) (length (ws @ [?w])) xs) @ (pl @ le_bytes 8 d) @
          pool (lits (length (ws @ [?w])) xs)\<rparr>, ls)"
      using Cons.IH [OF a1, of "Suc j"] Cons.prems(2,3) by auto
    ultimately show ?thesis
      using L by (auto simp: a64_EmitInt64_def simp del: le_bytes.simps)
  qed
qed

text \<open>The code and the pool of a list of slots, once linked.\<close>

definition linked :: "slot list \<Rightarrow> u8 list" where
  "linked xs = words (link (4 * length xs) 0 0 xs) @ pool (lits 0 xs)"

lemma RelocBind_links:
  assumes "builds a xs"
  shows "\<exists>a'. a64_RelocBind a = Inr a' \<and> asm_buffer a' = linked xs"
proof (cases "asm_data_labels a")
  case None
  then have no: "lits 0 xs = []" "asm_buffer a = words (map unlinked xs)"
    using assms by (simp_all add: builds_def labels_of_def)
  have "lits i ys = [] \<Longrightarrow> link b j i ys = map unlinked ys" for i ys b j
    by (induction b j i ys rule: link.induct) simp_all
  with no None show ?thesis by (simp add: a64_RelocBind_def linked_def)
next
  case (Some ls)
  then show ?thesis
    using assms RelocBind_loop_links [of a "[]" xs "[]" 0 "4 * length xs"]
    by (auto simp: builds_def labels_of_def a64_RelocBind_def linked_def)
qed

text \<open>The whole function: the blocks of the instructions, the jump back, and the pool.\<close>

definition reloc_layout :: "slot list list \<Rightarrow> u64 \<Rightarrow> slot list" where
  "reloc_layout blks continue = concat blks @ map W (jump_words continue)"

lemma relocate_code_eq:
  assumes "4 * n + 4 \<le> length mem"
  shows "case reloc_blocks mem start 0 n of
      Inl e \<Rightarrow> a64_relocate_code mem start (4 * n) = Inl e
    | Inr blks \<Rightarrow> \<exists>a. a64_relocate_code mem start (4 * n) = Inr a \<and>
        asm_buffer a = linked (reloc_layout blks (start + of_nat (4 * n)))"
proof -
  have load: "load32 mem 0 = Inr (orig_word mem 0)" using load_orig [of 0 mem] assms by simp
  have new: "builds (a64_new 0) []" by (simp add: builds_def a64_new_def labels_of_def)
  show ?thesis
  proof (cases "reloc_blocks mem start 0 n")
    case (Inl e)
    then show ?thesis
      using relocate_loop_fails [of 0 n mem, OF _ new Inl] assms load by (simp add: a64_relocate_code_def)
  next
    case (Inr blks)
    let ?c = "start + of_nat (4 * n)"
    obtain a1 where a1: "a64_relocate_loop mem (4 * n) 0 (orig_word mem 0) start (a64_new 0) = Inr (?c, a1)"
        "builds a1 (concat blks)"
      using relocate_loop_builds [of 0 n mem, OF _ new Inr] assms by auto
    let ?a2 = "a1\<lparr>asm_buffer := asm_buffer a1 @ words (jump_words ?c)\<rparr>"
    have "a64_LiteralLdrBranch a1 ?c = Inr ?a2"
      using LiteralLdrBranch_eq [of a1 "map unlinked (concat blks)" ?c] a1(2) by (simp add: builds_def)
    moreover obtain a3 where "a64_RelocBind ?a2 = Inr a3" "asm_buffer a3 = linked (reloc_layout blks ?c)"
      using RelocBind_links [OF builds_words [OF a1(2)]] by (auto simp: reloc_layout_def)
    ultimately show ?thesis
      using Inr load a1(1) by (simp add: a64_relocate_code_def)
  qed
qed

end
