(* ===== verification/Arm64Simulation.thy ===== *)
theory Arm64Simulation
  imports Arm64Correct
begin

text \<open>
  Running the relocated code. A slot of the linked code executes as its word, or loads its address from
  the pool; every block of slots does what the original instruction did at its original address, with
  the exceptions of \<open>relocatable\<close>.
\<close>

section \<open>Running the linked code\<close>

primrec exec_slot :: "slot \<Rightarrow> a64_state \<Rightarrow> a64_state option" where
  "exec_slot (W w) s = a64_exec w s"
| "exec_slot (L d) s = Some (next_pc (wr_x s 17 d))"

lemma step_word: "loaded s (pc s) (le_bytes 4 w) \<Longrightarrow> a64_step s = a64_exec w s"
  by (simp add: a64_step_def loaded_word del: le_bytes.simps)

lemma length_lits: "length (lits i xs) \<le> length xs"
  by (induction i xs rule: lits.induct) simp_all

lemma linked_split:
  assumes "xs = us @ x # vs"
  shows "linked xs = words (link (4 * length xs) 0 0 us) @ words (link (4 * length xs) (length (lits 0 us)) (length us) [x]) @
      (words (link (4 * length xs) (length (lits 0 (us @ [x]))) (Suc (length us)) vs) @ pool (lits 0 us)) @
      pool (lits (length us) [x]) @ pool (lits (Suc (length us)) vs)"
proof -
  have "lits 0 xs = lits 0 us @ lits (length us) [x] @ lits (Suc (length us)) vs"
    unfolding assms using lits_append [of "length us" "[x]" vs] by (simp add: lits_append)
  moreover have "link b 0 0 xs = link b 0 0 us @ link b (length (lits 0 us)) (length us) [x] @
      link b (length (lits 0 (us @ [x]))) (Suc (length us)) vs" for b
    unfolding assms using link_append [of b "length (lits 0 us)" "length us" "[x]" vs]
    by (simp add: link_append lits_append)
  ultimately show ?thesis by (simp add: linked_def)
qed

lemma step_slot:
  assumes "loaded s base (linked (us @ x # vs))" "pc s = base + of_nat (4 * length us)"
    and "length (linked (us @ x # vs)) < 2 ^ 20"
  shows "a64_step s = exec_slot x s"
proof -
  let ?b = "4 * length (us @ x # vs)" and ?j = "length (lits 0 us)"
  note l = assms(1) [unfolded linked_split [OF refl] loaded_append]
  show ?thesis
  proof (cases x)
    case (W w)
    then show ?thesis using l assms(2) step_word [of s w] by simp
  next
    case (L d)
    define off where "off = int (?b + 8 * ?j) - int (4 * length us)"
    have len: "length (linked (us @ x # vs)) = ?b + 8 * (?j + 1 + length (lits (Suc (length us)) vs))"
      unfolding linked_split [OF refl] using L by simp
    then have off: "off mod 4 = 0" "0 \<le> off" "off < 2 ^ 20"
      using assms(3) by (simp_all add: off_def)
    have "a64_step s = a64_exec (ldr_word (signed_drop_bit 2 (word_of_int off))) s"
      using l assms(2) L by (intro step_word) (simp add: off_def del: le_bytes.simps)
    moreover have "pc s + word_of_int off = base + of_nat ?b + of_nat (8 * ?j)"
      by (simp add: assms(2) off_def)
    moreover have "loaded s (base + of_nat ?b + of_nat (8 * ?j)) (le_bytes 8 d)"
      using l L by (simp add: ac_simps distrib_left del: le_bytes.simps)
    ultimately show ?thesis
      using L by (simp add: exec_ldr_word branch_offset_ldr_word [OF off] loaded_dword del: le_bytes.simps)
  qed
qed

text \<open>Running consecutive slots; only the last one may leave the sequence.\<close>

fun exec_slots :: "slot list \<Rightarrow> a64_state \<Rightarrow> a64_state option" where
  "exec_slots [] s = Some s"
| "exec_slots [x] s = exec_slot x s"
| "exec_slots (x # y # zs) s =
    (case exec_slot x s of None \<Rightarrow> None
     | Some s' \<Rightarrow> if pc s' = pc s + 4 then exec_slots (y # zs) s' else None)"

lemma exec_slot_memory: "exec_slot x s = Some s' \<Longrightarrow> memory s' = memory s"
  by (cases x) (auto dest: exec_memory)

lemma run_slots:
  assumes "loaded s base (linked (us @ ys @ vs))" "pc s = base + of_nat (4 * length us)"
    and "length (linked (us @ ys @ vs)) < 2 ^ 20" "exec_slots ys s = Some s'"
  shows "a64_run (length ys) s = Some s'"
  using assms
proof (induction ys s arbitrary: us rule: exec_slots.induct)
  case (1 s)
  then show ?case by simp
next
  case (2 x s)
  then show ?case using step_slot [of s base us x vs] by simp
next
  case (3 x y zs s)
  from 3(5) obtain s1 where s1: "exec_slot x s = Some s1" "pc s1 = pc s + 4" "exec_slots (y # zs) s1 = Some s'"
    by (auto split: option.splits if_splits)
  have "loaded s1 base (linked ((us @ [x]) @ (y # zs) @ vs))"
    using 3(2) loaded_memory [OF exec_slot_memory [OF s1(1)]] by simp
  moreover have "pc s1 = base + of_nat (4 * length (us @ [x]))" using s1(2) 3(3) by simp
  ultimately have "a64_run (length (y # zs)) s1 = Some s'"
    using 3(1) [OF s1(1,2), of "us @ [x]"] 3(4) s1(3) by simp
  moreover have "a64_step s = Some s1"
    using step_slot [of s base us x "y # zs @ vs"] 3(2,3,4) s1(1) by simp
  ultimately show ?case by simp
qed

lemma exec_slots_words: "exec_slots (map W ws) s = exec_seq ws s"
  by (induction ws s rule: exec_seq.induct) (auto split: option.splits)

section \<open>The offsets of the original instructions\<close>

lemma SignExtend_eq: "M < 64 \<Longrightarrow> SignExtend x (Suc M) 64 = signed_take_bit M x"
proof (rule bit_word_eqI)
  fix n assume "M < 64" "n < LENGTH(64)"
  then show "bit (SignExtend x (Suc M) 64) n = bit (signed_take_bit M x) n"
    by (cases "n < M"; cases "n = M") (auto simp: SignExtend_def bit_simps min_def)
qed

lemma decode_offsets:
  "decode_imm14_offset w = branch_offset w 5 14"
  "decode_imm19_offset w = branch_offset w 5 19"
  "decode_imm26_offset w = branch_offset w 0 26"
  using SignExtend_eq [of 15] SignExtend_eq [of 20] SignExtend_eq [of 27]
  by (simp_all add: decode_imm14_offset_def decode_imm19_offset_def decode_imm26_offset_def branch_offset_def
      bits_mask field_def)

lemma or_eq_plus_take: "take_bit 2 a + push_bit 2 (take_bit 19 b) = push_bit 2 (take_bit 19 b) OR take_bit 2 (a :: u32)"
  by (subst add.commute, rule disjunctive_add) (auto simp: bit_simps)

lemma decode_adr_offset: "decode_immhi_immlo_offset w = adr_offset w"
proof -
  have "ucast (push_bit 2 (take_bit 19 (x :: u32)) OR take_bit 2 y) =
      (push_bit 2 (ucast (take_bit 19 x)) OR ucast (take_bit 2 y) :: u64)" for x y
    by (rule bit_word_eqI) (auto simp: bit_simps)
  then show ?thesis
    using SignExtend_eq [of 20]
    by (simp add: decode_immhi_immlo_offset_def Let_def adr_offset_def field_def or_eq_plus_take)
qed

section \<open>Inverted branches\<close>

lemma bit_3_iff: "bit (3 :: int) n \<longleftrightarrow> n < 2"
proof -
  have "(3 :: int) = mask 2" by (simp add: mask_eq_exp_minus_1)
  then show ?thesis by (simp only: bit_mask_iff) simp
qed

lemma bit_bit1_iff: "bit (bit1 w st) n \<longleftrightarrow> n = 0 \<and> bit (w :: u32) st"
  by (auto simp: bit1_def bit_and_iff bit_1_iff bit_drop_bit_eq simp del: and_one_eq)

lemma bit_flip_24: "bit (set_bit1 w 24 (bit1 w 24 XOR 1)) n \<longleftrightarrow> (if n = 24 then \<not> bit w 24 else bit (w :: u32) n)"
  by (auto simp: bit_set_bit1_iff bit_bit1_iff bit_xor_iff bit_1_iff dest: bit_imp_le_length)

lemma bits_invert_test: "bit (invert_test_branch w) n \<longleftrightarrow>
    (if n = 24 then \<not> bit w 24 else if 5 \<le> n \<and> n < 19 then n < 7 else bit w n)"
  by (auto simp: invert_test_branch_def bit_set_bits_iff bit_flip_24 bit_3_iff dest: bit_imp_le_length)

lemma bits_invert_compare: "bit (invert_compare_branch w) n \<longleftrightarrow>
    (if n = 24 then \<not> bit w 24 else if 5 \<le> n \<and> n < 24 then n < 7 else bit w n)"
  by (auto simp: invert_compare_branch_def bit_set_bits_iff bit_flip_24 bit_3_iff dest: bit_imp_le_length)

lemma bits_invert_conditional: "bit (invert_conditional_branch w) n \<longleftrightarrow>
    (if n = 0 then \<not> bit w 0 else if 5 \<le> n \<and> n < 24 then n < 7 else bit w n)"
  by (auto simp: invert_conditional_branch_def bit_set_bits_iff bits_mask bit_simps bit_3_iff dest: bit_imp_le_length)

lemma branch_offset_12: "(\<And>i. i < n \<Longrightarrow> bit w (lo + i) \<longleftrightarrow> i < 2) \<Longrightarrow> 2 < n \<Longrightarrow> lo + n \<le> 32 \<Longrightarrow> branch_offset w lo n = 12"
proof -
  assume a: "\<And>i. i < n \<Longrightarrow> bit w (lo + i) \<longleftrightarrow> i < 2" "2 < n" "lo + n \<le> 32"
  have "field w lo n = 3"
    by (rule bit_word_eqI) (use a in \<open>auto simp: field_def bit_simps bit_3_iff\<close>)
  moreover have "signed_take_bit (n + 1) (12 :: u64) = 12"
  proof (rule bit_word_eqI)
    fix k assume "k < LENGTH(64)"
    have "(12 :: u64) = push_bit 2 (mask 2)" by (simp add: mask_eq_decr_exp push_bit_eq_mult)
    then have b: "bit (12 :: u64) i \<longleftrightarrow> i = 2 \<or> i = 3" for i by (simp only: bit_simps) auto
    show "bit (signed_take_bit (n + 1) (12 :: u64)) k = bit (12 :: u64) k"
      unfolding bit_signed_take_bit_iff b using a(2) by (auto simp: min_def)
  qed
  ultimately show ?thesis by (simp add: branch_offset_def push_bit_eq_mult)
qed

text \<open>The condition under which a conditional branch instruction branches.\<close>

definition taken :: "u32 \<Rightarrow> a64_state \<Rightarrow> bool" where
  "taken w s = (let r = unat (field w 0 5) in
     if w AND 0x7E000000 = 0x36000000
     then bit w 24 = bit (rd_x s r) (unat (field w 31 1 * 32 + field w 19 5))
     else if w AND 0x7E000000 = 0x34000000 then bit w 24 = (reg_value s w r \<noteq> 0)
     else ConditionHolds s (field w 0 4))"

lemma exec_test: "w AND 0x7E000000 = 0x36000000 \<Longrightarrow> a64_exec w s = Some (branch_if (taken w s) (branch_offset w 5 14) s)"
  by (simp add: taken_def and_eq_bits upt_conv_Cons a64_exec_bits) (simp add: eval_nat_numeral)

lemma exec_compare: "w AND 0x7E000000 = 0x34000000 \<Longrightarrow> a64_exec w s = Some (branch_if (taken w s) (branch_offset w 5 19) s)"
  by (simp add: taken_def and_eq_bits upt_conv_Cons a64_exec_bits) (simp add: eval_nat_numeral)

lemma exec_conditional: "w AND 0xFF000010 = 0x54000000 \<Longrightarrow> a64_exec w s = Some (branch_if (taken w s) (branch_offset w 5 19) s)"
  by (simp add: taken_def and_eq_bits upt_conv_Cons a64_exec_bits)

lemma field_cong: "(\<And>i. i < n \<Longrightarrow> bit v (lo + i) = bit w (lo + i)) \<Longrightarrow> field v lo n = field w lo n"
  by (rule bit_word_eqI) (auto simp: field_def bit_simps)

lemma exec_invert_test: 
  assumes "w AND 0x7E000000 = 0x36000000"
  shows "a64_exec (invert_test_branch w) s = Some (branch_if (\<not> taken w s) 12 s)"
proof -
  have "invert_test_branch w AND 0x7E000000 = 0x36000000"
    using assms by (simp add: and_eq_bits upt_conv_Cons bits_invert_test)
  moreover have "field (invert_test_branch w) 0 5 = field w 0 5" "field (invert_test_branch w) 31 1 = field w 31 1"
      "field (invert_test_branch w) 19 5 = field w 19 5"
    by (auto intro!: field_cong simp: bits_invert_test)
  moreover have "branch_offset (invert_test_branch w) 5 14 = 12"
    by (rule branch_offset_12) (auto simp: bits_invert_test)
  ultimately show ?thesis using assms by (auto simp: exec_test taken_def bits_invert_test intro: arg_cong3 [where f = branch_if])
qed

lemma exec_invert_compare: 
  assumes "w AND 0x7E000000 = 0x34000000"
  shows "a64_exec (invert_compare_branch w) s = Some (branch_if (\<not> taken w s) 12 s)"
proof -
  have m: "invert_compare_branch w AND 0x7E000000 = 0x34000000" 
    using assms by (simp add: and_eq_bits upt_conv_Cons bits_invert_compare)
  moreover have "field (invert_compare_branch w) 0 5 = field w 0 5"
    by (auto intro!: field_cong simp: bits_invert_compare)
  moreover have "branch_offset (invert_compare_branch w) 5 19 = 12"
    by (rule branch_offset_12) (auto simp: bits_invert_compare)
  moreover have "reg_value s (invert_compare_branch w) r = reg_value s w r" for r
    by (simp add: reg_value_def bits_invert_compare)
  ultimately show ?thesis using assms by (auto simp: exec_compare taken_def bits_invert_compare)
qed

lemma ConditionHolds_invert:
  assumes "c < 14"
  shows "ConditionHolds s (c XOR 1) = (\<not> ConditionHolds s c)"
proof -
  have "c XOR 1 \<noteq> 15"
  proof
    assume "c XOR 1 = 15"
    then have "(c XOR 1) XOR 1 = 15 XOR 1" by simp
    then have "c = 14" by (simp add: xor.assoc)
    with assms show False by simp
  qed
  moreover have "c \<noteq> 15" using assms by auto
  moreover have "drop_bit 1 (c XOR 1) = drop_bit 1 c"
    by (rule bit_word_eqI) (auto simp: bit_simps)
  moreover have "(c XOR 1) AND 1 = 1 \<longleftrightarrow> \<not> c AND 1 = 1"
    by (simp add: and_one_eq mod_2_eq_odd even_xor_iff)
  ultimately show ?thesis unfolding ConditionHolds_def Let_def by simp
qed

lemma exec_invert_conditional: 
  assumes "w AND 0xFF000010 = 0x54000000" "field w 0 4 < 14"
  shows "a64_exec (invert_conditional_branch w) s = Some (branch_if (\<not> taken w s) 12 s)"
proof -
  have m: "invert_conditional_branch w AND 0xFF000010 = 0x54000000" 
    using assms(1) by (simp add: and_eq_bits upt_conv_Cons bits_invert_conditional)
  moreover have "field (invert_conditional_branch w) 0 4 = field w 0 4 XOR 1"
    by (rule bit_word_eqI) (auto simp: bits_invert_conditional field_def bit_simps)
  moreover have "branch_offset (invert_conditional_branch w) 5 19 = 12"
    by (rule branch_offset_12) (auto simp: bits_invert_conditional)
  moreover have "taken v s = ConditionHolds s (field v 0 4)" if "v AND 0xFF000010 = 0x54000000" for v
    using that by (simp add: taken_def and_eq_bits upt_conv_Cons)
  ultimately show ?thesis using assms ConditionHolds_invert [OF assms(2)] by (simp add: exec_conditional)
qed

section \<open>Each block does what its instruction did\<close>

text \<open>Instructions that write the return address, and blocks that need \<open>x17\<close>.\<close>

definition is_link :: "u32 \<Rightarrow> bool" where
  "is_link w \<longleftrightarrow> w AND 0xFC000000 = 0x94000000 \<or> w AND 0xFFFFFC1F = 0xD63F0000"

definition uses_tmp :: "u32 \<Rightarrow> bool" where
  "uses_tmp w \<longleftrightarrow> w AND 0x7C000000 = 0x14000000 \<or> w AND 0x7E000000 = 0x36000000 \<or> w AND 0x7E000000 = 0x34000000 \<or>
     w AND 0xFE000000 = 0x54000000 \<or> w AND 0x3B000000 = 0x18000000 \<and> field w 0 5 \<noteq> 17"

text \<open>
  \<open>s'\<close> is reached by the relocated code ending at \<open>endp\<close>, \<open>t\<close> by the original instruction, followed by the one
  at \<open>nextp\<close>. They agree, except that falling through and the return address stay in the relocated code
  and that \<open>x17\<close> may be overwritten.
\<close>

definition simulates :: "u64 \<Rightarrow> u64 \<Rightarrow> u32 \<Rightarrow> a64_state \<Rightarrow> a64_state \<Rightarrow> bool" where
  "simulates endp nextp w s' t \<longleftrightarrow>
    (\<forall>r. (r = 17 \<longrightarrow> \<not> uses_tmp w) \<longrightarrow> xreg s' r = (if r = 30 \<and> is_link w then endp else xreg t r)) \<and>
    flag_n s' = flag_n t \<and> flag_z s' = flag_z t \<and> flag_c s' = flag_c t \<and> flag_v s' = flag_v t \<and>
    memory s' = memory t \<and> (pc s' = pc t \<or> pc t = nextp \<and> pc s' = endp)"

text \<open>
  The instructions the relocator handles as the architecture defines them: not the literal loads other
  than of an X register, and not a conditional branch on \<open>al\<close> or \<open>nv\<close>.
\<close>

definition relocatable :: "u32 \<Rightarrow> bool" where
  "relocatable w \<longleftrightarrow> (w AND 0x3B000000 = 0x18000000 \<longrightarrow> w AND 0xFF000000 = 0x58000000) \<and>
     (w AND 0xFE000000 = 0x54000000 \<longrightarrow> field w 0 4 < 14)"

lemma block_branch:
  assumes "w AND 0x7C000000 = 0x14000000" "a64_exec w (s\<lparr>pc := opc\<rparr>) = Some t"
  shows "\<exists>blk s'. reloc_slots w opc = Inr blk \<and> exec_slots blk s = Some s' \<and>
    simulates (pc s + of_nat (4 * length blk)) (opc + 4) w s' t"
proof -
  have slots: "reloc_slots w opc = Inr [L (branch_offset w 0 26 + opc),
      W (if w AND 0xFC000000 = 0x94000000 then 0xD63F0220 else 0xD61F0220)]"
    using assms(1) by (simp add: reloc_slots_def decode_offsets and_eq_bits upt_conv_Cons)
  have use: "uses_tmp w" using assms(1) by (simp add: uses_tmp_def)
  have x17: "xreg (next_pc (wr_x s 17 d)) 17 = d" for d by (simp add: next_pc_def wr_x_def)
  show ?thesis
  proof (cases "w AND 0xFC000000 = 0x94000000")
    case True
    then have "t = (wr_x s 30 (opc + 4))\<lparr>pc := opc + branch_offset w 0 26\<rparr>"
      using assms(2) by (simp add: and_eq_bits upt_conv_Cons a64_exec_bits wr_x_def)
    with True show ?thesis
      using use by (auto simp: slots exec_blr_tmp x17 simulates_def is_link_def wr_x_def next_pc_def)
  next
    case False
    then have l: "\<not> is_link w" and "w AND 0xFC000000 = 0x14000000"
      using assms(1) by (auto simp: is_link_def and_eq_bits upt_conv_Cons)
    then have "t = s\<lparr>pc := opc + branch_offset w 0 26\<rparr>"
      using assms(2) by (simp add: and_eq_bits upt_conv_Cons a64_exec_bits)
    with False show ?thesis
      using use l by (auto simp: slots exec_br_tmp x17 simulates_def wr_x_def next_pc_def)
  qed
qed

lemma block_adr:
  assumes "w AND 0x1F000000 = 0x10000000" "a64_exec w (s\<lparr>pc := opc\<rparr>) = Some t"
  shows "\<exists>blk s'. reloc_slots w opc = Inr blk \<and> exec_slots blk s = Some s' \<and>
    simulates (pc s + of_nat (4 * length blk)) (opc + 4) w s' t"
proof -
  let ?v = "if w AND 0x9F000000 = 0x10000000 then opc + adr_offset w
         else ALIGN_FLOOR opc 0x1000 + push_bit 12 (adr_offset w)"
  have slots: "reloc_slots w opc = Inr (map W (mov_words (take_bit 5 w) ?v))"
    using assms(1) by (simp add: reloc_slots_def decode_adr_offset and_eq_bits upt_conv_Cons)
  have n: "\<not> uses_tmp w" "\<not> is_link w"
    using assms(1) by (simp_all add: uses_tmp_def is_link_def and_eq_bits upt_conv_Cons)
  have m: "ALIGN_FLOOR opc 0x1000 = opc AND NOT (mask 12)"
    by (simp add: ALIGN_FLOOR_def mask_eq_decr_exp)
  have "t = (wr_x s (unat (take_bit 5 w)) ?v)\<lparr>pc := opc + 4\<rparr>"
  proof (cases "w AND 0x9F000000 = 0x10000000")
    case True
    then show ?thesis using assms(2) by (auto simp: a64_exec_def Let_def field_def next_pc_def wr_x_def split: if_splits)
  next
    case False
    then have "w AND 0x9F000000 = 0x90000000"
      using assms(1) by (auto simp: and_eq_bits upt_conv_Cons)
    then show ?thesis using False assms(2)
      by (auto simp: a64_exec_def Let_def field_def next_pc_def wr_x_def m split: if_splits)
  qed
  moreover have "exec_slots (map W (mov_words (take_bit 5 w) ?v)) s =
      Some ((wr_x s (unat (take_bit 5 w)) ?v)\<lparr>pc := pc s + 16\<rparr>)"
    unfolding exec_slots_words by (rule exec_mov_words) simp
  moreover have "length (map W (mov_words (take_bit 5 w) ?v)) = 4" by (simp add: mov_words_def)
  ultimately show ?thesis
    using n slots by (auto simp: simulates_def wr_x_def)
qed

lemma exec_seq_snoc:
  "exec_seq (ws @ [w]) s = (case exec_seq ws s of None \<Rightarrow> None
     | Some s' \<Rightarrow> if pc s' = pc s + of_nat (4 * length ws) then a64_exec w s' else None)"
  if "\<And>u t t'. u \<in> set ws \<Longrightarrow> a64_exec u t = Some t' \<Longrightarrow> pc t' = pc t + 4"
  using that
proof (induction ws s rule: exec_seq.induct)
  case (1 s)
  then show ?case by simp
next
  case (2 u s)
  then show ?case by (auto split: option.splits)
next
  case (3 u v ws s)
  show ?case
  proof (cases "a64_exec u s")
    case None
    then show ?thesis by simp
  next
    case (Some s1)
    have p: "pc s1 = pc s + 4" by (rule 3(2) [OF _ Some]) simp
    have "exec_seq ((v # ws) @ [w]) s1 = (case exec_seq (v # ws) s1 of None \<Rightarrow> None
        | Some s' \<Rightarrow> if pc s' = pc s1 + of_nat (4 * length (v # ws)) then a64_exec w s' else None)"
      using 3(1) [OF Some p] 3(2) by (metis list.set_intros(2))
    then show ?thesis using Some p by (simp add: ac_simps split: option.splits)
  qed
qed

lemma exec_ldr_x_word:
  "a64_exec (ldr_x_word w) s = Some (next_pc (wr_x s (unat (take_bit 5 w)) (of_le_bytes (read_mem s (xreg s 17) 8))))"
proof -
  have f: "field (ldr_x_word w) 0 5 = take_bit 5 w" "field (ldr_x_word w) 5 5 = 17" "field (ldr_x_word w) 10 12 = 0"
    by (simp_all add: ldr_x_word_def) (simp_all add: field_def)
  have b: "bit (ldr_x_word w) n \<longleftrightarrow> bit (0xF9400220 :: u32) n \<or> n < 5 \<and> bit w n" for n
    by (auto simp: ldr_x_word_def bit_simps)
  show ?thesis by (simp add: a64_exec_bits f b rd_x_def)
qed

lemma unat_numeral_17: "unat (17 :: u32) = 17"
  by simp

lemma block_ldr:
  assumes "w AND 0xFF000000 = 0x58000000" "a64_exec w (s\<lparr>pc := opc\<rparr>) = Some t"
  shows "\<exists>blk s'. reloc_slots w opc = Inr blk \<and> exec_slots blk s = Some s' \<and>
    simulates (pc s + of_nat (4 * length blk)) (opc + 4) w s' t"
proof -
  let ?addr = "branch_offset w 5 19 + opc" and ?r = "unat (take_bit 5 w)"
  let ?ws = "mov_words 17 ?addr @ [ldr_x_word w]"
  have b: "bit w 30" "\<not> bit w 31"
    using assms(1) by (simp_all add: and_eq_bits upt_conv_Cons) (simp_all add: eval_nat_numeral)
  then have "bits w 30 31 = 1"
    by (intro bit_word_eqI) (auto simp: bits_mask bit_simps less_Suc_eq)
  then have slots: "reloc_slots w opc = Inr (map W ?ws)"
    using assms(1) by (simp add: reloc_slots_def decode_offsets and_eq_bits upt_conv_Cons)
  have n: "\<not> is_link w" "uses_tmp w \<longleftrightarrow> take_bit 5 w \<noteq> 17"
    using assms(1) by (simp_all add: uses_tmp_def is_link_def and_eq_bits upt_conv_Cons field_def)
  have t: "t = (wr_x s ?r (of_le_bytes (read_mem s ?addr 8)))\<lparr>pc := opc + 4\<rparr>"
    using assms by (auto simp: and_eq_bits upt_conv_Cons a64_exec_bits next_pc_def wr_x_def field_def read_mem_def add.commute)
  have mov: "exec_seq (mov_words 17 ?addr) s = Some ((wr_x s 17 ?addr)\<lparr>pc := pc s + 16\<rparr>)"
    using exec_mov_words [of 17 ?addr s] by simp
  have "exec_seq ?ws s = Some (next_pc (wr_x ((wr_x s 17 ?addr)\<lparr>pc := pc s + 16\<rparr>) ?r (of_le_bytes (read_mem s ?addr 8))))"
  proof (subst exec_seq_snoc)
    fix u t t' assume "u \<in> set (mov_words 17 ?addr)" "a64_exec u t = Some t'"
    then show "pc t' = pc t + 4" by (auto simp: mov_words_def exec_movz exec_movk)
  next
    have "length (mov_words 17 ?addr) = 4" by (simp add: mov_words_def)
    then show "(case exec_seq (mov_words 17 ?addr) s of None \<Rightarrow> None
     | Some s' \<Rightarrow> if pc s' = pc s + of_nat (4 * length (mov_words 17 ?addr)) then a64_exec (ldr_x_word w) s' else None) =
       Some (next_pc (wr_x ((wr_x s 17 ?addr)\<lparr>pc := pc s + 16\<rparr>) ?r (of_le_bytes (read_mem s ?addr 8))))"
      by (simp add: mov exec_ldr_x_word) (simp add: wr_x_def read_mem_def)
  qed
  moreover have "?r = 17 \<longleftrightarrow> take_bit 5 w = 17"
    by (metis unat_numeral_17 word_unat_eq_iff)
  moreover have "length (map W ?ws) = 5" by (simp add: mov_words_def)
  ultimately show ?thesis
    using n slots t by (auto simp: simulates_def wr_x_def next_pc_def exec_slots_words simp del: map_append)
qed

lemma mask_narrow: "w AND m = c \<Longrightarrow> m AND m' = m' \<Longrightarrow> w AND m' = c AND (m' :: u32)"
  by (metis and.assoc)

lemma exec_copied:
  assumes "\<not> w AND 0x3B000000 = 0x18000000" "\<not> w AND 0x1F000000 = 0x10000000" "\<not> uses_tmp w"
  shows "a64_exec w s = (let rd = unat (field w 0 5); rn = unat (field w 5 5) in
     if w AND 0xFFFFFC1F = 0xD61F0000 then Some (s\<lparr>pc := rd_x s rn\<rparr>)
     else if w AND 0xFFFFFC1F = 0xD63F0000 then Some ((wr_x s 30 (pc s + 4))\<lparr>pc := rd_x s rn\<rparr>)
     else if w AND 0xFF800000 = 0xD2800000
     then Some (next_pc (wr_x s rd (push_bit (16 * unat (field w 21 2)) (ucast (field w 5 16)))))
     else if w AND 0xFF800000 = 0xF2800000
     then let h = 16 * unat (field w 21 2) in
       Some (next_pc (wr_x s rd ((rd_x s rd AND NOT (push_bit h (mask 16))) OR push_bit h (ucast (field w 5 16)))))
     else if w AND 0xFFC00000 = 0x91000000 \<and> rd \<noteq> 31 \<and> rn \<noteq> 31
     then Some (next_pc (wr_x s rd (rd_x s rn + ucast (field w 10 12))))
     else if w AND 0xFFC00000 = 0xF9400000 \<and> rn \<noteq> 31
     then Some (next_pc (wr_x s rd (of_le_bytes (read_mem s (rd_x s rn + 8 * ucast (field w 10 12)) 8))))
     else if w AND 0xFFC00000 = 0xB9400000 \<and> rn \<noteq> 31
     then Some (next_pc (wr_x s rd (of_le_bytes (read_mem s (rd_x s rn + 4 * ucast (field w 10 12)) 4))))
     else None)"
proof -
  note n = mask_narrow [where w = w and m' = "0x1F000000"] mask_narrow [where w = w and m' = "0x7C000000"]
    mask_narrow [where w = w and m' = "0x7E000000"] mask_narrow [where w = w and m' = "0xFE000000"]
    mask_narrow [where w = w and m' = "0x3B000000"]
  have "\<not> w AND 0x9F000000 = 0x10000000" "\<not> w AND 0x9F000000 = 0x90000000"
      "\<not> w AND 0xFC000000 = 0x14000000" "\<not> w AND 0xFC000000 = 0x94000000"
      "\<not> w AND 0xFF000010 = 0x54000000" "\<not> w AND 0x7F000000 = 0x34000000" "\<not> w AND 0x7F000000 = 0x35000000"
      "\<not> w AND 0x7F000000 = 0x36000000" "\<not> w AND 0x7F000000 = 0x37000000"
      "\<not> w AND 0xFF000000 = 0x58000000" "\<not> w AND 0xFF000000 = 0x18000000"
    using assms by (auto simp: uses_tmp_def dest: n)
  then show ?thesis by (simp add: a64_exec_def cong: if_cong)
qed

lemma block_copied:
  assumes "\<not> w AND 0x3B000000 = 0x18000000" "\<not> w AND 0x1F000000 = 0x10000000" "\<not> uses_tmp w"
    and "a64_exec w (s\<lparr>pc := opc\<rparr>) = Some t"
  shows "\<exists>blk s'. reloc_slots w opc = Inr blk \<and> exec_slots blk s = Some s' \<and>
    simulates (pc s + of_nat (4 * length blk)) (opc + 4) w s' t"
proof -
  have slots: "reloc_slots w opc = Inr [W w]" using assms by (simp add: reloc_slots_def uses_tmp_def)
  have link: "is_link w \<longleftrightarrow> w AND 0xFFFFFC1F = 0xD63F0000"
    using assms(3) mask_narrow [of w "0xFC000000" "0x94000000" "0x7C000000"] by (auto simp: is_link_def uses_tmp_def)
  have r: "rd_x (s\<lparr>pc := opc\<rparr>) = rd_x s" "read_mem (s\<lparr>pc := opc\<rparr>) = read_mem s"
    by (simp_all add: fun_eq_iff rd_x_def read_mem_def)
  consider (br) "w AND 0xFFFFFC1F = 0xD61F0000" | (blr) "w AND 0xFFFFFC1F = 0xD63F0000"
    | (reg) rd v where "\<not> is_link w" "a64_exec w s = Some (next_pc (wr_x s rd v))"
        "t = next_pc (wr_x (s\<lparr>pc := opc\<rparr>) rd v)"
    using assms(4) unfolding exec_copied [OF assms(1-3)] Let_def r link
    by (simp split: if_splits)
  then have "\<exists>s'. a64_exec w s = Some s' \<and> simulates (pc s + 4) (opc + 4) w s' t"
  proof cases
    case br
    then have "t = s\<lparr>pc := rd_x s (unat (field w 5 5))\<rparr>" "a64_exec w s = Some (s\<lparr>pc := rd_x s (unat (field w 5 5))\<rparr>)"
      using assms(4) by (simp_all add: exec_copied [OF assms(1-3)] r)
    with br show ?thesis by (simp add: simulates_def link)
  next
    case blr
    then have "t = (wr_x s 30 (opc + 4))\<lparr>pc := rd_x s (unat (field w 5 5))\<rparr>"
        "a64_exec w s = Some ((wr_x s 30 (pc s + 4))\<lparr>pc := rd_x s (unat (field w 5 5))\<rparr>)"
      using assms(4) by (auto simp: exec_copied [OF assms(1-3)] r wr_x_def)
    with blr show ?thesis by (simp add: simulates_def link wr_x_def)
  next
    case reg
    then show ?thesis by (auto simp: simulates_def next_pc_def wr_x_def)
  qed
  with slots show ?thesis by simp
qed

text \<open>An inverted branch either skips the two instructions behind it or falls into them.\<close>

lemma run_inverted:
  assumes l: "loaded s base (linked (us @ branch_slots v target @ vs))" "pc s = base + of_nat (4 * length us)"
      "length (linked (us @ branch_slots v target @ vs)) < 2 ^ 20"
    and v: "a64_exec v s = Some (branch_if (\<not> c) 12 s)"
    and w: "uses_tmp w" "\<not> is_link w" "t = branch_if c off (s\<lparr>pc := opc\<rparr>)" "target = off + opc"
  shows "\<exists>k s'. a64_run k s = Some s' \<and> simulates (pc s + of_nat (4 * length (branch_slots v target))) (opc + 4) w s' t"
proof (cases c)
  case True
  let ?s' = "(wr_x s 17 target)\<lparr>pc := target\<rparr>"
  have "exec_slots (branch_slots v target) s = Some ?s'"
    using v True by (simp add: branch_slots_def branch_if_def exec_br_tmp) (simp add: wr_x_def next_pc_def)
  moreover have "simulates (pc s + of_nat (4 * length (branch_slots v target))) (opc + 4) w ?s' t"
    using True w by (auto simp: simulates_def branch_if_def wr_x_def)
  ultimately show ?thesis using run_slots [OF l] by blast
next
  case False
  have "a64_step s = Some (branch_if True 12 s)"
    using step_slot [of s base us "W v" "[L target, W 0xD61F0220] @ vs"] l v False by (simp add: branch_slots_def)
  then have "a64_run 1 s = Some (branch_if True 12 s)" by simp
  moreover have "simulates (pc s + of_nat (4 * length (branch_slots v target))) (opc + 4) w (branch_if True 12 s) t"
    using False w by (auto simp: simulates_def branch_if_def branch_slots_def)
  ultimately show ?thesis by blast
qed

lemma class_links:
  assumes "w AND 0x7E000000 = 0x36000000 \<or> w AND 0x7E000000 = 0x34000000 \<or> w AND 0xFE000000 = 0x54000000"
  shows "uses_tmp w" "\<not> is_link w"
  using assms by (auto simp: uses_tmp_def is_link_def and_eq_bits upt_conv_Cons)

lemma block_inverted:
  assumes w: "w AND 0x7E000000 = 0x36000000 \<or> w AND 0x7E000000 = 0x34000000 \<or> w AND 0xFE000000 = 0x54000000"
    and r: "relocatable w" "a64_exec w (s\<lparr>pc := opc\<rparr>) = Some t"
  obtains v off where "reloc_slots w opc = Inr (branch_slots v (off + opc))"
    "a64_exec v s = Some (branch_if (\<not> taken w s) 12 s)" "t = branch_if (taken w s) off (s\<lparr>pc := opc\<rparr>)"
proof -
  have tk: "taken w (s\<lparr>pc := opc\<rparr>) = taken w s"
    by (simp add: taken_def Let_def rd_x_def reg_value_def ConditionHolds_def)
  consider (test) "w AND 0x7E000000 = 0x36000000" | (compare) "w AND 0x7E000000 = 0x34000000"
    | (conditional) "w AND 0xFE000000 = 0x54000000" using w by blast
  then show thesis
  proof cases
    case test
    then have "reloc_slots w opc = Inr (branch_slots (invert_test_branch w) (branch_offset w 5 14 + opc))"
      by (simp add: reloc_slots_def decode_offsets and_eq_bits upt_conv_Cons)
    with test r that show thesis by (simp add: exec_test exec_invert_test tk)
  next
    case compare
    then have "reloc_slots w opc = Inr (branch_slots (invert_compare_branch w) (branch_offset w 5 19 + opc))"
      by (simp add: reloc_slots_def decode_offsets and_eq_bits upt_conv_Cons)
    with compare r that show thesis by (simp add: exec_compare exec_invert_compare tk)
  next
    case conditional
    then have slots: "reloc_slots w opc = Inr (branch_slots (invert_conditional_branch w) (branch_offset w 5 19 + opc))"
      by (simp add: reloc_slots_def decode_offsets and_eq_bits upt_conv_Cons)
    have c: "w AND 0xFF000010 = 0x54000000"
    proof (rule ccontr)
      assume "w AND 0xFF000010 \<noteq> 0x54000000"
      with conditional r(2) show False by (simp add: a64_exec_bits and_eq_bits upt_conv_Cons split: if_splits)
    qed
    from conditional r have "field w 0 4 < 14" by (simp add: relocatable_def)
    with slots c r that show thesis by (simp add: exec_conditional exec_invert_conditional tk)
  qed
qed

theorem run_block:
  assumes l: "loaded s base (linked (us @ blk @ vs))" "pc s = base + of_nat (4 * length us)"
      "length (linked (us @ blk @ vs)) < 2 ^ 20"
    and r: "reloc_slots w opc = Inr blk" "relocatable w" "a64_exec w (s\<lparr>pc := opc\<rparr>) = Some t"
  shows "\<exists>k s'. a64_run k s = Some s' \<and> simulates (pc s + of_nat (4 * length blk)) (opc + 4) w s' t"
proof (cases "w AND 0x7E000000 = 0x36000000 \<or> w AND 0x7E000000 = 0x34000000 \<or> w AND 0xFE000000 = 0x54000000")
  case True
  obtain v off where v: "blk = branch_slots v (off + opc)" "a64_exec v s = Some (branch_if (\<not> taken w s) 12 s)"
      "t = branch_if (taken w s) off (s\<lparr>pc := opc\<rparr>)"
    using block_inverted [OF True r(2,3)] r(1) by (metis Inr_inject)
  show ?thesis using run_inverted [OF l [unfolded v(1)] v(2) class_links [OF True] v(3) refl] v(1) by simp
next
  case False
  have "\<exists>blk s'. reloc_slots w opc = Inr blk \<and> exec_slots blk s = Some s' \<and>
      simulates (pc s + of_nat (4 * length blk)) (opc + 4) w s' t"
  proof (cases "w AND 0x3B000000 = 0x18000000")
    case True
    then have "w AND 0xFF000000 = 0x58000000" using r(2) by (simp add: relocatable_def)
    then show ?thesis by (rule block_ldr [OF _ r(3)])
  next
    case ldr: False
    show ?thesis
      using False ldr block_branch [OF _ r(3)] block_adr [OF _ r(3)] block_copied [OF _ _ _ r(3)]
      by (auto simp: uses_tmp_def)
  qed
  then show ?thesis using run_slots [OF l] r(1) by fastforce
qed

section \<open>The relocated prologue as a whole\<close>

lemma reloc_blocks_add:
  "reloc_blocks mem start i (m + n) = rbind (reloc_blocks mem start i m) (\<lambda>xs.
     rbind (reloc_blocks mem start (i + m) n) (\<lambda>ys. Inr (xs @ ys)))"
proof (induction m arbitrary: i)
  case 0
  then show ?case by (simp add: rbind_def split: sum.splits)
next
  case (Suc m)
  then show ?case by (simp add: rbind_def split: sum.splits)
qed

lemma length_reloc_blocks: "reloc_blocks mem start i n = Inr blks \<Longrightarrow> length blks = n"
  by (induction n arbitrary: i blks) auto

text \<open>The offset of the code for instruction \<open>i\<close>.\<close>

definition reloc_offset :: "u8 list \<Rightarrow> u64 \<Rightarrow> nat \<Rightarrow> nat" where
  "reloc_offset mem start i =
    (case reloc_blocks mem start 0 i of Inl e \<Rightarrow> 0 | Inr blks \<Rightarrow> 4 * length (concat blks))"

lemma reloc_blocks_split:
  assumes "reloc_blocks mem start 0 n = Inr blks" "i < n"
  obtains us blk vs where "blks = us @ blk # vs" "reloc_slots (orig_word mem i) (start + of_nat (4 * i)) = Inr blk"
    "reloc_offset mem start i = 4 * length (concat us)" "reloc_offset mem start (Suc i) = 4 * length (concat us) + 4 * length blk"
proof -
  obtain k where n: "n = i + Suc k" using less_iff_Suc_add [of i n] assms(2) by auto
  from assms(1) obtain us blk vs where u: "reloc_blocks mem start 0 i = Inr us"
      and b: "reloc_slots (orig_word mem i) (start + of_nat (4 * i)) = Inr blk"
      and e: "blks = us @ blk # vs"
    unfolding n reloc_blocks_add by auto
  have "reloc_blocks mem start 0 (i + 1) = Inr (us @ [blk])"
    unfolding reloc_blocks_add using u b by simp
  then show thesis using that [OF e b] u by (simp add: reloc_offset_def)
qed

lemma relocate_code_blocks:
  assumes "4 * n + 4 \<le> length mem" "a64_relocate_code mem start (4 * n) = Inr a"
  obtains blks where "reloc_blocks mem start 0 n = Inr blks"
    "asm_buffer a = linked (reloc_layout blks (start + of_nat (4 * n)))"
  using relocate_code_eq [OF assms(1), of start] assms(2) by (cases "reloc_blocks mem start 0 n") auto

text \<open>The size of the code: at most five words or their equivalent for each instruction.\<close>

lemma size_reloc_slots: "reloc_slots w opc = Inr blk \<Longrightarrow> 4 * length blk + 8 * length (lits i blk) \<le> 20"
  by (auto simp: reloc_slots_def branch_slots_def mov_words_def split: if_splits)

lemma lits_words [simp]: "lits i (map W ws) = []"
  by (induction ws arbitrary: i) simp_all

lemma length_lits_shift: "length (lits i xs) = length (lits j xs)"
  by (induction i xs arbitrary: j rule: lits.induct) simp_all

lemma length_linked: "length (linked xs) = 4 * length xs + 8 * length (lits 0 xs)"
  by (simp add: linked_def)

lemma size_reloc_blocks:
  "reloc_blocks mem start i n = Inr blks \<Longrightarrow> length (linked (concat blks)) \<le> 20 * n"
proof (induction n arbitrary: i blks)
  case 0
  then show ?case by (simp add: linked_def)
next
  case (Suc n)
  then obtain blk rest where "reloc_slots (orig_word mem i) (start + of_nat (4 * i)) = Inr blk"
      "reloc_blocks mem start (Suc i) n = Inr rest" "blks = blk # rest"
    by auto
  with Suc.IH [of "Suc i" rest] size_reloc_slots [of "orig_word mem i" "start + of_nat (4 * i)" blk 0]
    length_lits_shift [of "length blk" "concat rest" 0]
  show ?case by (simp add: length_linked lits_append)
qed

lemma size_layout: "length (linked (reloc_layout blks c)) = length (linked (concat blks)) + 16"
  by (simp add: reloc_layout_def length_linked lits_append jump_words_def)

text \<open>The literal loads that are not implemented.\<close>

definition unsupported :: "u32 \<Rightarrow> bool" where
  "unsupported w \<longleftrightarrow> w AND 0x3B000000 = 0x18000000 \<and> bit w 31"

lemma opc_bits: "bits w 30 31 = 0 \<or> bits w 30 31 = 1 \<longleftrightarrow> \<not> bit (w :: u32) 31"
proof -
  have b: "bit (bits w 30 31) n \<longleftrightarrow> (n = 0 \<and> bit w 30) \<or> (n = 1 \<and> bit w 31)" for n
    by (cases n) (auto simp: bits_mask bit_simps less_Suc_eq numeral_eq_Suc)
  have "bits w 30 31 = 0 \<longleftrightarrow> \<not> bit w 30 \<and> \<not> bit w 31" "bits w 30 31 = 1 \<longleftrightarrow> bit w 30 \<and> \<not> bit w 31"
    by (simp_all add: u32_eq_bits b upt_conv_Cons bit_1_iff)
  then show ?thesis by blast
qed

lemma reloc_slots_fails: "reloc_slots w opc = Inl e \<longleftrightarrow> e = Unimplemented \<and> unsupported w"
  using opc_bits [of w] by (auto simp: reloc_slots_def unsupported_def)

lemma reloc_blocks_fails:
  "(case reloc_blocks mem start i n of Inl e \<Rightarrow> e = Unimplemented \<and> (\<exists>j<n. unsupported (orig_word mem (i + j)))
    | Inr _ \<Rightarrow> (\<forall>j<n. \<not> unsupported (orig_word mem (i + j))))"
proof (induction n arbitrary: i)
  case 0
  then show ?case by simp
next
  case (Suc n)
  have ex: "(\<exists>j<Suc n. P j) \<longleftrightarrow> P 0 \<or> (\<exists>j<n. P (Suc j))" "(\<forall>j<Suc n. P j) \<longleftrightarrow> P 0 \<and> (\<forall>j<n. P (Suc j))" for P
    by (metis less_Suc_eq_0_disj)+
  show ?case
  proof (cases "reloc_slots (orig_word mem i) (start + of_nat (4 * i))")
    case (Inl e)
    moreover from Inl have "e = Unimplemented" "unsupported (orig_word mem i)" by (simp_all add: reloc_slots_fails)
    ultimately show ?thesis by (auto simp: ex)
  next
    case (Inr blk)
    then have "\<not> unsupported (orig_word mem i)" by (metis reloc_slots_fails Inl_Inr_False)
    with Inr Suc [of "Suc i"] show ?thesis by (auto simp: ex rbind_def split: sum.splits)
  qed
qed

lemma link_words [simp]: "link b j i (map W ws) = ws"
  by (induction ws arbitrary: i) simp_all

lemma exec_literal_jump:
  assumes "loaded s (pc s) (words (jump_words address))"
  shows "a64_run 2 s = Some ((wr_x s 17 address)\<lparr>pc := address\<rparr>)"
proof -
  have off: "branch_offset (ldr_word 2) 5 19 = 8"
    using branch_offset_ldr_word [of 8] by simp
  have "loaded s (pc s) (words [ldr_word 2, 0xD61F0220])" "loaded s (pc s + 8) (le_bytes 8 address)"
    using assms loaded_append [of s "pc s" "words [ldr_word 2, 0xD61F0220]" "le_bytes 8 address"]
    unfolding le_bytes_8_words jump_words_def by simp_all
  then show ?thesis
    using run_seq [of s "[ldr_word 2, 0xD61F0220]" "(wr_x s 17 address)\<lparr>pc := address\<rparr>"]
    by (simp add: exec_ldr_word off loaded_dword exec_br_tmp numeral_2_eq_2 del: le_bytes.simps words_simps)
      (simp add: wr_x_def next_pc_def)
qed

lemma run_jump_back:
  assumes "loaded s base (linked (us @ map W (jump_words address)))" "pc s = base + of_nat (4 * length us)"
  shows "a64_run 2 s = Some ((wr_x s 17 address)\<lparr>pc := address\<rparr>)"
  using assms by (intro exec_literal_jump) (simp add: linked_def link_append loaded_append)

end
