(* ===== verification/Arm64Properties.thy ===== *)
theory Arm64Properties
  imports Arm64Simulation
begin

text \<open>
  What the ARM64 assembler and relocator guarantee: the size of the relocated code and its failures,
  the simulation of every relocated instruction, the jump back, and the instructions that are
  not relocated faithfully.
\<close>

section \<open>Properties of the relocator\<close>


lemma reloc_simulates:
  assumes "4 * n + 4 \<le> length mem" "a64_relocate_code mem start (4 * n) = Inr a" "i < n" "n \<le> 50000"
    and "loaded s base (asm_buffer a)" "pc s = base + of_nat (reloc_offset mem start i)"
    and "relocatable (orig_word mem i)" "a64_exec (orig_word mem i) (s\<lparr>pc := start + of_nat (4 * i)\<rparr>) = Some t"
  shows "\<exists>k s'. a64_run k s = Some s' \<and>
    simulates (base + of_nat (reloc_offset mem start (Suc i))) (start + of_nat (4 * i) + 4) (orig_word mem i) s' t"
proof -
  obtain blks where b: "reloc_blocks mem start 0 n = Inr blks"
      "asm_buffer a = linked (reloc_layout blks (start + of_nat (4 * n)))"
    by (rule relocate_code_blocks [OF assms(1,2)])
  obtain us blk vs where u: "blks = us @ blk # vs" "reloc_slots (orig_word mem i) (start + of_nat (4 * i)) = Inr blk"
      "reloc_offset mem start i = 4 * length (concat us)"
      "reloc_offset mem start (Suc i) = 4 * length (concat us) + 4 * length blk"
    by (rule reloc_blocks_split [OF b(1) assms(3)])
  let ?xs = "concat us @ blk @ concat vs @ map W (jump_words (start + of_nat (4 * n)))"
  have code: "asm_buffer a = linked ?xs" by (simp add: b(2) u(1) reloc_layout_def)
  have "length (asm_buffer a) \<le> 20 * n + 16"
    using size_reloc_blocks [OF b(1)] by (simp add: b(2) size_layout)
  then have "length (linked ?xs) < 2 ^ 20" using assms(4) by (simp add: code)
  with run_block [of s base "concat us" blk _ "orig_word mem i" "start + of_nat (4 * i)" t] assms u code
  show ?thesis by (simp add: add.assoc)
qed


lemma reloc_jumps_back:
  assumes "4 * n + 4 \<le> length mem" "a64_relocate_code mem start (4 * n) = Inr a"
    and "loaded s base (asm_buffer a)" "pc s = base + of_nat (reloc_offset mem start n)"
  shows "a64_run 2 s = Some ((wr_x s 17 (start + of_nat (4 * n)))\<lparr>pc := start + of_nat (4 * n)\<rparr>)"
proof -
  obtain blks where b: "reloc_blocks mem start 0 n = Inr blks"
      "asm_buffer a = linked (reloc_layout blks (start + of_nat (4 * n)))"
    by (rule relocate_code_blocks [OF assms(1,2)])
  then show ?thesis
    using assms(3,4) run_jump_back [of s base "concat blks"] by (simp add: reloc_layout_def reloc_offset_def)
qed

text \<open>C20. At the end of the prologue the relocated code jumps to the first instruction that was not
  relocated, changing nothing but \<open>x17\<close>.\<close>

theorem relocated_code_jumps_back:
  assumes "4 * n + 4 \<le> length mem" "a64_relocate_code mem start (4 * n) = Inr a"
    and "loaded s base (asm_buffer a)" "pc s = base + of_nat (reloc_offset mem start n)"
  shows "a64_run 2 s = Some ((wr_x s 17 (start + of_nat (4 * n)))\<lparr>pc := start + of_nat (4 * n)\<rparr>)"
  by (rule reloc_jumps_back [OF assms])

section \<open>An example\<close>

text \<open>\<open>cbz x0, #8; bl #0x100\<close> at address \<open>0x1000\<close>, and its relocated code at \<open>0x8000\<close>.\<close>

definition ex_mem :: "u8 list" where
  "ex_mem = words [0xB4000040, 0x94000040, 0xD503201F]"

definition ex_code :: "u8 list" where
  "ex_code = words [0xB5000060, 0x58000111, 0xD61F0220, 0x58000111, 0xD63F0220,
     0x58000051, 0xD61F0220, 0x1008, 0, 0x1008, 0, 0x1104, 0]"

definition ex_state :: "u64 \<Rightarrow> a64_state" where
  "ex_state p = \<lparr>xreg = (\<lambda>r. of_nat r), pc = p, flag_n = False, flag_z = False, flag_c = False, flag_v = False,
     memory = (\<lambda>a. if 0x8000 \<le> a \<and> a < 0x8100 \<and> unat (a - 0x8000) < length ex_code then ex_code ! unat (a - 0x8000) else 0)\<rparr>"

lemma ex_relocated: "map_sum id asm_buffer (a64_relocate_code ex_mem 0x1000 8) = Inr ex_code"
  by code_simp

lemma ex_loaded: "loaded (ex_state p) 0x8000 ex_code"
  by (simp add: loaded_def ex_state_def read_mem_def) code_simp

lemma ex_relocate_code: "\<exists>a. a64_relocate_code ex_mem 0x1000 8 = Inr a \<and> asm_buffer a = ex_code"
  using ex_relocated by (cases "a64_relocate_code ex_mem 0x1000 8") auto



theorem relocated_code_jumps_back_witness:
  "\<exists>s'. a64_run 2 (ex_state 0x8014) = Some s' \<and> pc s' = 0x1008"
proof -
  obtain a where a: "a64_relocate_code ex_mem 0x1000 (4 * 2) = Inr a" "asm_buffer a = ex_code"
    using ex_relocate_code by auto
  have off: "reloc_offset ex_mem 0x1000 2 = 20" by code_simp
  have "4 * 2 + 4 \<le> length ex_mem" by (simp add: ex_mem_def)
  from relocated_code_jumps_back [OF this a(1), of "ex_state 0x8014" "0x8000"] a(2) show ?thesis
    by (simp add: ex_loaded off) (simp add: ex_state_def)
qed

section \<open>Properties of the assembler\<close>

text \<open>C32. The code \<open>TurboAssembler::Mov\<close> appends loads the immediate into the register, whatever the register held:
  four instructions, all other registers, the flags and the memory unchanged.\<close>

theorem Mov_loads_immediate:
  assumes "r < 32" "loaded s (pc s) (drop (length (asm_buffer a)) (asm_buffer (a64_Mov a (regX r) imm)))"
  shows "a64_run 4 s = Some ((wr_x s (unat r) imm)\<lparr>pc := pc s + 16\<rparr>)"
proof -
  have r: "take_bit 5 r = r" using assms(1) by (simp add: take_bit_eq_mod mod_word_less)
  have "length (mov_words r imm) = 4" by (simp add: mov_words_def)
  then show ?thesis
    using assms(2) run_seq [of s "mov_words r imm", OF _ exec_mov_words [OF r]] by (simp add: Mov_words [OF r])
qed

text \<open>\<open>CodeGen::LiteralLdrBranch\<close> appends a jump to an arbitrary 64-bit address that works wherever the code is
  loaded and changes \<open>x17\<close> only.\<close>

lemma LiteralLdrBranch_jumps:
  assumes "asm_buffer a = words ws"
  shows "\<exists>a'. a64_LiteralLdrBranch a address = Inr a' \<and> length (asm_buffer a') = length (asm_buffer a) + 16 \<and>
    take (length (asm_buffer a)) (asm_buffer a') = asm_buffer a \<and>
    (\<forall>s. loaded s (pc s) (drop (length (asm_buffer a)) (asm_buffer a')) \<longrightarrow>
       a64_run 2 s = Some ((wr_x s 17 address)\<lparr>pc := address\<rparr>))"
  unfolding LiteralLdrBranch_eq [OF assms] using exec_literal_jump [of _ address]
  by (auto simp: assms jump_words_def simp del: words_simps) (simp_all add: jump_words_def)

section \<open>Instructions that are not relocated faithfully\<close>

text \<open>The size of a literal load is lost: \<open>ldr w\<close>, \<open>ldr x\<close> and the SIMD loads \<open>ldr s\<close> and \<open>ldr d\<close> of the same
  register number and offset are relocated to the same code, a 64-bit load into the X register.\<close>

lemma relocate_ldr_ignores_size:
  assumes "\<not> bit instr 31"
  shows "relocate_ldr_literal a instr orig_pc = relocate_ldr_literal a (instr OR 0x44000000) orig_pc"
proof -
  let ?i = "instr OR 0x44000000"
  have "field ?i 5 19 = field instr 5 19" "field ?i 0 5 = field instr 0 5"
    by (simp_all) (simp_all add: field_def)
  then have d: "decode_imm19_offset ?i = decode_imm19_offset instr" "take_bit 5 ?i = take_bit 5 instr"
    by (simp_all add: decode_offsets branch_offset_def)
  have "\<not> bit ?i 31" using assms by (simp add: bit_or_iff)
  with opc_bits [of instr] opc_bits [of ?i] assms show ?thesis
    by (auto simp: relocate_ldr_literal_def Let_def decode_rt_def bits_0_4 d ldr_tmp simp del: take_bit_or)
qed

text \<open>A conditional branch on \<open>al\<close> or \<open>nv\<close>, which always branches, is inverted to one that always branches too:
  the relocated code skips the jump to the target and falls through.\<close>

lemma inverted_always_falls_through:
  assumes "instr AND 0xFF00001E = 0x5400000E"
  shows "a64_exec instr s = Some (branch_if True (branch_offset instr 5 19) s) \<and>
    a64_exec (invert_conditional_branch instr) s = Some (branch_if True 12 s)"
proof -
  have c: "ConditionHolds s (field w 0 4) \<and> w AND 0xFF000010 = 0x54000000" if "w AND 0xFF00001E = 0x5400000E" for w
  proof -
    have b: "bit w 1" "bit w 2" "bit w 3" 
      using that by (simp_all add: and_eq_bits upt_conv_Cons) (simp_all add: eval_nat_numeral)
    have "drop_bit 1 (field w 0 4) = 7"
      using b by (simp add: u32_eq_bits upt_conv_Cons field_def bit_simps) (simp add: eval_nat_numeral)
    moreover have "field w 0 4 = 15 \<or> \<not> field w 0 4 AND 1 = 1"
      using b by (simp add: u32_eq_bits upt_conv_Cons field_def bit_simps) (simp add: eval_nat_numeral)
    ultimately show ?thesis using that by (auto simp: ConditionHolds_def Let_def and_eq_bits upt_conv_Cons)
  qed
  have i: "invert_conditional_branch instr AND 0xFF00001E = 0x5400000E"
    using assms by (simp add: and_eq_bits upt_conv_Cons bits_invert_conditional)
  have off: "branch_offset (invert_conditional_branch instr) 5 19 = 12"
    by (rule branch_offset_12) (auto simp: bits_invert_conditional)
  have t: "taken w s" if "w AND 0xFF00001E = 0x5400000E" for w
    using c [OF that] by (auto simp: taken_def and_eq_bits upt_conv_Cons)
  show ?thesis using exec_conditional c assms i t off by metis
qed

section \<open>Branches to labels\<close>

lemma b_label_new:
  assumes "asm_buffer a = words us"
  shows "a64_b_label a Label_new = (a\<lparr>asm_buffer := words (us @ [0x14000000])\<rparr>, link_to Label_new (int (4 * length us)))"
  using assms
  by (simp add: a64_b_label_def a64_LinkAndGetByteOffsetTo_def a64_pc_offset_def Label_new_def is_bound_def is_linked_def
      link_to_def a64_b_def BranchB_def UnconditionalBranchFixed_def bits_mask a64_Emit_def del: le_bytes.simps)

definition b_word :: "u32 \<Rightarrow> u32" where
  "b_word k = 0x14000000 OR take_bit 26 k"

lemma load32_words: "load32 (words (us @ w # vs)) (int (4 * length us)) = Inr w"
  using drop_words [of "length us" "us @ w # vs" "[]"]
  by (simp add: load32_def nat_mult_distrib del: le_bytes.simps)

lemma store32_words: "store32 (words (us @ w # vs)) (int (4 * length us)) v = Inr (words (us @ v # vs))"
  using drop_words [of "Suc (length us)" "us @ w # vs" "[]"]
  by (simp add: store32_def overwrite_def nat_mult_distrib add.commute del: le_bytes.simps)

lemma bind_one:
  assumes "asm_buffer a = words (us @ 0x14000000 # vs)"
  shows "a64_bind a (link_to Label_new (int (4 * length us))) =
    Inr (a\<lparr>asm_buffer := words (us @ b_word (signed_drop_bit 2 (word_of_int (int (4 * Suc (length vs))))) # vs)\<rparr>,
      bind_to Label_new (int (4 * (length us + Suc (length vs)))))"
proof -
  let ?l = "link_to Label_new (int (4 * length us))" and ?pc = "int (4 * (length us + Suc (length vs)))"
  have "a64_bind_step ?pc ?l (words (us @ 0x14000000 # vs)) =
      Inr (link_to Label_new (- 1), words (us @ b_word (signed_drop_bit 2 (word_of_int (int (4 * Suc (length vs))))) # vs))"
    unfolding a64_bind_step_def Let_def
    by (simp add: load32_words store32_words UnconditionalBranchMask_def UnconditionalBranchFixed_def bits_mask LeftShift_mask
        b_word_def del: words_simps of_nat_mult of_nat_add of_nat_Suc) (simp add: link_to_def)
  then have "a64_bind_loop ?pc ?l (words (us @ 0x14000000 # vs)) =
      Inr (link_to Label_new (- 1), words (us @ b_word (signed_drop_bit 2 (word_of_int (int (4 * Suc (length vs))))) # vs))"
    by (subst a64_bind_loop.simps, simp, subst a64_bind_loop.simps) simp
  then show ?thesis
    using assms by (simp add: a64_bind_def a64_pc_offset_def del: words_simps) (simp add: bind_to_def link_to_def)
qed

lemma field_b_word: "field (b_word k) 0 26 = take_bit 26 k"
  by (simp add: b_word_def) (simp add: field_def)

lemma branch_offset_b_word:
  assumes "m < 2 ^ 25"
  shows "branch_offset (b_word (signed_drop_bit 2 (word_of_int (int (4 * m))))) 0 26 = of_nat (4 * m)"
proof -
  have m: "take_bit 25 m = m" using assms by (simp add: take_bit_nat_eq_self)
  have "4 * m = push_bit 2 (take_bit 25 m)" by (simp add: m push_bit_eq_mult)
  then have w: "word_of_int (int (4 * m)) = (of_nat (push_bit 2 (take_bit 25 m)) :: u32)"
      "of_nat (4 * m) = (of_nat (push_bit 2 (take_bit 25 m)) :: u64)"
    by (simp_all only: of_int_of_nat_eq)
  show ?thesis
    unfolding branch_offset_def field_b_word w by (intro bit_word_eqI) (auto simp: bit_simps)
qed

lemma exec_b_word: "a64_exec (b_word k) s = Some (s\<lparr>pc := pc s + branch_offset (b_word k) 0 26\<rparr>)"
proof -
  have b: "bit (b_word k) n \<longleftrightarrow> bit (0x14000000 :: u32) n \<or> n < 26 \<and> bit k n" for n
    by (auto simp: b_word_def bit_simps)
  show ?thesis by (simp add: a64_exec_bits b)
qed

text \<open>C31. A forward branch to a label that no other branch refers to is patched when the label is bound: once the code
  is loaded anywhere, the branch lands at the label, for distances up to 128 MiB; the bytes around it are unchanged.\<close>

theorem forward_branch_lands:
  assumes "asm_buffer a = words us" "length vs < 2 ^ 25 - 1"
  shows "\<exists>a' l. (case a64_b_label a Label_new of (a, l) \<Rightarrow> a64_bind (a\<lparr>asm_buffer := asm_buffer a @ words vs\<rparr>) l) = Inr (a', l) \<and>
    is_bound l \<and> pos l = int (4 * (length us + 1 + length vs)) \<and>
    take (4 * length us) (asm_buffer a') = words us \<and> drop (4 * length us + 4) (asm_buffer a') = words vs \<and>
    (\<forall>s base. loaded s base (asm_buffer a') \<and> pc s = base + of_nat (4 * length us) \<longrightarrow>
      a64_run 1 s = Some (s\<lparr>pc := base + of_nat (4 * (length us + 1 + length vs))\<rparr>))"
proof -
  let ?w = "b_word (signed_drop_bit 2 (word_of_int (int (4 * Suc (length vs)))))"
  let ?a = "a\<lparr>asm_buffer := words (us @ ?w # vs)\<rparr>"
  let ?l = "bind_to Label_new (int (4 * (length us + Suc (length vs))))"
  have "(case a64_b_label a Label_new of (a, l) \<Rightarrow> a64_bind (a\<lparr>asm_buffer := asm_buffer a @ words vs\<rparr>) l) = Inr (?a, ?l)"
    using bind_one [of "a\<lparr>asm_buffer := words (us @ 0x14000000 # vs)\<rparr>" us vs] b_label_new [OF assms(1)]
    by (simp del: le_bytes.simps)
  moreover have "a64_run 1 s = Some (s\<lparr>pc := base + of_nat (4 * (length us + 1 + length vs))\<rparr>)"
    if "loaded s base (words (us @ ?w # vs))" "pc s = base + of_nat (4 * length us)" for s base
  proof -
    have "loaded s (pc s) (le_bytes 4 ?w)"
      using that by (simp add: loaded_append del: le_bytes.simps)
    then have "a64_step s = Some (s\<lparr>pc := pc s + of_nat (4 * Suc (length vs))\<rparr>)"
      using branch_offset_b_word [of "Suc (length vs)"] assms(2) by (simp add: step_word exec_b_word)
    then show ?thesis using that(2) by (simp add: distrib_left)
  qed
  moreover have "drop (4 * length us + 4) (words (us @ ?w # vs)) = words vs"
    using drop_words [of "Suc (length us)" "us @ ?w # vs" "[]"] by (simp add: add.commute del: words_simps)
  moreover have "take (4 * length us) (words (us @ ?w # vs)) = words us" by simp
  ultimately show ?thesis by (intro exI [of _ ?a] exI [of _ ?l]) simp
qed


section \<open>Examples\<close>

definition ex_loaded_state :: "u64 \<Rightarrow> u8 list \<Rightarrow> a64_state" where
  "ex_loaded_state p code = \<lparr>xreg = (\<lambda>r. 0), pc = p, flag_n = False, flag_z = False, flag_c = False, flag_v = False,
     memory = (\<lambda>a. if unat (a - p) < length code then code ! unat (a - p) else 0)\<rparr>"

lemma loaded_ex_loaded_state: "length code < 2 ^ 64 \<Longrightarrow> loaded (ex_loaded_state p code) p code"
proof -
  assume "length code < 2 ^ 64"
  then have "unat (of_nat i :: u64) = i" if "i < length code" for i
    using that by (simp add: unsigned_of_nat take_bit_nat_eq_self)
  then show ?thesis
    unfolding loaded_def read_mem_def ex_loaded_state_def by (intro nth_equalityI) simp_all
qed

lemma pc_ex_loaded_state [simp]: "pc (ex_loaded_state p code) = p"
  by (simp add: ex_loaded_state_def)

theorem Mov_loads_immediate_witness:
  "\<exists>s s'. a64_run 4 s = Some s' \<and> xreg s 3 = 0 \<and> xreg s' 3 = 0x123456789ABCDEF0"
proof -
  let ?c = "asm_buffer (a64_Mov (a64_new 0) (regX 3) 0x123456789ABCDEF0)"
  let ?s = "ex_loaded_state 0x4000 ?c"
  have len: "length ?c < 2 ^ 64" by (simp add: Mov_words a64_new_def mov_words_def)
  have "a64_run 4 ?s = Some ((wr_x ?s (unat (3 :: u32)) 0x123456789ABCDEF0)\<lparr>pc := pc ?s + 16\<rparr>)"
    by (rule Mov_loads_immediate [where a = "a64_new 0"])
      (simp_all add: loaded_ex_loaded_state [OF len], simp add: a64_new_def loaded_ex_loaded_state [OF len, unfolded a64_new_def])
  then show ?thesis by (intro exI [of _ ?s] exI conjI) (auto simp: wr_x_def ex_loaded_state_def)
qed

theorem forward_branch_lands_witness:
  "\<exists>(a :: a64_assembler) (l :: Label) s. pc s = 0x4000 \<and> loaded s 0x4000 (asm_buffer a) \<and> is_bound l \<and> a64_run 1 s = Some (s\<lparr>pc := 0x4008\<rparr>)"
proof -
  have "asm_buffer (a64_new 0) = words []" by (simp add: a64_new_def)
  moreover have "length [0xD503201F :: u32] < 2 ^ 25 - 1" by simp
  note lands = forward_branch_lands [OF calculation this]
  obtain a :: a64_assembler and l :: Label where
    a: "is_bound l" "drop 4 (asm_buffer a) = words [0xD503201F]" and
    run: "\<forall>s base. loaded s base (asm_buffer a) \<and> pc s = base \<longrightarrow> a64_run 1 s = Some (s\<lparr>pc := base + 8\<rparr>)"
    using lands by (elim exE conjE) (simp del: words_simps a64_run.simps One_nat_def)
  have "length (drop 4 (asm_buffer a)) = 4" unfolding a(2) by simp
  then have "loaded (ex_loaded_state 0x4000 (asm_buffer a)) 0x4000 (asm_buffer a)"
    by (simp add: loaded_ex_loaded_state)
  with a(1) run show ?thesis by (intro exI [of _ a] exI [of _ l] exI [of _ "ex_loaded_state 0x4000 (asm_buffer a)"]) simp
qed

end
