(* ===== verification/Arm64Trampoline.thy ===== *)
theory Arm64Trampoline
  imports Arm64Properties
begin

text \<open>
  The trampoline of \<open>source/TrampolineBridge/Trampoline/arm64/trampoline-arm64.cc\<close> that is written over the start of
  a hooked function: \<open>GenerateNormalTrampolineBuffer\<close>, and the proof that running it reaches the target.
\<close>

section \<open>Addresses by adrp and add\<close>

definition adrp_word :: "u64 \<Rightarrow> u32 \<Rightarrow> u32" where
  "adrp_word p r = 0x90000000 OR take_bit 5 r OR push_bit 29 (take_bit 2 (ucast p)) OR push_bit 5 (take_bit 19 (ucast (drop_bit 2 p)))"

definition add_word :: "u64 \<Rightarrow> u32 \<Rightarrow> u32" where
  "add_word k r = 0x91000000 OR take_bit 5 r OR push_bit 5 (take_bit 5 r) OR push_bit 10 (take_bit 12 (ucast k))"

lemma AdrpAdd_words:
  assumes "take_bit 5 r = r"
  shows "a64_AdrpAdd a (regX r) from to = Inr (a\<lparr>asm_buffer := asm_buffer a @
     words [adrp_word (signed_drop_bit 12 (ALIGN_FLOOR to 0x1000 - ALIGN_FLOOR from 0x1000)) r, add_word (to mod 0x1000) r]\<rparr>)"
proof -
  have u: "ucast (push_bit n (take_bit m (x :: u64))) = (push_bit n (take_bit m (ucast x)) :: u32)" for n m x
    by (rule bit_word_eqI) (auto simp: bit_simps)
  have b: "bits x 0 (Suc 0) = take_bit 2 x" "bits x 2 20 = take_bit 19 (drop_bit 2 x)" for x :: u64
    by (simp_all add: bits_mask numeral_2_eq_2)
  show ?thesis
    by (simp add: a64_AdrpAdd_def a64_adrp_def Let_def a64_add_def a64_AddSubImmediate_def LeftShift_mask u b
     IsImmediate_def Operand_imm_def Is64Bits_def regX_def enc_Rd_def enc_Rn_def kRdShift_def kRnShift_def ADRP_def
     AddSubImmediateOp_def a64_Emit_def adrp_word_def add_word_def assms reg_Is_def PCRelAddressingFixed_def
     AddSubOpSub_def AddSubImmediateFixed_def LeftShift_def del: le_bytes.simps)
qed

lemma bits_adrp_word: "bit (adrp_word p r) n \<longleftrightarrow> bit (0x90000000 :: u32) n \<or> n < 5 \<and> bit r n \<or>
    29 \<le> n \<and> n < 31 \<and> bit p (n - 29) \<or> 5 \<le> n \<and> n < 24 \<and> bit p (n - 3)"
proof -
  have e: "Suc (Suc (n - 5)) = n - 3" if "5 \<le> n" using that by simp
  show ?thesis
    by (cases "5 \<le> n") (auto simp: adrp_word_def bit_simps e dest: bit_imp_le_length)
qed

lemma fields_adrp_word:
  "field (adrp_word p r) 0 5 = take_bit 5 r" "field (adrp_word p r) 29 2 = take_bit 2 (ucast p)"
  "field (adrp_word p r) 5 19 = take_bit 19 (ucast (drop_bit 2 p))"
  by (simp_all add: adrp_word_def) (simp_all add: field_def)

lemma adr_offset_adrp_word: "adr_offset (adrp_word p r) = signed_take_bit 20 p"
proof -
  have "(push_bit 2 (ucast (take_bit 19 (ucast (drop_bit 2 p)) :: u32)) :: u64) OR ucast (take_bit 2 (ucast p) :: u32) = take_bit 21 (p :: u64)"
  proof (rule bit_word_eqI)
    fix n assume "n < LENGTH(64)"
    have e: "Suc (Suc (n - 2)) = n" if "2 \<le> n" using that by simp
    show "bit ((push_bit 2 (ucast (take_bit 19 (ucast (drop_bit 2 p)) :: u32)) :: u64) OR ucast (take_bit 2 (ucast p) :: u32)) n = bit (take_bit 21 p) n"
      by (cases "2 \<le> n") (auto simp: bit_simps e)
  qed
  then show ?thesis by (simp add: adr_offset_def fields_adrp_word signed_take_bit_take_bit)
qed

lemma exec_adrp_word: "a64_exec (adrp_word p r) s =
    Some (next_pc (wr_x s (unat (take_bit 5 r)) ((pc s AND NOT (mask 12)) + push_bit 12 (signed_take_bit 20 p))))"
  by (simp add: a64_exec_bits bits_adrp_word adr_offset_adrp_word fields_adrp_word)

lemma exec_add_word: "take_bit 5 r \<noteq> 31 \<Longrightarrow> a64_exec (add_word k r) s =
    Some (next_pc (wr_x s (unat (take_bit 5 r)) (rd_x s (unat (take_bit 5 r)) + take_bit 12 k)))"
proof -
  assume r: "take_bit 5 r \<noteq> 31"
  have b: "bit (add_word k r) n \<longleftrightarrow> bit (0x91000000 :: u32) n \<or> n < 5 \<and> bit r n \<or> 5 \<le> n \<and> n < 10 \<and> bit r (n - 5) \<or>
      10 \<le> n \<and> n < 22 \<and> bit k (n - 10)" for n
    by (auto simp: add_word_def bit_simps dest: bit_imp_le_length)
  have f: "field (add_word k r) 0 5 = take_bit 5 r" "field (add_word k r) 5 5 = take_bit 5 r"
      "field (add_word k r) 10 12 = take_bit 12 (ucast k)"
    by (simp_all add: add_word_def) (simp_all add: field_def)
  have k: "ucast (take_bit 12 (ucast k) :: u32) = take_bit 12 k"
    by (rule bit_word_eqI) (auto simp: bit_simps)
  have "unat (take_bit 5 r) \<noteq> 31" using r word_unat_eq_iff [of "take_bit 5 r" 31] by simp
  then show ?thesis by (simp add: a64_exec_bits b f k)
qed

definition llabs :: "u64 \<Rightarrow> u64" where
  "llabs x = (if sint x < 0 then - x else x)"

definition a64_GenerateNormalTrampolineBuffer :: "u64 \<Rightarrow> u64 \<Rightarrow> u8 list res" where
  "a64_GenerateNormalTrampolineBuffer from to =
    (let a = a64_new from; distance = llabs (from - to); adrp_range = push_bit (2 + 19 + 12 - 1) 1
     in rbind (if distance < adrp_range
               then rbind (a64_AdrpAdd a TMP_REG_0 from to) (\<lambda>a. Inr (a64_br a TMP_REG_0))
               else a64_LiteralLdrBranch a to) (\<lambda>a.
        Inr (asm_buffer a)))"

lemma ALIGN_FLOOR_page: "ALIGN_FLOOR x 0x1000 = x AND NOT (mask 12)" for x :: u64
  by (simp add: ALIGN_FLOOR_def mask_eq_decr_exp)

lemma page_split: "x = (x AND NOT (mask 12)) + take_bit 12 x" for x :: u64
proof -
  have "(x AND NOT (mask 12)) + take_bit 12 x = (x AND NOT (mask 12)) OR take_bit 12 x"
    by (rule disjunctive_add) (auto simp: bit_simps)
  also have "\<dots> = x" by (rule bit_word_eqI) (auto simp: bit_simps)
  finally show ?thesis by simp
qed

lemma page_diff_bits: "n < 12 \<Longrightarrow> \<not> bit ((x AND NOT (mask 12)) - (y AND NOT (mask 12))) n" for x y :: u64
proof -
  have "z AND NOT (mask 12) = 4096 * drop_bit 12 z" for z :: u64
  proof -
    have "z AND NOT (mask 12) = push_bit 12 (drop_bit 12 z)" by (rule bit_word_eqI) (auto simp: bit_simps)
    then show ?thesis by (simp add: push_bit_eq_mult)
  qed
  then have "(x AND NOT (mask 12)) - (y AND NOT (mask 12)) = push_bit 12 (drop_bit 12 x - drop_bit 12 y)"
    by (simp add: push_bit_eq_mult right_diff_distrib)
  then show "n < 12 \<Longrightarrow> \<not> bit ((x AND NOT (mask 12)) - (y AND NOT (mask 12))) n" by (simp add: bit_push_bit_iff)
qed

lemma adrp_distance:
  assumes "\<And>n. n < 12 \<Longrightarrow> \<not> bit d n"
  shows "push_bit 12 (signed_take_bit 20 (signed_drop_bit 12 d)) = signed_take_bit 32 (d :: u64)"
proof (rule bit_word_eqI)
  fix n assume "n < LENGTH(64)"
  then show "bit (push_bit 12 (signed_take_bit 20 (signed_drop_bit 12 d))) n = bit (signed_take_bit 32 d) n"
    using assms [of n] by (cases "n < 12") (auto simp: bit_simps min_def)
qed

lemma run_AdrpAdd_br:
  assumes "loaded s (pc s) (words [adrp_word (signed_drop_bit 12 (ALIGN_FLOOR to 0x1000 - ALIGN_FLOOR (pc s) 0x1000)) 17,
      add_word (to mod 0x1000) 17, 0xD61F0220])"
  shows "a64_run 3 s = Some (let t = to - (ALIGN_FLOOR to 0x1000 - ALIGN_FLOOR (pc s) 0x1000) +
       signed_take_bit 32 (ALIGN_FLOOR to 0x1000 - ALIGN_FLOOR (pc s) 0x1000) in (wr_x s 17 t)\<lparr>pc := t\<rparr>)"
proof -
  let ?d = "ALIGN_FLOOR to 0x1000 - ALIGN_FLOOR (pc s) 0x1000"
  have m: "to mod 0x1000 = take_bit 12 to" by (simp add: take_bit_eq_mod)
  have d: "push_bit 12 (signed_take_bit 20 (signed_drop_bit 12 ?d)) = signed_take_bit 32 ?d"
    by (rule adrp_distance) (simp add: ALIGN_FLOOR_page page_diff_bits)
  have t: "(pc s AND NOT (mask 12)) + signed_take_bit 32 ?d + take_bit 12 to = to - ?d + signed_take_bit 32 ?d"
    using page_split [of to] by (simp add: ALIGN_FLOOR_page algebra_simps)
  let ?ws = "[adrp_word (signed_drop_bit 12 ?d) 17, add_word (to mod 0x1000) 17, 0xD61F0220]"
  let ?t = "to - ?d + signed_take_bit 32 ?d"
  have "exec_seq ?ws s = Some ((wr_x s 17 ?t)\<lparr>pc := ?t\<rparr>)"
    by (simp add: exec_adrp_word exec_add_word exec_br_tmp d m t) (simp add: wr_x_def next_pc_def t)
  from run_seq [OF assms this] show ?thesis by (simp add: Let_def numeral_3_eq_3)
qed

lemma llabs_less:
  assumes "llabs x < 2 ^ 32"
  shows "- (2 ^ 32) < sint x" "sint x < 2 ^ 32"
proof -
  have "uint (llabs x) < 2 ^ 32" using assms by (simp add: word_less_def)
  moreover have "\<bar>sint x\<bar> \<le> uint (llabs x)"
  proof -
    have k: "uint (word_of_int k :: u64) = k" if "0 \<le> k" "k \<le> 2 ^ 63" for k
      using that by (simp add: unsigned_of_int take_bit_int_eq_self)
    have "- (2 ^ 63) \<le> sint x" "sint x < 2 ^ 63" using sint_greater_eq [of x] sint_less [of x] by simp_all
    then show ?thesis using k [of "sint x"] k [of "- sint x"] by (auto simp: llabs_def)
  qed
  ultimately show "- (2 ^ 32) < sint x" "sint x < 2 ^ 32" by auto
qed

lemma page_distance:
  fixes src dst :: u64
  assumes "llabs (src - dst) < 2 ^ 32" "ALIGN_FLOOR dst 0x1000 - ALIGN_FLOOR src 0x1000 \<noteq> 2 ^ 32"
  shows "signed_take_bit 32 (ALIGN_FLOOR dst 0x1000 - ALIGN_FLOOR src 0x1000) = ALIGN_FLOOR dst 0x1000 - ALIGN_FLOOR src 0x1000"
proof -
  define d where "d = sint (src - dst)"
  define e where "e = uint (take_bit 12 src) - uint (take_bit 12 dst) - d"
  have d: "- (2 ^ 32) < d" "d < 2 ^ 32" using llabs_less [OF assms(1)] by (simp_all add: d_def)
  have u: "uint (take_bit 12 x) < 4096" "0 \<le> uint (take_bit 12 x)" for x :: u64
    using take_bit_int_less_exp [of 12] by (simp_all add: unsigned_take_bit_eq)
  let ?D = "ALIGN_FLOOR dst 0x1000 - ALIGN_FLOOR src 0x1000"
  have "?D = (dst - take_bit 12 dst) - (src - take_bit 12 src)"
    using page_split [of dst] page_split [of src] by (simp add: ALIGN_FLOOR_page algebra_simps)
  also have "\<dots> = word_of_int e"
    by (simp add: e_def d_def)
  finally have D: "?D = word_of_int e" .
  have "take_bit 12 ?D = 0"
    by (rule bit_word_eqI) (auto simp: bit_take_bit_iff ALIGN_FLOOR_page page_diff_bits)
  then have "uint (word_of_int (take_bit 12 e) :: u64) = 0" unfolding D by (simp add: take_bit_of_int)
  then have "e mod 4096 = 0" by (simp add: unsigned_of_int take_bit_eq_mod)
  then obtain m where m: "e = 4096 * m" by auto
  have "- (2 ^ 32) - 4096 < e" "e < 2 ^ 32 + 4096"
    using d u [of dst] u [of src] unfolding e_def by linarith+
  then have "- (2 ^ 32) \<le> e" "e \<le> 2 ^ 32" unfolding m by simp_all
  moreover have "e \<noteq> 2 ^ 32" using assms(2) D by auto
  ultimately have "signed_take_bit 32 e = e" by (intro signed_take_bit_int_eq_self) auto
  then show ?thesis by (simp add: D signed_take_bit_of_int)
qed


lemma trampoline_jumps:
  assumes "llabs (src - dst) < 2 ^ 32 \<longrightarrow> ALIGN_FLOOR dst 0x1000 - ALIGN_FLOOR src 0x1000 \<noteq> 2 ^ 32"
  shows "\<exists>code. a64_GenerateNormalTrampolineBuffer src dst = Inr code \<and>
    length code = (if llabs (src - dst) < 2 ^ 32 then 12 else 16) \<and>
    (\<forall>s. pc s = src \<and> loaded s src code \<longrightarrow> (\<exists>k. a64_run k s = Some ((wr_x s 17 dst)\<lparr>pc := dst\<rparr>)))"
proof (cases "llabs (src - dst) < 2 ^ 32")
  case True
  let ?d = "ALIGN_FLOOR dst 0x1000 - ALIGN_FLOOR src 0x1000"
  let ?ws = "[adrp_word (signed_drop_bit 12 ?d) 17, add_word (dst mod 0x1000) 17, 0xD61F0220]"
  have "a64_GenerateNormalTrampolineBuffer src dst = Inr (words ?ws)"
    using True AdrpAdd_words [of 17 "a64_new src" src dst]
    by (simp add: a64_GenerateNormalTrampolineBuffer_def TMP_REG_0_def [symmetric] br_tmp del: le_bytes.simps)
      (simp add: a64_Emit_def a64_new_def)
  moreover have "signed_take_bit 32 ?d = ?d" using page_distance True assms by blast
  then have "a64_run 3 s = Some ((wr_x s 17 dst)\<lparr>pc := dst\<rparr>)" if "pc s = src" "loaded s src (words ?ws)" for s
    using run_AdrpAdd_br [of s dst] that by (simp add: Let_def)
  moreover have "length (words ?ws) = 12" by (simp del: words_simps)
  ultimately show ?thesis using True by metis
next
  case False
  have "a64_GenerateNormalTrampolineBuffer src dst = Inr (words (jump_words dst))"
    using False LiteralLdrBranch_eq [of "a64_new src" "[]" dst]
    by (simp add: a64_GenerateNormalTrampolineBuffer_def) (simp add: a64_new_def)
  then show ?thesis
    using False exec_literal_jump [of _ dst] by (auto simp: jump_words_def simp del: words_simps)
qed



end
