(* ===== verification/HookEngine.thy ===== *)
theory HookEngine
  imports CodeBuilder Arm64Trampoline
begin

text \<open>
  Hooking on ARM64: the routing of \<open>InterceptRouting.cpp\<close> and
  \<open>function-inline-replace.cc\<close>, \<open>DobbyHook\<close> and \<open>DobbyDestroy\<close>. The memory of the process is a function; the near branch
  plugin is off, as it is unless \<open>dobby_enable_near_branch_trampoline\<close> is called.
\<close>

text \<open>The rest of \<open>GenRelocateCodeAndBranch\<close>: the code is read from the function, relocated and placed.\<close>

definition GenRelocateCodeAndBranch :: "hook_env \<Rightarrow> u64 \<Rightarrow> MemoryChunk \<Rightarrow> dobby \<Rightarrow> (MemoryChunk \<times> dobby) res" where
  "GenRelocateCodeAndBranch env buf origin st =
    (let sz = unat (raw_instruction_size origin) in
     rbind (a64_relocate_code (peek (db_memory st) buf (sz + 4)) (raw_instruction_start origin) sz) (\<lambda>a.
     rbind (FinalizeFromTurboAssembler env (asm_buffer a) 0 st) (\<lambda>(code, st).
     case code of
       None \<Rightarrow> Inl NullPointer
     | Some c \<Rightarrow> Inr (init_region_range (raw_instruction_start c) (raw_instruction_size c), st))))"

section \<open>Routing\<close>

definition GenerateTrampolineBuffer :: "u64 \<Rightarrow> u64 \<Rightarrow> u8 list res" where
  "GenerateTrampolineBuffer src dst = a64_GenerateNormalTrampolineBuffer src dst"

text \<open>\<open>chunk_buffer\<close> has 64 bytes.\<close>

definition GenerateRelocatedCode :: "hook_env \<Rightarrow> nat \<Rightarrow> HookEntry \<Rightarrow> dobby \<Rightarrow> (bool \<times> HookEntry \<times> dobby) res" where
  "GenerateRelocatedCode env tramp_size ent st =
    (let origin = FinalizeFromAddress (he_address ent) (of_nat tramp_size) in
     rbind (GenRelocateCodeAndBranch env (he_address ent) origin st) (\<lambda>(relocated, st).
     if raw_instruction_start relocated = 0 then Inr (False, ent, st)
     else let ent = ent\<lparr>he_relocated := raw_instruction_start relocated\<rparr> in
       if tramp_size > 64 then Inl OutOfBounds
       else Inr (True, ent\<lparr>he_origin_buffer := peek (db_memory st) (raw_instruction_start origin) tramp_size, he_origin_chunk := origin\<rparr>, st)))"

text \<open>\<open>FunctionInlineReplaceRouting::DispatchRouting\<close> with \<open>BuildReplaceRouting\<close>; the result of \<open>GenerateRelocatedCode\<close> is ignored.\<close>

definition DispatchRouting :: "hook_env \<Rightarrow> u64 \<Rightarrow> HookEntry \<Rightarrow> dobby \<Rightarrow> (u8 list \<times> HookEntry \<times> dobby) res" where
  "DispatchRouting env replace_call ent st =
    (let ent = ent\<lparr>he_trampoline_target := replace_call\<rparr> in
     rbind (GenerateTrampolineBuffer (he_address ent) (he_trampoline_target ent)) (\<lambda>trampoline.
     rbind (GenerateRelocatedCode env (length trampoline) ent st) (\<lambda>(_, ent, st).
     Inr (trampoline, ent, st))))"

section \<open>DobbyHook and DobbyDestroy\<close>

text \<open>The status, the value stored in \<open>*origin_call\<close> if any, and the new state.\<close>

definition DobbyHook :: "hook_env \<Rightarrow> u64 \<Rightarrow> u64 \<Rightarrow> dobby \<Rightarrow> (int \<times> u64 option \<times> dobby) run" where
  "DobbyHook env address replace_call st =
    (if address = 0 then Some (Inr (RS_FAILED, None, st))
     else let st = st\<lparr>db_interceptor := SharedInstance (hv_new_instance env) (db_interceptor st)\<rparr> in
       run_bind (map_option Inr (FindHookEntry address (db_interceptor st))) (\<lambda>found.
       if (case found of None \<Rightarrow> False | Some ent \<Rightarrow> he_trampoline_target ent = replace_call)
       then Some (Inr (RS_FAILED, None, st))
       else
         run_bind (map_option Inr (GetHookEntryCount (db_interceptor st))) (\<lambda>count.
         let ent = new_HookEntry\<lparr>he_id := count, he_type := kFunctionInlineHook, he_address := address, he_handler := replace_call\<rparr> in
         run_bind (Some (DispatchRouting env replace_call ent st)) (\<lambda>(trampoline, ent, st).
         let st = st\<lparr>db_interceptor := AddHookEntry (hv_new_node env) ent (db_interceptor st)\<rparr>;
             origin_call = he_relocated ent in
         run_bind (Some (InterceptRouting_Active env address trampoline st)) (\<lambda>st.
         Some (Inr (RS_SUCCESS, Some origin_call, st)))))))"

text \<open>Not on 32-bit ARM, where the address is decremented first.\<close>

definition DobbyDestroy :: "hook_env \<Rightarrow> u64 \<Rightarrow> dobby \<Rightarrow> (int \<times> dobby) run" where
  "DobbyDestroy env address st =
    (let st = st\<lparr>db_interceptor := SharedInstance (hv_new_instance env) (db_interceptor st)\<rparr> in
     run_bind (map_option Inr (FindHookEntry address (db_interceptor st))) (\<lambda>found.
     case found of
       None \<Rightarrow> Some (Inr (RS_FAILED, st))
     | Some ent \<Rightarrow>
       let sz = unat (chunk_length (he_origin_chunk ent)) in
       if sz > length (he_origin_buffer ent) then Some (Inl OutOfBounds)
       else
         run_bind (Some (CodePatch (hv_page_size env) address (take sz (he_origin_buffer ent)) (db_memory st))) (\<lambda>m.
         run_bind (map_option Inr (RemoveHookEntry address (db_interceptor st))) (\<lambda>ic.
         Some (Inr (RS_SUCCESS, st\<lparr>db_memory := m, db_interceptor := ic\<rparr>))))))"

section \<open>A hook that succeeds\<close>

text \<open>
  The conditions under which a function can be hooked: the trampoline and the relocated code can be generated, memory is found
  for the latter apart from the function, and neither patch crosses a page.
\<close>

definition hook_plan :: "hook_env \<Rightarrow> u64 \<Rightarrow> u64 \<Rightarrow> dobby \<Rightarrow> u8 list \<Rightarrow> a64_assembler \<Rightarrow> MemoryChunk \<Rightarrow> arena \<Rightarrow> bool" where
  "hook_plan env address replace_call st trampoline a c arena' \<longleftrightarrow>
     address \<noteq> 0 \<and> a64_GenerateNormalTrampolineBuffer address replace_call = Inr trampoline \<and>
     a64_relocate_code (peek (db_memory st) address (length trampoline + 4)) address (length trampoline) = Inr a \<and>
     MemoryArena_AllocateCodeChunk (hv_mmap env) (hv_page_size env) (of_nat (length (asm_buffer a)) + 4) (db_arena st) = (Some c, arena') \<and>
     chunk_address c \<noteq> 0 \<and> apart (chunk_address c) (length (asm_buffer a)) address (length trampoline) \<and>
     in_page (hv_page_size env) (chunk_address c) (length (asm_buffer a)) \<and> in_page (hv_page_size env) address (length trampoline)"

definition hooked_with :: "HookEntry list \<Rightarrow> u64 \<Rightarrow> u64 \<Rightarrow> bool" where
  "hooked_with es address replace_call \<longleftrightarrow>
    (case find (\<lambda>e. he_address e = address) es of None \<Rightarrow> False | Some e \<Rightarrow> he_trampoline_target e = replace_call)"

definition hook_entry :: "HookEntry list \<Rightarrow> u64 \<Rightarrow> u64 \<Rightarrow> dobby \<Rightarrow> u8 list \<Rightarrow> MemoryChunk \<Rightarrow> HookEntry" where
  "hook_entry es address replace_call st trampoline c =
    \<lparr>he_id = int (length es), he_type = kFunctionInlineHook, he_address = address, he_trampoline_target = replace_call, he_handler = replace_call,
     he_relocated = chunk_address c, he_origin_chunk = \<lparr>chunk_address = address, chunk_length = of_nat (length trampoline)\<rparr>,
     he_origin_buffer = peek (db_memory st) address (length trampoline)\<rparr>"

definition hooked_state :: "hook_env \<Rightarrow> HookEntry \<Rightarrow> u8 list \<Rightarrow> u8 list \<Rightarrow> MemoryChunk \<Rightarrow> arena \<Rightarrow> dobby \<Rightarrow> dobby" where
  "hooked_state env e trampoline code c arena' st =
    \<lparr>db_memory = poke (poke (db_memory st) (chunk_address c) code) (he_address e) trampoline, db_arena = arena',
     db_interceptor = AddHookEntry (hv_new_node env) e (SharedInstance (hv_new_instance env) (db_interceptor st))\<rparr>"

lemma trampoline_length:
  assumes "a64_GenerateNormalTrampolineBuffer src dst = Inr code"
  shows "length code = 12 \<or> length code = 16"
proof (cases "llabs (src - dst) < 2 ^ 32")
  case True
  then show ?thesis using assms AdrpAdd_words [of 17 "a64_new src" src dst]
    by (simp add: a64_GenerateNormalTrampolineBuffer_def TMP_REG_0_def [symmetric] br_tmp del: le_bytes.simps)
      (auto simp: a64_Emit_def a64_new_def)
next
  case False
  then show ?thesis using assms LiteralLdrBranch_eq [of "a64_new src" "[]" dst]
    by (auto simp: a64_GenerateNormalTrampolineBuffer_def a64_new_def jump_words_def)
qed

lemma DobbyHook_eq:
  assumes plan: "hook_plan env address replace_call st trampoline a c arena'" and ready: "registry_ready env st es"
    and new: "\<not> hooked_with es address replace_call"
  shows "DobbyHook env address replace_call st = Some (Inr (RS_SUCCESS, Some (chunk_address c),
    hooked_state env (hook_entry es address replace_call st trampoline c) trampoline (asm_buffer a) c arena' st))"
proof -
  define ic where "ic = SharedInstance (hv_new_instance env) (db_interceptor st)"
  have ic: "ic_holds ic es" using ready by (simp add: registry_ready_def ic_def Let_def)
  have len: "length trampoline \<le> 64" "unat (of_nat (length trampoline) :: u64) = length trampoline"
    using trampoline_length [of address replace_call trampoline] plan by (auto simp: hook_plan_def unsigned_of_nat take_bit_nat_eq_self)
  have orig: "peek (poke (db_memory st) (chunk_address c) (asm_buffer a)) address (length trampoline) = peek (db_memory st) address (length trampoline)"
    using plan by (simp add: hook_plan_def peek_poke_apart)
  have fin: "FinalizeFromTurboAssembler env (asm_buffer a) 0 (st\<lparr>db_interceptor := ic\<rparr>) =
      Inr (Some c, st\<lparr>db_interceptor := ic, db_arena := arena', db_memory := poke (db_memory st) (chunk_address c) (asm_buffer a)\<rparr>)"
    using plan by (simp add: hook_plan_def FinalizeFromTurboAssembler_def raw_instruction_start_def CodePatch_in_page Let_def)
  show ?thesis
    using plan len new interceptor.lookup_holds [OF ic, of address] interceptor.count_holds [OF ic]
    by (simp add: DobbyHook_def hook_plan_def ic_def [symmetric] hooked_with_def DispatchRouting_def GenerateTrampolineBuffer_def
        GenerateRelocatedCode_def GenRelocateCodeAndBranch_def FinalizeFromAddress_def init_region_range_def raw_instruction_start_def
        raw_instruction_size_def new_HookEntry_def fin orig InterceptRouting_Active_def CodePatch_in_page hooked_state_def hook_entry_def Let_def)
qed

section \<open>Properties\<close>

lemma loaded_peek: "loaded s a bs \<longleftrightarrow> peek (memory s) a (length bs) = bs"
  by (simp add: loaded_def read_mem_def peek_def)

lemma hooked_memory:
  assumes "hook_plan env address replace_call st trampoline a c arena'" "he_address e = address" "memory s = db_memory (hooked_state env e trampoline (asm_buffer a) c arena' st)"
  shows "loaded s address trampoline" "loaded s (chunk_address c) (asm_buffer a)"
proof -
  have ap: "apart (chunk_address c) (length (asm_buffer a)) address (length trampoline)" using assms(1) by (simp add: hook_plan_def)
  then have len: "length trampoline < 2 ^ 64" "length (asm_buffer a) < 2 ^ 64"
    using assms(1) trampoline_length [of address replace_call trampoline] by (auto simp: apart_def hook_plan_def)
  show "loaded s address trampoline" using assms(2,3) peek_poke [OF len(1)] by (simp add: loaded_peek hooked_state_def)
  show "loaded s (chunk_address c) (asm_buffer a)"
    using assms(2,3) peek_poke [OF len(2)] peek_poke_apart [of address trampoline "chunk_address c" "length (asm_buffer a)"] ap
    by (simp add: loaded_peek hooked_state_def apart_sym)
qed



text \<open>
  C5. \<open>DobbyDestroy\<close> undoes \<open>DobbyHook\<close>: it returns success, every byte of the function is as it was before, only the place of the
  relocated code still differs, and the registry answers every lookup as before the hook.
\<close>

theorem destroy_undoes_hook:
  assumes "hook_plan env address replace_call st trampoline a c arena'" "registry_ready env st es" "\<not> hooked_with es address replace_call"
    and "DobbyHook env address replace_call st = Some (Inr (r, o', st'))"
  shows "\<exists>st''. DobbyDestroy env address st' = Some (Inr (RS_SUCCESS, st'')) \<and>
    db_memory st'' = poke (db_memory st) (chunk_address c) (asm_buffer a) \<and> ic_holds (db_interceptor st'') es"
proof -
  let ?e = "hook_entry es address replace_call st trampoline c"
  define ic where "ic = SharedInstance (hv_new_instance env) (db_interceptor st)"
  have ic: "ic_holds ic es" "ic_unused (hv_new_node env) ic" using assms(2) by (simp_all add: registry_ready_def ic_def Let_def)
  have e: "he_address ?e = address" by (simp add: hook_entry_def)
  have st': "st' = hooked_state env ?e trampoline (asm_buffer a) c arena' st" using DobbyHook_eq [OF assms(1-3)] assms(4) by simp
  define ic1 where "ic1 = AddHookEntry (hv_new_node env) ?e ic"
  have ic1: "db_interceptor st' = ic1" by (simp add: st' hooked_state_def ic1_def ic_def)
  have "ic_holds ic1 (?e # es)" unfolding ic1_def by (rule interceptor.add_holds [OF ic])
  then have shared: "SharedInstance p ic1 = ic1" for p by (auto simp: ic_holds_def registry_def SharedInstance_def)
  have found: "FindHookEntry address ic1 = Some (Some ?e)"
    unfolding ic1_def using interceptor.lookup_add [OF ic, of address ?e] by (simp add: e)
  obtain ic2 where ic2: "RemoveHookEntry address ic1 = Some ic2" "ic_holds ic2 es"
    unfolding ic1_def using interceptor.delete_add [OF ic, of ?e] by (auto simp: e)
  have len: "length trampoline < 2 ^ 64" "unat (of_nat (length trampoline) :: u64) = length trampoline"
    using trampoline_length [of address replace_call trampoline] assms(1) by (auto simp: hook_plan_def unsigned_of_nat take_bit_nat_eq_self)
  let ?m = "poke (db_memory st) (chunk_address c) (asm_buffer a)"
  have "peek (db_memory st) address (length trampoline) = peek ?m address (length trampoline)"
    using assms(1) by (simp add: hook_plan_def peek_poke_apart)
  then have "poke (poke ?m address trampoline) address (peek (db_memory st) address (length trampoline)) = ?m"
    using poke_peek [OF len(1)] by (simp add: poke_poke)
  then show ?thesis
    using assms(1) found ic2 len(2)
    by (simp add: DobbyDestroy_def shared ic1 hook_entry_def [of es] hook_plan_def CodePatch_in_page Let_def)
      (simp add: st' hooked_state_def hook_entry_def)
qed

section \<open>An example\<close>

text \<open>A function at \<open>0x4000\<close> that begins with \<open>cbz x0, #8; bl #0x100; nop; nop\<close>.\<close>

definition demo_words :: "u8 list" where
  "demo_words = words [0xB4000040, 0x94000040, 0xD503201F, 0xD503201F]"

definition demo_dobby :: dobby where
  "demo_dobby = \<lparr>db_memory = (\<lambda>x. demo_words ! unat (x AND 15)), db_arena = None,
     db_interceptor = \<lparr>ic_head = 0, ic_links = \<lparr>nxt = (\<lambda>_. 0), prv = (\<lambda>_. 0)\<rparr>, ic_entry = (\<lambda>_. new_HookEntry)\<rparr>\<rparr>"

definition demo_hook_env :: hook_env where
  "demo_hook_env = \<lparr>hv_mmap = (\<lambda>_ _ _ _. Some 0x10000), hv_page_size = 0x1000, hv_new_instance = 0x900, hv_new_node = 0x980\<rparr>"

definition demo_trampoline :: "u8 list" where
  "demo_trampoline = [17, 26, 9, 176, 49, 226, 25, 145, 32, 2, 31, 214]"

definition demo_code :: "u8 list" where
  "demo_code = words [0xB5000060, 0x58000131, 0xD61F0220, 0x58000131, 0xD63F0220, 0xD503201F,
     0x58000051, 0xD61F0220, 0x400C, 0, 0x4008, 0, 0x4104, 0]"

abbreviation demo_chunk :: MemoryChunk where
  "demo_chunk \<equiv> \<lparr>chunk_address = 0x10000, chunk_length = 60\<rparr>"

abbreviation demo_pages :: arena where
  "demo_pages \<equiv> Some [\<lparr>page = \<lparr>chunk_address = 0x10000, chunk_length = 0x1000\<rparr>, page_cursor = 0x1003C,
     page_permission = kReadExecute, page_chunk_list = [demo_chunk]\<rparr>]"

lemma demo_peek: "peek (db_memory demo_dobby) 0x4000 16 = demo_words"
  by code_simp

lemma demo_relocated: "map_sum id asm_buffer (a64_relocate_code demo_words 0x4000 12) = Inr demo_code"
  by code_simp

lemma demo_trampoline: "a64_GenerateNormalTrampolineBuffer 0x4000 0x12345678 = Inr demo_trampoline"
  by code_simp

lemma demo_alloc: "MemoryArena_AllocateCodeChunk (\<lambda>_ _ _ _. Some 0x10000) 0x1000 60 None = (Some demo_chunk, demo_pages)"
  by (simp add: MemoryArena_AllocateCodeChunk_def MemoryArena_AllocateChunk_def OSMemory_Allocate_def push_chunk_def new_page_def Let_def)

lemma demo_plan:
  "\<exists>a. asm_buffer a = demo_code \<and> hook_plan demo_hook_env 0x4000 0x12345678 demo_dobby demo_trampoline a demo_chunk demo_pages"
proof -
  obtain a where a: "a64_relocate_code demo_words 0x4000 12 = Inr a" "asm_buffer a = demo_code"
    using demo_relocated by (cases "a64_relocate_code demo_words 0x4000 12") auto
  have len: "length demo_trampoline = 12" "length demo_code = 56" by (simp_all add: demo_trampoline_def demo_code_def)
  have al: "ALIGN_FLOOR 0x4000 0x1000 = (0x4000 :: u64)" "ALIGN_FLOOR 0x10000 0x1000 = (0x10000 :: u64)" by code_simp+
  have "hook_plan demo_hook_env 0x4000 0x12345678 demo_dobby demo_trampoline a demo_chunk demo_pages"
    using demo_peek a demo_alloc
    by (simp add: hook_plan_def demo_trampoline len demo_hook_env_def apart_def in_page_def al) (simp add: demo_dobby_def)
  with a(2) show ?thesis by blast
qed

lemma demo_ready: "registry_ready demo_hook_env demo_dobby []" "\<not> hooked_with [] a r"
  by (rule fresh_registry_ready) (simp_all add: demo_dobby_def demo_hook_env_def hooked_with_def)


theorem destroy_undoes_hook_witness:
  "\<exists>st' st''. DobbyHook demo_hook_env 0x4000 0x12345678 demo_dobby = Some (Inr (RS_SUCCESS, Some 0x10000, st')) \<and>
    DobbyDestroy demo_hook_env 0x4000 st' = Some (Inr (RS_SUCCESS, st'')) \<and>
    db_memory st'' = poke (db_memory demo_dobby) 0x10000 demo_code \<and> ic_holds (db_interceptor st'') []"
proof -
  obtain a where a: "asm_buffer a = demo_code" "hook_plan demo_hook_env 0x4000 0x12345678 demo_dobby demo_trampoline a demo_chunk demo_pages"
    using demo_plan by blast
  from DobbyHook_eq [OF a(2) demo_ready] destroy_undoes_hook [OF a(2) demo_ready] a(1) show ?thesis by fastforce
qed


text \<open>
  A hook is refused, and nothing is patched, for the null address and for a function that is already hooked with the same
  replacement.
\<close>

lemma DobbyHook_refuses:
  assumes "address = 0 \<or> registry_ready env st es \<and> hooked_with es address replace_call"
  shows "\<exists>st'. DobbyHook env address replace_call st = Some (Inr (RS_FAILED, None, st')) \<and> db_memory st' = db_memory st \<and> db_arena st' = db_arena st"
  using assms interceptor.lookup_holds [of "SharedInstance (hv_new_instance env) (db_interceptor st)" es address]
  by (cases "address = 0") (auto simp: DobbyHook_def registry_ready_def hooked_with_def Let_def)

text \<open>
  \<open>CodePatch\<close> makes one page writable: a patch that crosses the end of its page writes to the next page, which is not
  writable.
\<close>

lemma CodePatch_faults_across_pages:
  assumes "unat page_size < unat (address - ALIGN_FLOOR address (scast page_size)) + length bs"
  shows "CodePatch page_size address bs m = Inl OutOfBounds"
  using assms by (intro CodePatch_across_pages) (simp add: in_page_def)

end
