(* ===== verification/TextStream.thy ===== *)
theory TextStream
  imports Prelude
begin

text \<open>
  What the dumper uses of the C++ and C libraries for text: \<open>std::stringstream\<close> with its put position,
  the sticky base of integer output and \<open>seekp\<close>; \<open>strstr\<close>, and the conversions of \<open>sscanf\<close>. A null
  \<open>const char *\<close> is \<open>None\<close>.
\<close>

text \<open>A loop over a list in order, stopping at the first fault.\<close>

fun rfold :: "('a \<Rightarrow> 's \<Rightarrow> 's res) \<Rightarrow> 'a list \<Rightarrow> 's \<Rightarrow> 's res" where
  "rfold f [] s = Inr s"
| "rfold f (x # xs) s = rbind (f x s) (rfold f xs)"

section \<open>Numbers\<close>

definition digit_char :: "nat \<Rightarrow> char" where
  "digit_char d = ''0123456789abcdef'' ! d"

function digits :: "nat \<Rightarrow> nat \<Rightarrow> string" where
  "digits b n = (if n < b \<or> b < 2 then [digit_char n] else digits b (n div b) @ [digit_char (n mod b)])"
  by pat_completeness auto
termination
  by (relation "measure snd") (auto intro: div_less_dividend)

declare digits.simps [simp del]

definition char_digit :: "char \<Rightarrow> nat option" where
  "char_digit c =
    (let n = of_char c :: nat in
     if 48 \<le> n \<and> n \<le> 57 then Some (n - 48)
     else if 97 \<le> n \<and> n \<le> 102 then Some (n - 87)
     else if 65 \<le> n \<and> n \<le> 70 then Some (n - 55) else None)"

definition number_of :: "nat \<Rightarrow> string \<Rightarrow> nat" where
  "number_of b s = foldl (\<lambda>acc c. acc * b + (case char_digit c of Some d \<Rightarrow> d | None \<Rightarrow> 0)) 0 s"

lemma char_digit_digit_char: "d < 16 \<Longrightarrow> char_digit (digit_char d) = Some d"
proof -
  assume "d < 16"
  then have "d \<in> set [0..<16]" by simp
  moreover have "\<forall>d\<in>set [0..<16]. char_digit (digit_char d) = Some d" by code_simp
  ultimately show ?thesis by blast
qed

lemma number_of_digits:
  assumes "2 \<le> b" "b \<le> 16"
  shows "number_of b (digits b n) = n"
proof (induction n rule: less_induct)
  case (less n)
  show ?case
  proof (cases "n < b")
    case True
    then show ?thesis using assms by (simp add: digits.simps number_of_def char_digit_digit_char)
  next
    case False
    then have "number_of b (digits b (n div b)) = n div b"
      using assms by (intro less) (simp add: div_less_dividend)
    moreover have "digits b n = digits b (n div b) @ [digit_char (n mod b)]"
      using False assms by (subst digits.simps) simp
    moreover have "n mod b < 16" using mod_less_divisor [of b n] assms by linarith
    ultimately show ?thesis by (simp add: number_of_def char_digit_digit_char)
  qed
qed

section \<open>stringstream\<close>

record stringstream =
  ss_buf :: string
  ss_putp :: nat
  ss_hex :: bool
  ss_fail :: bool

definition ss_new :: stringstream where
  "ss_new = \<lparr>ss_buf = [], ss_putp = 0, ss_hex = False, ss_fail = False\<rparr>"

text \<open>Output overwrites from the put position on, extending the buffer as needed.\<close>

definition ss_put :: "stringstream \<Rightarrow> string \<Rightarrow> stringstream" where
  "ss_put s x = (if ss_fail s then s
     else s\<lparr>ss_buf := overwrite (ss_buf s) (ss_putp s) x, ss_putp := ss_putp s + length x\<rparr>)"

definition ss_cstr :: "stringstream \<Rightarrow> string option \<Rightarrow> stringstream res" where
  "ss_cstr s x = (case x of None \<Rightarrow> Inl NullPointer | Some t \<Rightarrow> Inr (ss_put s t))"

definition ss_setbase :: "stringstream \<Rightarrow> bool \<Rightarrow> stringstream" where
  "ss_setbase s h = s\<lparr>ss_hex := h\<rparr>"

definition ss_uint :: "stringstream \<Rightarrow> u64 \<Rightarrow> stringstream" where
  "ss_uint s n = ss_put s (digits (if ss_hex s then 16 else 10) (unat n))"

definition ss_seekp_cur :: "stringstream \<Rightarrow> int \<Rightarrow> stringstream" where
  "ss_seekp_cur s off =
    (let p = int (ss_putp s) + off in
     if ss_fail s then s
     else if 0 \<le> p \<and> p \<le> int (length (ss_buf s)) then s\<lparr>ss_putp := nat p\<rparr> else s\<lparr>ss_fail := True\<rparr>)"

text \<open>A stream that has been written sequentially: the put position is at the end.\<close>

definition at_end :: "stringstream \<Rightarrow> bool" where
  "at_end s \<longleftrightarrow> ss_putp s = length (ss_buf s) \<and> \<not> ss_fail s"

lemma at_end_new [simp]: "at_end ss_new" "ss_buf ss_new = []"
  by (simp_all add: at_end_def ss_new_def)

lemma ss_put_at_end [simp]:
  "at_end s \<Longrightarrow> at_end (ss_put s x)" "at_end s \<Longrightarrow> ss_buf (ss_put s x) = ss_buf s @ x"
  by (simp_all add: at_end_def ss_put_def overwrite_at_end)

lemma ss_setbase_simps [simp]:
  "at_end (ss_setbase s h) = at_end s" "ss_buf (ss_setbase s h) = ss_buf s" "ss_hex (ss_setbase s h) = h"
  "ss_hex (ss_put s x) = ss_hex s"
  by (simp_all add: at_end_def ss_setbase_def ss_put_def)

lemma ss_uint_at_end [simp]:
  "at_end s \<Longrightarrow> at_end (ss_uint s n)"
  "at_end s \<Longrightarrow> ss_buf (ss_uint s n) = ss_buf s @ digits (if ss_hex s then 16 else 10) (unat n)"
  "ss_hex (ss_uint s n) = ss_hex s"
  by (simp_all add: ss_uint_def)

lemma ss_cstr_simps [simp]: "ss_cstr s (Some t) = Inr (ss_put s t)" "ss_cstr s None = Inl NullPointer"
  by (simp_all add: ss_cstr_def)

text \<open>Stepping back over text and writing at least as much over it replaces that text.\<close>

lemma ss_replace_tail:
  assumes "at_end s" "ss_buf s = x @ y" "int (length y) = - off" "length y \<le> length z"
  shows "at_end (ss_put (ss_seekp_cur s off) z)" "ss_buf (ss_put (ss_seekp_cur s off) z) = x @ z"
proof -
  have "ss_seekp_cur s off = s\<lparr>ss_putp := length x\<rparr>"
    using assms by (simp add: ss_seekp_cur_def at_end_def Let_def)
  then show "at_end (ss_put (ss_seekp_cur s off) z)" "ss_buf (ss_put (ss_seekp_cur s off) z) = x @ z"
    using assms by (simp_all add: ss_put_def at_end_def overwrite_def)
qed

section \<open>Searching and scanning\<close>

fun strstr :: "string \<Rightarrow> string \<Rightarrow> bool" where
  "strstr [] pat \<longleftrightarrow> pat = []"
| "strstr (c # s) pat \<longleftrightarrow> take (length pat) (c # s) = pat \<or> strstr s pat"

lemma strstr_iff: "strstr s pat \<longleftrightarrow> (\<exists>a b. s = a @ pat @ b)"
proof (induction s)
  case Nil
  then show ?case by auto
next
  case (Cons c s)
  have "(\<exists>a b. c # s = a @ pat @ b) \<longleftrightarrow> (\<exists>b. c # s = pat @ b) \<or> (\<exists>a b. s = a @ pat @ b)"
    by (auto simp: Cons_eq_append_conv)
  moreover have "take (length pat) (c # s) = pat \<longleftrightarrow> (\<exists>b. c # s = pat @ b)"
    by (metis append_eq_conv_conj append_take_drop_id)
  ultimately show ?case using Cons by simp
qed

definition isspace :: "char \<Rightarrow> bool" where
  "isspace c \<longleftrightarrow> c \<in> {CHR 0x20, CHR 0x09, CHR 0x0A, CHR 0x0B, CHR 0x0C, CHR 0x0D}"

text \<open>
  The conversions of \<open>sscanf\<close>, each from the rest of the input to the value and the new rest, or \<open>None\<close> on a
  matching failure: white space, a literal character, \<open>%s\<close>, \<open>%[^c]\<close>, and numbers with an optional sign.
\<close>

definition scan_ws :: "string \<Rightarrow> string" where
  "scan_ws s = dropWhile isspace s"

definition scan_lit :: "char \<Rightarrow> string \<Rightarrow> string option" where
  "scan_lit c s = (case s of [] \<Rightarrow> None | d # t \<Rightarrow> if d = c then Some t else None)"

fun scan_lits :: "string \<Rightarrow> string \<Rightarrow> string option" where
  "scan_lits [] s = Some s"
| "scan_lits (c # cs) s = (case scan_lit c s of None \<Rightarrow> None | Some t \<Rightarrow> scan_lits cs t)"

definition scan_s :: "string \<Rightarrow> (string \<times> string) option" where
  "scan_s s = (let t = scan_ws s; tok = takeWhile (\<lambda>c. \<not> isspace c) t in
     if tok = [] then None else Some (tok, dropWhile (\<lambda>c. \<not> isspace c) t))"

definition scan_not :: "char \<Rightarrow> string \<Rightarrow> (string \<times> string) option" where
  "scan_not c s = (let tok = takeWhile (\<lambda>d. d \<noteq> c) s in
     if tok = [] then None else Some (tok, dropWhile (\<lambda>d. d \<noteq> c) s))"

definition isdigit_in :: "nat \<Rightarrow> char \<Rightarrow> bool" where
  "isdigit_in b c \<longleftrightarrow> (case char_digit c of None \<Rightarrow> False | Some d \<Rightarrow> d < b)"

text \<open>An optional sign, for base 16 an optional \<open>0x\<close>, and the digits.\<close>

definition scan_number :: "nat \<Rightarrow> string \<Rightarrow> (int \<times> string) option" where
  "scan_number b s =
    (let t = scan_ws s;
         neg = (t \<noteq> [] \<and> hd t = CHR ''-'');
         t = (if t \<noteq> [] \<and> (hd t = CHR ''-'' \<or> hd t = CHR ''+'') then tl t else t);
         t = (if b = 16 \<and> length t \<ge> 3 \<and> t ! 0 = CHR ''0'' \<and> (t ! 1 = CHR ''x'' \<or> t ! 1 = CHR ''X'') \<and> isdigit_in b (t ! 2)
              then drop 2 t else t);
         ds = takeWhile (isdigit_in b) t
     in if ds = [] then None
        else Some (if neg then - int (number_of b ds) else int (number_of b ds), dropWhile (isdigit_in b) t))"

text \<open>A number stored in a 64-bit unsigned variable; the conversion saturates.\<close>

definition to_u64 :: "int \<Rightarrow> u64" where
  "to_u64 n = (if n < 2 ^ 64 then word_of_int n else - 1)"

abbreviation nl :: char where "nl \<equiv> CHR 0x0A"
abbreviation tab :: char where "tab \<equiv> CHR 0x09"

end
