(* ===== verification/Il2CppModel.thy ===== *)
theory Il2CppModel
  imports TextStream
begin

text \<open>
  The constants of \<open>il2cpp-tabledefs.h\<close> the dumper uses, the structures of \<open>il2cpp-class.h\<close> it reads, and the
  il2cpp runtime. The runtime is the library \<open>libil2cpp.so\<close> of the game, not part of the sources: its functions
  (\<open>il2cpp-api-functions.h\<close> declares them) are the fields of the record \<open>il2cpp_api\<close>, a parameter of the
  dumper. Pointers are addresses, 0 is null; a structure is read through \<open>mem_type\<close>, \<open>mem_method\<close> and
  \<open>mem_array\<close>, which are \<open>None\<close> where nothing can be read. An iterating function takes the iterator and returns
  the next element, null at the end, with the new iterator.
\<close>

section \<open>Attributes\<close>

definition FIELD_ATTRIBUTE_FIELD_ACCESS_MASK :: u32 where "FIELD_ATTRIBUTE_FIELD_ACCESS_MASK = 0x0007"
definition FIELD_ATTRIBUTE_PRIVATE :: u32 where "FIELD_ATTRIBUTE_PRIVATE = 0x0001"
definition FIELD_ATTRIBUTE_FAM_AND_ASSEM :: u32 where "FIELD_ATTRIBUTE_FAM_AND_ASSEM = 0x0002"
definition FIELD_ATTRIBUTE_ASSEMBLY :: u32 where "FIELD_ATTRIBUTE_ASSEMBLY = 0x0003"
definition FIELD_ATTRIBUTE_FAMILY :: u32 where "FIELD_ATTRIBUTE_FAMILY = 0x0004"
definition FIELD_ATTRIBUTE_FAM_OR_ASSEM :: u32 where "FIELD_ATTRIBUTE_FAM_OR_ASSEM = 0x0005"
definition FIELD_ATTRIBUTE_PUBLIC :: u32 where "FIELD_ATTRIBUTE_PUBLIC = 0x0006"
definition FIELD_ATTRIBUTE_STATIC :: u32 where "FIELD_ATTRIBUTE_STATIC = 0x0010"
definition FIELD_ATTRIBUTE_INIT_ONLY :: u32 where "FIELD_ATTRIBUTE_INIT_ONLY = 0x0020"
definition FIELD_ATTRIBUTE_LITERAL :: u32 where "FIELD_ATTRIBUTE_LITERAL = 0x0040"
definition METHOD_ATTRIBUTE_MEMBER_ACCESS_MASK :: u32 where "METHOD_ATTRIBUTE_MEMBER_ACCESS_MASK = 0x0007"
definition METHOD_ATTRIBUTE_PRIVATE :: u32 where "METHOD_ATTRIBUTE_PRIVATE = 0x0001"
definition METHOD_ATTRIBUTE_FAM_AND_ASSEM :: u32 where "METHOD_ATTRIBUTE_FAM_AND_ASSEM = 0x0002"
definition METHOD_ATTRIBUTE_ASSEM :: u32 where "METHOD_ATTRIBUTE_ASSEM = 0x0003"
definition METHOD_ATTRIBUTE_FAMILY :: u32 where "METHOD_ATTRIBUTE_FAMILY = 0x0004"
definition METHOD_ATTRIBUTE_FAM_OR_ASSEM :: u32 where "METHOD_ATTRIBUTE_FAM_OR_ASSEM = 0x0005"
definition METHOD_ATTRIBUTE_PUBLIC :: u32 where "METHOD_ATTRIBUTE_PUBLIC = 0x0006"
definition METHOD_ATTRIBUTE_STATIC :: u32 where "METHOD_ATTRIBUTE_STATIC = 0x0010"
definition METHOD_ATTRIBUTE_FINAL :: u32 where "METHOD_ATTRIBUTE_FINAL = 0x0020"
definition METHOD_ATTRIBUTE_VIRTUAL :: u32 where "METHOD_ATTRIBUTE_VIRTUAL = 0x0040"
definition METHOD_ATTRIBUTE_VTABLE_LAYOUT_MASK :: u32 where "METHOD_ATTRIBUTE_VTABLE_LAYOUT_MASK = 0x0100"
definition METHOD_ATTRIBUTE_REUSE_SLOT :: u32 where "METHOD_ATTRIBUTE_REUSE_SLOT = 0x0000"
definition METHOD_ATTRIBUTE_NEW_SLOT :: u32 where "METHOD_ATTRIBUTE_NEW_SLOT = 0x0100"
definition METHOD_ATTRIBUTE_ABSTRACT :: u32 where "METHOD_ATTRIBUTE_ABSTRACT = 0x0400"
definition METHOD_ATTRIBUTE_PINVOKE_IMPL :: u32 where "METHOD_ATTRIBUTE_PINVOKE_IMPL = 0x2000"
definition TYPE_ATTRIBUTE_VISIBILITY_MASK :: u32 where "TYPE_ATTRIBUTE_VISIBILITY_MASK = 0x00000007"
definition TYPE_ATTRIBUTE_NOT_PUBLIC :: u32 where "TYPE_ATTRIBUTE_NOT_PUBLIC = 0x00000000"
definition TYPE_ATTRIBUTE_PUBLIC :: u32 where "TYPE_ATTRIBUTE_PUBLIC = 0x00000001"
definition TYPE_ATTRIBUTE_NESTED_PUBLIC :: u32 where "TYPE_ATTRIBUTE_NESTED_PUBLIC = 0x00000002"
definition TYPE_ATTRIBUTE_NESTED_PRIVATE :: u32 where "TYPE_ATTRIBUTE_NESTED_PRIVATE = 0x00000003"
definition TYPE_ATTRIBUTE_NESTED_FAMILY :: u32 where "TYPE_ATTRIBUTE_NESTED_FAMILY = 0x00000004"
definition TYPE_ATTRIBUTE_NESTED_ASSEMBLY :: u32 where "TYPE_ATTRIBUTE_NESTED_ASSEMBLY = 0x00000005"
definition TYPE_ATTRIBUTE_NESTED_FAM_AND_ASSEM :: u32 where "TYPE_ATTRIBUTE_NESTED_FAM_AND_ASSEM = 0x00000006"
definition TYPE_ATTRIBUTE_NESTED_FAM_OR_ASSEM :: u32 where "TYPE_ATTRIBUTE_NESTED_FAM_OR_ASSEM = 0x00000007"
definition TYPE_ATTRIBUTE_INTERFACE :: u32 where "TYPE_ATTRIBUTE_INTERFACE = 0x00000020"
definition TYPE_ATTRIBUTE_ABSTRACT :: u32 where "TYPE_ATTRIBUTE_ABSTRACT = 0x00000080"
definition TYPE_ATTRIBUTE_SEALED :: u32 where "TYPE_ATTRIBUTE_SEALED = 0x00000100"
definition TYPE_ATTRIBUTE_SERIALIZABLE :: u32 where "TYPE_ATTRIBUTE_SERIALIZABLE = 0x00002000"
definition PARAM_ATTRIBUTE_IN :: u16 where "PARAM_ATTRIBUTE_IN = 0x0001"
definition PARAM_ATTRIBUTE_OUT :: u16 where "PARAM_ATTRIBUTE_OUT = 0x0002"

definition IL2CPP_TYPE_OBJECT :: u8 where "IL2CPP_TYPE_OBJECT = 0x1c"

lemmas attribute_defs =
  FIELD_ATTRIBUTE_FIELD_ACCESS_MASK_def
  FIELD_ATTRIBUTE_PRIVATE_def
  FIELD_ATTRIBUTE_FAM_AND_ASSEM_def
  FIELD_ATTRIBUTE_ASSEMBLY_def
  FIELD_ATTRIBUTE_FAMILY_def
  FIELD_ATTRIBUTE_FAM_OR_ASSEM_def
  FIELD_ATTRIBUTE_PUBLIC_def
  FIELD_ATTRIBUTE_STATIC_def
  FIELD_ATTRIBUTE_INIT_ONLY_def
  FIELD_ATTRIBUTE_LITERAL_def
  METHOD_ATTRIBUTE_MEMBER_ACCESS_MASK_def
  METHOD_ATTRIBUTE_PRIVATE_def
  METHOD_ATTRIBUTE_FAM_AND_ASSEM_def
  METHOD_ATTRIBUTE_ASSEM_def
  METHOD_ATTRIBUTE_FAMILY_def
  METHOD_ATTRIBUTE_FAM_OR_ASSEM_def
  METHOD_ATTRIBUTE_PUBLIC_def
  METHOD_ATTRIBUTE_STATIC_def
  METHOD_ATTRIBUTE_FINAL_def
  METHOD_ATTRIBUTE_VIRTUAL_def
  METHOD_ATTRIBUTE_VTABLE_LAYOUT_MASK_def
  METHOD_ATTRIBUTE_REUSE_SLOT_def
  METHOD_ATTRIBUTE_NEW_SLOT_def
  METHOD_ATTRIBUTE_ABSTRACT_def
  METHOD_ATTRIBUTE_PINVOKE_IMPL_def
  TYPE_ATTRIBUTE_VISIBILITY_MASK_def
  TYPE_ATTRIBUTE_NOT_PUBLIC_def
  TYPE_ATTRIBUTE_PUBLIC_def
  TYPE_ATTRIBUTE_NESTED_PUBLIC_def
  TYPE_ATTRIBUTE_NESTED_PRIVATE_def
  TYPE_ATTRIBUTE_NESTED_FAMILY_def
  TYPE_ATTRIBUTE_NESTED_ASSEMBLY_def
  TYPE_ATTRIBUTE_NESTED_FAM_AND_ASSEM_def
  TYPE_ATTRIBUTE_NESTED_FAM_OR_ASSEM_def
  TYPE_ATTRIBUTE_INTERFACE_def
  TYPE_ATTRIBUTE_ABSTRACT_def
  TYPE_ATTRIBUTE_SEALED_def
  TYPE_ATTRIBUTE_SERIALIZABLE_def
  PARAM_ATTRIBUTE_IN_def
  PARAM_ATTRIBUTE_OUT_def

section \<open>Structures\<close>

type_synonym ptr = u64

record Il2CppType =
  ty_data :: u64
  ty_attrs :: u16
  ty_type :: u8
  ty_num_mods :: "6 word"
  ty_byref :: bool
  ty_pinned :: bool

record MethodInfo =
  methodPointer :: ptr

record Il2CppArray =
  arr_max_length :: u64
  arr_vector :: "ptr list"

section \<open>The runtime\<close>

record il2cpp_api =
  mem_type :: "ptr \<Rightarrow> Il2CppType option"
  mem_method :: "ptr \<Rightarrow> MethodInfo option"
  mem_array :: "ptr \<Rightarrow> Il2CppArray option"
  il2cpp_domain_get :: ptr
  il2cpp_domain_get_assemblies :: "(ptr \<Rightarrow> ptr list) option"
  il2cpp_assembly_get_image :: "ptr \<Rightarrow> ptr"
  il2cpp_image_get_name :: "ptr \<Rightarrow> string option"
  il2cpp_image_get_class_count :: "ptr \<Rightarrow> u64"
  il2cpp_image_get_class :: "(ptr \<Rightarrow> u64 \<Rightarrow> ptr) option"
  il2cpp_get_corlib :: ptr
  il2cpp_class_from_name :: "ptr \<Rightarrow> string \<Rightarrow> string \<Rightarrow> ptr"
  il2cpp_class_get_method_from_name :: "ptr \<Rightarrow> string \<Rightarrow> nat \<Rightarrow> ptr"
  il2cpp_string_new :: "string \<Rightarrow> ptr"
  il2cpp_class_from_system_type :: "ptr \<Rightarrow> ptr"
  call_Assembly_Load :: "ptr \<Rightarrow> ptr \<Rightarrow> ptr"
  call_Assembly_GetTypes :: "ptr \<Rightarrow> ptr \<Rightarrow> ptr"
  il2cpp_class_get_type :: "ptr \<Rightarrow> ptr"
  il2cpp_class_from_type :: "ptr \<Rightarrow> ptr"
  il2cpp_class_get_name :: "ptr \<Rightarrow> string option"
  il2cpp_class_get_namespace :: "ptr \<Rightarrow> string option"
  il2cpp_class_get_flags :: "ptr \<Rightarrow> u32"
  il2cpp_class_is_valuetype :: "ptr \<Rightarrow> bool"
  il2cpp_class_is_enum :: "ptr \<Rightarrow> bool"
  il2cpp_class_get_parent :: "ptr \<Rightarrow> ptr"
  il2cpp_class_get_interfaces :: "ptr \<Rightarrow> ptr \<Rightarrow> ptr \<times> ptr"
  il2cpp_class_get_fields :: "ptr \<Rightarrow> ptr \<Rightarrow> ptr \<times> ptr"
  il2cpp_class_get_properties :: "ptr \<Rightarrow> ptr \<Rightarrow> ptr \<times> ptr"
  il2cpp_class_get_methods :: "ptr \<Rightarrow> ptr \<Rightarrow> ptr \<times> ptr"
  il2cpp_field_get_flags :: "ptr \<Rightarrow> u32"
  il2cpp_field_get_type :: "ptr \<Rightarrow> ptr"
  il2cpp_field_get_name :: "ptr \<Rightarrow> string option"
  il2cpp_field_get_offset :: "ptr \<Rightarrow> u64"
  il2cpp_field_static_get_value :: "ptr \<Rightarrow> u64 \<Rightarrow> u64"
  il2cpp_property_get_get_method :: "ptr \<Rightarrow> ptr"
  il2cpp_property_get_set_method :: "ptr \<Rightarrow> ptr"
  il2cpp_property_get_name :: "ptr \<Rightarrow> string option"
  il2cpp_method_get_flags :: "ptr \<Rightarrow> u32"
  il2cpp_method_get_return_type :: "ptr \<Rightarrow> ptr"
  il2cpp_method_get_name :: "ptr \<Rightarrow> string option"
  il2cpp_method_get_param_count :: "ptr \<Rightarrow> u32"
  il2cpp_method_get_param :: "ptr \<Rightarrow> nat \<Rightarrow> ptr"
  il2cpp_method_get_param_name :: "ptr \<Rightarrow> nat \<Rightarrow> string option"
  il2cpp_type_is_byref :: "(ptr \<Rightarrow> bool) option"

end
