(* ===== verification/Il2CppDump.thy ===== *)
theory Il2CppDump
  imports Il2CppModel
begin

text \<open>
  The dumper, \<open>module/src/main/cpp/il2cpp_dump.cpp\<close>: it walks the assemblies, classes, fields, properties and methods
  the il2cpp runtime of the game reports and writes them as C# declarations into \<open>files/dump.cs\<close>.
\<close>

text \<open>\<open>while (auto x = next(klass, &iter)) body\<close>.\<close>

partial_function (option) iter_loop ::
  "(ptr \<Rightarrow> ptr \<times> ptr) \<Rightarrow> (ptr \<Rightarrow> 's \<Rightarrow> 's res) \<Rightarrow> ptr \<Rightarrow> 's \<Rightarrow> 's res option" where
  "iter_loop next body iter s =
    (if fst (next iter) = 0 then Some (Inr s)
     else case body (fst (next iter)) s of
       Inl e \<Rightarrow> Some (Inl e)
     | Inr s' \<Rightarrow> iter_loop next body (snd (next iter)) s')"

declare iter_loop.simps [code]

section \<open>Modifiers\<close>

definition get_method_modifier :: "u32 \<Rightarrow> string" where
  "get_method_modifier flags =
    (let outPut = ss_new;
         access = flags AND METHOD_ATTRIBUTE_MEMBER_ACCESS_MASK;
         outPut =
          (if access = METHOD_ATTRIBUTE_PRIVATE then ss_put outPut ''private ''
           else if access = METHOD_ATTRIBUTE_PUBLIC then ss_put outPut ''public ''
           else if access = METHOD_ATTRIBUTE_FAMILY then ss_put outPut ''protected ''
           else if access = METHOD_ATTRIBUTE_ASSEM \<or> access = METHOD_ATTRIBUTE_FAM_AND_ASSEM
           then ss_put outPut ''internal ''
           else if access = METHOD_ATTRIBUTE_FAM_OR_ASSEM then ss_put outPut ''protected internal ''
           else outPut);
         outPut = (if flags AND METHOD_ATTRIBUTE_STATIC \<noteq> 0 then ss_put outPut ''static '' else outPut);
         outPut =
          (if flags AND METHOD_ATTRIBUTE_ABSTRACT \<noteq> 0
           then let outPut = ss_put outPut ''abstract '' in
             if flags AND METHOD_ATTRIBUTE_VTABLE_LAYOUT_MASK = METHOD_ATTRIBUTE_REUSE_SLOT
             then ss_put outPut ''override '' else outPut
           else if flags AND METHOD_ATTRIBUTE_FINAL \<noteq> 0
           then if flags AND METHOD_ATTRIBUTE_VTABLE_LAYOUT_MASK = METHOD_ATTRIBUTE_REUSE_SLOT
             then ss_put outPut ''sealed override '' else outPut
           else if flags AND METHOD_ATTRIBUTE_VIRTUAL \<noteq> 0
           then if flags AND METHOD_ATTRIBUTE_VTABLE_LAYOUT_MASK = METHOD_ATTRIBUTE_NEW_SLOT
             then ss_put outPut ''virtual '' else ss_put outPut ''override ''
           else outPut);
         outPut = (if flags AND METHOD_ATTRIBUTE_PINVOKE_IMPL \<noteq> 0 then ss_put outPut ''extern '' else outPut)
     in ss_buf outPut)"

definition il2cpp_type_is_byref' :: "il2cpp_api \<Rightarrow> ptr \<Rightarrow> bool res" where
  "il2cpp_type_is_byref' api type =
    (case mem_type api type of
       None \<Rightarrow> Inl NullPointer
     | Some t \<Rightarrow> Inr (case il2cpp_type_is_byref api of None \<Rightarrow> ty_byref t | Some f \<Rightarrow> f type))"

section \<open>Methods\<close>

definition dump_param :: "il2cpp_api \<Rightarrow> ptr \<Rightarrow> nat \<Rightarrow> stringstream \<Rightarrow> stringstream res" where
  "dump_param api method i outPut =
    (let param = il2cpp_method_get_param api method i in
     case mem_type api param of
       None \<Rightarrow> Inl NullPointer
     | Some t \<Rightarrow>
       let attrs = ty_attrs t in
       rbind (il2cpp_type_is_byref' api param) (\<lambda>byref.
       let outPut =
          (if byref
           then if attrs AND PARAM_ATTRIBUTE_OUT \<noteq> 0 \<and> \<not> attrs AND PARAM_ATTRIBUTE_IN \<noteq> 0 then ss_put outPut ''out ''
             else if attrs AND PARAM_ATTRIBUTE_IN \<noteq> 0 \<and> \<not> attrs AND PARAM_ATTRIBUTE_OUT \<noteq> 0 then ss_put outPut ''in ''
             else ss_put outPut ''ref ''
           else let outPut = (if attrs AND PARAM_ATTRIBUTE_IN \<noteq> 0 then ss_put outPut ''[In] '' else outPut)
             in if attrs AND PARAM_ATTRIBUTE_OUT \<noteq> 0 then ss_put outPut ''[Out] '' else outPut);
           parameter_class = il2cpp_class_from_type api param
       in rbind (ss_cstr outPut (il2cpp_class_get_name api parameter_class)) (\<lambda>outPut.
          rbind (ss_cstr (ss_put outPut '' '') (il2cpp_method_get_param_name api method i)) (\<lambda>outPut.
          Inr (ss_put outPut '', '')))))"

definition dump_method_body :: "il2cpp_api \<Rightarrow> u64 \<Rightarrow> ptr \<Rightarrow> stringstream \<Rightarrow> stringstream res" where
  "dump_method_body api il2cpp_base method outPut =
    (case mem_method api method of
       None \<Rightarrow> Inl NullPointer
     | Some mi \<Rightarrow>
       let outPut =
          (if methodPointer mi \<noteq> 0
           then let outPut = ss_put outPut (tab # ''// RVA: 0x'');
                    outPut = ss_uint (ss_setbase outPut True) (methodPointer mi - il2cpp_base);
                    outPut = ss_put outPut '' VA: 0x''
                in ss_uint (ss_setbase outPut True) (methodPointer mi)
           else ss_put outPut (tab # ''// RVA: 0x VA: 0x0''));
           outPut = ss_put outPut [nl, tab];
           flags = il2cpp_method_get_flags api method;
           outPut = ss_put outPut (get_method_modifier flags);
           return_type = il2cpp_method_get_return_type api method
       in rbind (il2cpp_type_is_byref' api return_type) (\<lambda>byref.
          let outPut = (if byref then ss_put outPut ''ref '' else outPut);
              return_class = il2cpp_class_from_type api return_type
          in rbind (ss_cstr outPut (il2cpp_class_get_name api return_class)) (\<lambda>outPut.
             rbind (ss_cstr (ss_put outPut '' '') (il2cpp_method_get_name api method)) (\<lambda>outPut.
             let outPut = ss_put outPut ''('';
                 param_count = il2cpp_method_get_param_count api method
             in rbind (rfold (dump_param api method) [0..<unat param_count] outPut) (\<lambda>outPut.
                let outPut = (if param_count > 0 then ss_seekp_cur outPut (- 2) else outPut)
                in Inr (ss_put outPut ('') { }'' @ [nl])))))))"

definition dump_method :: "il2cpp_api \<Rightarrow> u64 \<Rightarrow> ptr \<Rightarrow> string run" where
  "dump_method api il2cpp_base klass =
    run_bind (iter_loop (il2cpp_class_get_methods api klass) (dump_method_body api il2cpp_base) 0
        (ss_put ss_new ([nl, tab] @ ''// Methods'' @ [nl])))
      (\<lambda>outPut. Some (Inr (ss_buf outPut)))"

section \<open>Properties\<close>

definition dump_property_body :: "il2cpp_api \<Rightarrow> ptr \<Rightarrow> stringstream \<Rightarrow> stringstream res" where
  "dump_property_body api prop outPut =
    (let get = il2cpp_property_get_get_method api prop;
         set = il2cpp_property_get_set_method api prop;
         prop_name = il2cpp_property_get_name api prop;
         outPut = ss_put outPut [tab];
         (outPut, prop_class) =
          (if get \<noteq> 0
           then (ss_put outPut (get_method_modifier (il2cpp_method_get_flags api get)),
                 il2cpp_class_from_type api (il2cpp_method_get_return_type api get))
           else if set \<noteq> 0
           then (ss_put outPut (get_method_modifier (il2cpp_method_get_flags api set)),
                 il2cpp_class_from_type api (il2cpp_method_get_param api set 0))
           else (outPut, 0))
     in if prop_class \<noteq> 0
        then rbind (ss_cstr outPut (il2cpp_class_get_name api prop_class)) (\<lambda>outPut.
             rbind (ss_cstr (ss_put outPut '' '') prop_name) (\<lambda>outPut.
             let outPut = ss_put outPut '' { '';
                 outPut = (if get \<noteq> 0 then ss_put outPut ''get; '' else outPut);
                 outPut = (if set \<noteq> 0 then ss_put outPut ''set; '' else outPut)
             in Inr (ss_put outPut (''}'' @ [nl]))))
        else (case prop_name of
                None \<Rightarrow> Inr outPut
              | Some n \<Rightarrow> Inr (ss_put (ss_put outPut '' // unknown property '') n)))"

definition dump_property :: "il2cpp_api \<Rightarrow> ptr \<Rightarrow> string run" where
  "dump_property api klass =
    run_bind (iter_loop (il2cpp_class_get_properties api klass) (dump_property_body api) 0
        (ss_put ss_new ([nl, tab] @ ''// Properties'' @ [nl])))
      (\<lambda>outPut. Some (Inr (ss_buf outPut)))"

section \<open>Fields\<close>

definition field_access :: "u32 \<Rightarrow> stringstream \<Rightarrow> stringstream" where
  "field_access attrs outPut =
    (let access = attrs AND FIELD_ATTRIBUTE_FIELD_ACCESS_MASK in
     if access = FIELD_ATTRIBUTE_PRIVATE then ss_put outPut ''private ''
     else if access = FIELD_ATTRIBUTE_PUBLIC then ss_put outPut ''public ''
     else if access = FIELD_ATTRIBUTE_FAMILY then ss_put outPut ''protected ''
     else if access = FIELD_ATTRIBUTE_ASSEMBLY \<or> access = FIELD_ATTRIBUTE_FAM_AND_ASSEM
     then ss_put outPut ''internal ''
     else if access = FIELD_ATTRIBUTE_FAM_OR_ASSEM then ss_put outPut ''protected internal ''
     else outPut)"

definition dump_field_body :: "il2cpp_api \<Rightarrow> bool \<Rightarrow> ptr \<Rightarrow> stringstream \<Rightarrow> stringstream res" where
  "dump_field_body api is_enum field outPut =
    (let outPut = ss_put outPut [tab];
         attrs = il2cpp_field_get_flags api field;
         outPut = field_access attrs outPut;
         outPut =
          (if attrs AND FIELD_ATTRIBUTE_LITERAL \<noteq> 0 then ss_put outPut ''const ''
           else let outPut = (if attrs AND FIELD_ATTRIBUTE_STATIC \<noteq> 0 then ss_put outPut ''static '' else outPut)
             in if attrs AND FIELD_ATTRIBUTE_INIT_ONLY \<noteq> 0 then ss_put outPut ''readonly '' else outPut);
         field_type = il2cpp_field_get_type api field;
         field_class = il2cpp_class_from_type api field_type
     in rbind (ss_cstr outPut (il2cpp_class_get_name api field_class)) (\<lambda>outPut.
        rbind (ss_cstr (ss_put outPut '' '') (il2cpp_field_get_name api field)) (\<lambda>outPut.
        let outPut =
             (if attrs AND FIELD_ATTRIBUTE_LITERAL \<noteq> 0 \<and> is_enum
              then ss_uint (ss_setbase (ss_put outPut '' = '') False) (il2cpp_field_static_get_value api field 0)
              else outPut);
            outPut = ss_put outPut ''; // 0x'';
            outPut = ss_uint (ss_setbase outPut True) (il2cpp_field_get_offset api field)
        in Inr (ss_put outPut [nl]))))"

definition dump_field :: "il2cpp_api \<Rightarrow> ptr \<Rightarrow> string run" where
  "dump_field api klass =
    (let outPut = ss_put ss_new ([nl, tab] @ ''// Fields'' @ [nl]);
         is_enum = il2cpp_class_is_enum api klass
     in run_bind (iter_loop (il2cpp_class_get_fields api klass) (dump_field_body api is_enum) 0 outPut)
          (\<lambda>outPut. Some (Inr (ss_buf outPut))))"

section \<open>Types\<close>

definition type_header :: "u32 \<Rightarrow> bool \<Rightarrow> bool \<Rightarrow> stringstream \<Rightarrow> stringstream" where
  "type_header flags is_valuetype is_enum outPut =
    (let visibility = flags AND TYPE_ATTRIBUTE_VISIBILITY_MASK;
         outPut =
          (if visibility = TYPE_ATTRIBUTE_PUBLIC \<or> visibility = TYPE_ATTRIBUTE_NESTED_PUBLIC then ss_put outPut ''public ''
           else if visibility = TYPE_ATTRIBUTE_NOT_PUBLIC \<or> visibility = TYPE_ATTRIBUTE_NESTED_FAM_AND_ASSEM \<or>
             visibility = TYPE_ATTRIBUTE_NESTED_ASSEMBLY then ss_put outPut ''internal ''
           else if visibility = TYPE_ATTRIBUTE_NESTED_PRIVATE then ss_put outPut ''private ''
           else if visibility = TYPE_ATTRIBUTE_NESTED_FAMILY then ss_put outPut ''protected ''
           else if visibility = TYPE_ATTRIBUTE_NESTED_FAM_OR_ASSEM then ss_put outPut ''protected internal ''
           else outPut);
         outPut =
          (if flags AND TYPE_ATTRIBUTE_ABSTRACT \<noteq> 0 \<and> flags AND TYPE_ATTRIBUTE_SEALED \<noteq> 0 then ss_put outPut ''static ''
           else if \<not> flags AND TYPE_ATTRIBUTE_INTERFACE \<noteq> 0 \<and> flags AND TYPE_ATTRIBUTE_ABSTRACT \<noteq> 0
           then ss_put outPut ''abstract ''
           else if \<not> is_valuetype \<and> \<not> is_enum \<and> flags AND TYPE_ATTRIBUTE_SEALED \<noteq> 0 then ss_put outPut ''sealed ''
           else outPut)
     in if flags AND TYPE_ATTRIBUTE_INTERFACE \<noteq> 0 then ss_put outPut ''interface ''
        else if is_enum then ss_put outPut ''enum ''
        else if is_valuetype then ss_put outPut ''struct ''
        else ss_put outPut ''class '')"

text \<open>The base class, unless it is \<open>object\<close>, as the first element of \<open>extends\<close>.\<close>

definition parent_extends :: "il2cpp_api \<Rightarrow> ptr \<Rightarrow> bool \<Rightarrow> bool \<Rightarrow> string list res" where
  "parent_extends api klass is_valuetype is_enum =
    (let parent = il2cpp_class_get_parent api klass in
     if \<not> is_valuetype \<and> \<not> is_enum \<and> parent \<noteq> 0
     then let parent_type = il2cpp_class_get_type api parent in
       case mem_type api parent_type of
         None \<Rightarrow> Inl NullPointer
       | Some t \<Rightarrow>
         if ty_type t \<noteq> IL2CPP_TYPE_OBJECT
         then (case il2cpp_class_get_name api parent of None \<Rightarrow> Inl NullPointer | Some n \<Rightarrow> Inr [n])
         else Inr []
     else Inr [])"

definition extends_body :: "il2cpp_api \<Rightarrow> ptr \<Rightarrow> string list \<Rightarrow> string list res" where
  "extends_body api itf extends =
    (case il2cpp_class_get_name api itf of None \<Rightarrow> Inl NullPointer | Some n \<Rightarrow> Inr (extends @ [n]))"

definition put_extends :: "string list \<Rightarrow> stringstream \<Rightarrow> stringstream" where
  "put_extends extends outPut =
    (if extends \<noteq> []
     then fold (\<lambda>i outPut. ss_put (ss_put outPut '', '') (extends ! i)) [1..<length extends]
            (ss_put (ss_put outPut '' : '') (extends ! 0))
     else outPut)"

definition dump_type :: "il2cpp_api \<Rightarrow> u64 \<Rightarrow> ptr \<Rightarrow> string run" where
  "dump_type api il2cpp_base type =
    (let klass = il2cpp_class_from_type api type;
         outPut = ss_put ss_new (nl # ''// Namespace: '') in
     run_bind (Some (ss_cstr outPut (il2cpp_class_get_namespace api klass))) (\<lambda>outPut.
     let outPut = ss_put outPut [nl];
         flags = il2cpp_class_get_flags api klass;
         outPut = (if flags AND TYPE_ATTRIBUTE_SERIALIZABLE \<noteq> 0 then ss_put outPut (''[Serializable]'' @ [nl]) else outPut);
         is_valuetype = il2cpp_class_is_valuetype api klass;
         is_enum = il2cpp_class_is_enum api klass;
         outPut = type_header flags is_valuetype is_enum outPut in
     run_bind (Some (ss_cstr outPut (il2cpp_class_get_name api klass))) (\<lambda>outPut.
     run_bind (Some (parent_extends api klass is_valuetype is_enum)) (\<lambda>extends.
     run_bind (iter_loop (il2cpp_class_get_interfaces api klass) (extends_body api) 0 extends) (\<lambda>extends.
     let outPut = put_extends extends outPut;
         outPut = ss_put outPut [nl, CHR ''{''] in
     run_bind (dump_field api klass) (\<lambda>fields.
     let outPut = ss_put outPut fields in
     run_bind (dump_property api klass) (\<lambda>properties.
     let outPut = ss_put outPut properties in
     run_bind (dump_method api il2cpp_base klass) (\<lambda>methods.
     let outPut = ss_put (ss_put outPut methods) (''}'' @ [nl])
     in Some (Inr (ss_buf outPut))))))))))"

section \<open>The base address\<close>

text \<open>
  \<open>get_module_base\<close> over the lines \<open>fgets\<close> reads from \<open>/proc/self/maps\<close> (\<open>None\<close>: the file cannot be opened). The
  variables of \<open>sscanf\<close> keep their values from the previous line where a conversion fails; \<open>flags\<close> has five bytes and no
  initial value.
\<close>

record maps_vars =
  mv_start :: u64
  mv_end :: u64
  mv_flags :: "string option"
  mv_path :: string

text \<open>The rest of the conversions, unless one fails.\<close>

definition scan_then :: "'x option \<Rightarrow> 'v \<Rightarrow> ('x \<Rightarrow> 'v res) \<Rightarrow> 'v res" where
  "scan_then m v f = (case m of None \<Rightarrow> Inr v | Some x \<Rightarrow> f x)"

lemma scan_then_simps [simp]: "scan_then None v f = Inr v" "scan_then (Some x) v f = f x"
  by (simp_all add: scan_then_def)

definition scan_maps_line :: "string \<Rightarrow> maps_vars \<Rightarrow> maps_vars res" where
  "scan_maps_line line v =
    scan_then (scan_number 16 line) v (\<lambda>(n, s).
    let v = v\<lparr>mv_start := to_u64 n\<rparr> in
    scan_then (scan_lit CHR ''-'' s) v (\<lambda>s.
    scan_then (scan_number 16 s) v (\<lambda>(n, s).
    let v = v\<lparr>mv_end := to_u64 n\<rparr> in
    scan_then (scan_s s) v (\<lambda>(flags, s).
    if length flags > 4 then Inl OutOfBounds else
    let v = v\<lparr>mv_flags := Some flags\<rparr> in
    scan_then (scan_number 16 s) v (\<lambda>(_, s).
    scan_then (scan_number 16 s) v (\<lambda>(_, s).
    scan_then (scan_lit CHR '':'' s) v (\<lambda>s.
    scan_then (scan_number 16 s) v (\<lambda>(_, s).
    scan_then (scan_number 10 s) v (\<lambda>(_, s).
    scan_then (scan_s s) v (\<lambda>(path, s). Inr (v\<lparr>mv_path := path\<rparr>)))))))))))"

text \<open>The loop; the test of the flags is compiled for aarch64 only.\<close>

fun maps_loop :: "bool \<Rightarrow> string \<Rightarrow> string list \<Rightarrow> maps_vars \<Rightarrow> u64 res" where
  "maps_loop aarch64 module_name [] v = Inr 0"
| "maps_loop aarch64 module_name (line # lines) v =
    rbind (scan_maps_line line (v\<lparr>mv_path := []\<rparr>)) (\<lambda>v.
    if aarch64 \<and> mv_flags v = None then Inl Uninitialized
    else if aarch64 \<and> \<not> strstr (the (mv_flags v)) ''x'' then maps_loop aarch64 module_name lines v
    else if strstr (mv_path v) module_name then Inr (mv_start v)
    else maps_loop aarch64 module_name lines v)"

definition get_module_base :: "bool \<Rightarrow> string list option \<Rightarrow> string \<Rightarrow> u64 res" where
  "get_module_base aarch64 maps module_name =
    (case maps of None \<Rightarrow> Inr 0
     | Some lines \<Rightarrow> maps_loop aarch64 module_name lines \<lparr>mv_start = 0, mv_end = 0, mv_flags = None, mv_path = []\<rparr>)"

section \<open>The whole dump\<close>

fun run_fold :: "('a \<Rightarrow> 's \<Rightarrow> 's run) \<Rightarrow> 'a list \<Rightarrow> 's \<Rightarrow> 's run" where
  "run_fold f [] s = Some (Inr s)"
| "run_fold f (x # xs) s = run_bind (f x s) (run_fold f xs)"

definition image_line :: "il2cpp_api \<Rightarrow> nat \<times> ptr \<Rightarrow> stringstream \<Rightarrow> stringstream res" where
  "image_line api = (\<lambda>(i, assembly) imageOutput.
    let image = il2cpp_assembly_get_image api assembly in
    rbind (ss_cstr (ss_put (ss_uint (ss_put imageOutput ''// Image '') (of_nat i)) '': '') (il2cpp_image_get_name api image))
      (\<lambda>imageOutput. Inr (ss_put imageOutput [nl])))"

definition dll_line :: "string option \<Rightarrow> string res" where
  "dll_line name = rbind (ss_cstr (ss_put ss_new (nl # ''// Dll : '')) name) (\<lambda>imageStr. Inr (ss_buf imageStr))"

definition push_type :: "il2cpp_api \<Rightarrow> u64 \<Rightarrow> string \<Rightarrow> ptr \<Rightarrow> string list \<Rightarrow> string list run" where
  "push_type api il2cpp_base imageStr klass outPuts =
    (let type = il2cpp_class_get_type api klass in
     run_bind (dump_type api il2cpp_base type) (\<lambda>text. Some (Inr (outPuts @ [imageStr @ text]))))"

text \<open>With \<open>il2cpp_image_get_class\<close>, from version 2018.3 on.\<close>

definition dump_image ::
  "il2cpp_api \<Rightarrow> u64 \<Rightarrow> (ptr \<Rightarrow> u64 \<Rightarrow> ptr) \<Rightarrow> ptr \<Rightarrow> string list \<Rightarrow> string list run" where
  "dump_image api il2cpp_base get_class assembly outPuts =
    (let image = il2cpp_assembly_get_image api assembly in
     run_bind (Some (dll_line (il2cpp_image_get_name api image))) (\<lambda>imageStr.
     let classCount = il2cpp_image_get_class_count api image
     in run_fold (\<lambda>j. push_type api il2cpp_base imageStr (get_class image (of_nat j))) [0..<unat classCount] outPuts))"

text \<open>By reflection, before: \<open>Assembly.Load(name).GetTypes()\<close>.\<close>

definition no_ext :: "string \<Rightarrow> string" where
  "no_ext name = (if CHR ''.'' \<in> set name then rev (tl (dropWhile (\<lambda>c. c \<noteq> CHR ''.'') (rev name))) else name)"

definition has_methodPointer :: "il2cpp_api \<Rightarrow> ptr \<Rightarrow> bool" where
  "has_methodPointer api m \<longleftrightarrow> m \<noteq> 0 \<and> (case mem_method api m of None \<Rightarrow> False | Some mi \<Rightarrow> methodPointer mi \<noteq> 0)"

definition dump_image_reflect ::
  "il2cpp_api \<Rightarrow> u64 \<Rightarrow> ptr \<Rightarrow> ptr \<Rightarrow> ptr \<Rightarrow> string list \<Rightarrow> string list run" where
  "dump_image_reflect api il2cpp_base assemblyLoad assemblyGetTypes assembly outPuts =
    (let image = il2cpp_assembly_get_image api assembly;
         image_name = il2cpp_image_get_name api image in
     run_bind (Some (dll_line image_name)) (\<lambda>imageStr.
     let assemblyFileName = il2cpp_string_new api (no_ext (the image_name));
         reflectionAssembly = call_Assembly_Load api assemblyLoad assemblyFileName;
         reflectionTypes = call_Assembly_GetTypes api assemblyGetTypes reflectionAssembly in
     case mem_array api reflectionTypes of
       None \<Rightarrow> Some (Inl NullPointer)
     | Some items \<Rightarrow>
       run_fold (\<lambda>j outPuts. if j < length (arr_vector items)
           then push_type api il2cpp_base imageStr (il2cpp_class_from_system_type api (arr_vector items ! j)) outPuts
           else Some (Inl OutOfBounds))
         [0..<unat (arr_max_length items)] outPuts))"

text \<open>
  \<open>dladdr\<close> gives the base of the module of an address. The result is the path and the contents of the file
  written, or \<open>None\<close> when the dumper returns without writing one. \<open>outDir\<close> is a \<open>char *\<close>.
\<close>

definition il2cpp_dump ::
  "(ptr \<Rightarrow> il2cpp_api) \<Rightarrow> ptr option \<Rightarrow> bool \<Rightarrow> string list option \<Rightarrow> ptr \<Rightarrow> string option \<Rightarrow> (string \<times> string) option run" where
  "il2cpp_dump dlsym_api dladdr aarch64 maps handle outDir =
    (let api = dlsym_api handle in
     case il2cpp_domain_get_assemblies api of
       None \<Rightarrow> Some (Inr None)
     | Some get_assemblies \<Rightarrow>
       run_bind (Some (case dladdr of Some fbase \<Rightarrow> Inr fbase | None \<Rightarrow> get_module_base aarch64 maps ''libil2cpp.so''))
       (\<lambda>il2cpp_base.
       let assemblies = get_assemblies (il2cpp_domain_get api) in
       run_bind (Some (rfold (image_line api) (zip [0..<length assemblies] assemblies) ss_new)) (\<lambda>imageOutput.
       run_bind
        (case il2cpp_image_get_class api of
           Some get_class \<Rightarrow>
             run_bind (run_fold (dump_image api il2cpp_base get_class) assemblies []) (\<lambda>outPuts. Some (Inr (Some outPuts)))
         | None \<Rightarrow>
             (let corlib = il2cpp_get_corlib api;
                  assemblyClass = il2cpp_class_from_name api corlib ''System.Reflection'' ''Assembly'';
                  assemblyLoad = il2cpp_class_get_method_from_name api assemblyClass ''Load'' 1;
                  assemblyGetTypes = il2cpp_class_get_method_from_name api assemblyClass ''GetTypes'' 0
              in if \<not> has_methodPointer api assemblyLoad then Some (Inr None)
                 else if \<not> has_methodPointer api assemblyGetTypes then Some (Inr None)
                 else run_bind (run_fold (dump_image_reflect api il2cpp_base
                        (methodPointer (the (mem_method api assemblyLoad)))
                        (methodPointer (the (mem_method api assemblyGetTypes)))) assemblies [])
                      (\<lambda>outPuts. Some (Inr (Some outPuts)))))
       (\<lambda>outPuts.
       case outPuts of None \<Rightarrow> Some (Inr None)
       | Some outPuts \<Rightarrow>
         (case outDir of None \<Rightarrow> Some (Inl NullPointer)
          | Some dir \<Rightarrow> Some (Inr (Some (dir @ ''/files/dump.cs'', ss_buf imageOutput @ concat outPuts))))))))"

end
