(* ===== verification/Il2CppText.thy ===== *)
theory Il2CppText
  imports Il2CppDump
begin

text \<open>
  The specification of the dump as text, and the proof that the dumper writes it. A loop body is specified by the text it
  appends to a stream that is written at its end (\<open>writes\<close>); the text of a member, of a type, of an assembly and of
  the whole file is a function of what the runtime reports. The predicates ending in \<open>_ok\<close> collect what the dumper
  relies on of the runtime: the iterators return the members and then null, the structures can be read, the names are not null.
\<close>

section \<open>Iteration\<close>

text \<open>
  What the documentation of the runtime promises of its iterators: starting from the null iterator they
  return the elements one after the other, then null.
\<close>

fun enumerates :: "(ptr \<Rightarrow> ptr \<times> ptr) \<Rightarrow> ptr \<Rightarrow> ptr list \<Rightarrow> bool" where
  "enumerates next iter [] \<longleftrightarrow> fst (next iter) = 0"
| "enumerates next iter (x # xs) \<longleftrightarrow> x \<noteq> 0 \<and> fst (next iter) = x \<and> enumerates next (snd (next iter)) xs"

lemma iter_loop_enumerates:
  "enumerates next iter xs \<Longrightarrow> iter_loop next body iter s = Some (rfold body xs s)"
proof (induction xs arbitrary: iter s)
  case Nil
  then show ?case by (subst iter_loop.simps) simp
next
  case (Cons x xs)
  then show ?case by (subst iter_loop.simps) (auto simp: rbind_def split: sum.splits)
qed

section \<open>Appending to a stream\<close>

definition writes :: "(stringstream \<Rightarrow> stringstream res) \<Rightarrow> string \<Rightarrow> bool" where
  "writes f t \<longleftrightarrow> (\<forall>s. at_end s \<longrightarrow> (\<exists>s'. f s = Inr s' \<and> at_end s' \<and> ss_buf s' = ss_buf s @ t))"

lemma writesE:
  assumes "writes f t" "at_end s"
  obtains s' where "f s = Inr s'" "at_end s'" "ss_buf s' = ss_buf s @ t"
  using assms by (auto simp: writes_def)

lemma rfold_writes:
  "(\<And>x. x \<in> set xs \<Longrightarrow> writes (f x) (t x)) \<Longrightarrow> writes (rfold f xs) (concat (map t xs))"
proof (induction xs)
  case Nil
  then show ?case by (simp add: writes_def)
next
  case (Cons x xs)
  then have x: "writes (f x) (t x)" and xs: "writes (rfold f xs) (concat (map t xs))" by simp_all
  show ?case unfolding writes_def
  proof (intro allI impI)
    fix s assume "at_end s"
    then obtain s1 where s1: "f x s = Inr s1" "at_end s1" "ss_buf s1 = ss_buf s @ t x" by (rule writesE [OF x])
    from xs s1(2) obtain s2 where "rfold f xs s1 = Inr s2" "at_end s2" "ss_buf s2 = ss_buf s1 @ concat (map t xs)"
      by (rule writesE)
    with s1 show "\<exists>s'. rfold f (x # xs) s = Inr s' \<and> at_end s' \<and> ss_buf s' = ss_buf s @ concat (map t (x # xs))" by simp
  qed
qed

text \<open>A member loop over a stream that starts with a heading.\<close>

lemma iter_loop_text:
  assumes "enumerates next 0 xs" "\<And>x. x \<in> set xs \<Longrightarrow> writes (body x) (t x)"
  shows "run_bind (iter_loop next body 0 (ss_put ss_new h)) (\<lambda>outPut. Some (Inr (ss_buf outPut))) =
    Some (Inr (h @ concat (map t xs)))"
proof -
  have "writes (rfold body xs) (concat (map t xs))" by (rule rfold_writes [OF assms(2)])
  then obtain s where "rfold body xs (ss_put ss_new h) = Inr s" "ss_buf s = h @ concat (map t xs)"
    by (rule writesE [of _ _ "ss_put ss_new h"]) simp_all
  then show ?thesis by (simp add: iter_loop_enumerates [OF assms(1)])
qed

text \<open>Elements with a separator between them.\<close>

fun join :: "string \<Rightarrow> string list \<Rightarrow> string" where
  "join sep [] = []"
| "join sep [x] = x"
| "join sep (x # y # xs) = x @ sep @ join sep (y # xs)"

lemma concat_sep: "xs \<noteq> [] \<Longrightarrow> concat (map (\<lambda>x. x @ sep) xs) = join sep xs @ sep"
  by (induction sep xs rule: join.induct) simp_all

section \<open>The text of a method\<close>

definition class_name :: "il2cpp_api \<Rightarrow> ptr \<Rightarrow> string" where
  "class_name api type = the (il2cpp_class_get_name api (il2cpp_class_from_type api type))"

definition byref :: "il2cpp_api \<Rightarrow> ptr \<Rightarrow> bool" where
  "byref api type = (case il2cpp_type_is_byref api of Some f \<Rightarrow> f type | None \<Rightarrow> ty_byref (the (mem_type api type)))"

definition passing :: "bool \<Rightarrow> u16 \<Rightarrow> string" where
  "passing ref attrs =
    (if ref then if bit attrs 1 = bit attrs 0 then ''ref '' else if bit attrs 1 then ''out '' else ''in ''
     else (if bit attrs 0 then ''[In] '' else []) @ (if bit attrs 1 then ''[Out] '' else []))"

definition param_text :: "il2cpp_api \<Rightarrow> ptr \<Rightarrow> nat \<Rightarrow> string" where
  "param_text api m i =
    (let p = il2cpp_method_get_param api m i in
     passing (byref api p) (ty_attrs (the (mem_type api p))) @ class_name api p @ '' '' @
     the (il2cpp_method_get_param_name api m i))"

definition address_text :: "u64 \<Rightarrow> u64 \<Rightarrow> string" where
  "address_text base p = (if p = 0 then ''0x VA: 0x0'' else ''0x'' @ digits 16 (unat (p - base)) @ '' VA: 0x'' @ digits 16 (unat p))"

definition method_text :: "il2cpp_api \<Rightarrow> u64 \<Rightarrow> ptr \<Rightarrow> string" where
  "method_text api base m =
    (let r = il2cpp_method_get_return_type api m in
     tab # ''// RVA: '' @ address_text base (methodPointer (the (mem_method api m))) @ [nl, tab] @
     get_method_modifier (il2cpp_method_get_flags api m) @ (if byref api r then ''ref '' else []) @
     class_name api r @ '' '' @ the (il2cpp_method_get_name api m) @ ''('' @
     join '', '' (map (param_text api m) [0..<unat (il2cpp_method_get_param_count api m)]) @ '') { }'' @ [nl])"

text \<open>The metadata a method refers to can be read, and its names are not null.\<close>

definition type_ok :: "il2cpp_api \<Rightarrow> ptr \<Rightarrow> bool" where
  "type_ok api t \<longleftrightarrow> mem_type api t \<noteq> None \<and> il2cpp_class_get_name api (il2cpp_class_from_type api t) \<noteq> None"

definition method_ok :: "il2cpp_api \<Rightarrow> ptr \<Rightarrow> bool" where
  "method_ok api m \<longleftrightarrow> mem_method api m \<noteq> None \<and> il2cpp_method_get_name api m \<noteq> None \<and>
     type_ok api (il2cpp_method_get_return_type api m) \<and>
     list_all (\<lambda>i. type_ok api (il2cpp_method_get_param api m i) \<and> il2cpp_method_get_param_name api m i \<noteq> None)
       [0..<unat (il2cpp_method_get_param_count api m)]"

lemma flag_bits: "attrs AND PARAM_ATTRIBUTE_IN \<noteq> 0 \<longleftrightarrow> bit attrs 0" "attrs AND PARAM_ATTRIBUTE_OUT \<noteq> 0 \<longleftrightarrow> bit attrs 1"
proof -
  have e: "PARAM_ATTRIBUTE_IN = 2 ^ 0" "PARAM_ATTRIBUTE_OUT = 2 ^ 1" by (simp_all add: attribute_defs)
  show "attrs AND PARAM_ATTRIBUTE_IN \<noteq> 0 \<longleftrightarrow> bit attrs 0" "attrs AND PARAM_ATTRIBUTE_OUT \<noteq> 0 \<longleftrightarrow> bit attrs 1"
    unfolding e and_exp_eq_0_iff_not_bit by simp_all
qed

lemma byref_ok: "type_ok api t \<Longrightarrow> il2cpp_type_is_byref' api t = Inr (byref api t)"
  by (auto simp: type_ok_def il2cpp_type_is_byref'_def byref_def split: option.splits)

lemma dump_param_writes:
  assumes "type_ok api (il2cpp_method_get_param api m i)" "il2cpp_method_get_param_name api m i \<noteq> None"
  shows "writes (dump_param api m i) (param_text api m i @ '', '')"
  using assms byref_ok [OF assms(1)]
  by (auto simp: writes_def dump_param_def type_ok_def param_text_def class_name_def Let_def flag_bits passing_def)

lemma dump_method_body_writes:
  assumes "method_ok api m"
  shows "writes (dump_method_body api base m) (method_text api base m)"
  unfolding writes_def
proof (intro allI impI)
  fix s assume s: "at_end s"
  let ?r = "il2cpp_method_get_return_type api m" and ?n = "il2cpp_method_get_param_count api m"
  obtain mi name rn where ok: "mem_method api m = Some mi" "il2cpp_method_get_name api m = Some name"
      "il2cpp_class_get_name api (il2cpp_class_from_type api ?r) = Some rn" "type_ok api ?r"
    and ps: "\<And>i. i < unat ?n \<Longrightarrow> type_ok api (il2cpp_method_get_param api m i) \<and> il2cpp_method_get_param_name api m i \<noteq> None"
    using assms by (auto simp: method_ok_def type_ok_def list_all_iff)
  define s1 where "s1 = (if methodPointer mi \<noteq> 0
           then let outPut = ss_put s (tab # ''// RVA: 0x'');
                    outPut = ss_uint (ss_setbase outPut True) (methodPointer mi - base);
                    outPut = ss_put outPut '' VA: 0x''
                in ss_uint (ss_setbase outPut True) (methodPointer mi)
           else ss_put s (tab # ''// RVA: 0x VA: 0x0''))"
  have s1: "at_end s1" "ss_buf s1 = ss_buf s @ tab # ''// RVA: '' @ address_text base (methodPointer mi)"
    using s by (simp_all add: s1_def Let_def address_text_def)
  define s2 where "s2 = ss_put (ss_put s1 [nl, tab]) (get_method_modifier (il2cpp_method_get_flags api m))"
  define s3 where "s3 = ss_put (ss_put (ss_put (ss_put (if byref api ?r then ss_put s2 ''ref '' else s2) rn) '' '') name) ''(''"
  have s3: "at_end s3" "ss_buf s3 = ss_buf s1 @ [nl, tab] @ get_method_modifier (il2cpp_method_get_flags api m) @
      (if byref api ?r then ''ref '' else []) @ rn @ '' '' @ name @ ''(''"
    using s1(1) by (simp_all add: s3_def s2_def)
  have "writes (rfold (dump_param api m) [0..<unat ?n]) (concat (map (\<lambda>i. param_text api m i @ '', '') [0..<unat ?n]))"
    by (rule rfold_writes) (use ps dump_param_writes in auto)
  then obtain s4 where s4: "rfold (dump_param api m) [0..<unat ?n] s3 = Inr s4" "at_end s4"
      "ss_buf s4 = ss_buf s3 @ concat (map (\<lambda>i. param_text api m i @ '', '') [0..<unat ?n])"
    using s3(1) by (rule writesE)
  define s5 where "s5 = ss_put (if ?n > 0 then ss_seekp_cur s4 (- 2) else s4) ('') { }'' @ [nl])"
  have body: "dump_method_body api base m s = Inr s5"
    using s4(1) unfolding s3_def s2_def s1_def s5_def dump_method_body_def Let_def
    by (simp add: ok byref_ok split del: if_split)
  have "at_end s5 \<and> ss_buf s5 = ss_buf s3 @ join '', '' (map (param_text api m) [0..<unat ?n]) @ '') { }'' @ [nl]"
  proof (cases "?n > 0")
    case True
    then have "map (param_text api m) [0..<unat ?n] \<noteq> []" by (simp add: word_less_nat_alt)
    then have "ss_buf s4 = (ss_buf s3 @ join '', '' (map (param_text api m) [0..<unat ?n])) @ '', ''"
      using concat_sep [of "map (param_text api m) [0..<unat ?n]" "'', ''"] s4(3) by (simp add: o_def)
    from ss_replace_tail [OF s4(2) this, of "- 2" "'') { }'' @ [nl]"] True show ?thesis by (simp add: s5_def)
  next
    case False
    then have "?n = 0" using word_neq_0_conv by blast
    with s4 show ?thesis by (simp add: s5_def)
  qed
  with body s1 s3 show "\<exists>s'. dump_method_body api base m s = Inr s' \<and> at_end s' \<and> ss_buf s' = ss_buf s @ method_text api base m"
    by (auto simp: method_text_def Let_def ok class_name_def)
qed

section \<open>The text of fields and properties\<close>

definition access_word :: "nat \<Rightarrow> string" where
  "access_word a = (if a < 7 then [[], ''private '', ''internal '', ''internal '', ''protected '', ''protected internal '', ''public ''] ! a else [])"

definition field_text :: "il2cpp_api \<Rightarrow> bool \<Rightarrow> ptr \<Rightarrow> string" where
  "field_text api is_enum f =
    (let attrs = il2cpp_field_get_flags api f; literal = bit attrs 6 in
     tab # access_word (unat (attrs AND 7)) @
     (if literal then ''const '' else (if bit attrs 4 then ''static '' else []) @ (if bit attrs 5 then ''readonly '' else [])) @
     class_name api (il2cpp_field_get_type api f) @ '' '' @ the (il2cpp_field_get_name api f) @
     (if literal \<and> is_enum then '' = '' @ digits 10 (unat (il2cpp_field_static_get_value api f 0)) else []) @
     ''; // 0x'' @ digits 16 (unat (il2cpp_field_get_offset api f)) @ [nl])"

definition field_ok :: "il2cpp_api \<Rightarrow> ptr \<Rightarrow> bool" where
  "field_ok api f \<longleftrightarrow> il2cpp_class_get_name api (il2cpp_class_from_type api (il2cpp_field_get_type api f)) \<noteq> None \<and>
     il2cpp_field_get_name api f \<noteq> None"

lemma and_7_cases: "(w :: u32) AND 7 \<in> {0, 1, 2, 3, 4, 5, 6, 7}"
proof -
  have small: "unat x < 8 \<Longrightarrow> x \<in> {0, 1, 2, 3, 4, 5, 6, 7}" for x :: u32
    by (auto simp: word_unat_eq_iff)
  show ?thesis by (rule small) (use word_and_le1 [of w 7] in \<open>simp add: word_le_nat_alt del: word_and_le1\<close>)
qed

lemma field_access_put: "field_access attrs s = (if attrs AND 7 = 0 \<or> attrs AND 7 = 7 then s else ss_put s (access_word (unat (attrs AND 7))))"
  using and_7_cases [of attrs] by (auto simp: field_access_def attribute_defs access_word_def)

lemma field_access_at_end:
  assumes "at_end s"
  shows "at_end (field_access attrs s)" "ss_buf (field_access attrs s) = ss_buf s @ access_word (unat (attrs AND 7))"
  using assms by (auto simp: field_access_put access_word_def)

lemma field_bits:
  "attrs AND FIELD_ATTRIBUTE_LITERAL \<noteq> 0 \<longleftrightarrow> bit attrs 6"
  "attrs AND FIELD_ATTRIBUTE_INIT_ONLY \<noteq> 0 \<longleftrightarrow> bit attrs 5"
  "attrs AND FIELD_ATTRIBUTE_STATIC \<noteq> 0 \<longleftrightarrow> bit attrs 4"
proof -
  have e: "FIELD_ATTRIBUTE_LITERAL = 2 ^ 6" "FIELD_ATTRIBUTE_INIT_ONLY = 2 ^ 5" "FIELD_ATTRIBUTE_STATIC = 2 ^ 4"
    by (simp_all add: attribute_defs)
  show "attrs AND FIELD_ATTRIBUTE_LITERAL \<noteq> 0 \<longleftrightarrow> bit attrs 6"
    "attrs AND FIELD_ATTRIBUTE_INIT_ONLY \<noteq> 0 \<longleftrightarrow> bit attrs 5"
    "attrs AND FIELD_ATTRIBUTE_STATIC \<noteq> 0 \<longleftrightarrow> bit attrs 4"
    unfolding e and_exp_eq_0_iff_not_bit by simp_all
qed

lemma dump_field_body_writes:
  assumes "field_ok api f"
  shows "writes (dump_field_body api is_enum f) (field_text api is_enum f)"
  using assms
  by (auto simp: writes_def dump_field_body_def field_ok_def field_text_def class_name_def Let_def field_bits field_access_at_end)

definition property_type :: "il2cpp_api \<Rightarrow> ptr \<Rightarrow> ptr option" where
  "property_type api p =
    (let get = il2cpp_property_get_get_method api p; set = il2cpp_property_get_set_method api p in
     if get \<noteq> 0 then Some (il2cpp_method_get_return_type api get)
     else if set \<noteq> 0 then Some (il2cpp_method_get_param api set 0) else None)"

text \<open>A property has an accessor, the class of its type exists and the names are not null.\<close>

definition property_ok :: "il2cpp_api \<Rightarrow> ptr \<Rightarrow> bool" where
  "property_ok api p \<longleftrightarrow> il2cpp_property_get_name api p \<noteq> None \<and>
     (case property_type api p of None \<Rightarrow> False
      | Some t \<Rightarrow> il2cpp_class_from_type api t \<noteq> 0 \<and> il2cpp_class_get_name api (il2cpp_class_from_type api t) \<noteq> None)"

definition property_text :: "il2cpp_api \<Rightarrow> ptr \<Rightarrow> string" where
  "property_text api p =
    (let get = il2cpp_property_get_get_method api p; set = il2cpp_property_get_set_method api p in
     tab # get_method_modifier (il2cpp_method_get_flags api (if get \<noteq> 0 then get else set)) @
     class_name api (the (property_type api p)) @ '' '' @ the (il2cpp_property_get_name api p) @ '' { '' @
     (if get \<noteq> 0 then ''get; '' else []) @ (if set \<noteq> 0 then ''set; '' else []) @ ''}'' @ [nl])"

lemma dump_property_body_writes:
  assumes "property_ok api p"
  shows "writes (dump_property_body api p) (property_text api p)"
  using assms
  by (auto simp: writes_def dump_property_body_def property_ok_def property_text_def property_type_def class_name_def Let_def
      split: if_splits)

section \<open>Member sections\<close>

text \<open>
  The three member loops have one contract: the body appends the text of a member to a stream that is written at its
  end. It is stated once, and the loop over the members proved once.
\<close>

locale member_section =
  fixes body :: "ptr \<Rightarrow> stringstream \<Rightarrow> stringstream res"
    and member_text :: "ptr \<Rightarrow> string"
    and ok :: "ptr \<Rightarrow> bool"
  assumes body_writes: "ok x \<Longrightarrow> writes (body x) (member_text x)"
begin

lemma section_text:
  assumes "enumerates next 0 xs" "list_all ok xs"
  shows "run_bind (iter_loop next body 0 (ss_put ss_new h)) (\<lambda>outPut. Some (Inr (ss_buf outPut))) =
    Some (Inr (h @ concat (map member_text xs)))"
  using assms by (intro iter_loop_text) (auto simp: list_all_iff intro: body_writes)

end

interpretation methods: member_section "dump_method_body api base" "method_text api base" "method_ok api" for api base
  by unfold_locales (rule dump_method_body_writes)

interpretation fields: member_section "dump_field_body api is_enum" "field_text api is_enum" "field_ok api" for api is_enum
  by unfold_locales (rule dump_field_body_writes)

interpretation properties: member_section "dump_property_body api" "property_text api" "property_ok api" for api
  by unfold_locales (rule dump_property_body_writes)

lemma dump_sections:
  "enumerates (il2cpp_class_get_methods api k) 0 ms \<Longrightarrow> list_all (method_ok api) ms \<Longrightarrow>
    dump_method api base k = Some (Inr ([nl, tab] @ ''// Methods'' @ [nl] @ concat (map (method_text api base) ms)))"
  "enumerates (il2cpp_class_get_fields api k) 0 fs \<Longrightarrow> list_all (field_ok api) fs \<Longrightarrow>
    dump_field api k = Some (Inr ([nl, tab] @ ''// Fields'' @ [nl] @ concat (map (field_text api (il2cpp_class_is_enum api k)) fs)))"
  "enumerates (il2cpp_class_get_properties api k) 0 ps \<Longrightarrow> list_all (property_ok api) ps \<Longrightarrow>
    dump_property api k = Some (Inr ([nl, tab] @ ''// Properties'' @ [nl] @ concat (map (property_text api) ps)))"
  by (simp_all add: dump_method_def dump_field_def dump_property_def methods.section_text fields.section_text
      properties.section_text)

section \<open>The text of a type\<close>

text \<open>What the runtime reports of a class: its interfaces and members in order.\<close>

record class_view =
  cv_interfaces :: "ptr list"
  cv_fields :: "ptr list"
  cv_properties :: "ptr list"
  cv_methods :: "ptr list"

definition base_class :: "il2cpp_api \<Rightarrow> ptr \<Rightarrow> ptr list" where
  "base_class api k =
    (let parent = il2cpp_class_get_parent api k in
     if il2cpp_class_is_valuetype api k \<or> il2cpp_class_is_enum api k \<or> parent = 0 \<or>
        ty_type (the (mem_type api (il2cpp_class_get_type api parent))) = IL2CPP_TYPE_OBJECT
     then [] else [parent])"

definition class_ok :: "il2cpp_api \<Rightarrow> ptr \<Rightarrow> class_view \<Rightarrow> bool" where
  "class_ok api k v \<longleftrightarrow>
     il2cpp_class_get_namespace api k \<noteq> None \<and> il2cpp_class_get_name api k \<noteq> None \<and>
     (let parent = il2cpp_class_get_parent api k in
      parent = 0 \<or> mem_type api (il2cpp_class_get_type api parent) \<noteq> None \<and> il2cpp_class_get_name api parent \<noteq> None) \<and>
     list_all (\<lambda>i. il2cpp_class_get_name api i \<noteq> None) (cv_interfaces v) \<and>
     enumerates (il2cpp_class_get_interfaces api k) 0 (cv_interfaces v) \<and>
     enumerates (il2cpp_class_get_fields api k) 0 (cv_fields v) \<and> list_all (field_ok api) (cv_fields v) \<and>
     enumerates (il2cpp_class_get_properties api k) 0 (cv_properties v) \<and> list_all (property_ok api) (cv_properties v) \<and>
     enumerates (il2cpp_class_get_methods api k) 0 (cv_methods v) \<and> list_all (method_ok api) (cv_methods v)"

definition extends_text :: "string list \<Rightarrow> string" where
  "extends_text xs = (if xs = [] then [] else '' : '' @ join '', '' xs)"

definition type_kind :: "u32 \<Rightarrow> bool \<Rightarrow> bool \<Rightarrow> string" where
  "type_kind flags is_valuetype is_enum =
    (let access = unat (flags AND 7); abstract = bit flags 7; sealed = bit flags 8; interface = bit flags 5 in
     (if access = 1 \<or> access = 2 then ''public '' else if access = 0 \<or> access = 5 \<or> access = 6 then ''internal ''
      else if access = 3 then ''private '' else if access = 4 then ''protected '' else ''protected internal '') @
     (if abstract \<and> sealed then ''static '' else if abstract \<and> \<not> interface then ''abstract ''
      else if sealed \<and> \<not> is_valuetype \<and> \<not> is_enum then ''sealed '' else []) @
     (if interface then ''interface '' else if is_enum then ''enum '' else if is_valuetype then ''struct '' else ''class ''))"

definition type_text :: "il2cpp_api \<Rightarrow> u64 \<Rightarrow> ptr \<Rightarrow> class_view \<Rightarrow> string" where
  "type_text api base k v =
    nl # ''// Namespace: '' @ the (il2cpp_class_get_namespace api k) @ [nl] @
    (if bit (il2cpp_class_get_flags api k) 13 then ''[Serializable]'' @ [nl] else []) @
    type_kind (il2cpp_class_get_flags api k) (il2cpp_class_is_valuetype api k) (il2cpp_class_is_enum api k) @
    the (il2cpp_class_get_name api k) @
    extends_text (map (\<lambda>c. the (il2cpp_class_get_name api c)) (base_class api k @ cv_interfaces v)) @ [nl, CHR ''{''] @
    [nl, tab] @ ''// Fields'' @ [nl] @ concat (map (field_text api (il2cpp_class_is_enum api k)) (cv_fields v)) @
    [nl, tab] @ ''// Properties'' @ [nl] @ concat (map (property_text api) (cv_properties v)) @
    [nl, tab] @ ''// Methods'' @ [nl] @ concat (map (method_text api base) (cv_methods v)) @ ''}'' @ [nl]"

lemma type_bits:
  "flags AND TYPE_ATTRIBUTE_INTERFACE \<noteq> 0 \<longleftrightarrow> bit flags 5"
  "flags AND TYPE_ATTRIBUTE_ABSTRACT \<noteq> 0 \<longleftrightarrow> bit flags 7"
  "flags AND TYPE_ATTRIBUTE_SEALED \<noteq> 0 \<longleftrightarrow> bit flags 8"
  "flags AND TYPE_ATTRIBUTE_SERIALIZABLE \<noteq> 0 \<longleftrightarrow> bit flags 13"
proof -
  have e: "TYPE_ATTRIBUTE_INTERFACE = 2 ^ 5" "TYPE_ATTRIBUTE_ABSTRACT = 2 ^ 7" "TYPE_ATTRIBUTE_SEALED = 2 ^ 8"
    "TYPE_ATTRIBUTE_SERIALIZABLE = 2 ^ 13"
    by (simp_all add: attribute_defs)
  show "flags AND TYPE_ATTRIBUTE_INTERFACE \<noteq> 0 \<longleftrightarrow> bit flags 5"
    "flags AND TYPE_ATTRIBUTE_ABSTRACT \<noteq> 0 \<longleftrightarrow> bit flags 7"
    "flags AND TYPE_ATTRIBUTE_SEALED \<noteq> 0 \<longleftrightarrow> bit flags 8"
    "flags AND TYPE_ATTRIBUTE_SERIALIZABLE \<noteq> 0 \<longleftrightarrow> bit flags 13"
    unfolding e and_exp_eq_0_iff_not_bit by simp_all
qed

lemma type_header_at_end:
  assumes "at_end s"
  shows "at_end (type_header flags vt en s)" "ss_buf (type_header flags vt en s) = ss_buf s @ type_kind flags vt en"
proof -
  have m: "TYPE_ATTRIBUTE_VISIBILITY_MASK = 7" by (simp add: attribute_defs)
  let ?vis = "\<lambda>s. let visibility = flags AND 7 in
      if visibility = TYPE_ATTRIBUTE_PUBLIC \<or> visibility = TYPE_ATTRIBUTE_NESTED_PUBLIC then ss_put s ''public ''
           else if visibility = TYPE_ATTRIBUTE_NOT_PUBLIC \<or> visibility = TYPE_ATTRIBUTE_NESTED_FAM_AND_ASSEM \<or>
             visibility = TYPE_ATTRIBUTE_NESTED_ASSEMBLY then ss_put s ''internal ''
           else if visibility = TYPE_ATTRIBUTE_NESTED_PRIVATE then ss_put s ''private ''
           else if visibility = TYPE_ATTRIBUTE_NESTED_FAMILY then ss_put s ''protected ''
           else if visibility = TYPE_ATTRIBUTE_NESTED_FAM_OR_ASSEM then ss_put s ''protected internal ''
           else s"
  have vis: "?vis s = ss_put s (let access = unat (flags AND 7) in
      if access = 1 \<or> access = 2 then ''public '' else if access = 0 \<or> access = 5 \<or> access = 6 then ''internal ''
      else if access = 3 then ''private '' else if access = 4 then ''protected '' else ''protected internal '')"
    using and_7_cases [of flags] by (auto simp: attribute_defs Let_def)
  show "at_end (type_header flags vt en s)" "ss_buf (type_header flags vt en s) = ss_buf s @ type_kind flags vt en"
    using assms by (auto simp: type_header_def m vis [unfolded Let_def] type_kind_def Let_def type_bits)
qed

lemma parent_extends_ok:
  assumes "class_ok api k v"
  shows "parent_extends api k (il2cpp_class_is_valuetype api k) (il2cpp_class_is_enum api k) =
    Inr (map (\<lambda>c. the (il2cpp_class_get_name api c)) (base_class api k))"
  using assms by (auto simp: class_ok_def parent_extends_def base_class_def Let_def)

lemma extends_body_rfold:
  "list_all (\<lambda>i. il2cpp_class_get_name api i \<noteq> None) is \<Longrightarrow>
    rfold (extends_body api) is xs = Inr (xs @ map (\<lambda>c. the (il2cpp_class_get_name api c)) is)"
  by (induction "is" arbitrary: xs) (auto simp: extends_body_def)

lemma put_rest_at_end:
  assumes "at_end s"
  shows "at_end (fold (\<lambda>i s. ss_put (ss_put s '', '') (xs ! i)) is s) \<and>
    ss_buf (fold (\<lambda>i s. ss_put (ss_put s '', '') (xs ! i)) is s) = ss_buf s @ concat (map (\<lambda>i. '', '' @ xs ! i) is)"
  using assms by (induction "is" arbitrary: s) simp_all

lemma join_Cons: "join sep (x # xs) = x @ concat (map (\<lambda>y. sep @ y) xs)"
proof (induction xs arbitrary: x)
  case (Cons y ys)
  from Cons [of y] show ?case by simp
qed simp

lemma put_extends_at_end:
  assumes "at_end s"
  shows "at_end (put_extends xs s)" "ss_buf (put_extends xs s) = ss_buf s @ extends_text xs"
proof -
  have "at_end (put_extends xs s) \<and> ss_buf (put_extends xs s) = ss_buf s @ extends_text xs"
  proof (cases xs)
    case Nil
    then show ?thesis using assms by (simp add: put_extends_def extends_text_def)
  next
    case (Cons x ys)
    have "map (\<lambda>i. '', '' @ xs ! i) [1..<length xs] = map (\<lambda>y. '', '' @ y) ys"
    proof -
      have "[1..<length xs] = map Suc [0..<length ys]" unfolding map_Suc_upt using Cons by simp
      then have "map (\<lambda>i. '', '' @ xs ! i) [1..<length xs] = map (\<lambda>y. '', '' @ y) (map ((!) ys) [0..<length ys])"
        unfolding Cons by simp
      then show ?thesis by (simp only: map_nth)
    qed
    with put_rest_at_end [of "ss_put (ss_put s '' : '') x" xs "[1..<length xs]"] Cons assms
    show ?thesis by (simp add: put_extends_def extends_text_def join_Cons)
  qed
  then show "at_end (put_extends xs s)" "ss_buf (put_extends xs s) = ss_buf s @ extends_text xs" by simp_all
qed

lemma dump_type_text:
  assumes ok: "class_ok api k v" and k: "il2cpp_class_from_type api type = k"
  shows "dump_type api base type = Some (Inr (type_text api base k v))"
proof -
  obtain ns name where n: "il2cpp_class_get_namespace api k = Some ns" "il2cpp_class_get_name api k = Some name"
    using ok by (auto simp: class_ok_def)
  have en: "enumerates (il2cpp_class_get_interfaces api k) 0 (cv_interfaces v)"
    and names: "list_all (\<lambda>i. il2cpp_class_get_name api i \<noteq> None) (cv_interfaces v)"
    using ok by (simp_all add: class_ok_def)
  have itf: "iter_loop (il2cpp_class_get_interfaces api k) (extends_body api) 0 xs =
      Some (Inr (xs @ map (\<lambda>c. the (il2cpp_class_get_name api c)) (cv_interfaces v)))" for xs
    by (simp only: iter_loop_enumerates [OF en] extends_body_rfold [OF names])
  have members:
    "dump_field api k = Some (Inr ([nl, tab] @ ''// Fields'' @ [nl] @ concat (map (field_text api (il2cpp_class_is_enum api k)) (cv_fields v))))"
    "dump_property api k = Some (Inr ([nl, tab] @ ''// Properties'' @ [nl] @ concat (map (property_text api) (cv_properties v))))"
    "dump_method api base k = Some (Inr ([nl, tab] @ ''// Methods'' @ [nl] @ concat (map (method_text api base) (cv_methods v))))"
    using ok dump_sections(1) [of api k "cv_methods v"] dump_sections(2) [of api k "cv_fields v"]
      dump_sections(3) [of api k "cv_properties v"]
    unfolding class_ok_def by blast+
  show ?thesis
    unfolding dump_type_def type_text_def Let_def
    by (simp add: k n parent_extends_ok [OF ok] itf members type_header_at_end put_extends_at_end type_bits)
qed

section \<open>The whole dump\<close>

definition dll_text :: "il2cpp_api \<Rightarrow> ptr \<Rightarrow> string" where
  "dll_text api a = nl # ''// Dll : '' @ the (il2cpp_image_get_name api (il2cpp_assembly_get_image api a))"

definition types_array :: "il2cpp_api \<Rightarrow> ptr \<Rightarrow> ptr" where
  "types_array api a =
    (let assemblyClass = il2cpp_class_from_name api (il2cpp_get_corlib api) ''System.Reflection'' ''Assembly'';
         entry = (\<lambda>name n. methodPointer (the (mem_method api (il2cpp_class_get_method_from_name api assemblyClass name n))));
         name = no_ext (the (il2cpp_image_get_name api (il2cpp_assembly_get_image api a)))
     in call_Assembly_GetTypes api (entry ''GetTypes'' 0)
          (call_Assembly_Load api (entry ''Load'' 1) (il2cpp_string_new api name)))"

text \<open>The classes of an assembly, by either interface of the runtime.\<close>

definition assembly_classes :: "il2cpp_api \<Rightarrow> ptr \<Rightarrow> ptr list" where
  "assembly_classes api a =
    (let image = il2cpp_assembly_get_image api a in
     case il2cpp_image_get_class api of
       Some get_class \<Rightarrow> map (\<lambda>j. get_class image (of_nat j)) [0..<unat (il2cpp_image_get_class_count api image)]
     | None \<Rightarrow> (let items = the (mem_array api (types_array api a)) in
         map (il2cpp_class_from_system_type api) (take (unat (arr_max_length items)) (arr_vector items))))"

definition assembly_text :: "il2cpp_api \<Rightarrow> u64 \<Rightarrow> (ptr \<Rightarrow> class_view) \<Rightarrow> ptr \<Rightarrow> string" where
  "assembly_text api base view a = concat (map (\<lambda>k. dll_text api a @ type_text api base k (view k)) (assembly_classes api a))"

definition image_text :: "il2cpp_api \<Rightarrow> nat \<times> ptr \<Rightarrow> string" where
  "image_text api = (\<lambda>(i, a). ''// Image '' @ digits 10 i @ '': '' @
     the (il2cpp_image_get_name api (il2cpp_assembly_get_image api a)) @ [nl])"

definition dump_text :: "il2cpp_api \<Rightarrow> u64 \<Rightarrow> (ptr \<Rightarrow> class_view) \<Rightarrow> ptr list \<Rightarrow> string" where
  "dump_text api base view as =
    concat (map (image_text api) (zip [0..<length as] as)) @ concat (map (assembly_text api base view) as)"

text \<open>The metadata of an assembly can be read, and for the reflection interface the array has its elements.\<close>

definition assembly_ok :: "il2cpp_api \<Rightarrow> (ptr \<Rightarrow> class_view) \<Rightarrow> ptr \<Rightarrow> bool" where
  "assembly_ok api view a \<longleftrightarrow>
     il2cpp_image_get_name api (il2cpp_assembly_get_image api a) \<noteq> None \<and>
     (il2cpp_image_get_class api = None \<longrightarrow>
       (case mem_array api (types_array api a) of None \<Rightarrow> False
        | Some items \<Rightarrow> unat (arr_max_length items) \<le> length (arr_vector items))) \<and>
     list_all (\<lambda>k. il2cpp_class_from_type api (il2cpp_class_get_type api k) = k \<and> class_ok api k (view k)) (assembly_classes api a)"

definition reflection_available :: "il2cpp_api \<Rightarrow> bool" where
  "reflection_available api \<longleftrightarrow>
    (let assemblyClass = il2cpp_class_from_name api (il2cpp_get_corlib api) ''System.Reflection'' ''Assembly'' in
     has_methodPointer api (il2cpp_class_get_method_from_name api assemblyClass ''Load'' 1) \<and>
     has_methodPointer api (il2cpp_class_get_method_from_name api assemblyClass ''GetTypes'' 0))"

lemma run_fold_push:
  assumes "\<And>j. j \<in> set js \<Longrightarrow> dump_type api base (il2cpp_class_get_type api (g j)) = Some (Inr (t (g j)))"
  shows "run_fold (\<lambda>j. push_type api base dll (g j)) js out = Some (Inr (out @ map (\<lambda>k. dll @ t k) (map g js)))"
  using assms by (induction js arbitrary: out) (simp_all add: push_type_def)

lemma run_fold_cong:
  "(\<And>x s. x \<in> set xs \<Longrightarrow> f x s = g x s) \<Longrightarrow> run_fold f xs s = run_fold g xs s"
proof (induction xs arbitrary: s)
  case (Cons x xs)
  from Cons(1) [OF Cons(2)] have "run_fold f xs = run_fold g xs" by (intro ext) simp
  with Cons(2) [of x] show ?case by simp
qed simp

lemma dll_line_Some:
  "il2cpp_image_get_name api (il2cpp_assembly_get_image api a) = Some n \<Longrightarrow> dll_line (Some n) = Inr (dll_text api a)"
  by (simp add: dll_line_def dll_text_def)

lemma dump_image_text:
  assumes ok: "assembly_ok api view a" and gc: "il2cpp_image_get_class api = Some get_class"
  shows "dump_image api base get_class a out =
    Some (Inr (out @ map (\<lambda>k. dll_text api a @ type_text api base k (view k)) (assembly_classes api a)))"
proof -
  let ?image = "il2cpp_assembly_get_image api a"
  obtain n where n: "il2cpp_image_get_name api ?image = Some n" using ok by (auto simp: assembly_ok_def)
  have cls: "assembly_classes api a = map (\<lambda>j. get_class ?image (of_nat j)) [0..<unat (il2cpp_image_get_class_count api ?image)]"
    by (simp add: assembly_classes_def gc Let_def)
  have "dump_type api base (il2cpp_class_get_type api k) = Some (Inr (type_text api base k (view k)))"
    if "k \<in> set (assembly_classes api a)" for k
    using ok that by (intro dump_type_text) (auto simp: assembly_ok_def list_all_iff)
  then have "run_fold (\<lambda>j. push_type api base (dll_text api a) (get_class ?image (of_nat j)))
      [0..<unat (il2cpp_image_get_class_count api ?image)] out =
    Some (Inr (out @ map (\<lambda>k. dll_text api a @ type_text api base k (view k)) (assembly_classes api a)))"
    unfolding cls by (intro run_fold_push) simp
  then show ?thesis by (simp add: dump_image_def n dll_line_Some [OF n] Let_def)
qed

lemma dump_image_reflect_text:
  assumes ok: "assembly_ok api view a" and gc: "il2cpp_image_get_class api = None"
  defines "assemblyClass \<equiv> il2cpp_class_from_name api (il2cpp_get_corlib api) ''System.Reflection'' ''Assembly''"
  shows "dump_image_reflect api base
      (methodPointer (the (mem_method api (il2cpp_class_get_method_from_name api assemblyClass ''Load'' 1))))
      (methodPointer (the (mem_method api (il2cpp_class_get_method_from_name api assemblyClass ''GetTypes'' 0)))) a out =
    Some (Inr (out @ map (\<lambda>k. dll_text api a @ type_text api base k (view k)) (assembly_classes api a)))"
proof -
  let ?image = "il2cpp_assembly_get_image api a"
  obtain n where n: "il2cpp_image_get_name api ?image = Some n" using ok by (auto simp: assembly_ok_def)
  obtain items where items: "mem_array api (types_array api a) = Some items" "unat (arr_max_length items) \<le> length (arr_vector items)"
    using ok gc by (auto simp: assembly_ok_def split: option.splits)
  let ?c = "\<lambda>j. il2cpp_class_from_system_type api (arr_vector items ! j)"
  have cls: "assembly_classes api a = map ?c [0..<unat (arr_max_length items)]"
    using items(2) by (simp add: assembly_classes_def gc items(1) Let_def)
      (rule nth_equalityI; simp)
  have "dump_type api base (il2cpp_class_get_type api k) = Some (Inr (type_text api base k (view k)))"
    if "k \<in> set (assembly_classes api a)" for k
    using ok that by (intro dump_type_text) (auto simp: assembly_ok_def list_all_iff)
  then have "run_fold (\<lambda>j. push_type api base (dll_text api a) (?c j)) [0..<unat (arr_max_length items)] out =
    Some (Inr (out @ map (\<lambda>k. dll_text api a @ type_text api base k (view k)) (assembly_classes api a)))"
    unfolding cls by (intro run_fold_push) simp
  moreover have "run_fold (\<lambda>j out. if j < length (arr_vector items) then push_type api base (dll_text api a) (?c j) out
        else Some (Inl OutOfBounds)) [0..<unat (arr_max_length items)] out =
      run_fold (\<lambda>j. push_type api base (dll_text api a) (?c j)) [0..<unat (arr_max_length items)] out"
    using items(2) by (intro run_fold_cong) auto
  moreover have "types_array api a = call_Assembly_GetTypes api
      (methodPointer (the (mem_method api (il2cpp_class_get_method_from_name api assemblyClass ''GetTypes'' 0))))
      (call_Assembly_Load api (methodPointer (the (mem_method api (il2cpp_class_get_method_from_name api assemblyClass ''Load'' 1))))
        (il2cpp_string_new api (no_ext n)))"
    by (simp add: types_array_def assemblyClass_def n Let_def)
  ultimately show ?thesis using items(1)
    by (simp add: dump_image_reflect_def n dll_line_Some [OF n] Let_def)
qed

lemma run_fold_texts:
  assumes "\<And>a out. a \<in> set as \<Longrightarrow> f a out = Some (Inr (out @ t a))"
  shows "run_fold f as out = Some (Inr (out @ concat (map t as)))"
  using assms by (induction as arbitrary: out) simp_all

lemma image_line_writes:
  assumes "il2cpp_image_get_name api (il2cpp_assembly_get_image api (snd x)) \<noteq> None" "fst x < 2 ^ 31"
  shows "\<forall>s. at_end s \<and> \<not> ss_hex s \<longrightarrow> (\<exists>s'. image_line api x s = Inr s' \<and> at_end s' \<and> \<not> ss_hex s' \<and> ss_buf s' = ss_buf s @ image_text api x)"
  using assms by (cases x) (auto simp: image_line_def image_text_def Let_def unsigned_of_nat take_bit_nat_eq_self)

lemma image_lines:
  assumes "list_all (\<lambda>x. il2cpp_image_get_name api (il2cpp_assembly_get_image api (snd x)) \<noteq> None \<and> fst x < 2 ^ 31) xs"
    "at_end s" "\<not> ss_hex s"
  shows "\<exists>s'. rfold (image_line api) xs s = Inr s' \<and> ss_buf s' = ss_buf s @ concat (map (image_text api) xs)"
  using assms
proof (induction xs arbitrary: s)
  case (Cons x xs)
  obtain s1 where s1: "image_line api x s = Inr s1" "at_end s1" "\<not> ss_hex s1" "ss_buf s1 = ss_buf s @ image_text api x"
    using image_line_writes [of api x] Cons.prems by auto
  with Cons.IH [of s1] Cons.prems show ?case by auto
qed simp

lemma image_lines_names:
  assumes "list_all (\<lambda>a. il2cpp_image_get_name api (il2cpp_assembly_get_image api a) \<noteq> None) as" "length as < 2 ^ 31"
  shows "\<exists>s. rfold (image_line api) (zip [0..<length as] as) ss_new = Inr s \<and>
    ss_buf s = concat (map (image_text api) (zip [0..<length as] as))"
proof -
  have "list_all (\<lambda>x. il2cpp_image_get_name api (il2cpp_assembly_get_image api (snd x)) \<noteq> None \<and> fst x < 2 ^ 31)
      (zip [0..<length as] as)"
    using assms by (auto simp: list_all_iff set_zip)
  moreover have "\<not> ss_hex ss_new" by (simp add: ss_new_def)
  ultimately show ?thesis using image_lines [of api _ ss_new] by auto
qed

lemma il2cpp_dump_text:
  assumes api: "dlsym_api handle = api" and asms: "il2cpp_domain_get_assemblies api = Some get_assemblies"
    and base: "(case dladdr of Some fbase \<Rightarrow> Inr fbase | None \<Rightarrow> get_module_base aarch64 maps ''libil2cpp.so'') = Inr base"
    and as: "as = get_assemblies (il2cpp_domain_get api)" "length as < 2 ^ 31"
    and ok: "list_all (assembly_ok api view) as"
    and refl: "il2cpp_image_get_class api = None \<longrightarrow> reflection_available api"
  shows "il2cpp_dump dlsym_api dladdr aarch64 maps handle (Some dir) =
    Some (Inr (Some (dir @ ''/files/dump.cs'', dump_text api base view as)))"
proof -
  obtain s where
    s: "rfold (image_line api) (zip [0..<length as] as) ss_new = Inr s"
      "ss_buf s = concat (map (image_text api) (zip [0..<length as] as))"
    using image_lines_names [OF _ as(2)] ok by (force simp: list_all_iff assembly_ok_def)
  let ?t = "\<lambda>a. map (\<lambda>k. dll_text api a @ type_text api base k (view k)) (assembly_classes api a)"
  have t: "concat (concat (map ?t as)) = concat (map (assembly_text api base view) as)"
    by (induction as) (simp_all add: assembly_text_def)
  show ?thesis
  proof (cases "il2cpp_image_get_class api")
    case (Some get_class)
    have "run_fold (dump_image api base get_class) as [] = Some (Inr (concat (map ?t as)))"
      using ok by (subst run_fold_texts [where t = ?t]) (auto simp: list_all_iff intro: dump_image_text [OF _ Some])
    then show ?thesis
      by (simp add: il2cpp_dump_def api asms base as(1) [symmetric] s Some t dump_text_def Let_def)
  next
    case None
    let ?A = "il2cpp_class_from_name api (il2cpp_get_corlib api) ''System.Reflection'' ''Assembly''"
    let ?p = "\<lambda>n c. methodPointer (the (mem_method api (il2cpp_class_get_method_from_name api ?A n c)))"
    have "run_fold (dump_image_reflect api base (?p ''Load'' 1) (?p ''GetTypes'' 0)) as [] = Some (Inr (concat (map ?t as)))"
      using ok by (subst run_fold_texts [where t = ?t]) (auto simp: list_all_iff intro: dump_image_reflect_text [OF _ None, simplified])
    then show ?thesis using refl
      by (simp add: il2cpp_dump_def api asms base as(1) [symmetric] s None t dump_text_def Let_def reflection_available_def)
  qed
qed

end
