(* ===== verification/MapsText.thy ===== *)
theory MapsText
  imports TextStream
begin

text \<open>
  The lines of \<open>/proc/self/maps\<close> as the kernel prints them, and what the conversions of \<open>sscanf\<close> read in such text. The dumper
  and the hooking library both parse this file.
\<close>

text \<open>An entry of \<open>/proc/self/maps\<close> and its line, the way the kernel prints it; a mapping without a file has no path.\<close>

record map_entry =
  me_start :: u64
  me_end :: u64
  me_perms :: string
  me_offset :: nat
  me_major :: nat
  me_minor :: nat
  me_inode :: nat
  me_pad :: nat
  me_path :: string

definition hexpad :: "nat \<Rightarrow> nat \<Rightarrow> string" where
  "hexpad w n = replicate (w - length (digits 16 n)) CHR ''0'' @ digits 16 n"

definition maps_line :: "map_entry \<Rightarrow> string" where
  "maps_line e = hexpad 8 (unat (me_start e)) @ ''-'' @ hexpad 8 (unat (me_end e)) @ '' '' @ me_perms e @ '' '' @
     hexpad 8 (me_offset e) @ '' '' @ hexpad 2 (me_major e) @ '':'' @ hexpad 2 (me_minor e) @ '' '' @ digits 10 (me_inode e) @
     '' '' @ (if me_path e = [] then [] else replicate (me_pad e) CHR '' '' @ me_path e) @ [nl]"

definition entry_text :: "map_entry \<Rightarrow> bool" where
  "entry_text e \<longleftrightarrow> length (me_perms e) = 4 \<and> list_all (\<lambda>c. \<not> isspace c) (me_perms e) \<and> list_all (\<lambda>c. \<not> isspace c) (me_path e)"

lemma digit_char_props:
  "d < b \<Longrightarrow> b \<le> 16 \<Longrightarrow> isdigit_in b (digit_char d)"
  by (simp add: isdigit_in_def char_digit_digit_char)

lemma digits_isdigit: "2 \<le> b \<Longrightarrow> b \<le> 16 \<Longrightarrow> list_all (isdigit_in b) (digits b n)"
proof (induction n rule: less_induct)
  case (less n)
  then show ?case
    by (subst digits.simps) (auto simp: digit_char_props div_less_dividend)
qed

lemma digits_nonempty: "digits b n \<noteq> []"
  by (subst digits.simps) simp

lemma isdigit_not_space: "isdigit_in b c \<Longrightarrow> \<not> isspace c \<and> c \<noteq> CHR ''-'' \<and> c \<noteq> CHR ''+'' \<and> c \<noteq> CHR ''x'' \<and> c \<noteq> CHR ''X''"
  by (auto simp: isdigit_in_def char_digit_def isspace_def Let_def split: if_splits)

lemma number_of_zeros: "number_of b (replicate k CHR ''0'' @ s) = number_of b s"
  by (induction k) (simp_all add: number_of_def char_digit_def)

text \<open>Scanning digits up to a character that is not one.\<close>

lemma scan_number_digits:
  assumes "list_all (isdigit_in b) ds" "ds \<noteq> []" "rest = [] \<or> \<not> isdigit_in b (hd rest)" "list_all isspace ws"
    "rest = [] \<or> hd rest \<notin> {CHR ''x'', CHR ''X''}"
  shows "scan_number b (ws @ ds @ rest) = Some (int (number_of b ds), rest)"
proof -
  obtain d ds' where d: "ds = d # ds'" using assms(2) by (cases ds) auto
  have nd: "isdigit_in b d" using assms(1) d by simp
  have ws: "scan_ws (ws @ ds @ rest) = ds @ rest"
    using assms(4) isdigit_not_space [OF nd] d
    by (simp add: scan_ws_def list_all_iff dropWhile_append)
  have nx: "\<not> (length (ds @ rest) \<ge> 3 \<and> ((ds @ rest) ! 1 = CHR ''x'' \<or> (ds @ rest) ! 1 = CHR ''X''))"
  proof (cases ds')
    case Nil
    then show ?thesis using assms(5) d by (cases rest) auto
  next
    case (Cons e es)
    then show ?thesis using assms(1) isdigit_not_space [of b e] d by simp
  qed
  have tk: "takeWhile (isdigit_in b) (ds @ rest) = ds" "dropWhile (isdigit_in b) (ds @ rest) = rest"
    using assms(1,3) by (cases rest; simp add: list_all_iff takeWhile_append dropWhile_append)+
  show ?thesis
    using isdigit_not_space [OF nd] nx tk d assms(2) unfolding scan_number_def Let_def ws
    by auto
qed

lemma scan_hexpad:
  assumes "list_all isspace ws" "c \<in> {CHR ''-'', CHR '' '', CHR '':''}"
  shows "scan_number 16 (ws @ hexpad w n @ c # rest) = Some (int n, c # rest)"
proof -
  have "isdigit_in 16 CHR ''0''" by code_simp
  then have "list_all (isdigit_in 16) (hexpad w n)" "hexpad w n \<noteq> []"
    using digits_isdigit [of 16 n] by (auto simp: hexpad_def digits_nonempty list_all_iff)
  moreover have "\<not> isdigit_in 16 c" "c \<notin> {CHR ''x'', CHR ''X''}" using assms(2) by (auto simp: isdigit_in_def char_digit_def)
  moreover have "number_of 16 (hexpad w n) = n" by (simp add: hexpad_def number_of_zeros number_of_digits)
  ultimately show ?thesis using scan_number_digits [of 16 "hexpad w n" "c # rest" ws] assms(1) by simp
qed

lemma scan_s_token:
  assumes "list_all isspace ws" "list_all (\<lambda>c. \<not> isspace c) tok" "tok \<noteq> []" "isspace c"
  shows "scan_s (ws @ tok @ c # rest) = Some (tok, c # rest)"
proof -
  have "scan_ws (ws @ tok @ c # rest) = tok @ c # rest"
    using assms by (cases tok) (simp_all add: scan_ws_def list_all_iff dropWhile_append)
  then show ?thesis using assms by (simp add: scan_s_def list_all_iff takeWhile_append dropWhile_append)
qed

lemma to_u64_uint: "to_u64 (uint x) = x"
proof -
  have "uint x < 2 ^ 64" using unsigned_less [of x] by simp
  then show ?thesis by (simp add: to_u64_def)
qed

end
