(* ===== verification/Il2CppProperties.thy ===== *)
theory Il2CppProperties
  imports Il2CppText MapsText
begin

text \<open>
  The properties of the dumper: the file it writes, the addresses and modifiers that can be read back from it, the runs that
  write nothing, and the base address found in the mappings of the process, whose lines are specified as the kernel prints them.
\<close>

section \<open>The dump\<close>

text \<open>
  C3. The dump is complete: on a runtime whose metadata can be read, \<open>il2cpp_dump\<close> returns and writes
  \<open>files/dump.cs\<close> with one line per image, then, for every assembly in order and every class of it in order, exactly once,
  the declaration of the class with its base, interfaces, fields, properties and methods, whichever interface of the
  runtime it uses to enumerate classes.
\<close>

theorem il2cpp_dump_lists_every_class:
  assumes "il2cpp_domain_get_assemblies (dlsym_api handle) = Some get_assemblies"
    and "(case dladdr of Some fbase \<Rightarrow> Inr fbase | None \<Rightarrow> get_module_base aarch64 maps ''libil2cpp.so'') = Inr base"
    and "get_assemblies (il2cpp_domain_get (dlsym_api handle)) = as" "length as < 2 ^ 31"
    and "list_all (assembly_ok (dlsym_api handle) view) as"
    and "il2cpp_image_get_class (dlsym_api handle) = None \<longrightarrow> reflection_available (dlsym_api handle)"
  shows "il2cpp_dump dlsym_api dladdr aarch64 maps handle (Some dir) =
    Some (Inr (Some (dir @ ''/files/dump.cs'', dump_text (dlsym_api handle) base view as)))"
  by (rule il2cpp_dump_text [of dlsym_api, OF refl [of "dlsym_api handle"] assms(1,2) assms(3) [symmetric] assms(4-6)])

definition demo_api :: il2cpp_api where
  "demo_api = \<lparr>
    mem_type = (\<lambda>p. if p \<in> {10, 11, 12} then Some \<lparr>ty_data = 0, ty_attrs = (if p = 11 then 2 else 0),
      ty_type = (if p = 12 then 0x1c else 8), ty_num_mods = 0, ty_byref = (p = 11), ty_pinned = False\<rparr> else None),
    mem_method = (\<lambda>p. if p = 40 then Some \<lparr>methodPointer = 0x1234\<rparr> else None),
    mem_array = (\<lambda>p. None),
    il2cpp_domain_get = 1,
    il2cpp_domain_get_assemblies = Some (\<lambda>_. [2]),
    il2cpp_assembly_get_image = (\<lambda>p. 3),
    il2cpp_image_get_name = (\<lambda>p. Some ''A.dll''),
    il2cpp_image_get_class_count = (\<lambda>p. 1),
    il2cpp_image_get_class = Some (\<lambda>image j. 20),
    il2cpp_get_corlib = 0,
    il2cpp_class_from_name = (\<lambda>i ns n. 0),
    il2cpp_class_get_method_from_name = (\<lambda>k n c. 0),
    il2cpp_string_new = (\<lambda>s. 0),
    il2cpp_class_from_system_type = (\<lambda>p. 0),
    call_Assembly_Load = (\<lambda>f p. 0),
    call_Assembly_GetTypes = (\<lambda>f p. 0),
    il2cpp_class_get_type = (\<lambda>k. k - 10),
    il2cpp_class_from_type = (\<lambda>t. t + 10),
    il2cpp_class_get_name = (\<lambda>k. if k = 20 then Some ''C'' else if k = 21 then Some ''T'' else if k = 22 then Some ''Object'' else None),
    il2cpp_class_get_namespace = (\<lambda>k. Some ''N''),
    il2cpp_class_get_flags = (\<lambda>k. 1),
    il2cpp_class_is_valuetype = (\<lambda>k. False),
    il2cpp_class_is_enum = (\<lambda>k. False),
    il2cpp_class_get_parent = (\<lambda>k. 22),
    il2cpp_class_get_interfaces = (\<lambda>k i. if i = 0 then (21, 1) else (0, 1)),
    il2cpp_class_get_fields = (\<lambda>k i. if i = 0 then (30, 1) else (0, 1)),
    il2cpp_class_get_properties = (\<lambda>k i. if i = 0 then (35, 1) else (0, 1)),
    il2cpp_class_get_methods = (\<lambda>k i. if i = 0 then (40, 1) else (0, 1)),
    il2cpp_field_get_flags = (\<lambda>f. 0x16),
    il2cpp_field_get_type = (\<lambda>f. 11),
    il2cpp_field_get_name = (\<lambda>f. Some ''f''),
    il2cpp_field_get_offset = (\<lambda>f. 16),
    il2cpp_field_static_get_value = (\<lambda>f v. 0),
    il2cpp_property_get_get_method = (\<lambda>p. 40),
    il2cpp_property_get_set_method = (\<lambda>p. 0),
    il2cpp_property_get_name = (\<lambda>p. Some ''P''),
    il2cpp_method_get_flags = (\<lambda>m. 6),
    il2cpp_method_get_return_type = (\<lambda>m. 10),
    il2cpp_method_get_name = (\<lambda>m. Some ''M''),
    il2cpp_method_get_param_count = (\<lambda>m. 2),
    il2cpp_method_get_param = (\<lambda>m i. if i = 0 then 11 else 10),
    il2cpp_method_get_param_name = (\<lambda>m i. Some (if i = 0 then ''a'' else ''b'')),
    il2cpp_type_is_byref = None\<rparr>"

definition demo_view :: class_view where
  "demo_view = \<lparr>cv_interfaces = [21], cv_fields = [30], cv_properties = [35], cv_methods = [40]\<rparr>"

lemma demo_ok: "list_all (assembly_ok demo_api (\<lambda>_. demo_view)) [2]"
  by code_simp

lemma demo_text: "dump_text demo_api 0x1000 (\<lambda>_. demo_view) [2] =
  ''// Image 0: A.dll'' @ [nl, nl] @ ''// Dll : A.dll'' @ [nl] @ ''// Namespace: N'' @ [nl] @ ''public class C : T'' @ [nl] @ ''{'' @
  [nl, tab] @ ''// Fields'' @ [nl, tab] @ ''public static T f; // 0x10'' @ [nl] @
  [nl, tab] @ ''// Properties'' @ [nl, tab] @ ''public C P { get; }'' @ [nl] @
  [nl, tab] @ ''// Methods'' @ [nl, tab] @ ''// RVA: 0x234 VA: 0x1234'' @ [nl, tab] @ ''public C M(out T a, C b) { }'' @ [nl] @ ''}'' @ [nl]"
  by code_simp

theorem il2cpp_dump_lists_every_class_witness:
  "il2cpp_dump (\<lambda>_. demo_api) (Some 0x1000) True None 7 (Some ''/data'') =
    Some (Inr (Some (''/data/files/dump.cs'',
  ''// Image 0: A.dll'' @ [nl, nl] @ ''// Dll : A.dll'' @ [nl] @ ''// Namespace: N'' @ [nl] @ ''public class C : T'' @ [nl] @ ''{'' @
  [nl, tab] @ ''// Fields'' @ [nl, tab] @ ''public static T f; // 0x10'' @ [nl] @
  [nl, tab] @ ''// Properties'' @ [nl, tab] @ ''public C P { get; }'' @ [nl] @
  [nl, tab] @ ''// Methods'' @ [nl, tab] @ ''// RVA: 0x234 VA: 0x1234'' @ [nl, tab] @ ''public C M(out T a, C b) { }'' @ [nl] @ ''}'' @ [nl])))"
proof -
  have d: "il2cpp_domain_get_assemblies demo_api = Some (\<lambda>_. [2])" "il2cpp_image_get_class demo_api \<noteq> None"
    by (simp_all add: demo_api_def)
  from il2cpp_dump_lists_every_class [of "\<lambda>_. demo_api" 7 "\<lambda>_. [2]" True None "Some 0x1000" "0x1000" "[2]" "\<lambda>_. demo_view" "''/data''"]
    d demo_ok
  show ?thesis by (simp add: demo_text)
qed

text \<open>
  C25. A type is dumped in full: when the runtime enumerates its members, \<open>dump_type\<close> returns its declaration with the
  namespace, the kind of type, the base class unless it is \<open>object\<close>, the interfaces, and every field, property and method
  once and in order; the put pointer moved back over the last separator of a parameter list leaves no trace.
\<close>

theorem dump_type_complete:
  assumes "class_ok api (il2cpp_class_from_type api type) v"
  shows "dump_type api base type = Some (Inr (type_text api base (il2cpp_class_from_type api type) v))"
  by (rule dump_type_text [OF assms refl])

theorem dump_type_complete_witness:
  "dump_type demo_api 0x1000 10 = Some (Inr (type_text demo_api 0x1000 20 demo_view))"
proof -
  have "il2cpp_class_from_type demo_api 10 = 20" by (simp add: demo_api_def)
  moreover from demo_ok have "class_ok demo_api 20 demo_view"
    by (simp add: assembly_ok_def assembly_classes_def demo_api_def)
  ultimately show ?thesis using dump_type_complete [of demo_api 10 demo_view "0x1000"] by simp
qed

text \<open>
  C26. The addresses of a method can be read back from the dump: after the text already in the stream the line of a method
  with code has the digits of an RVA and of a VA, the RVA plus the base of the library is the VA, and the VA is the
  method pointer, also when the subtraction wraps.
\<close>

theorem method_addresses_roundtrip:
  assumes "method_ok api m" "methodPointer (the (mem_method api m)) \<noteq> 0"
  shows "\<exists>s rva va rest. dump_method_body api base m ss_new = Inr s \<and>
    ss_buf s = tab # ''// RVA: 0x'' @ rva @ '' VA: 0x'' @ va @ [nl, tab] @ rest \<and>
    of_nat (number_of 16 rva) + base = methodPointer (the (mem_method api m)) \<and>
    of_nat (number_of 16 va) = methodPointer (the (mem_method api m))"
proof -
  obtain s where s: "dump_method_body api base m ss_new = Inr s" "ss_buf s = method_text api base m"
    using dump_method_body_writes [OF assms(1), of base] by (rule writesE [of _ _ ss_new]) simp_all
  let ?p = "methodPointer (the (mem_method api m))"
  have r: "of_nat (number_of 16 (digits 16 (unat (?p - base)))) + base = ?p" "of_nat (number_of 16 (digits 16 (unat ?p))) = ?p"
    by (simp_all add: number_of_digits)
  obtain rest where t: "method_text api base m =
      tab # ''// RVA: 0x'' @ digits 16 (unat (?p - base)) @ '' VA: 0x'' @ digits 16 (unat ?p) @ [nl, tab] @ rest"
    using assms(2) by (simp add: method_text_def address_text_def Let_def)
  show ?thesis by (intro exI conjI) (rule s(1), rule s(2) [unfolded t], rule r(1), rule r(2))
qed

theorem method_addresses_roundtrip_witness:
  "\<exists>s rva va rest. dump_method_body demo_api 0x1000 40 ss_new = Inr s \<and>
    ss_buf s = tab # ''// RVA: 0x'' @ rva @ '' VA: 0x'' @ va @ [nl, tab] @ rest \<and>
    of_nat (number_of 16 rva) + 0x1000 = (0x1234 :: u64) \<and> of_nat (number_of 16 va) = (0x1234 :: u64)"
proof -
  have "method_ok demo_api 40" by code_simp
  moreover have "methodPointer (the (mem_method demo_api 40)) = 0x1234" by (simp add: demo_api_def)
  ultimately show ?thesis using method_addresses_roundtrip [of demo_api 40 "0x1000"] by simp
qed



section \<open>The mappings of the process\<close>

text \<open>The line fits the buffer of the dumper.\<close>

definition entry_ok :: "map_entry \<Rightarrow> bool" where
  "entry_ok e \<longleftrightarrow> entry_text e \<and> length (maps_line e) < 1024"

lemma maps_vars_eq: "(v :: maps_vars) = w \<longleftrightarrow> mv_start v = mv_start w \<and> mv_end v = mv_end w \<and> mv_flags v = mv_flags w \<and> mv_path v = mv_path w"
  by (cases v; cases w) simp

lemma scan_maps_line_entry:
  assumes "entry_ok e"
  shows "scan_maps_line (maps_line e) (v\<lparr>mv_path := []\<rparr>) =
    Inr \<lparr>mv_start = me_start e, mv_end = me_end e, mv_flags = Some (me_perms e), mv_path = me_path e\<rparr>"
proof -
  define t5 where "t5 = '' '' @ (if me_path e = [] then [] else replicate (me_pad e) CHR '' '' @ me_path e) @ [nl]"
  define t4 where "t4 = '' '' @ digits 10 (me_inode e) @ t5"
  define t3 where "t3 = '' '' @ hexpad 2 (me_major e) @ '':'' @ hexpad 2 (me_minor e) @ t4"
  define t2 where "t2 = '' '' @ me_perms e @ '' '' @ hexpad 8 (me_offset e) @ t3"
  have line: "maps_line e = [] @ hexpad 8 (unat (me_start e)) @ CHR ''-'' # [] @ hexpad 8 (unat (me_end e)) @ CHR '' '' # tl t2"
    by (simp add: maps_line_def t2_def t3_def t4_def t5_def)
  have perms: "me_perms e \<noteq> []" "list_all (\<lambda>c. \<not> isspace c) (me_perms e)" "length (me_perms e) = 4"
    and path: "list_all (\<lambda>c. \<not> isspace c) (me_path e)"
    using assms by (auto simp: entry_ok_def entry_text_def)
  have sp: "list_all isspace '' ''" "isspace CHR '' ''" "isspace nl" by (simp_all add: isspace_def)
  have s2: "scan_s (CHR '' '' # tl t2) = Some (me_perms e, CHR '' '' # hexpad 8 (me_offset e) @ t3)"
    using scan_s_token [OF sp(1) perms(2,1) sp(2)] by (simp add: t2_def)
  have s3: "scan_number 16 (CHR '' '' # hexpad 8 (me_offset e) @ t3) = Some (int (me_offset e), t3)"
    using scan_hexpad [OF sp(1), of "CHR '' ''" 8 "me_offset e"] by (simp add: t3_def)
  have s4: "scan_number 16 t3 = Some (int (me_major e), CHR '':'' # hexpad 2 (me_minor e) @ t4)"
    using scan_hexpad [OF sp(1), of "CHR '':''" 2 "me_major e"] by (simp add: t3_def)
  have s5: "scan_number 16 (hexpad 2 (me_minor e) @ t4) = Some (int (me_minor e), t4)"
    using scan_hexpad [of "[]" "CHR '' ''" 2 "me_minor e"] by (simp add: t4_def)
  have s6: "scan_number 10 t4 = Some (int (me_inode e), t5)"
    using scan_number_digits [of 10 "digits 10 (me_inode e)" t5 "'' ''"] sp(1)
    by (simp add: t4_def t5_def digits_isdigit digits_nonempty number_of_digits isdigit_in_def char_digit_def)
  have s7: "scan_s t5 = (if me_path e = [] then None else Some (me_path e, [nl]))"
    using scan_s_token [of "CHR '' '' # replicate (me_pad e) CHR '' ''" "me_path e" nl "[]"] path sp
    by (auto simp: t5_def scan_s_def scan_ws_def list_all_iff)
  show ?thesis
    unfolding scan_maps_line_def line scan_hexpad [of "[]" "CHR ''-''", simplified]
    by (simp add: scan_lit_def scan_hexpad [of "[]", simplified] s2 s3 s4 s5 s6 s7 to_u64_uint perms(3) maps_vars_eq)
qed

lemma strstr_single: "strstr s [c] \<longleftrightarrow> c \<in> set s"
  unfolding strstr_iff by (auto simp: in_set_conv_decomp)

definition candidate :: "bool \<Rightarrow> string \<Rightarrow> map_entry \<Rightarrow> bool" where
  "candidate aarch64 name e \<longleftrightarrow> (aarch64 \<longrightarrow> CHR ''x'' \<in> set (me_perms e)) \<and> strstr (me_path e) name"

lemma maps_loop_entries:
  "list_all entry_ok es \<Longrightarrow> maps_loop aarch64 name (map maps_line es) v =
    Inr (case find (candidate aarch64 name) es of None \<Rightarrow> 0 | Some e \<Rightarrow> me_start e)"
proof (induction es arbitrary: v)
  case (Cons e es)
  then show ?case by (cases aarch64) (simp_all add: scan_maps_line_entry candidate_def strstr_single)
qed simp


definition demo_maps :: "map_entry list" where
  "demo_maps =
    [\<lparr>me_start = 0x7000, me_end = 0x8000, me_perms = ''rw-p'', me_offset = 0, me_major = 0, me_minor = 0, me_inode = 0,
       me_pad = 0, me_path = []\<rparr>,
     \<lparr>me_start = 0x10000, me_end = 0x20000, me_perms = ''r--p'', me_offset = 0, me_major = 253, me_minor = 5, me_inode = 4711,
       me_pad = 3, me_path = ''/data/lib/libil2cpp.so''\<rparr>,
     \<lparr>me_start = 0x20000, me_end = 0x90000, me_perms = ''r-xp'', me_offset = 0x10000, me_major = 253, me_minor = 5, me_inode = 4711,
       me_pad = 3, me_path = ''/data/lib/libil2cpp.so''\<rparr>]"

lemma demo_maps_ok: "list_all entry_ok demo_maps"
  by (simp add: demo_maps_def entry_ok_def entry_text_def maps_line_def hexpad_def isspace_def digits.simps digit_char_def)


text \<open>
  On aarch64 the fallback does not return the base of the library when the linker maps its headers read-only before the
  code: for such mappings the result is the start of the executable segment, and the RVAs of the dump are too small by the
  distance between the two.
\<close>

lemma get_module_base_skips_headers:
  "get_module_base True (Some (map maps_line demo_maps)) ''libil2cpp.so'' = Inr 0x20000 \<and>
   get_module_base False (Some (map maps_line demo_maps)) ''libil2cpp.so'' = Inr 0x10000"
proof -
  have c: "find (candidate True ''libil2cpp.so'') demo_maps = Some (demo_maps ! 2)"
    "find (candidate False ''libil2cpp.so'') demo_maps = Some (demo_maps ! 1)"
    by (simp_all add: demo_maps_def candidate_def)
  have "me_start (demo_maps ! 2) = 0x20000" "me_start (demo_maps ! 1) = 0x10000" by (simp_all add: demo_maps_def)
  with c show ?thesis by (simp add: get_module_base_def maps_loop_entries [OF demo_maps_ok])
qed

section \<open>Modifiers\<close>

text \<open>The modifiers as a function of the access code, the five flags and whether the slot is new.\<close>

definition modifier_words :: "nat \<Rightarrow> bool \<Rightarrow> bool \<Rightarrow> bool \<Rightarrow> bool \<Rightarrow> bool \<Rightarrow> bool \<Rightarrow> string" where
  "modifier_words access static abstract final virtual newslot pinvoke =
    access_word access @ (if static then ''static '' else []) @
    (if abstract then ''abstract '' @ (if newslot then [] else ''override '')
     else if final then (if newslot then [] else ''sealed override '')
     else if virtual then (if newslot then ''virtual '' else ''override '') else []) @
    (if pinvoke then ''extern '' else [])"

lemma and_exp_if: "(w :: u32) AND 2 ^ n = (if bit w n then 2 ^ n else 0)"
  by (rule bit_word_eqI) (auto simp: bit_simps)

lemma method_bits:
  "flags AND METHOD_ATTRIBUTE_STATIC \<noteq> 0 \<longleftrightarrow> bit flags 4"
  "flags AND METHOD_ATTRIBUTE_FINAL \<noteq> 0 \<longleftrightarrow> bit flags 5"
  "flags AND METHOD_ATTRIBUTE_VIRTUAL \<noteq> 0 \<longleftrightarrow> bit flags 6"
  "flags AND METHOD_ATTRIBUTE_ABSTRACT \<noteq> 0 \<longleftrightarrow> bit flags 10"
  "flags AND METHOD_ATTRIBUTE_PINVOKE_IMPL \<noteq> 0 \<longleftrightarrow> bit flags 13"
  "flags AND METHOD_ATTRIBUTE_VTABLE_LAYOUT_MASK = METHOD_ATTRIBUTE_REUSE_SLOT \<longleftrightarrow> \<not> bit flags 8"
  "flags AND METHOD_ATTRIBUTE_VTABLE_LAYOUT_MASK = METHOD_ATTRIBUTE_NEW_SLOT \<longleftrightarrow> bit flags 8"
proof -
  have e: "METHOD_ATTRIBUTE_STATIC = 2 ^ 4" "METHOD_ATTRIBUTE_FINAL = 2 ^ 5" "METHOD_ATTRIBUTE_VIRTUAL = 2 ^ 6"
    "METHOD_ATTRIBUTE_ABSTRACT = 2 ^ 10" "METHOD_ATTRIBUTE_PINVOKE_IMPL = 2 ^ 13"
    "METHOD_ATTRIBUTE_VTABLE_LAYOUT_MASK = 2 ^ 8" "METHOD_ATTRIBUTE_REUSE_SLOT = 0" "METHOD_ATTRIBUTE_NEW_SLOT = 2 ^ 8"
    by (simp_all add: attribute_defs)
  show "flags AND METHOD_ATTRIBUTE_STATIC \<noteq> 0 \<longleftrightarrow> bit flags 4"
    "flags AND METHOD_ATTRIBUTE_FINAL \<noteq> 0 \<longleftrightarrow> bit flags 5"
    "flags AND METHOD_ATTRIBUTE_VIRTUAL \<noteq> 0 \<longleftrightarrow> bit flags 6"
    "flags AND METHOD_ATTRIBUTE_ABSTRACT \<noteq> 0 \<longleftrightarrow> bit flags 10"
    "flags AND METHOD_ATTRIBUTE_PINVOKE_IMPL \<noteq> 0 \<longleftrightarrow> bit flags 13"
    "flags AND METHOD_ATTRIBUTE_VTABLE_LAYOUT_MASK = METHOD_ATTRIBUTE_REUSE_SLOT \<longleftrightarrow> \<not> bit flags 8"
    unfolding e and_exp_eq_0_iff_not_bit by simp_all
  show "flags AND METHOD_ATTRIBUTE_VTABLE_LAYOUT_MASK = METHOD_ATTRIBUTE_NEW_SLOT \<longleftrightarrow> bit flags 8"
    unfolding e and_exp_if by simp
qed

lemma get_method_modifier_words:
  "get_method_modifier flags = modifier_words (unat (flags AND 7)) (bit flags 4) (bit flags 10) (bit flags 5) (bit flags 6)
     (bit flags 8) (bit flags 13)"
proof -
  have m: "METHOD_ATTRIBUTE_MEMBER_ACCESS_MASK = 7" by (simp add: attribute_defs)
  have acc: "(if access = METHOD_ATTRIBUTE_PRIVATE then ss_put s ''private ''
           else if access = METHOD_ATTRIBUTE_PUBLIC then ss_put s ''public ''
           else if access = METHOD_ATTRIBUTE_FAMILY then ss_put s ''protected ''
           else if access = METHOD_ATTRIBUTE_ASSEM \<or> access = METHOD_ATTRIBUTE_FAM_AND_ASSEM
           then ss_put s ''internal ''
           else if access = METHOD_ATTRIBUTE_FAM_OR_ASSEM then ss_put s ''protected internal ''
           else s) = (if access = 0 \<or> access = 7 then s else ss_put s (access_word (unat access)))"
    if "access \<in> {0, 1, 2, 3, 4, 5, 6, 7}" for access s
    using that by (auto simp: attribute_defs access_word_def)
  show ?thesis
    unfolding get_method_modifier_def Let_def m acc [OF and_7_cases]
    by (auto simp: method_bits modifier_words_def access_word_def)
qed

lemma strstr_app:
  assumes "p = [] \<or> last p = CHR '' ''" "pat \<noteq> []" "CHR '' '' \<notin> set pat"
  shows "strstr (p @ y) pat \<longleftrightarrow> strstr p pat \<or> strstr y pat"
  using assms(1)
proof (induction p)
  case Nil
  then show ?case using assms(2) by simp
next
  case (Cons c p)
  then have l: "CHR '' '' \<in> set (c # p)" by (metis last_in_set list.distinct(1))
  have "take (length pat) (c # p @ y) = pat \<longleftrightarrow> take (length pat) (c # p) = pat"
  proof (cases "length pat \<le> length (c # p)")
    case True
    then have "take (length pat) ((c # p) @ y) = take (length pat) (c # p)" by (subst take_append) simp
    then show ?thesis by simp
  next
    case False
    then have "take (length pat) ((c # p) @ y) = (c # p) @ take (length pat - length (c # p)) y" "take (length pat) (c # p) = c # p"
      using take_append [of "length pat" "c # p" y] by simp_all
    with l assms(3) show ?thesis by (metis UnCI append_Cons set_append)
  qed
  moreover have "strstr (p @ y) pat \<longleftrightarrow> strstr p pat \<or> strstr y pat"
  proof (cases p)
    case Nil
    then show ?thesis using assms(2) by simp
  next
    case (Cons d q)
    with Cons.prems show ?thesis by (intro Cons.IH) simp
  qed
  ultimately show ?case by simp
qed

lemma strstr_app4:
  assumes "a = [] \<or> last a = CHR '' ''" "b = [] \<or> last b = CHR '' ''" "c = [] \<or> last c = CHR '' ''"
    "pat \<noteq> []" "CHR '' '' \<notin> set pat"
  shows "strstr (a @ b @ c @ d) pat \<longleftrightarrow> strstr a pat \<or> strstr b pat \<or> strstr c pat \<or> strstr d pat"
  by (simp only: strstr_app [OF assms(1,4,5)] strstr_app [OF assms(2,4,5)] strstr_app [OF assms(3,4,5)])

lemma access_word_strstr:
  "\<not> strstr (access_word a) ''static''" "\<not> strstr (access_word a) ''extern''" "\<not> strstr (access_word a) ''abstract''"
  "\<not> strstr (access_word a) ''virtual''" "\<not> strstr (access_word a) ''sealed''"
  "access_word a = [] \<or> last (access_word a) = CHR '' ''"
proof -
  have "access_word a \<in> {[], ''private '', ''internal '', ''protected '', ''protected internal '', ''public ''}"
    by (auto simp: access_word_def less_Suc_eq numeral_eq_Suc)
  then show "\<not> strstr (access_word a) ''static''" "\<not> strstr (access_word a) ''extern''" "\<not> strstr (access_word a) ''abstract''"
  "\<not> strstr (access_word a) ''virtual''" "\<not> strstr (access_word a) ''sealed''"
  "access_word a = [] \<or> last (access_word a) = CHR '' ''" by auto
qed


end
