(* ===== verification/ZygiskModule.thy ===== *)
theory ZygiskModule
  imports Il2CppProperties
begin

text \<open>
  The Zygisk module: \<open>main.cpp\<close>, which decides when an app process is specialised whether to start the hack thread, and
  \<open>hook.cpp\<close>, which recognises the game, hooks the linker and waits for \<open>libil2cpp.so\<close>. The hooking engine and the
  linker are parameters here: \<open>resolve\<close> is \<open>DobbySymbolResolver\<close>, \<open>dlsym\<close> the address of a symbol of \<open>libdl.so\<close>, \<open>dobby_hook\<close>
  whether \<open>DobbyHook\<close> patches the address.
\<close>

section \<open>State\<close>

text \<open>
  The static variables of \<open>hook.h\<close>: \<open>enable_hack\<close> is the copy of \<open>main.cpp\<close>, the other two the copies of \<open>hook.cpp\<close>; and the
  number of UTF strings obtained from the virtual machine and not released.
\<close>

record module_state =
  enable_hack :: bool
  il2cpp_handle :: ptr
  game_data_dir :: "string option"
  utf_held :: nat

definition module_init :: module_state where
  "module_init = \<lparr>enable_hack = False, il2cpp_handle = 0, game_data_dir = None, utf_held = 0\<rparr>"

definition GamePackageName :: string where
  "GamePackageName = ''com.game.packagename''"

section \<open>Recognising the game\<close>

text \<open>\<open>sscanf(s, "/data/%*[^/]/%d/%s", &user, package_name)\<close> when it returns 2, the package name.\<close>

definition scan_user_dir :: "string \<Rightarrow> string option" where
  "scan_user_dir s =
    Option.bind (scan_lits ''/data/'' s) (\<lambda>s.
    Option.bind (scan_not CHR ''/'' s) (\<lambda>(_, s).
    Option.bind (scan_lit CHR ''/'' s) (\<lambda>s.
    Option.bind (scan_number 10 s) (\<lambda>(_, s).
    Option.bind (scan_lit CHR ''/'' s) (\<lambda>s. map_option fst (scan_s s))))))"

text \<open>\<open>sscanf(s, "/data/%*[^/]/%s", package_name)\<close> when it returns 1.\<close>

definition scan_data_dir :: "string \<Rightarrow> string option" where
  "scan_data_dir s =
    Option.bind (scan_lits ''/data/'' s) (\<lambda>s.
    Option.bind (scan_not CHR ''/'' s) (\<lambda>(_, s).
    Option.bind (scan_lit CHR ''/'' s) (\<lambda>s. map_option fst (scan_s s))))"

text \<open>
  The argument is \<open>None\<close> for a null reference, \<open>Some None\<close> when the virtual machine cannot convert it. \<open>package_name\<close> has 256 bytes.
\<close>

definition isGame :: "string option option \<Rightarrow> module_state \<Rightarrow> (bool \<times> module_state) res" where
  "isGame appDataDir st =
    (case appDataDir of
       None \<Rightarrow> Inr (False, st)
     | Some None \<Rightarrow> Inl NullPointer
     | Some (Some app_data_dir) \<Rightarrow>
       let st = st\<lparr>utf_held := utf_held st + 1\<rparr> in
       (case (case scan_user_dir app_data_dir of Some p \<Rightarrow> Some p | None \<Rightarrow> scan_data_dir app_data_dir) of
          None \<Rightarrow> Inr (False, st)
        | Some package_name \<Rightarrow>
          if length package_name \<ge> 256 then Inl OutOfBounds
          else if package_name = GamePackageName
          then Inr (True, st\<lparr>game_data_dir := Some app_data_dir, utf_held := utf_held st - 1\<rparr>)
          else Inr (False, st\<lparr>utf_held := utf_held st - 1\<rparr>)))"

section \<open>Watching the linker\<close>

definition dlopen_process :: "string option \<Rightarrow> ptr \<Rightarrow> module_state \<Rightarrow> module_state res" where
  "dlopen_process name handle st =
    (if il2cpp_handle st = 0
     then case name of
       None \<Rightarrow> Inl NullPointer
     | Some n \<Rightarrow> if strstr n ''libil2cpp.so'' then Inr (st\<lparr>il2cpp_handle := handle\<rparr>) else Inr st
     else Inr st)"

text \<open>The three replacements call the original, look at the result and return it.\<close>

definition new___loader_dlopen :: "(string option \<Rightarrow> ptr) \<Rightarrow> string option \<Rightarrow> module_state \<Rightarrow> (ptr \<times> module_state) res" where
  "new___loader_dlopen orig___loader_dlopen filename st =
    (let handle = orig___loader_dlopen filename
     in rbind (dlopen_process filename handle st) (\<lambda>st. Inr (handle, st)))"

definition new_do_dlopen_V24 :: "(string option \<Rightarrow> ptr) \<Rightarrow> string option \<Rightarrow> module_state \<Rightarrow> (ptr \<times> module_state) res" where
  "new_do_dlopen_V24 orig_do_dlopen_V24 name st =
    (let handle = orig_do_dlopen_V24 name
     in rbind (dlopen_process name handle st) (\<lambda>st. Inr (handle, st)))"

definition new_do_dlopen_V19 :: "(string option \<Rightarrow> ptr) \<Rightarrow> string option \<Rightarrow> module_state \<Rightarrow> (ptr \<times> module_state) res" where
  "new_do_dlopen_V19 orig_do_dlopen_V19 name st =
    (let handle = orig_do_dlopen_V19 name
     in rbind (dlopen_process name handle st) (\<lambda>st. Inr (handle, st)))"

datatype replacement = New_loader_dlopen | New_do_dlopen_V24 | New_do_dlopen_V19

definition run_replacement ::
  "replacement \<Rightarrow> (string option \<Rightarrow> ptr) \<Rightarrow> string option \<Rightarrow> module_state \<Rightarrow> (ptr \<times> module_state) res" where
  "run_replacement r orig =
    (case r of New_loader_dlopen \<Rightarrow> new___loader_dlopen orig
     | New_do_dlopen_V24 \<Rightarrow> new_do_dlopen_V24 orig
     | New_do_dlopen_V19 \<Rightarrow> new_do_dlopen_V19 orig)"

text \<open>\<open>atoi\<close>, which is 0 on text that does not start with a number.\<close>

definition atoi :: "string \<Rightarrow> int" where
  "atoi s = (case scan_number 10 s of None \<Rightarrow> 0 | Some (n, _) \<Rightarrow> n)"

definition GetAndroidApiLevel :: "(string \<Rightarrow> string) \<Rightarrow> int" where
  "GetAndroidApiLevel system_property = atoi (system_property ''ro.build.version.sdk'')"

text \<open>What \<open>hack_thread\<close> hooks: the address and the replacement.\<close>

definition hook_target :: "int \<Rightarrow> (string \<Rightarrow> ptr) \<Rightarrow> (string \<Rightarrow> ptr) \<Rightarrow> (ptr \<times> replacement) option" where
  "hook_target api_level resolve dlsym =
    (if api_level \<ge> 30
     then let addr = resolve ''__dl__Z9do_dlopenPKciPK17android_dlextinfoPKv''
       in if addr \<noteq> 0 then Some (addr, New_do_dlopen_V24) else None
     else if api_level \<ge> 26 then Some (dlsym ''__loader_dlopen'', New_loader_dlopen)
     else if api_level \<ge> 24
     then let addr = resolve ''__dl__Z9do_dlopenPKciPK17android_dlextinfoPv''
       in if addr \<noteq> 0 then Some (addr, New_do_dlopen_V24) else None
     else let addr = resolve ''__dl__Z9do_dlopenPKciPK17android_dlextinfo''
       in if addr \<noteq> 0 then Some (addr, New_do_dlopen_V19) else None)"

section \<open>The module\<close>

text \<open>\<open>args\<close> is \<open>None\<close> for a null pointer; the strings are null references as in \<open>isGame\<close>.\<close>

record AppSpecializeArgs =
  nice_name :: "string option"
  app_data_dir :: "string option option"

definition preAppSpecialize :: "AppSpecializeArgs option \<Rightarrow> module_state \<Rightarrow> module_state res" where
  "preAppSpecialize args st =
    (case args of None \<Rightarrow> Inr st
     | Some a \<Rightarrow>
       if nice_name a = None then Inr st
       else rbind (isGame (app_data_dir a) st) (\<lambda>(r, st). Inr (st\<lparr>enable_hack := r\<rparr>)))"

text \<open>Whether \<open>postAppSpecialize\<close> starts the thread; \<open>pthread_create\<close> returns 0 when it does.\<close>

definition postAppSpecialize :: "int \<Rightarrow> module_state \<Rightarrow> bool" where
  "postAppSpecialize ret st \<longleftrightarrow> enable_hack st \<and> ret = 0"

section \<open>The process as a transition system\<close>

text \<open>
  The hack thread runs beside the threads of the game, which call the linker. A call of a hooked linker function returns from
  the original, then \<open>dlopen_process\<close> tests the handle and, in a separate step, stores it: nothing makes the two one action.
  \<open>sys_opened\<close> records what the hooked linker returned for which name, \<open>sys_dumps\<close> the calls of \<open>il2cpp_dump\<close>.
\<close>

datatype phase = Zygote | Specialized | Running

datatype hack_pc = Not_started | Hooking | Polling | Delay | Finished

record system =
  sys_phase :: phase
  sys_module :: module_state
  sys_pc :: hack_pc
  sys_hook :: "replacement option"
  sys_storing :: "ptr list"
  sys_opened :: "(string \<times> ptr) list"
  sys_dumps :: "(ptr \<times> string option) list"

record environment =
  env_property :: "string \<Rightarrow> string"
  env_resolve :: "string \<Rightarrow> ptr"
  env_dlsym :: "string \<Rightarrow> ptr"
  env_dobby_hook :: "ptr \<Rightarrow> bool"

definition sys_init :: system where
  "sys_init = \<lparr>sys_phase = Zygote, sys_module = module_init, sys_pc = Not_started, sys_hook = None,
     sys_storing = [], sys_opened = [], sys_dumps = []\<rparr>"

text \<open>The thread: hook, poll once a second, wait five seconds, dump.\<close>

definition hack_thread :: "environment \<Rightarrow> system \<Rightarrow> system" where
  "hack_thread env s =
    (case sys_pc s of
       Hooking \<Rightarrow>
         let api_level = GetAndroidApiLevel (env_property env);
             hook = (case hook_target api_level (env_resolve env) (env_dlsym env) of
                       None \<Rightarrow> None
                     | Some (addr, r) \<Rightarrow> if env_dobby_hook env addr then Some r else None)
         in s\<lparr>sys_hook := hook, sys_pc := Polling\<rparr>
     | Polling \<Rightarrow> if il2cpp_handle (sys_module s) = 0 then s else s\<lparr>sys_pc := Delay\<rparr>
     | Delay \<Rightarrow> s\<lparr>sys_dumps := sys_dumps s @ [(il2cpp_handle (sys_module s), game_data_dir (sys_module s))], sys_pc := Finished\<rparr>
     | _ \<Rightarrow> s)"

inductive sys_step :: "environment \<Rightarrow> system \<Rightarrow> system \<Rightarrow> bool" for env where
  pre: "sys_phase s = Zygote \<Longrightarrow> preAppSpecialize args (sys_module s) = Inr m \<Longrightarrow>
    sys_step env s (s\<lparr>sys_module := m, sys_phase := Specialized\<rparr>)"
| post: "sys_phase s = Specialized \<Longrightarrow>
    sys_step env s (s\<lparr>sys_phase := Running, sys_pc := (if postAppSpecialize ret (sys_module s) then Hooking else Not_started)\<rparr>)"
| thread: "sys_pc s \<noteq> Not_started \<Longrightarrow> sys_step env s (hack_thread env s)"
| test: "sys_hook s \<noteq> None \<Longrightarrow> il2cpp_handle (sys_module s) = 0 \<Longrightarrow> strstr name ''libil2cpp.so'' \<Longrightarrow>
    sys_step env s (s\<lparr>sys_opened := (name, handle) # sys_opened s, sys_storing := handle # sys_storing s\<rparr>)"
| skip: "sys_hook s \<noteq> None \<Longrightarrow> il2cpp_handle (sys_module s) \<noteq> 0 \<or> \<not> strstr name ''libil2cpp.so'' \<Longrightarrow>
    sys_step env s (s\<lparr>sys_opened := (name, handle) # sys_opened s\<rparr>)"
| store: "handle \<in> set (sys_storing s) \<Longrightarrow>
    sys_step env s (s\<lparr>sys_module := (sys_module s)\<lparr>il2cpp_handle := handle\<rparr>, sys_storing := remove1 handle (sys_storing s)\<rparr>)"

inductive_cases sys_stepE: "sys_step env s s'"

abbreviation sys_reachable :: "environment \<Rightarrow> system \<Rightarrow> bool" where
  "sys_reachable env s \<equiv> (sys_step env)\<^sup>*\<^sup>* sys_init s"

text \<open>A test and a store with no other step between them are \<open>dlopen_process\<close>.\<close>

lemma test_store_dlopen_process:
  assumes "sys_hook s \<noteq> None" "dlopen_process (Some name) handle (sys_module s) = Inr m"
  shows "\<exists>s'. (sys_step env)\<^sup>*\<^sup>* s s' \<and> sys_module s' = m \<and> sys_opened s' = (name, handle) # sys_opened s \<and> sys_storing s' = sys_storing s"
proof (cases "il2cpp_handle (sys_module s) = 0 \<and> strstr name ''libil2cpp.so''")
  case True
  define s1 where "s1 = s\<lparr>sys_opened := (name, handle) # sys_opened s, sys_storing := handle # sys_storing s\<rparr>"
  define s2 where "s2 = s1\<lparr>sys_module := (sys_module s1)\<lparr>il2cpp_handle := handle\<rparr>, sys_storing := remove1 handle (sys_storing s1)\<rparr>"
  have "sys_step env s s1" unfolding s1_def using True assms(1) by (intro sys_step.test) simp_all
  moreover have "sys_step env s1 s2" unfolding s2_def by (rule sys_step.store) (simp add: s1_def)
  ultimately have "(sys_step env)\<^sup>*\<^sup>* s s2" by (meson converse_rtranclp_into_rtranclp r_into_rtranclp)
  moreover have "sys_module s2 = m \<and> sys_opened s2 = (name, handle) # sys_opened s \<and> sys_storing s2 = sys_storing s"
    using True assms(2) by (auto simp: dlopen_process_def s1_def s2_def)
  ultimately show ?thesis by blast
next
  case False
  have "sys_step env s (s\<lparr>sys_opened := (name, handle) # sys_opened s\<rparr>)" using False assms(1) by (intro sys_step.skip) simp_all
  then have "(sys_step env)\<^sup>*\<^sup>* s (s\<lparr>sys_opened := (name, handle) # sys_opened s\<rparr>)" by (rule r_into_rtranclp)
  moreover have "m = sys_module s" using False assms(2) by (auto simp: dlopen_process_def split: if_splits)
  ultimately show ?thesis by (intro exI [of _ "s\<lparr>sys_opened := (name, handle) # sys_opened s\<rparr>"]) simp
qed

section \<open>Invariant\<close>

definition library_loaded :: "system \<Rightarrow> ptr \<Rightarrow> bool" where
  "library_loaded s h \<longleftrightarrow> (\<exists>name. (name, h) \<in> set (sys_opened s) \<and> strstr name ''libil2cpp.so'')"

text \<open>The data directory is that of the game.\<close>

definition game_dir :: "string \<Rightarrow> bool" where
  "game_dir d \<longleftrightarrow> (case scan_user_dir d of Some p \<Rightarrow> Some p | None \<Rightarrow> scan_data_dir d) = Some GamePackageName"

definition module_inv :: "module_state \<Rightarrow> bool" where
  "module_inv m \<longleftrightarrow> (enable_hack m \<longrightarrow> (\<exists>d. game_data_dir m = Some d \<and> game_dir d))"

definition sys_inv :: "system \<Rightarrow> bool" where
  "sys_inv s \<longleftrightarrow> module_inv (sys_module s) \<and>
     (sys_pc s \<noteq> Not_started \<longrightarrow> enable_hack (sys_module s) \<and> sys_phase s = Running) \<and>
     (sys_hook s \<noteq> None \<longrightarrow> sys_pc s \<noteq> Not_started) \<and>
     (sys_phase s = Zygote \<longrightarrow> sys_module s = module_init \<and> sys_storing s = []) \<and>
     (il2cpp_handle (sys_module s) = 0 \<and> sys_pc s \<noteq> Delay \<or> library_loaded s (il2cpp_handle (sys_module s))) \<and>
     list_all (library_loaded s) (sys_storing s) \<and>
     (sys_dumps s = [] \<and> sys_pc s \<noteq> Finished \<or>
      (\<exists>h. sys_dumps s = [(h, game_data_dir (sys_module s))] \<and> sys_pc s = Finished \<and> library_loaded s h))"

lemma library_loaded_simps [simp]:
  "library_loaded (s\<lparr>sys_module := m\<rparr>) = library_loaded s" "library_loaded (s\<lparr>sys_phase := p\<rparr>) = library_loaded s" "library_loaded (s\<lparr>sys_pc := c\<rparr>) = library_loaded s"
  "library_loaded (s\<lparr>sys_hook := k\<rparr>) = library_loaded s" "library_loaded (s\<lparr>sys_storing := l\<rparr>) = library_loaded s" "library_loaded (s\<lparr>sys_dumps := ds\<rparr>) = library_loaded s"
  "library_loaded (s\<lparr>sys_opened := (n, x) # sys_opened s\<rparr>) h \<longleftrightarrow> x = h \<and> strstr n ''libil2cpp.so'' \<or> library_loaded s h"
  by (auto simp: library_loaded_def fun_eq_iff)

lemma list_all_remove1: "list_all P xs \<Longrightarrow> list_all P (remove1 x xs)"
  by (auto simp: list_all_iff dest: notin_set_remove1 set_remove1_subset [THEN subsetD])

lemma preAppSpecialize_inv:
  "preAppSpecialize args module_init = Inr m \<Longrightarrow> module_inv m \<and> il2cpp_handle m = 0"
  by (auto simp: preAppSpecialize_def isGame_def module_init_def module_inv_def game_dir_def Let_def
      split: option.splits if_splits)

lemma hack_thread_inv: "sys_inv s \<Longrightarrow> sys_pc s \<noteq> Not_started \<Longrightarrow> sys_inv (hack_thread env s)"
  by (cases "sys_pc s")
    (auto simp: sys_inv_def hack_thread_def Let_def split: option.splits)

lemma sys_step_inv: "sys_step env s s' \<Longrightarrow> sys_inv s \<Longrightarrow> sys_inv s'"
proof (induction rule: sys_step.induct)
  case (pre s args m)
  then show ?case using preAppSpecialize_inv [of args m]
    by (auto simp: sys_inv_def)
next
  case (post s ret)
  then show ?case by (auto simp: sys_inv_def postAppSpecialize_def)
next
  case (thread s)
  then show ?case by (rule hack_thread_inv [rotated])
next
  case (test s name handle)
  then show ?case by (auto simp: sys_inv_def list_all_iff)
next
  case (skip s name handle)
  then show ?case by (auto simp: sys_inv_def list_all_iff)
next
  case (store handle s)
  then show ?case
    by (auto simp: sys_inv_def module_inv_def list_all_remove1 list_all_iff dest: notin_set_remove1)
qed

lemma sys_reachable_inv: "sys_reachable env s \<Longrightarrow> sys_inv s"
proof (induction rule: rtranclp_induct)
  case base
  show ?case by (simp add: sys_inv_def sys_init_def module_inv_def module_init_def)
next
  case (step s s')
  then show ?case by (blast intro: sys_step_inv)
qed

section \<open>Properties\<close>

text \<open>
  C7. The dumper runs at most once in a process, only in the process of the game and with the data directory of that
  process, and only with a handle the linker returned for a library whose name contains \<open>libil2cpp.so\<close>: in every interleaving
  of the hack thread with the loads of the game.
\<close>

theorem dump_once_with_library:
  assumes "sys_reachable env s" "sys_dumps s \<noteq> []"
  shows "\<exists>h d n. sys_dumps s = [(h, Some d)] \<and> game_dir d \<and> (n, h) \<in> set (sys_opened s) \<and> strstr n ''libil2cpp.so''"
  using sys_reachable_inv [OF assms(1)] assms(2) by (auto simp: sys_inv_def module_inv_def library_loaded_def)

lemma isGame_game_dir:
  "game_dir d \<Longrightarrow> isGame (Some (Some d)) st = Inr (True, st\<lparr>game_data_dir := Some d\<rparr>)"
  by (simp add: isGame_def game_dir_def GamePackageName_def Let_def)

text \<open>The run in which nothing fails: specialise, start the thread, hook, load the library, dump.\<close>

lemma reach_dump:
  fixes args :: AppSpecializeArgs
  assumes "game_dir d" "nice_name args \<noteq> None" "app_data_dir args = Some (Some d)"
    "hook_target (GetAndroidApiLevel (env_property env)) (env_resolve env) (env_dlsym env) = Some (addr, r)" "env_dobby_hook env addr"
    "strstr name ''libil2cpp.so''" "handle \<noteq> 0"
  shows "\<exists>s. sys_reachable env s \<and> sys_dumps s = [(handle, Some d)]"
proof -
  define m where "m = module_init\<lparr>game_data_dir := Some d, enable_hack := True\<rparr>"
  have pre: "preAppSpecialize (Some args) (sys_module sys_init) = Inr m"
    using assms(2,3) isGame_game_dir [OF assms(1)] by (auto simp: preAppSpecialize_def m_def sys_init_def)
  define s1 where "s1 = sys_init\<lparr>sys_module := m, sys_phase := Specialized\<rparr>"
  define s2 where "s2 = s1\<lparr>sys_phase := Running, sys_pc := (if postAppSpecialize 0 (sys_module s1) then Hooking else Not_started)\<rparr>"
  define s3 where "s3 = hack_thread env s2"
  define s4 where "s4 = s3\<lparr>sys_opened := (name, handle) # sys_opened s3, sys_storing := handle # sys_storing s3\<rparr>"
  define s5 where "s5 = s4\<lparr>sys_module := (sys_module s4)\<lparr>il2cpp_handle := handle\<rparr>, sys_storing := remove1 handle (sys_storing s4)\<rparr>"
  have pc2: "sys_pc s2 = Hooking" by (simp add: s2_def s1_def m_def postAppSpecialize_def)
  have s3: "sys_hook s3 = Some r" "sys_module s3 = m" "sys_pc s3 = Polling" "sys_dumps s3 = []"
    using assms(4,5) pc2 by (simp_all add: s3_def hack_thread_def s2_def s1_def sys_init_def)
  have s5: "sys_pc s5 = Polling" "il2cpp_handle (sys_module s5) = handle" "game_data_dir (sys_module s5) = Some d" "sys_dumps s5 = []"
    using s3 by (simp_all add: s5_def s4_def m_def)
  have "sys_step env sys_init s1" unfolding s1_def by (rule sys_step.pre [OF _ pre]) (simp add: sys_init_def)
  moreover have "sys_step env s1 s2" unfolding s2_def by (rule sys_step.post) (simp add: s1_def)
  moreover have "sys_step env s2 s3" unfolding s3_def by (rule sys_step.thread) (simp add: pc2)
  moreover have "sys_step env s3 s4" unfolding s4_def
    using s3 assms(6) by (intro sys_step.test) (simp_all add: m_def module_init_def)
  moreover have "sys_step env s4 s5" unfolding s5_def by (rule sys_step.store) (simp add: s4_def)
  moreover have "sys_step env s5 (hack_thread env s5)" by (rule sys_step.thread) (simp add: s5)
  moreover have "sys_step env (hack_thread env s5) (hack_thread env (hack_thread env s5))"
    using s5 assms(7) by (intro sys_step.thread) (simp add: hack_thread_def)
  ultimately have "sys_reachable env (hack_thread env (hack_thread env s5))"
    by (meson converse_rtranclp_into_rtranclp rtranclp.rtrancl_refl)
  moreover have "sys_dumps (hack_thread env (hack_thread env s5)) = [(handle, Some d)]"
    using s5 assms(7) by (simp add: hack_thread_def)
  ultimately show ?thesis by blast
qed

text \<open>
  C29. The dump is reached: when the process is the game's, the thread starts, a linker function is found and hooked, and the
  game then loads \<open>libil2cpp.so\<close> with a non-null handle, a run leads to the dump with that handle and the data directory.
\<close>

theorem dump_is_reached:
  fixes args :: AppSpecializeArgs
  assumes "game_dir d" "nice_name args \<noteq> None" "app_data_dir args = Some (Some d)"
    "hook_target (GetAndroidApiLevel (env_property env)) (env_resolve env) (env_dlsym env) = Some (addr, r)" "env_dobby_hook env addr"
    "strstr name ''libil2cpp.so''" "handle \<noteq> 0"
  shows "\<exists>s. sys_reachable env s \<and> sys_dumps s = [(handle, Some d)]"
  by (rule reach_dump [OF assms])

definition demo_env :: environment where
  "demo_env = \<lparr>env_property = (\<lambda>_. ''30''), env_resolve = (\<lambda>_. 0x1000), env_dlsym = (\<lambda>_. 0), env_dobby_hook = (\<lambda>a. a \<noteq> 0)\<rparr>"

lemma demo_game: "game_dir ''/data/user/0/com.game.packagename''"
  by code_simp

lemma demo_target:
  "hook_target (GetAndroidApiLevel (env_property demo_env)) (env_resolve demo_env) (env_dlsym demo_env) = Some (0x1000, New_do_dlopen_V24)"
proof -
  have "scan_number 10 ''30'' = Some (30, [])" by code_simp
  then show ?thesis by (simp add: demo_env_def GetAndroidApiLevel_def atoi_def hook_target_def)
qed

abbreviation demo_args :: AppSpecializeArgs where
  "demo_args \<equiv> \<lparr>nice_name = Some ''g'', app_data_dir = Some (Some ''/data/user/0/com.game.packagename'')\<rparr>"

theorem dump_is_reached_witness:
  "\<exists>s. sys_reachable demo_env s \<and> sys_dumps s = [(7, Some ''/data/user/0/com.game.packagename'')]"
  by (rule dump_is_reached [OF demo_game _ _ demo_target, of demo_args "''/lib/libil2cpp.so''"]) (simp_all add: demo_env_def)

theorem dump_once_with_library_witness:
  "\<exists>s h d n. sys_dumps s = [(h, Some d)] \<and> game_dir d \<and> (n, h) \<in> set (sys_opened s) \<and> strstr n ''libil2cpp.so'' \<and> sys_reachable demo_env s"
proof -
  obtain s where s: "sys_reachable demo_env s" "sys_dumps s = [(7, Some ''/data/user/0/com.game.packagename'')]"
    using reach_dump [OF demo_game _ _ demo_target, of demo_args "''/lib/libil2cpp.so''" 7] by (auto simp: demo_env_def)
  from dump_once_with_library [OF s(1)] s show ?thesis by auto
qed

section \<open>Recognising the game\<close>

text \<open>The directory of a package: of a user, or of the first user in the old layout.\<close>

definition user_dir :: "string \<Rightarrow> nat \<Rightarrow> string \<Rightarrow> string" where
  "user_dir vol user pkg = ''/data/'' @ vol @ ''/'' @ digits 10 user @ ''/'' @ pkg"

definition data_dir :: "string \<Rightarrow> string \<Rightarrow> string" where
  "data_dir vol pkg = ''/data/'' @ vol @ ''/'' @ pkg"

definition volume_ok :: "string \<Rightarrow> bool" where
  "volume_ok vol \<longleftrightarrow> vol \<noteq> [] \<and> CHR ''/'' \<notin> set vol"

text \<open>A package name: letters, digits, dots and underscores after a letter, at most 255 characters.\<close>

definition package_ok :: "string \<Rightarrow> bool" where
  "package_ok pkg \<longleftrightarrow> length pkg < 256 \<and> list_all (\<lambda>c. \<not> isspace c) pkg \<and>
     (case pkg of [] \<Rightarrow> False | c # _ \<Rightarrow> \<not> isdigit_in 10 c \<and> c \<noteq> CHR ''-'' \<and> c \<noteq> CHR ''+'')"

lemma scan_volume: "volume_ok vol \<Longrightarrow> scan_not CHR ''/'' (vol @ CHR ''/'' # s) = Some (vol, CHR ''/'' # s)"
  by (auto simp: volume_ok_def scan_not_def takeWhile_append dropWhile_append Let_def)

lemma scan_package: "package_ok pkg \<Longrightarrow> scan_s pkg = Some (pkg, [])"
  by (cases pkg) (auto simp: package_ok_def scan_s_def scan_ws_def list_all_iff Let_def takeWhile_eq_all_conv dropWhile_eq_Nil_conv)

lemma scan_number_package: "package_ok pkg \<Longrightarrow> scan_number 10 pkg = None"
  by (cases pkg) (auto simp: package_ok_def scan_number_def scan_ws_def Let_def)

lemma scan_user_dir_user: "volume_ok vol \<Longrightarrow> package_ok pkg \<Longrightarrow> scan_user_dir (user_dir vol user pkg) = Some pkg"
  using scan_number_digits [of 10 "digits 10 user" "CHR ''/'' # pkg" "[]"]
  by (simp add: scan_user_dir_def user_dir_def scan_volume scan_lit_def scan_package digits_isdigit digits_nonempty
      isdigit_in_def char_digit_def)

lemma scan_data_dir_data:
  "volume_ok vol \<Longrightarrow> package_ok pkg \<Longrightarrow> scan_user_dir (data_dir vol pkg) = None \<and> scan_data_dir (data_dir vol pkg) = Some pkg"
  by (simp add: scan_user_dir_def scan_data_dir_def data_dir_def scan_volume scan_lit_def scan_package scan_number_package)

text \<open>
  C30. \<open>isGame\<close> recognises the game by its data directory in both layouts, for every volume and user, and nothing else: it
  answers yes exactly when the package is the configured one, then remembers the directory, and releases the string.
\<close>

theorem isGame_recognises:
  assumes "volume_ok vol" "package_ok pkg" "dir = user_dir vol user pkg \<or> dir = data_dir vol pkg"
  shows "isGame (Some (Some dir)) st =
    Inr (pkg = GamePackageName, if pkg = GamePackageName then st\<lparr>game_data_dir := Some dir\<rparr> else st)"
  using assms(3) scan_user_dir_user [OF assms(1,2)] scan_data_dir_data [OF assms(1,2)] assms(2)
  by (auto simp: isGame_def package_ok_def Let_def)

theorem isGame_recognises_witness:
  "isGame (Some (Some (user_dir ''user'' 10 ''com.game.packagename''))) module_init =
    Inr (True, module_init\<lparr>game_data_dir := Some (user_dir ''user'' 10 ''com.game.packagename'')\<rparr>)"
proof -
  have "volume_ok ''user''" "package_ok ''com.game.packagename''"
    by (simp_all add: volume_ok_def package_ok_def isspace_def isdigit_in_def char_digit_def)
  from isGame_recognises [OF this, of "user_dir ''user'' 10 ''com.game.packagename''" 10 module_init] show ?thesis
    by (simp add: GamePackageName_def)
qed

text \<open>
  A data directory that cannot be parsed is not the game's, but the string obtained from the virtual machine for it
  is never released.
\<close>

lemma isGame_leaks_on_parse_failure:
  assumes "scan_user_dir dir = None" "scan_data_dir dir = None"
  shows "isGame (Some (Some dir)) st = Inr (False, st\<lparr>utf_held := utf_held st + 1\<rparr>)"
  using assms by (simp add: isGame_def Let_def)

end
