(* ===== verification/X64Assembler.thy ===== *)
theory X64Assembler
  imports Labels
begin

text \<open>
  The x64 assembler of \<open>source/core/modules/assembler/assembler-x64.h\<close> and \<open>.cc\<close>, the registers and constants of
  \<open>core/arch/x64\<close>, and \<open>JmpNearIndirect\<close> of \<open>codegen-x64.cc\<close>. The state of an assembler is the list of bytes its code
  buffer holds, the realized address and the data labels; \<open>ASSERT\<close> expands to nothing. Names carry the prefix \<open>x64\<close> for
  the namespace \<open>zz::x64\<close>; overloads are told apart by a suffix.
\<close>

section \<open>Registers and constants\<close>

datatype ScaleFactor = TIMES_1 | TIMES_2 | TIMES_4 | TIMES_8 | TIMES_16

primrec scale_code :: "ScaleFactor \<Rightarrow> u8" where
  "scale_code TIMES_1 = 0" | "scale_code TIMES_2 = 1" | "scale_code TIMES_4 = 2" | "scale_code TIMES_8 = 3"
| "scale_code TIMES_16 = 4"

definition RexNone :: u8 where "RexNone = 0"
definition RexB :: u8 where "RexB = push_bit 0 1"
definition RexX :: u8 where "RexX = push_bit 1 1"
definition RexR :: u8 where "RexR = push_bit 2 1"
definition RexW :: u8 where "RexW = push_bit 3 1"
definition RexPrefix :: u8 where "RexPrefix = push_bit 6 1"

lemmas rex_bit_defs = RexNone_def RexB_def RexX_def RexR_def RexW_def RexPrefix_def

record x64_Register =
  xr_code :: int
  xr_size :: int

definition reg64 :: "int \<Rightarrow> x64_Register" where "reg64 c = \<lparr>xr_code = c, xr_size = 64\<rparr>"

definition rax :: x64_Register where "rax = reg64 0"
definition rcx :: x64_Register where "rcx = reg64 1"
definition rdx :: x64_Register where "rdx = reg64 2"
definition rbx :: x64_Register where "rbx = reg64 3"
definition rsp :: x64_Register where "rsp = reg64 4"
definition rbp :: x64_Register where "rbp = reg64 5"
definition rsi :: x64_Register where "rsi = reg64 6"
definition rdi :: x64_Register where "rdi = reg64 7"
definition r8 :: x64_Register where "r8 = reg64 8"
definition r9 :: x64_Register where "r9 = reg64 9"
definition r10 :: x64_Register where "r10 = reg64 10"
definition r11 :: x64_Register where "r11 = reg64 11"
definition r12 :: x64_Register where "r12 = reg64 12"
definition r13 :: x64_Register where "r13 = reg64 13"
definition r14 :: x64_Register where "r14 = reg64 14"
definition r15 :: x64_Register where "r15 = reg64 15"

lemmas gp_defs = rax_def rcx_def rdx_def rbx_def rsp_def rbp_def rsi_def rdi_def r8_def r9_def r10_def r11_def
  r12_def r13_def r14_def r15_def reg64_def

definition low_bits :: "x64_Register \<Rightarrow> int" where "low_bits r = xr_code r AND 7"
definition high_bit :: "x64_Register \<Rightarrow> int" where "high_bit r = drop_bit 3 (xr_code r)"
definition xr_Is :: "x64_Register \<Rightarrow> x64_Register \<Rightarrow> bool" where "xr_Is a b \<longleftrightarrow> xr_code b = xr_code a"

definition VOLATILE_REGISTER :: x64_Register where "VOLATILE_REGISTER = r11"

section \<open>Immediates\<close>

record x64_Immediate =
  imm_value :: u64
  imm_size :: int

text \<open>The size is chosen by the narrowest type that holds the value; for 16 bits it is set to 8.\<close>

definition Immediate :: "u64 \<Rightarrow> x64_Immediate" where
  "Immediate imm = \<lparr>imm_value = imm, imm_size =
    (if scast (ucast imm :: u8) = imm then 8 else if scast (ucast imm :: u16) = imm then 8
     else if scast (ucast imm :: u32) = imm then 32 else 64)\<rparr>"

definition Immediate_sized :: "u64 \<Rightarrow> int \<Rightarrow> x64_Immediate" where
  "Immediate_sized imm sz = \<lparr>imm_value = imm, imm_size = sz\<rparr>"

section \<open>Memory operands\<close>

text \<open>\<open>op_encoding\<close> is \<open>encoding_[0]\<close> to \<open>encoding_[length_ - 1]\<close>.\<close>

record x64_Operand =
  op_rex :: u8
  op_encoding :: "u8 list"

definition x64_Operand_new :: x64_Operand where
  "x64_Operand_new = \<lparr>op_rex = RexNone, op_encoding = []\<rparr>"

definition SetModRM :: "u8 \<Rightarrow> x64_Register \<Rightarrow> x64_Operand \<Rightarrow> x64_Operand" where
  "SetModRM md rm p =
    p\<lparr>op_rex := (if xr_code rm > 7 \<and> \<not> (xr_Is rm r12 \<and> md \<noteq> 3) then op_rex p OR RexB else op_rex p),
      op_encoding := [push_bit 6 md OR word_of_int (xr_code rm AND 7)]\<rparr>"

definition SetSIB :: "ScaleFactor \<Rightarrow> x64_Register \<Rightarrow> x64_Register \<Rightarrow> x64_Operand \<Rightarrow> x64_Operand" where
  "SetSIB sc idx bs p =
    (let rx = (if xr_code bs > 7 then op_rex p OR RexB else op_rex p);
         rx = (if xr_code idx > 7 then rx OR RexX else rx)
     in p\<lparr>op_rex := rx, op_encoding := take 1 (op_encoding p) @
           [push_bit 6 (scale_code sc) OR push_bit 3 (word_of_int (xr_code idx AND 7)) OR word_of_int (xr_code bs AND 7)]\<rparr>)"

definition SetDisp8 :: "u8 \<Rightarrow> x64_Operand \<Rightarrow> x64_Operand" where
  "SetDisp8 d p = p\<lparr>op_encoding := op_encoding p @ [d]\<rparr>"

definition SetDisp32 :: "u32 \<Rightarrow> x64_Operand \<Rightarrow> x64_Operand" where
  "SetDisp32 d p = p\<lparr>op_encoding := op_encoding p @ le_bytes 4 d\<rparr>"

definition IsInt8 :: "u32 \<Rightarrow> bool" where
  "IsInt8 imm \<longleftrightarrow> - 128 \<le> sint imm \<and> sint imm \<le> 127"

text \<open>The constructors of \<open>Address\<close>: base and displacement; index and displacement; base, index and displacement.\<close>

definition Address :: "x64_Register \<Rightarrow> u32 \<Rightarrow> x64_Operand" where
  "Address bs d =
    (let sib = (if xr_code bs AND 7 = xr_code rsp then SetSIB TIMES_1 rsp bs else id) in
     if d = 0 \<and> xr_code bs AND 7 \<noteq> xr_code rbp then sib (SetModRM 0 bs x64_Operand_new)
     else if IsInt8 d then SetDisp8 (ucast d) (sib (SetModRM 1 bs x64_Operand_new))
     else SetDisp32 d (sib (SetModRM 2 bs x64_Operand_new)))"

definition Address_index :: "x64_Register \<Rightarrow> ScaleFactor \<Rightarrow> u32 \<Rightarrow> x64_Operand" where
  "Address_index idx sc d = SetDisp32 d (SetSIB sc idx rbp (SetModRM 0 rsp x64_Operand_new))"

definition Address_base_index :: "x64_Register \<Rightarrow> x64_Register \<Rightarrow> ScaleFactor \<Rightarrow> u32 \<Rightarrow> x64_Operand" where
  "Address_base_index bs idx sc d =
    (if d = 0 \<and> xr_code bs AND 7 \<noteq> xr_code rbp then SetSIB sc idx bs (SetModRM 0 rsp x64_Operand_new)
     else if IsInt8 d then SetDisp8 (ucast d) (SetSIB sc idx bs (SetModRM 1 rsp x64_Operand_new))
     else SetDisp32 d (SetSIB sc idx bs (SetModRM 2 rsp x64_Operand_new)))"

definition ModRM_Mod :: "u8 \<Rightarrow> u8" where "ModRM_Mod byte = drop_bit 6 (byte AND 0b11000000)"
definition ModRM_RegOpcode :: "u8 \<Rightarrow> u8" where "ModRM_RegOpcode byte = drop_bit 3 (byte AND 0b00111000)"
definition ModRM_RM :: "u8 \<Rightarrow> u8" where "ModRM_RM byte = byte AND 0b00000111"

section \<open>Labels with pending instructions\<close>

datatype x64_PseudoLabelType = kDisp32_off_9

record x64_RelocLabelEntry = Label +
  x64_instructions :: "(int \<times> x64_PseudoLabelType) list"
  x64_data :: u64

definition x64_RelocLabelEntry_new :: "u64 \<Rightarrow> x64_RelocLabelEntry" where
  "x64_RelocLabelEntry_new d = \<lparr>label_pos = 0, near_link_pos = 0, x64_instructions = [], x64_data = d\<rparr>"

definition x64_has_confused_instructions :: "x64_RelocLabelEntry \<Rightarrow> bool" where
  "x64_has_confused_instructions l \<longleftrightarrow> length (x64_instructions l) > 0"

definition x64_pseudo_link_to :: "x64_RelocLabelEntry \<Rightarrow> int \<Rightarrow> x64_PseudoLabelType \<Rightarrow> x64_RelocLabelEntry" where
  "x64_pseudo_link_to l p t = l\<lparr>x64_instructions := x64_instructions l @ [(p, t)]\<rparr>"

fun x64_link_instructions :: "int \<Rightarrow> (int \<times> x64_PseudoLabelType) list \<Rightarrow> u8 list \<Rightarrow> u8 list res" where
  "x64_link_instructions p [] code = Inr code"
| "x64_link_instructions p ((position, kDisp32_off_9) # rest) code =
    (let offset = p - position; disp32_fix_pos = position - 4 in
     rbind (store32 code disp32_fix_pos (word_of_int (offset + 9))) (\<lambda>code.
     x64_link_instructions p rest code))"

definition x64_link_confused_instructions :: "x64_RelocLabelEntry \<Rightarrow> u8 list \<Rightarrow> u8 list res" where
  "x64_link_confused_instructions l code = x64_link_instructions (pos l) (x64_instructions l) code"

section \<open>Assembler\<close>

record x64_assembler =
  x64_buffer :: "u8 list"
  x64_realized_address :: u64
  x64_data_labels :: "x64_RelocLabelEntry list option"

definition x64_new :: "u64 \<Rightarrow> x64_assembler" where
  "x64_new address = \<lparr>x64_buffer = [], x64_realized_address = address, x64_data_labels = None\<rparr>"

definition x64_ip_offset :: "x64_assembler \<Rightarrow> int" where
  "x64_ip_offset a = int (length (x64_buffer a))"

definition x64_EmitBuffer :: "x64_assembler \<Rightarrow> u8 list \<Rightarrow> x64_assembler" where
  "x64_EmitBuffer a bs = a\<lparr>x64_buffer := x64_buffer a @ bs\<rparr>"

definition x64_Emit1 :: "x64_assembler \<Rightarrow> u8 \<Rightarrow> x64_assembler" where
  "x64_Emit1 a v = x64_EmitBuffer a (le_bytes 1 v)"

definition x64_Emit :: "x64_assembler \<Rightarrow> u32 \<Rightarrow> x64_assembler" where
  "x64_Emit a v = x64_EmitBuffer a (le_bytes 4 v)"

definition x64_EmitInt64 :: "x64_assembler \<Rightarrow> u64 \<Rightarrow> x64_assembler" where
  "x64_EmitInt64 a v = x64_EmitBuffer a (le_bytes 8 v)"

text \<open>REX prefixes.\<close>

definition EmitOptionalRex :: "bool \<Rightarrow> bool \<Rightarrow> bool \<Rightarrow> bool \<Rightarrow> bool \<Rightarrow> u8" where
  "EmitOptionalRex force w r x b =
    (let rx = (if force then 0x40 else 0);
         rx = (if w then rx OR 0x48 else rx);
         rx = (if r then rx OR 0x44 else rx);
         rx = (if x then rx OR 0x42 else rx)
     in if b then rx OR 0x41 else rx)"

definition x64_emit_rex :: "x64_assembler \<Rightarrow> u8 \<Rightarrow> x64_assembler" where
  "x64_emit_rex a rx = (if rx \<noteq> 0 then x64_Emit1 a rx else a)"

definition Emit_64REX :: "x64_assembler \<Rightarrow> u8 \<Rightarrow> x64_assembler" where
  "Emit_64REX a extra = x64_emit_rex a (EmitOptionalRex False True False False False OR extra)"

definition EmitREX_ExtraRegister :: "x64_assembler \<Rightarrow> x64_Register \<Rightarrow> x64_assembler" where
  "EmitREX_ExtraRegister a r =
    x64_emit_rex a (EmitOptionalRex False (xr_size r = 64) (xr_code r > 7) False (xr_code r > 7))"

definition EmitREX_Register :: "x64_assembler \<Rightarrow> x64_Register \<Rightarrow> x64_assembler" where
  "EmitREX_Register a r = x64_emit_rex a (EmitOptionalRex False (xr_size r = 64) (xr_code r > 7) False False)"

definition EmitREX_Register_Operand :: "x64_assembler \<Rightarrow> x64_Register \<Rightarrow> x64_Operand \<Rightarrow> x64_assembler res" where
  "EmitREX_Register_Operand a r p =
    (if xr_size r \<noteq> 64 then Inl Unimplemented
     else Inr (x64_emit_rex a (op_rex p OR EmitOptionalRex True (xr_size r = 64) (xr_code r > 7) False False)))"

definition EmitREX_Operand :: "x64_assembler \<Rightarrow> x64_Operand \<Rightarrow> x64_assembler" where
  "EmitREX_Operand a p = x64_emit_rex a (op_rex p OR RexPrefix)"

definition EmitImmediate :: "x64_assembler \<Rightarrow> x64_Immediate \<Rightarrow> int \<Rightarrow> x64_assembler res" where
  "EmitImmediate a imm sz =
    (if sz = 8 then Inr (x64_Emit1 a (ucast (imm_value imm)))
     else if sz = 32 then Inr (x64_Emit a (ucast (imm_value imm)))
     else if sz = 64 then Inr (x64_EmitInt64 a (imm_value imm))
     else Inl Unreachable)"

text \<open>ModRM bytes; a register code is converted to a byte and not masked.\<close>

definition EmitModRM :: "x64_assembler \<Rightarrow> u8 \<Rightarrow> u8 \<Rightarrow> u8 \<Rightarrow> x64_assembler" where
  "EmitModRM a md regop rm = x64_Emit1 a (((0 OR push_bit 6 md) OR push_bit 3 regop) OR rm)"

definition EmitModRM_ExtraOpcode_Register :: "x64_assembler \<Rightarrow> u8 \<Rightarrow> x64_Register \<Rightarrow> x64_assembler" where
  "EmitModRM_ExtraOpcode_Register a extra_opcode r = EmitModRM a 0b11 extra_opcode (word_of_int (xr_code r))"

definition EmitModRM_Register_Register :: "x64_assembler \<Rightarrow> x64_Register \<Rightarrow> x64_Register \<Rightarrow> x64_assembler" where
  "EmitModRM_Register_Register a reg1 reg2 = EmitModRM a 0b11 (word_of_int (xr_code reg1)) (word_of_int (xr_code reg2))"

definition EmitModRM_Update_Register :: "x64_assembler \<Rightarrow> u8 \<Rightarrow> x64_Register \<Rightarrow> x64_assembler" where
  "EmitModRM_Update_Register a modRM r = EmitModRM a (ModRM_Mod modRM) (word_of_int (low_bits r)) (ModRM_RM modRM)"

definition EmitModRM_Update_ExtraOpcode :: "x64_assembler \<Rightarrow> u8 \<Rightarrow> u8 \<Rightarrow> x64_assembler" where
  "EmitModRM_Update_ExtraOpcode a modRM extra_opcode = EmitModRM a (ModRM_Mod modRM) extra_opcode (ModRM_RM modRM)"

text \<open>Operand encodings.\<close>

definition Emit_OpEn_Register_MemOperand :: "x64_assembler \<Rightarrow> x64_Register \<Rightarrow> x64_Operand \<Rightarrow> x64_assembler" where
  "Emit_OpEn_Register_MemOperand a dst p =
    x64_EmitBuffer (EmitModRM_Update_Register a (op_encoding p ! 0) dst) (drop 1 (op_encoding p))"

definition Emit_OpEn_Register_RegOperand :: "x64_assembler \<Rightarrow> x64_Register \<Rightarrow> x64_Register \<Rightarrow> x64_assembler" where
  "Emit_OpEn_Register_RegOperand a dst src = EmitModRM_Register_Register a dst src"

definition Emit_OpEn_MemOperand_Immediate :: "x64_assembler \<Rightarrow> u8 \<Rightarrow> x64_Operand \<Rightarrow> x64_Immediate \<Rightarrow> x64_assembler res" where
  "Emit_OpEn_MemOperand_Immediate a extra_opcode p imm =
    (let a = EmitModRM_Update_ExtraOpcode a (op_encoding p ! 0) extra_opcode;
         a = x64_EmitBuffer a (drop 1 (op_encoding p))
     in EmitImmediate a imm (imm_size imm))"

definition Emit_OpEn_RegOperand_Immediate :: "x64_assembler \<Rightarrow> u8 \<Rightarrow> x64_Register \<Rightarrow> x64_Immediate \<Rightarrow> x64_assembler res" where
  "Emit_OpEn_RegOperand_Immediate a extra_opcode r imm =
    EmitImmediate (EmitModRM_ExtraOpcode_Register a extra_opcode r) imm (imm_size imm)"

definition Emit_OpEn_MemOperand :: "x64_assembler \<Rightarrow> u8 \<Rightarrow> x64_Operand \<Rightarrow> x64_assembler" where
  "Emit_OpEn_MemOperand a extra_opcode p =
    x64_EmitBuffer (EmitModRM_Update_ExtraOpcode a (op_encoding p ! 0) extra_opcode) (drop 1 (op_encoding p))"

definition Emit_OpEn_RegOperand :: "x64_assembler \<Rightarrow> u8 \<Rightarrow> x64_Register \<Rightarrow> x64_assembler" where
  "Emit_OpEn_RegOperand a extra_opcode r = EmitModRM_ExtraOpcode_Register a extra_opcode r"

definition EmitOpcode :: "x64_assembler \<Rightarrow> u8 \<Rightarrow> x64_assembler" where
  "EmitOpcode a opcode = x64_Emit1 a opcode"

definition EmitOpcode_Register :: "x64_assembler \<Rightarrow> u8 \<Rightarrow> x64_Register \<Rightarrow> x64_assembler" where
  "EmitOpcode_Register a opcode r = EmitOpcode a (opcode OR word_of_int (low_bits r))"

definition Emit_OpEn_OpcodeRegister_Immediate :: "x64_assembler \<Rightarrow> u8 \<Rightarrow> x64_Register \<Rightarrow> x64_Immediate \<Rightarrow> x64_assembler res" where
  "Emit_OpEn_OpcodeRegister_Immediate a opcode dst imm =
    EmitImmediate (EmitOpcode_Register a opcode dst) imm (imm_size imm)"

section \<open>Instructions\<close>

definition x64_pushfq :: "x64_assembler \<Rightarrow> x64_assembler" where
  "x64_pushfq a = x64_Emit1 a 0x9C"

definition x64_jmp :: "x64_assembler \<Rightarrow> x64_Immediate \<Rightarrow> x64_assembler" where
  "x64_jmp a imm = x64_Emit (x64_Emit1 a 0xE9) (ucast (imm_value imm))"

definition x64_sub :: "x64_assembler \<Rightarrow> x64_Register \<Rightarrow> x64_Immediate \<Rightarrow> x64_assembler res" where
  "x64_sub a dst imm = Emit_OpEn_RegOperand_Immediate (EmitOpcode (EmitREX_Register a dst) 0x81) 0x5 dst imm"

definition x64_add :: "x64_assembler \<Rightarrow> x64_Register \<Rightarrow> x64_Immediate \<Rightarrow> x64_assembler res" where
  "x64_add a dst imm = Emit_OpEn_RegOperand_Immediate (EmitOpcode (EmitREX_Register a dst) 0x81) 0x0 dst imm"

definition x64_mov_reg_imm :: "x64_assembler \<Rightarrow> x64_Register \<Rightarrow> x64_Immediate \<Rightarrow> x64_assembler res" where
  "x64_mov_reg_imm a dst imm = Emit_OpEn_OpcodeRegister_Immediate (EmitREX_Register a dst) 0xb8 dst imm"

definition x64_mov_mem_imm :: "x64_assembler \<Rightarrow> x64_Operand \<Rightarrow> x64_Immediate \<Rightarrow> x64_assembler res" where
  "x64_mov_mem_imm a dst imm = Emit_OpEn_MemOperand_Immediate (EmitOpcode (EmitREX_Operand a dst) 0xc7) 0x0 dst imm"

definition x64_mov_reg_mem :: "x64_assembler \<Rightarrow> x64_Register \<Rightarrow> x64_Operand \<Rightarrow> x64_assembler" where
  "x64_mov_reg_mem a dst src = Emit_OpEn_Register_MemOperand (EmitOpcode (EmitREX_Register a dst) 0x8B) dst src"

definition x64_mov_mem_reg :: "x64_assembler \<Rightarrow> x64_Operand \<Rightarrow> x64_Register \<Rightarrow> x64_assembler res" where
  "x64_mov_mem_reg a dst src = rbind (EmitREX_Register_Operand a src dst) (\<lambda>a.
    Inr (Emit_OpEn_Register_MemOperand (EmitOpcode a 0x89) src dst))"

definition x64_mov_reg_reg :: "x64_assembler \<Rightarrow> x64_Register \<Rightarrow> x64_Register \<Rightarrow> x64_assembler" where
  "x64_mov_reg_reg a dst src = Emit_OpEn_Register_RegOperand (x64_Emit1 (EmitREX_Register a dst) 0x8B) dst src"

definition x64_call_mem :: "x64_assembler \<Rightarrow> x64_Operand \<Rightarrow> x64_assembler" where
  "x64_call_mem a p = Emit_OpEn_MemOperand (EmitOpcode (EmitREX_Operand a p) 0xFF) 0x2 p"

definition x64_call_imm :: "x64_assembler \<Rightarrow> x64_Immediate \<Rightarrow> x64_assembler res" where
  "x64_call_imm a imm = EmitImmediate (EmitOpcode a 0xe8) imm (imm_size imm)"

definition x64_call_reg :: "x64_assembler \<Rightarrow> x64_Register \<Rightarrow> x64_assembler" where
  "x64_call_reg a r = Emit_OpEn_RegOperand (EmitOpcode (EmitREX_Register a r) 0xFF) 0x2 r"

definition x64_pop :: "x64_assembler \<Rightarrow> x64_Register \<Rightarrow> x64_assembler" where
  "x64_pop a r = EmitOpcode_Register (EmitREX_ExtraRegister a r) 0x58 r"

definition x64_push :: "x64_assembler \<Rightarrow> x64_Register \<Rightarrow> x64_assembler" where
  "x64_push a r = EmitOpcode_Register (EmitREX_ExtraRegister a r) 0x50 r"

definition x64_ret :: "x64_assembler \<Rightarrow> x64_assembler" where
  "x64_ret a = EmitOpcode a 0xc3"

definition x64_nop :: "x64_assembler \<Rightarrow> x64_assembler" where
  "x64_nop a = EmitOpcode a 0x90"

section \<open>TurboAssembler\<close>

definition x64_CurrentIP :: "x64_assembler \<Rightarrow> u64" where
  "x64_CurrentIP a = of_int (x64_ip_offset a) + x64_realized_address a"

definition x64_AppendRelocLabelEntry :: "x64_assembler \<Rightarrow> x64_RelocLabelEntry \<Rightarrow> x64_assembler" where
  "x64_AppendRelocLabelEntry a l =
    a\<lparr>x64_data_labels := Some ((case x64_data_labels a of None \<Rightarrow> [] | Some ls \<Rightarrow> ls) @ [l])\<rparr>"

definition x64_MovRipToRegister :: "x64_assembler \<Rightarrow> x64_Register \<Rightarrow> x64_assembler res" where
  "x64_MovRipToRegister a dst = rbind (x64_call_imm a (Immediate_sized 0 32)) (\<lambda>a. Inr (x64_pop a dst))"

definition x64_CallFunction :: "x64_assembler \<Rightarrow> u64 \<Rightarrow> x64_assembler res" where
  "x64_CallFunction a function_address =
    rbind (x64_MovRipToRegister (x64_nop a) VOLATILE_REGISTER) (\<lambda>a.
    let a = x64_call_mem a (Address VOLATILE_REGISTER 0x7FFFFFFF);
        addrLabel = x64_pseudo_link_to (x64_RelocLabelEntry_new function_address) (x64_ip_offset a) kDisp32_off_9;
        a = x64_AppendRelocLabelEntry a addrLabel
    in Inr (x64_nop a))"

definition x64_PseudoBind :: "x64_assembler \<Rightarrow> x64_RelocLabelEntry \<Rightarrow> (x64_assembler \<times> x64_RelocLabelEntry) res" where
  "x64_PseudoBind a l =
    (let l = bind_to l (x64_ip_offset a) in
     if x64_has_confused_instructions l
     then rbind (x64_link_confused_instructions l (x64_buffer a)) (\<lambda>code. Inr (a\<lparr>x64_buffer := code\<rparr>, l))
     else Inr (a, l))"

fun x64_RelocBind_loop :: "x64_assembler \<Rightarrow> x64_RelocLabelEntry list \<Rightarrow> (x64_assembler \<times> x64_RelocLabelEntry list) res" where
  "x64_RelocBind_loop a [] = Inr (a, [])"
| "x64_RelocBind_loop a (l # ls) =
    rbind (x64_PseudoBind a l) (\<lambda>(a, l).
    rbind (x64_RelocBind_loop (x64_EmitInt64 a (x64_data l)) ls) (\<lambda>(a, ls). Inr (a, l # ls)))"

definition x64_RelocBind :: "x64_assembler \<Rightarrow> x64_assembler res" where
  "x64_RelocBind a =
    (case x64_data_labels a of None \<Rightarrow> Inr a
     | Some ls \<Rightarrow> rbind (x64_RelocBind_loop a ls) (\<lambda>(a, ls). Inr (a\<lparr>x64_data_labels := Some ls\<rparr>)))"

text \<open>\<open>CodeGen::JmpNearIndirect\<close>: \<open>jmp [rip + offset]\<close>, six bytes.\<close>

definition x64_JmpNearIndirect :: "x64_assembler \<Rightarrow> u64 \<Rightarrow> x64_assembler" where
  "x64_JmpNearIndirect a address =
    (let currIP = x64_CurrentIP a + 6; offset = ucast (address - currIP) :: u32
     in x64_Emit (x64_Emit1 (x64_Emit1 a 0xFF) 0x25) offset)"

section \<open>Evaluation of encodings\<close>

lemmas asm_defs = x64_sub_def x64_add_def x64_mov_reg_imm_def x64_mov_mem_reg_def x64_mov_reg_reg_def x64_mov_reg_mem_def
  x64_pop_def x64_push_def x64_ret_def x64_nop_def x64_call_imm_def x64_call_mem_def x64_MovRipToRegister_def x64_CallFunction_def
  Emit_OpEn_RegOperand_Immediate_def Emit_OpEn_Register_RegOperand_def Emit_OpEn_Register_MemOperand_def Emit_OpEn_MemOperand_def
  EmitREX_Register_def EmitREX_ExtraRegister_def EmitREX_Register_Operand_def EmitREX_Operand_def x64_emit_rex_def EmitOptionalRex_def
  EmitOpcode_def EmitOpcode_Register_def EmitModRM_def EmitModRM_ExtraOpcode_Register_def EmitModRM_Register_Register_def
  EmitModRM_Update_Register_def EmitModRM_Update_ExtraOpcode_def EmitImmediate_def Immediate_sized_def
  x64_Emit1_def x64_Emit_def x64_EmitInt64_def x64_EmitBuffer_def ModRM_Mod_def ModRM_RM_def low_bits_def
  Address_def SetModRM_def SetSIB_def SetDisp8_def SetDisp32_def x64_Operand_new_def IsInt8_def rex_bit_defs xr_Is_def gp_defs

end
