(* ===== verification/X64Machine.thy ===== *)
theory X64Machine
  imports ProcessMemory
begin

text \<open>
  The part of the x64 architecture the generated code uses, written from the architecture and not from the program: a
  parser of instructions (REX prefix, opcode, ModRM, SIB, displacement, immediate) and their effect on registers, flags,
  instruction pointer and memory, in 64-bit mode and with 64-bit operands. The theorems about the x64 assembler,
  relocator and bridges are stated against it.
\<close>

section \<open>Parsers\<close>

type_synonym 'a parser = "u8 list \<Rightarrow> ('a \<times> u8 list) option"

definition preturn :: "'a \<Rightarrow> 'a parser" where
  "preturn x = (\<lambda>bs. Some (x, bs))"

definition pfail :: "'a parser" where
  "pfail = (\<lambda>bs. None)"

definition pbind :: "'a parser \<Rightarrow> ('a \<Rightarrow> 'b parser) \<Rightarrow> 'b parser" where
  "pbind p f = (\<lambda>bs. case p bs of None \<Rightarrow> None | Some (x, r) \<Rightarrow> f x r)"

definition pbyte :: "u8 parser" where
  "pbyte bs = (case bs of [] \<Rightarrow> None | b # r \<Rightarrow> Some (b, r))"

text \<open>A sign-extended byte or double word.\<close>

definition pdisp8 :: "u64 parser" where
  "pdisp8 = pbind pbyte (\<lambda>b. preturn (scast b))"

definition pdisp32 :: "u64 parser" where
  "pdisp32 bs = (if length bs < 4 then None else Some (scast (of_le_bytes (take 4 bs) :: u32), drop 4 bs))"

text \<open>What follows the bytes a parser has read does not matter to it.\<close>

definition local_parser :: "'a parser \<Rightarrow> bool" where
  "local_parser p \<longleftrightarrow> (\<forall>bs x r cs. p bs = Some (x, r) \<longrightarrow> p (bs @ cs) = Some (x, r @ cs))"

named_theorems local_intros "parsers that read a prefix"

lemma local_parserD: "local_parser p \<Longrightarrow> p bs = Some (x, r) \<Longrightarrow> p (bs @ cs) = Some (x, r @ cs)"
  by (simp add: local_parser_def)

lemma local_basic [local_intros]: "local_parser (preturn x)" "local_parser pfail" "local_parser pbyte" "local_parser pdisp32"
  by (auto simp: local_parser_def preturn_def pfail_def pbyte_def pdisp32_def split: list.splits if_splits)

lemma local_bind [local_intros]: "local_parser p \<Longrightarrow> (\<And>x. local_parser (f x)) \<Longrightarrow> local_parser (pbind p f)"
  by (fastforce simp: local_parser_def pbind_def split: option.splits)

lemma local_if [local_intros]: "local_parser p \<Longrightarrow> local_parser q \<Longrightarrow> local_parser (if b then p else q)"
  by simp

lemma local_let [local_intros]: "(\<And>y. local_parser (f y)) \<Longrightarrow> local_parser (let x = e in f x)"
  by simp

lemma local_pdisp8 [local_intros]: "local_parser pdisp8"
  unfolding pdisp8_def by (intro local_intros)

section \<open>Instructions\<close>

text \<open>A memory operand: base, index with the logarithm of its scale, displacement; or relative to the next instruction.\<close>

datatype x64_ea = EA "nat option" "(nat \<times> nat) option" u64 | EA_rip u64

datatype x64_rm = RM_reg nat | RM_mem x64_ea

datatype x64_alu = ALU_add | ALU_or | ALU_and | ALU_sub | ALU_cmp

datatype x64_insn =
    I_nop
  | I_mov_store x64_rm nat
  | I_mov_load nat x64_rm
  | I_alu x64_alu x64_rm u64
  | I_push nat | I_pop nat | I_push_rm x64_rm | I_pushf | I_popf
  | I_ret
  | I_call u64 | I_jmp u64 | I_jcc nat u64    \<comment> \<open>displacement from the next instruction\<close>
  | I_call_rm x64_rm | I_jmp_rm x64_rm

definition rex_ext :: "u8 \<Rightarrow> nat \<Rightarrow> nat" where
  "rex_ext rx n = (if bit rx n then 8 else 0)"

definition field3 :: "u8 \<Rightarrow> nat \<Rightarrow> nat" where
  "field3 b n = unat (drop_bit n b AND 7)"

definition p_sib :: "u8 \<Rightarrow> u8 \<Rightarrow> (nat option \<times> (nat \<times> nat) option) parser" where
  "p_sib rx md = pbind pbyte (\<lambda>b.
    let bs = field3 b 0; idx = field3 b 3 + rex_ext rx 1 in
    preturn (if bs = 5 \<and> md = 0 then None else Some (bs + rex_ext rx 0),
             if idx = 4 then None else Some (idx, unat (drop_bit 6 b))))"

definition p_disp :: "u8 \<Rightarrow> bool \<Rightarrow> u64 parser" where
  "p_disp md no_base = (if md = 1 then pdisp8 else if md = 2 \<or> no_base then pdisp32 else preturn 0)"

text \<open>ModRM and what belongs to it: the register field and the operand.\<close>

definition p_modrm :: "u8 \<Rightarrow> (nat \<times> x64_rm) parser" where
  "p_modrm rx = pbind pbyte (\<lambda>m.
    let md = drop_bit 6 m; rg = field3 m 3 + rex_ext rx 2; rm = field3 m 0 in
    if md = 3 then preturn (rg, RM_reg (rm + rex_ext rx 0))
    else if rm = 4
      then pbind (p_sib rx md) (\<lambda>(bs, idx). pbind (p_disp md (bs = None)) (\<lambda>d. preturn (rg, RM_mem (EA bs idx d))))
    else if rm = 5 \<and> md = 0 then pbind pdisp32 (\<lambda>d. preturn (rg, RM_mem (EA_rip d)))
    else pbind (p_disp md False) (\<lambda>d. preturn (rg, RM_mem (EA (Some (rm + rex_ext rx 0)) None d))))"

definition alu_of :: "nat \<Rightarrow> x64_alu option" where
  "alu_of n = (if n = 0 then Some ALU_add else if n = 1 then Some ALU_or else if n = 4 then Some ALU_and
     else if n = 5 then Some ALU_sub else if n = 7 then Some ALU_cmp else None)"

text \<open>The extension in the register field of a group opcode is not widened by REX.R.\<close>

definition p_alu_imm :: "u8 \<Rightarrow> u64 parser \<Rightarrow> x64_insn parser" where
  "p_alu_imm rx imm = pbind (p_modrm rx) (\<lambda>(rg, rm). case alu_of (rg mod 8) of
     None \<Rightarrow> pfail | Some f \<Rightarrow> pbind imm (\<lambda>v. preturn (I_alu f rm v)))"

definition p_group5 :: "u8 \<Rightarrow> x64_insn parser" where
  "p_group5 rx = pbind (p_modrm rx) (\<lambda>(rg, rm).
     if rg mod 8 = 2 then preturn (I_call_rm rm) else if rg mod 8 = 4 then preturn (I_jmp_rm rm)
     else if rg mod 8 = 6 then preturn (I_push_rm rm) else pfail)"

definition p_two_byte :: "x64_insn parser" where
  "p_two_byte = pbind pbyte (\<lambda>b.
     if 0x80 \<le> b \<and> b \<le> 0x8F then pbind pdisp32 (\<lambda>d. preturn (I_jcc (unat (b AND 15)) d)) else pfail)"

definition p_opcode :: "u8 \<Rightarrow> x64_insn parser" where
  "p_opcode rx = pbind pbyte (\<lambda>b.
     if b = 0x90 then (if rx = 0 then preturn I_nop else pfail)
     else if b = 0x9C then preturn I_pushf else if b = 0x9D then preturn I_popf
     else if b = 0xC3 then preturn I_ret
     else if 0x50 \<le> b \<and> b \<le> 0x57 then preturn (I_push (field3 b 0 + rex_ext rx 0))
     else if 0x58 \<le> b \<and> b \<le> 0x5F then preturn (I_pop (field3 b 0 + rex_ext rx 0))
     else if b = 0xE8 then pbind pdisp32 (\<lambda>d. preturn (I_call d))
     else if b = 0xE9 then pbind pdisp32 (\<lambda>d. preturn (I_jmp d))
     else if b = 0xEB then pbind pdisp8 (\<lambda>d. preturn (I_jmp d))
     else if 0x70 \<le> b \<and> b \<le> 0x7F then pbind pdisp8 (\<lambda>d. preturn (I_jcc (unat (b AND 15)) d))
     else if b = 0xFF then p_group5 rx
     else if b = 0x0F then p_two_byte
     else if bit rx 3 \<and> b = 0x89 then pbind (p_modrm rx) (\<lambda>(rg, rm). preturn (I_mov_store rm rg))
     else if bit rx 3 \<and> b = 0x8B then pbind (p_modrm rx) (\<lambda>(rg, rm). preturn (I_mov_load rg rm))
     else if bit rx 3 \<and> b = 0x81 then p_alu_imm rx pdisp32
     else if bit rx 3 \<and> b = 0x83 then p_alu_imm rx pdisp8
     else pfail)"

definition p_insn :: "x64_insn parser" where
  "p_insn bs = (case bs of [] \<Rightarrow> None | b # r \<Rightarrow> if drop_bit 4 b = 4 then p_opcode b r else p_opcode 0 bs)"

text \<open>The instruction at the start of a byte string and its length.\<close>

definition x64_disasm :: "u8 list \<Rightarrow> (x64_insn \<times> nat) option" where
  "x64_disasm bs = (case p_insn bs of None \<Rightarrow> None | Some (i, r) \<Rightarrow> Some (i, length bs - length r))"

lemma local_prod [local_intros]: "(\<And>a b. local_parser (f a b)) \<Longrightarrow> local_parser (case x of (a, b) \<Rightarrow> f a b)"
  by (cases x) simp

lemma local_p_modrm [local_intros]: "local_parser (p_modrm rx)"
  unfolding p_modrm_def p_sib_def p_disp_def by (intro local_intros)

lemma local_p_alu_imm [local_intros]: "local_parser imm \<Longrightarrow> local_parser (p_alu_imm rx imm)"
  unfolding p_alu_imm_def by (intro local_intros) (auto split: option.split intro!: local_intros)

lemma local_p_opcode: "local_parser (p_opcode rx)"
  unfolding p_opcode_def p_group5_def p_two_byte_def by (intro local_intros)

lemma p_insn_append: "p_insn bs = Some (i, r) \<Longrightarrow> p_insn (bs @ cs) = Some (i, r @ cs)"
  using local_parserD [OF local_p_opcode] by (fastforce simp: p_insn_def split: list.splits if_splits)

lemma disasm_append: "x64_disasm bs = Some (i, n) \<Longrightarrow> x64_disasm (bs @ cs) = Some (i, n)"
  using p_insn_append [of bs] by (auto simp: x64_disasm_def split: option.splits)

section \<open>Execution\<close>

record x64_state =
  x_reg :: "nat \<Rightarrow> u64"
  x_rip :: u64
  x_flags :: u64
  x_mem :: "u64 \<Rightarrow> u8"

definition put_flag :: "nat \<Rightarrow> bool \<Rightarrow> u64 \<Rightarrow> u64" where
  "put_flag n b f = (if b then set_bit n f else unset_bit n f)"

text \<open>Carry is bit 0, parity 2, adjust 4, zero 6, sign 7, overflow 11.\<close>

definition alu_result :: "x64_alu \<Rightarrow> u64 \<Rightarrow> u64 \<Rightarrow> u64" where
  "alu_result f a b = (case f of ALU_add \<Rightarrow> a + b | ALU_or \<Rightarrow> a OR b | ALU_and \<Rightarrow> a AND b | ALU_sub \<Rightarrow> a - b | ALU_cmp \<Rightarrow> a - b)"

definition alu_carry :: "x64_alu \<Rightarrow> u64 \<Rightarrow> u64 \<Rightarrow> bool" where
  "alu_carry f a b = (case f of ALU_add \<Rightarrow> a + b < a | ALU_or \<Rightarrow> False | ALU_and \<Rightarrow> False | ALU_sub \<Rightarrow> a < b | ALU_cmp \<Rightarrow> a < b)"

definition alu_overflow :: "x64_alu \<Rightarrow> u64 \<Rightarrow> u64 \<Rightarrow> bool" where
  "alu_overflow f a b = (case f of ALU_add \<Rightarrow> sint (a + b) \<noteq> sint a + sint b | ALU_or \<Rightarrow> False | ALU_and \<Rightarrow> False
     | ALU_sub \<Rightarrow> sint (a - b) \<noteq> sint a - sint b | ALU_cmp \<Rightarrow> sint (a - b) \<noteq> sint a - sint b)"

definition alu_flags :: "x64_alu \<Rightarrow> u64 \<Rightarrow> u64 \<Rightarrow> u64 \<Rightarrow> u64" where
  "alu_flags f a b fl =
    (let r = alu_result f a b;
         fl = put_flag 0 (alu_carry f a b) fl;
         fl = put_flag 2 (even (length (filter (bit r) [0..<8]))) fl;
         fl = put_flag 4 (bit (a XOR b XOR r) 4) fl;
         fl = put_flag 7 (bit r 63) fl;
         fl = put_flag 11 (alu_overflow f a b) fl
     in put_flag 6 (r = 0) fl)"

text \<open>The condition of a conditional jump; an odd code negates.\<close>

definition x64_cond :: "nat \<Rightarrow> u64 \<Rightarrow> bool" where
  "x64_cond cc f =
    (let c = (if cc div 2 = 0 then bit f 11 else if cc div 2 = 1 then bit f 0 else if cc div 2 = 2 then bit f 6
              else if cc div 2 = 3 then bit f 0 \<or> bit f 6 else if cc div 2 = 4 then bit f 7 else if cc div 2 = 5 then bit f 2
              else if cc div 2 = 6 then bit f 7 \<noteq> bit f 11 else bit f 6 \<or> bit f 7 \<noteq> bit f 11)
     in if even cc then c else \<not> c)"

text \<open>The flags \<open>popfq\<close> changes outside the kernel, and those \<open>pushfq\<close> stores.\<close>

definition user_flags :: u64 where "user_flags = 0x244DD5"
definition stored_flags :: u64 where "stored_flags = 0xFCFFFF"

fun ea_addr :: "x64_ea \<Rightarrow> x64_state \<Rightarrow> u64" where
  "ea_addr (EA bs idx d) s = (case bs of None \<Rightarrow> 0 | Some r \<Rightarrow> x_reg s r) +
     (case idx of None \<Rightarrow> 0 | Some (r, sc) \<Rightarrow> push_bit sc (x_reg s r)) + d"
| "ea_addr (EA_rip d) s = x_rip s + d"

fun rm_read :: "x64_rm \<Rightarrow> x64_state \<Rightarrow> u64" where
  "rm_read (RM_reg r) s = x_reg s r"
| "rm_read (RM_mem ea) s = load64 (x_mem s) (ea_addr ea s)"

fun rm_write :: "x64_rm \<Rightarrow> u64 \<Rightarrow> x64_state \<Rightarrow> x64_state" where
  "rm_write (RM_reg r) v s = s\<lparr>x_reg := (x_reg s)(r := v)\<rparr>"
| "rm_write (RM_mem ea) v s = s\<lparr>x_mem := store64 (x_mem s) (ea_addr ea s) v\<rparr>"

definition x_push :: "u64 \<Rightarrow> x64_state \<Rightarrow> x64_state" where
  "x_push v s = s\<lparr>x_reg := (x_reg s)(4 := x_reg s 4 - 8), x_mem := store64 (x_mem s) (x_reg s 4 - 8) v\<rparr>"

definition x_top :: "x64_state \<Rightarrow> u64" where
  "x_top s = load64 (x_mem s) (x_reg s 4)"

definition x_drop :: "x64_state \<Rightarrow> x64_state" where
  "x_drop s = s\<lparr>x_reg := (x_reg s)(4 := x_reg s 4 + 8)\<rparr>"

text \<open>The effect of an instruction on a state whose instruction pointer is already behind it.\<close>

fun x64_effect :: "x64_insn \<Rightarrow> x64_state \<Rightarrow> x64_state" where
  "x64_effect I_nop s = s"
| "x64_effect (I_mov_store rm r) s = rm_write rm (x_reg s r) s"
| "x64_effect (I_mov_load r rm) s = s\<lparr>x_reg := (x_reg s)(r := rm_read rm s)\<rparr>"
| "x64_effect (I_alu f rm v) s =
    (let a = rm_read rm s; s' = (if f = ALU_cmp then s else rm_write rm (alu_result f a v) s)
     in s'\<lparr>x_flags := alu_flags f a v (x_flags s)\<rparr>)"
| "x64_effect (I_push r) s = x_push (x_reg s r) s"
| "x64_effect (I_pop r) s = (x_drop s)\<lparr>x_reg := (x_reg (x_drop s))(r := x_top s)\<rparr>"
| "x64_effect (I_push_rm rm) s = x_push (rm_read rm s) s"
| "x64_effect I_pushf s = x_push (x_flags s AND stored_flags) s"
| "x64_effect I_popf s = (x_drop s)\<lparr>x_flags := (x_flags s AND NOT user_flags) OR (x_top s AND user_flags)\<rparr>"
| "x64_effect I_ret s = (x_drop s)\<lparr>x_rip := x_top s\<rparr>"
| "x64_effect (I_call d) s = (x_push (x_rip s) s)\<lparr>x_rip := x_rip s + d\<rparr>"
| "x64_effect (I_jmp d) s = s\<lparr>x_rip := x_rip s + d\<rparr>"
| "x64_effect (I_jcc cc d) s = (if x64_cond cc (x_flags s) then s\<lparr>x_rip := x_rip s + d\<rparr> else s)"
| "x64_effect (I_call_rm rm) s = (x_push (x_rip s) s)\<lparr>x_rip := rm_read rm s\<rparr>"
| "x64_effect (I_jmp_rm rm) s = s\<lparr>x_rip := rm_read rm s\<rparr>"

definition x64_exec :: "x64_insn \<Rightarrow> nat \<Rightarrow> x64_state \<Rightarrow> x64_state" where
  "x64_exec i n s = x64_effect i (s\<lparr>x_rip := x_rip s + of_nat n\<rparr>)"

definition x64_step :: "x64_state \<Rightarrow> x64_state option" where
  "x64_step s = (case x64_disasm (peek (x_mem s) (x_rip s) 15) of None \<Rightarrow> None | Some (i, n) \<Rightarrow> Some (x64_exec i n s))"

fun x64_run :: "nat \<Rightarrow> x64_state \<Rightarrow> x64_state option" where
  "x64_run 0 s = Some s"
| "x64_run (Suc k) s = (case x64_step s of None \<Rightarrow> None | Some s' \<Rightarrow> x64_run k s')"

lemma x64_run_add: "x64_run n s = Some t \<Longrightarrow> x64_run (n + k) s = x64_run k t"
  by (induction n arbitrary: s) (auto split: option.splits)

lemma x64_step_code:
  assumes "holds_code (x_mem s) a code" "x_rip s = a + of_nat off" "x64_disasm (take 15 (drop off code)) = Some (i, n)"
  shows "x64_step s = Some (x64_exec i n s)"
proof -
  let ?k = "length (take 15 (drop off code))"
  have "off \<le> length code" using assms(3) by (cases "off \<le> length code") (simp_all add: x64_disasm_def p_insn_def)
  then have "take ?k (drop off (peek (x_mem s) a (length code))) = peek (x_mem s) (x_rip s) ?k"
    using assms(2) by (simp add: peek_drop peek_take)
  moreover have "take ?k (drop off code) = take 15 (drop off code)" by (simp add: min_def)
  ultimately have "peek (x_mem s) (x_rip s) ?k = take 15 (drop off code)"
    using assms(1) by (simp add: holds_code_def)
  moreover have "?k \<le> 15" by simp
  then have "peek (x_mem s) (x_rip s) 15 = peek (x_mem s) (x_rip s) ?k @ peek (x_mem s) (x_rip s + of_nat ?k) (15 - ?k)"
    using peek_append [of "x_mem s" "x_rip s" ?k "15 - ?k"] by simp
  ultimately show ?thesis using disasm_append [OF assms(3)] by (simp add: x64_step_def)
qed

text \<open>Running a decoded instruction of loaded code.\<close>

lemma x64_run_code:
  assumes "holds_code (x_mem s) a code" "x_rip s = a + of_nat off" "x64_disasm (take 15 (drop off code)) = Some (i, n)"
  shows "x64_run (Suc k) s = x64_run k (x64_exec i n s)"
  using x64_step_code [OF assms] by simp

section \<open>Blocks\<close>

definition within :: "u64 \<Rightarrow> nat \<Rightarrow> u64 \<Rightarrow> bool" where
  "within p n a \<longleftrightarrow> unat (a - p) + 8 \<le> n"

text \<open>The 64-bit word an instruction writes, if it writes one, lies in the given range.\<close>

fun writes_within :: "u64 \<Rightarrow> nat \<Rightarrow> x64_insn \<Rightarrow> x64_state \<Rightarrow> bool" where
  "writes_within p n (I_mov_store (RM_mem ea) r) s = within p n (ea_addr ea s)"
| "writes_within p n (I_alu f (RM_mem ea) v) s = within p n (ea_addr ea s)"
| "writes_within p n (I_push r) s = within p n (x_reg s 4 - 8)"
| "writes_within p n (I_push_rm rm) s = within p n (x_reg s 4 - 8)"
| "writes_within p n I_pushf s = within p n (x_reg s 4 - 8)"
| "writes_within p n (I_call d) s = within p n (x_reg s 4 - 8)"
| "writes_within p n (I_call_rm rm) s = within p n (x_reg s 4 - 8)"
| "writes_within p n i s = True"

text \<open>
  The effect of a listed sequence of instructions (offset, instruction, length) of code at \<open>b\<close>, provided control follows
  the list and every write stays in the range \<open>p\<close>, \<open>n\<close>.
\<close>

fun x64_block :: "u64 \<Rightarrow> u64 \<Rightarrow> nat \<Rightarrow> (nat \<times> x64_insn \<times> nat) list \<Rightarrow> x64_state \<Rightarrow> x64_state option" where
  "x64_block b p n [] s = Some s"
| "x64_block b p n ((off, i, l) # is) s =
    (if x_rip s = b + of_nat off \<and> writes_within p n i (s\<lparr>x_rip := x_rip s + of_nat l\<rparr>)
     then x64_block b p n is (x64_exec i l s) else None)"

definition listing_of :: "u8 list \<Rightarrow> (nat \<times> x64_insn \<times> nat) list \<Rightarrow> bool" where
  "listing_of code is \<longleftrightarrow> list_all (\<lambda>(off, i, l). x64_disasm (take 15 (drop off code)) = Some (i, l)) is"

lemma within_apart:
  assumes "within p n a" "apart p n b k"
  shows "apart a 8 b k"
proof -
  have "unat (a - p) + unat p < 2 ^ 64" using assms by (auto simp: within_def apart_def)
  then have "unat a = unat (a - p) + unat p" using unat_add_lem [of "a - p" p] by simp
  then show ?thesis using assms by (auto simp: within_def apart_def)
qed

lemma load64_store64_within:
  assumes "within p n a" "apart p n b k" "i + 8 \<le> k"
  shows "load64 (store64 m a v) (of_nat i + b) = load64 m (of_nat i + b)"
  using within_apart [OF assms(1) apart_sub [OF assms(2,3)]] by (simp add: load64_def peek_store64_apart add.commute)

lemma store64_outside: "within p n a \<Longrightarrow> n \<le> unat (x - p) \<Longrightarrow> store64 m a v x = m x"
proof -
  assume w: "within p n a" and x: "n \<le> unat (x - p)"
  have "unat (x - a) = unat (x - p) - unat (a - p)"
    using w x unat_sub [of "a - p" "x - p"] by (simp add: within_def word_le_nat_alt)
  then have "\<not> unat (x - a) < 8" using w x by (simp add: within_def)
  then show ?thesis by (simp add: store64_def poke_def del: le_bytes.simps)
qed

text \<open>The memory after an instruction is the same or has one word changed.\<close>

lemma x64_exec_memory:
  "writes_within p n i (s\<lparr>x_rip := x_rip s + of_nat l\<rparr>) \<Longrightarrow>
    x_mem (x64_exec i l s) = x_mem s \<or> (\<exists>a v. within p n a \<and> x_mem (x64_exec i l s) = store64 (x_mem s) a v)"
  unfolding x64_exec_def
  by (induction p n i "s\<lparr>x_rip := x_rip s + of_nat l\<rparr>" rule: writes_within.induct)
    (auto simp: x_push_def x_drop_def Let_def split: if_splits)

lemma x64_block_run:
  assumes "x64_block b p n is s = Some t" "listing_of code is" "holds_code (x_mem s) b code" "apart p n b (length code)"
  shows "x64_run (length is) s = Some t" "holds_code (x_mem t) b code" "\<And>x. n \<le> unat (x - p) \<Longrightarrow> x_mem t x = x_mem s x"
proof -
  have "x64_run (length is) s = Some t \<and> holds_code (x_mem t) b code \<and> (\<forall>x. n \<le> unat (x - p) \<longrightarrow> x_mem t x = x_mem s x)"
    using assms
  proof (induction "is" arbitrary: s)
    case (Cons e "is")
    obtain off i l where e: "e = (off, i, l)" by (cases e)
    let ?s = "x64_exec i l s"
    have w: "writes_within p n i (s\<lparr>x_rip := x_rip s + of_nat l\<rparr>)" and r: "x_rip s = b + of_nat off"
      and b: "x64_block b p n is ?s = Some t" using Cons.prems(1) by (auto simp: e split: if_splits)
    have d: "x64_disasm (take 15 (drop off code)) = Some (i, l)" "listing_of code is"
      using Cons.prems(2) by (auto simp: listing_of_def e)
    have c: "holds_code (x_mem ?s) b code" "\<forall>x. n \<le> unat (x - p) \<longrightarrow> x_mem ?s x = x_mem s x"
      using x64_exec_memory [OF w] Cons.prems(3,4) within_apart [OF _ Cons.prems(4)] holds_code_store64 store64_outside by auto
    show ?case using Cons.IH [OF b d(2) c(1) Cons.prems(4)] x64_run_code [OF Cons.prems(3) r d(1)] c(2) by (simp add: e)
  qed simp
  then show "x64_run (length is) s = Some t" "holds_code (x_mem t) b code" "\<And>x. n \<le> unat (x - p) \<Longrightarrow> x_mem t x = x_mem s x" by auto
qed

text \<open>A listing of consecutive instructions, checked byte by byte.\<close>

fun decodes :: "nat \<Rightarrow> u8 list \<Rightarrow> (nat \<times> x64_insn \<times> nat) list \<Rightarrow> bool" where
  "decodes off bs [] = True"
| "decodes off bs ((off', i, l) # is) \<longleftrightarrow> off' = off \<and> l \<le> length (take 15 bs) \<and>
     p_insn (take 15 bs) = Some (i, drop l (take 15 bs)) \<and> decodes (off + l) (drop l bs) is"

lemmas parser_defs = p_insn_def p_opcode_def p_modrm_def p_sib_def p_disp_def p_alu_imm_def p_group5_def p_two_byte_def
  pbind_def preturn_def pbyte_def pdisp8_def pdisp32_def pfail_def field3_def rex_ext_def alu_of_def

lemma listing_of_append: "listing_of code (xs @ ys) \<longleftrightarrow> listing_of code xs \<and> listing_of code ys"
  by (simp add: listing_of_def)

lemma decodes_listing: "decodes (length pre) bs is \<Longrightarrow> listing_of (pre @ bs @ post) is"
proof (induction "is" arbitrary: pre bs)
  case (Cons e "is")
  obtain off i l where e: "e = (off, i, l)" by (cases e)
  have d: "off = length pre" "l \<le> length (take 15 bs)" "p_insn (take 15 bs) = Some (i, drop l (take 15 bs))"
    "decodes (length pre + l) (drop l bs) is" using Cons.prems by (auto simp: e)
  have "x64_disasm (take 15 bs) = Some (i, l)" using d(2,3) by (simp add: x64_disasm_def)
  then have "x64_disasm (take 15 (drop off (pre @ bs @ post))) = Some (i, l)"
    using disasm_append [of "take 15 bs" i l "take (15 - length bs) post"] by (simp add: d(1))
  moreover have "length (take l bs) = l" using d(2) by simp
  then have "decodes (length (pre @ take l bs)) (drop l bs) is" using d(4) by (simp del: length_take)
  from Cons.IH [OF this] have "listing_of (pre @ bs @ post) is" by (metis append.assoc append_take_drop_id)
  ultimately show ?case by (simp add: listing_of_def e)
qed (simp add: listing_of_def)

lemma bit_put_flag: "bit (put_flag n b f) n = b" if "n < 64"
  using that by (simp add: put_flag_def bit_set_bit_iff bit_unset_bit_iff)

lemma zero_flag: "bit (alu_flags f a b fl) 6 \<longleftrightarrow> alu_result f a b = 0"
  by (simp add: alu_flags_def Let_def bit_put_flag)

end
