(* ===== verification/X64ClosureBridge.thy ===== *)
theory X64ClosureBridge
  imports X64Assembler X64Machine CodeBuilder
begin

text \<open>
  The closure trampoline and the closure bridge of \<open>source/TrampolineBridge/ClosureTrampolineBridge/x64\<close>: the code an
  instrumented function is diverted to. The trampoline pushes a pointer to its entry and jumps to the bridge, which is
  shared; the bridge saves flags and registers in a \<open>RegisterContext\<close> on the stack, calls the common handler with the
  context and the entry, restores everything and returns to the address that has replaced the entry on the stack.
\<close>

section \<open>The bridge\<close>

text \<open>A sequence of calls on one assembler.\<close>

fun x64_seq :: "(x64_assembler \<Rightarrow> x64_assembler res) list \<Rightarrow> x64_assembler \<Rightarrow> x64_assembler res" where
  "x64_seq [] a = Inr a"
| "x64_seq (f # fs) a = rbind (f a) (x64_seq fs)"

abbreviation emit_bytes :: "u8 list \<Rightarrow> x64_assembler \<Rightarrow> x64_assembler res" where
  "emit_bytes bs a \<equiv> Inr (x64_EmitBuffer a bs)"

definition bridge_save :: "(x64_assembler \<Rightarrow> x64_assembler res) list" where
  "bridge_save =
    [emit_bytes [0x9c],
     \<lambda>a. x64_sub a rsp (Immediate_sized 8 32),
     \<lambda>a. x64_sub a rsp (Immediate_sized (16 * 8) 32),
     \<lambda>a. x64_mov_mem_reg a (Address rsp (8 * 0)) rax,
     \<lambda>a. x64_mov_mem_reg a (Address rsp (8 * 1)) rbx,
     \<lambda>a. x64_mov_mem_reg a (Address rsp (8 * 2)) rcx,
     \<lambda>a. x64_mov_mem_reg a (Address rsp (8 * 3)) rdx,
     \<lambda>a. x64_mov_mem_reg a (Address rsp (8 * 4)) rbp,
     \<lambda>a. x64_mov_mem_reg a (Address rsp (8 * 5)) rsp,
     \<lambda>a. x64_mov_mem_reg a (Address rsp (8 * 6)) rdi,
     \<lambda>a. x64_mov_mem_reg a (Address rsp (8 * 7)) rsi,
     \<lambda>a. x64_mov_mem_reg a (Address rsp (8 * 8)) r8,
     \<lambda>a. x64_mov_mem_reg a (Address rsp (8 * 9)) r9,
     \<lambda>a. x64_mov_mem_reg a (Address rsp (8 * 10)) r10,
     \<lambda>a. x64_mov_mem_reg a (Address rsp (8 * 11)) r11,
     \<lambda>a. x64_mov_mem_reg a (Address rsp (8 * 12)) r12,
     \<lambda>a. x64_mov_mem_reg a (Address rsp (8 * 13)) r13,
     \<lambda>a. x64_mov_mem_reg a (Address rsp (8 * 14)) r14,
     \<lambda>a. x64_mov_mem_reg a (Address rsp (8 * 15)) r15,
     \<lambda>a. Inr (x64_mov_reg_reg a rax rsp),
     \<lambda>a. x64_add a rax (Immediate_sized (8 + 8 + 8 + 16 * 8) 32),
     \<lambda>a. x64_sub a rsp (Immediate_sized (2 * 8) 32),
     \<lambda>a. x64_mov_mem_reg a (Address rsp 8) rax,
     \<lambda>a. Inr (x64_mov_reg_reg a rdi rsp),
     \<lambda>a. Inr (x64_mov_reg_mem a rsi (Address rsp (8 + 8 + 16 * 8 + 2 * 8)))]"

definition bridge_call :: "u64 \<Rightarrow> (x64_assembler \<Rightarrow> x64_assembler res) list" where
  "bridge_call common_bridge_handler =
    [emit_bytes [0x48, 0x89, 0xE0],
     emit_bytes [0x48, 0x83, 0xE0, 0x0F],
     emit_bytes [0x48, 0x83, 0xF8, 0x00],
     emit_bytes [0x75, 0x15],
     \<lambda>a. x64_CallFunction a common_bridge_handler,
     emit_bytes [0xE9, 0x12, 0x00, 0x00, 0x00],
     emit_bytes [0x50],
     \<lambda>a. x64_CallFunction a common_bridge_handler,
     emit_bytes [0x58]]"

definition bridge_restore :: "(x64_assembler \<Rightarrow> x64_assembler res) list" where
  "bridge_restore =
    [\<lambda>a. x64_add a rsp (Immediate_sized (2 * 8) 32),
     \<lambda>a. Inr (x64_pop a rax), \<lambda>a. Inr (x64_pop a rbx), \<lambda>a. Inr (x64_pop a rcx), \<lambda>a. Inr (x64_pop a rdx),
     \<lambda>a. Inr (x64_pop a rbp),
     \<lambda>a. x64_add a rsp (Immediate_sized 8 32),
     \<lambda>a. Inr (x64_pop a rdi), \<lambda>a. Inr (x64_pop a rsi), \<lambda>a. Inr (x64_pop a r8), \<lambda>a. Inr (x64_pop a r9),
     \<lambda>a. Inr (x64_pop a r10), \<lambda>a. Inr (x64_pop a r11), \<lambda>a. Inr (x64_pop a r12), \<lambda>a. Inr (x64_pop a r13),
     \<lambda>a. Inr (x64_pop a r14), \<lambda>a. Inr (x64_pop a r15),
     \<lambda>a. x64_add a rsp (Immediate_sized 8 32),
     emit_bytes [0x9d],
     \<lambda>a. Inr (x64_ret a)]"

definition closure_bridge_code :: "u64 \<Rightarrow> x64_assembler res" where
  "closure_bridge_code common_bridge_handler =
    rbind (x64_seq (bridge_save @ bridge_call common_bridge_handler @ bridge_restore) (x64_new 0)) x64_RelocBind"

text \<open>\<open>closure_bridge\<close> is the static variable, 0 while the bridge has not been built.\<close>

definition x64_get_closure_bridge :: "hook_env \<Rightarrow> u64 \<Rightarrow> u64 \<Rightarrow> dobby \<Rightarrow> (u64 \<times> dobby) res" where
  "x64_get_closure_bridge env common_bridge_handler closure_bridge st =
    (if closure_bridge \<noteq> 0 then Inr (closure_bridge, st)
     else rbind (closure_bridge_code common_bridge_handler) (\<lambda>a.
          rbind (FinalizeFromTurboAssembler env (x64_buffer a) (x64_realized_address a) st) (\<lambda>(code, st).
          case code of None \<Rightarrow> Inl NullPointer | Some c \<Rightarrow> Inr (raw_instruction_start c, st))))"

section \<open>The trampoline\<close>

record ClosureTrampolineEntry =
  cte_address :: u64
  cte_size :: u32
  cte_carry_handler :: u64
  cte_carry_data :: u64

definition closure_trampoline_code :: "u64 \<Rightarrow> u64 \<Rightarrow> x64_assembler" where
  "closure_trampoline_code entry bridge =
    (let a = x64_new 0;
         a = x64_EmitBuffer a [0xff, 0x35, 0x06, 0x00, 0x00, 0x00];
         a = x64_EmitBuffer a [0xff, 0x25, 0x08, 0x00, 0x00, 0x00];
         a = x64_EmitInt64 a entry
     in x64_EmitInt64 a bridge)"

text \<open>
  \<open>entry\<close> is the address \<open>new\<close> returns; the result is the contents of the entry, \<open>None\<close> for a null pointer, with the static
  variable of the bridge and the state. \<open>bridge_env\<close> is the system when the bridge is built.
\<close>

definition x64_CreateClosureTrampoline ::
  "hook_env \<Rightarrow> hook_env \<Rightarrow> u64 \<Rightarrow> u64 \<Rightarrow> u64 \<Rightarrow> u64 \<Rightarrow> u64 \<Rightarrow> dobby \<Rightarrow> (ClosureTrampolineEntry option \<times> u64 \<times> dobby) res" where
  "x64_CreateClosureTrampoline env bridge_env entry carry_data carry_handler common_bridge_handler closure_bridge st =
    (let (cchunk, ar) = MemoryArena_AllocateCodeChunk (hv_mmap env) (hv_page_size env) 32 (db_arena st);
         st = st\<lparr>db_arena := ar\<rparr>
     in case cchunk of
       None \<Rightarrow> Inr (None, closure_bridge, st)
     | Some c \<Rightarrow>
       rbind (x64_get_closure_bridge bridge_env common_bridge_handler closure_bridge st) (\<lambda>(bridge, st).
       rbind (CodePatch (hv_page_size env) (chunk_address c) (x64_buffer (closure_trampoline_code entry bridge)) (db_memory st)) (\<lambda>m.
       Inr (Some \<lparr>cte_address = raw_instruction_start c, cte_size = ucast (raw_instruction_size c),
                  cte_carry_handler = carry_handler, cte_carry_data = carry_data\<rparr>, bridge, st\<lparr>db_memory := m\<rparr>))))"

text \<open>The next hop is stored over the entry, just below the stack pointer of the interrupted function.\<close>

definition x64_set_routing_bridge_next_hop :: "u64 \<Rightarrow> u64 \<Rightarrow> (u64 \<Rightarrow> u8) \<Rightarrow> u64 \<Rightarrow> u8" where
  "x64_set_routing_bridge_next_hop ctx address m =
    (let sp = load64 m (ctx + 8); entry_placeholder_stack_addr = sp - 8 in store64 m entry_placeholder_stack_addr address)"

section \<open>The code of the bridge\<close>

definition save_bytes :: "u8 list" where
  "save_bytes =
    [0x9C, 0x48, 0x81, 0xEC, 0x08, 0x00, 0x00, 0x00, 0x48, 0x81, 0xEC, 0x80, 0x00, 0x00, 0x00, 0x48,
     0x89, 0x04, 0x24, 0x48, 0x89, 0x5C, 0x24, 0x08, 0x48, 0x89, 0x4C, 0x24, 0x10, 0x48, 0x89, 0x54,
     0x24, 0x18, 0x48, 0x89, 0x6C, 0x24, 0x20, 0x48, 0x89, 0x64, 0x24, 0x28, 0x48, 0x89, 0x7C, 0x24,
     0x30, 0x48, 0x89, 0x74, 0x24, 0x38, 0x4C, 0x89, 0x44, 0x24, 0x40, 0x4C, 0x89, 0x4C, 0x24, 0x48,
     0x4C, 0x89, 0x54, 0x24, 0x50, 0x4C, 0x89, 0x5C, 0x24, 0x58, 0x4C, 0x89, 0x64, 0x24, 0x60, 0x4C,
     0x89, 0x6C, 0x24, 0x68, 0x4C, 0x89, 0x74, 0x24, 0x70, 0x4C, 0x89, 0x7C, 0x24, 0x78, 0x48, 0x8B,
     0xC4, 0x48, 0x81, 0xC0, 0x98, 0x00, 0x00, 0x00, 0x48, 0x81, 0xEC, 0x10, 0x00, 0x00, 0x00, 0x48,
     0x89, 0x44, 0x24, 0x08, 0x48, 0x8B, 0xFC, 0x48, 0x8B, 0xB4, 0x24, 0xA0, 0x00, 0x00, 0x00]"

definition call_bytes :: "u32 \<Rightarrow> u8 list" where
  "call_bytes d = [0x90, 0xE8, 0x00, 0x00, 0x00, 0x00, 0x4D, 0x5B, 0x41, 0xFF, 0x93] @ le_bytes 4 d @ [0x90]"

definition restore_bytes :: "u8 list" where
  "restore_bytes =
    [0x48, 0x81, 0xC4, 0x10, 0x00, 0x00, 0x00, 0x48, 0x58, 0x48, 0x5B, 0x48, 0x59, 0x48, 0x5A, 0x48,
     0x5D, 0x48, 0x81, 0xC4, 0x08, 0x00, 0x00, 0x00, 0x48, 0x5F, 0x48, 0x5E, 0x4D, 0x58, 0x4D, 0x59,
     0x4D, 0x5A, 0x4D, 0x5B, 0x4D, 0x5C, 0x4D, 0x5D, 0x4D, 0x5E, 0x4D, 0x5F, 0x48, 0x81, 0xC4, 0x08,
     0x00, 0x00, 0x00, 0x9D, 0xC3]"

definition bridge_bytes :: "u32 \<Rightarrow> u32 \<Rightarrow> u8 list" where
  "bridge_bytes d1 d2 = save_bytes @ [0x48, 0x89, 0xE0, 0x48, 0x83, 0xE0, 0x0F, 0x48, 0x83, 0xF8, 0x00, 0x75, 0x15] @ call_bytes d1 @
    [0xE9, 0x12, 0x00, 0x00, 0x00, 0x50] @ call_bytes d2 @ [0x58] @ restore_bytes"

lemma bridge_lengths [simp]: "length save_bytes = 127" "length (call_bytes d) = 16" "length restore_bytes = 53"
  "length (bridge_bytes d1 d2) = 232"
  by (simp_all add: save_bytes_def call_bytes_def restore_bytes_def bridge_bytes_def)

lemma x64_seq_append: "x64_seq (xs @ ys) a = rbind (x64_seq xs a) (x64_seq ys)"
  by (induction xs arbitrary: a) (auto simp: rbind_def split: sum.splits)

lemma CallFunction_eq:
  "x64_CallFunction a h = Inr (a\<lparr>x64_buffer := x64_buffer a @ call_bytes 0x7FFFFFFF, x64_data_labels :=
     Some ((case x64_data_labels a of None \<Rightarrow> [] | Some ls \<Rightarrow> ls) @
       [x64_pseudo_link_to (x64_RelocLabelEntry_new h) (15 + int (length (x64_buffer a))) kDisp32_off_9])\<rparr>)"
  by (cases a) (simp add: asm_defs call_bytes_def VOLATILE_REGISTER_def x64_AppendRelocLabelEntry_def x64_ip_offset_def
      le_bytes_numeral)

lemma save_code: "x64_seq bridge_save (x64_new 0) = Inr (x64_EmitBuffer (x64_new 0) save_bytes)"
  by code_simp

lemma restore_code: "x64_seq bridge_restore a = Inr (x64_EmitBuffer a restore_bytes)"
  by (simp add: bridge_restore_def asm_defs restore_bytes_def le_bytes_numeral)


lemma bind_call_disp:
  assumes "length xs + 15 = n"
  shows "store32 (xs @ call_bytes d @ ys) (int n - 4) v = Inr (xs @ call_bytes v @ ys)"
proof -
  have n: "int n - 4 = int (length xs + 11)" using assms by simp
  show ?thesis unfolding n
    by (subst store32_ok) (simp_all add: overwrite_def call_bytes_def del: le_bytes.simps)
qed

lemma closure_bridge_code_eq:
  "\<exists>a. closure_bridge_code h = Inr a \<and> x64_realized_address a = 0 \<and>
    x64_buffer a = bridge_bytes 0x56 0x48 @ le_bytes 8 h @ le_bytes 8 h"
proof -
  let ?pre = "save_bytes @ [0x48, 0x89, 0xE0, 0x48, 0x83, 0xE0, 0x0F, 0x48, 0x83, 0xF8, 0x00, 0x75, 0x15]"
  let ?mid = "[0xE9, 0x12, 0x00, 0x00, 0x00, 0x50] :: u8 list"
  have first: "store32 (?pre @ call_bytes d @ ys) 151 v = Inr (?pre @ call_bytes v @ ys)" for d ys v
    using bind_call_disp [of ?pre 155 d ys v] by simp
  have second: "store32 ((?pre @ call_bytes e @ ?mid) @ call_bytes d @ ys) 173 v = Inr ((?pre @ call_bytes e @ ?mid) @ call_bytes v @ ys)" for d e ys v
    using bind_call_disp [of "?pre @ call_bytes e @ ?mid" 177 d ys v] by simp
  have save: "x64_seq bridge_save \<lparr>x64_buffer = [], x64_realized_address = 0, x64_data_labels = None\<rparr> =
      Inr \<lparr>x64_buffer = save_bytes, x64_realized_address = 0, x64_data_labels = None\<rparr>"
    using save_code by (simp add: x64_new_def x64_EmitBuffer_def)
  show ?thesis
    using first second
    by (simp add: closure_bridge_code_def x64_seq_append save restore_code bridge_call_def CallFunction_eq
        x64_EmitBuffer_def x64_new_def x64_RelocBind_def x64_PseudoBind_def x64_pseudo_link_to_def x64_RelocLabelEntry_new_def
        x64_has_confused_instructions_def x64_link_confused_instructions_def x64_ip_offset_def bind_to_def pos_def x64_EmitInt64_def
        bridge_bytes_def del: le_bytes.simps)
qed

section \<open>Running the bridge\<close>

text \<open>
  The instructions of the bridge by offset: saving, the call with an aligned and with an unaligned stack, restoring; and the
  registers in the order of \<open>RegisterContext\<close>.
\<close>

definition save_listing :: "(nat \<times> x64_insn \<times> nat) list" where
  "save_listing =
    [(0, I_pushf, 1), (1, I_alu ALU_sub (RM_reg 4) 8, 7), (8, I_alu ALU_sub (RM_reg 4) 128, 7),
     (15, I_mov_store (RM_mem (EA (Some 4) None 0)) 0, 4), (19, I_mov_store (RM_mem (EA (Some 4) None 8)) 3, 5),
     (24, I_mov_store (RM_mem (EA (Some 4) None 16)) 1, 5), (29, I_mov_store (RM_mem (EA (Some 4) None 24)) 2, 5),
     (34, I_mov_store (RM_mem (EA (Some 4) None 32)) 5, 5), (39, I_mov_store (RM_mem (EA (Some 4) None 40)) 4, 5),
     (44, I_mov_store (RM_mem (EA (Some 4) None 48)) 7, 5), (49, I_mov_store (RM_mem (EA (Some 4) None 56)) 6, 5),
     (54, I_mov_store (RM_mem (EA (Some 4) None 64)) 8, 5), (59, I_mov_store (RM_mem (EA (Some 4) None 72)) 9, 5),
     (64, I_mov_store (RM_mem (EA (Some 4) None 80)) 10, 5), (69, I_mov_store (RM_mem (EA (Some 4) None 88)) 11, 5),
     (74, I_mov_store (RM_mem (EA (Some 4) None 96)) 12, 5), (79, I_mov_store (RM_mem (EA (Some 4) None 104)) 13, 5),
     (84, I_mov_store (RM_mem (EA (Some 4) None 112)) 14, 5), (89, I_mov_store (RM_mem (EA (Some 4) None 120)) 15, 5),
     (94, I_mov_load 0 (RM_reg 4), 3), (97, I_alu ALU_add (RM_reg 0) 152, 7), (104, I_alu ALU_sub (RM_reg 4) 16, 7),
     (111, I_mov_store (RM_mem (EA (Some 4) None 8)) 0, 5), (116, I_mov_load 7 (RM_reg 4), 3),
     (119, I_mov_load 6 (RM_mem (EA (Some 4) None 160)), 8),
     (127, I_mov_store (RM_reg 0) 4, 3), (130, I_alu ALU_and (RM_reg 0) 15, 4), (134, I_alu ALU_cmp (RM_reg 0) 0, 4),
     (138, I_jcc 5 21, 2)]"

definition aligned_listing :: "(nat \<times> x64_insn \<times> nat) list" where
  "aligned_listing = [(140, I_nop, 1), (141, I_call 0, 5), (146, I_pop 11, 2), (148, I_call_rm (RM_mem (EA (Some 11) None 86)), 7)]"

definition unaligned_listing :: "(nat \<times> x64_insn \<times> nat) list" where
  "unaligned_listing = [(161, I_push 0, 1), (162, I_nop, 1), (163, I_call 0, 5), (168, I_pop 11, 2),
     (170, I_call_rm (RM_mem (EA (Some 11) None 72)), 7)]"

definition restore_listing :: "(nat \<times> x64_insn \<times> nat) list" where
  "restore_listing =
    [(179, I_alu ALU_add (RM_reg 4) 16, 7), (186, I_pop 0, 2), (188, I_pop 3, 2), (190, I_pop 1, 2), (192, I_pop 2, 2),
     (194, I_pop 5, 2), (196, I_alu ALU_add (RM_reg 4) 8, 7), (203, I_pop 7, 2), (205, I_pop 6, 2), (207, I_pop 8, 2),
     (209, I_pop 9, 2), (211, I_pop 10, 2), (213, I_pop 11, 2), (215, I_pop 12, 2), (217, I_pop 13, 2), (219, I_pop 14, 2),
     (221, I_pop 15, 2), (223, I_alu ALU_add (RM_reg 4) 8, 7), (230, I_popf, 1), (231, I_ret, 1)]"


definition context_regs :: "nat list" where
  "context_regs = [0, 3, 1, 2, 5, 4, 7, 6, 8, 9, 10, 11, 12, 13, 14, 15]"

definition bridge_listing :: "(nat \<times> x64_insn \<times> nat) list" where
  "bridge_listing = save_listing @ aligned_listing @ [(155, I_nop, 1), (156, I_jmp 18, 5)] @ unaligned_listing @
     [(177, I_nop, 1), (178, I_pop 0, 1)] @ restore_listing"

lemma bridge_decodes: "decodes 0 (bridge_bytes 0x56 0x48) bridge_listing"
  by (simp add: parser_defs bridge_bytes_def save_bytes_def call_bytes_def restore_bytes_def le_bytes_numeral
      bridge_listing_def save_listing_def aligned_listing_def unaligned_listing_def restore_listing_def)

lemma bridge_listings:
  "listing_of (bridge_bytes 0x56 0x48 @ rest) save_listing" "listing_of (bridge_bytes 0x56 0x48 @ rest) aligned_listing"
  "listing_of (bridge_bytes 0x56 0x48 @ rest) unaligned_listing" "listing_of (bridge_bytes 0x56 0x48 @ rest) restore_listing"
  "listing_of (bridge_bytes 0x56 0x48 @ rest) [(155, I_nop, 1), (156, I_jmp 18, 5)]"
  "listing_of (bridge_bytes 0x56 0x48 @ rest) [(177, I_nop, 1), (178, I_pop 0, 1)]"
  using decodes_listing [of "[]" "bridge_bytes 0x56 0x48" bridge_listing rest] bridge_decodes
  by (simp_all add: bridge_listing_def listing_of_append del: append_Cons)

lemmas exec_simps = x64_exec_def within_def x_push_def x_drop_def x_top_def alu_result_def Let_def load64_store64_other

lemma save_run:
  assumes "x_rip s = b" "x_reg s 4 = 176 + p"
  shows "\<exists>t. x64_block b p 184 save_listing s = Some t \<and> x_reg t 4 = 16 + p \<and> x_reg t 7 = 16 + p \<and>
    x_reg t 6 = load64 (x_mem s) (176 + p) \<and> x_rip t = (if (16 + p) AND 15 = 0 then 140 + b else 161 + b) \<and>
    load64 (x_mem t) (24 + p) = 184 + p \<and> load64 (x_mem t) (168 + p) = x_flags s AND stored_flags \<and>
    load64 (x_mem t) (176 + p) = load64 (x_mem s) (176 + p) \<and>
    map (\<lambda>i. load64 (x_mem t) (32 + 8 * of_nat i + p)) [0..<16] = map (\<lambda>r. if r = 4 then 32 + p else x_reg s r) context_regs"
  using assms by (simp add: save_listing_def exec_simps context_regs_def upt_conv_Cons zero_flag x64_cond_def)

lemma aligned_run:
  assumes "x_rip t = 140 + b" "x_reg t 4 = 16 + p" "load64 (store64 (x_mem t) (8 + p) (146 + b)) (232 + b) = h"
  shows "x64_block b p 184 aligned_listing t = Some (t\<lparr>x_rip := h, x_reg := (x_reg t)(11 := 146 + b, 4 := 8 + p),
    x_mem := store64 (store64 (x_mem t) (8 + p) (146 + b)) (8 + p) (155 + b)\<rparr>)"
  using assms by (cases t) (simp add: aligned_listing_def exec_simps fun_eq_iff)

lemma unaligned_run:
  assumes "x_rip t = 161 + b" "x_reg t 4 = 16 + p" "load64 (store64 (store64 (x_mem t) (8 + p) (x_reg t 0)) p (168 + b)) (240 + b) = h"
  shows "x64_block b p 184 unaligned_listing t = Some (t\<lparr>x_rip := h, x_reg := (x_reg t)(11 := 168 + b, 4 := p),
    x_mem := store64 (store64 (store64 (x_mem t) (8 + p) (x_reg t 0)) p (168 + b)) p (177 + b)\<rparr>)"
  using assms by (cases t) (simp add: unaligned_listing_def exec_simps fun_eq_iff)

lemma restore_run:
  assumes "x_rip s = 179 + b" "x_reg s 4 = 16 + p"
  shows "\<exists>t. x64_block b p 184 restore_listing s = Some t \<and> x_rip t = load64 (x_mem s) (176 + p) \<and> x_reg t 4 = 184 + p \<and>
    x_mem t = x_mem s \<and> x_flags t AND user_flags = load64 (x_mem s) (168 + p) AND user_flags \<and>
    map (x_reg t) context_regs = map (\<lambda>i. if i = 5 then 184 + p else load64 (x_mem s) (32 + 8 * of_nat i + p)) [0..<16]"
proof -
  have mix: "(a AND NOT c OR b AND c) AND c = b AND c" for a b c :: u64 by (rule bit_word_eqI) (auto simp: bit_simps)
  show ?thesis
  using assms by (simp add: restore_listing_def exec_simps context_regs_def upt_conv_Cons mix)
qed

text \<open>The stack is aligned to 16 bytes for the call, whichever way it was.\<close>

lemma misaligned_by_8:
  assumes "x AND 7 = 0" "x AND 15 \<noteq> 0"
  shows "(x - 8) AND 15 = (0 :: u64)"
proof -
  have m: "y AND 15 = 0 \<longleftrightarrow> unat y mod 16 = 0" "y AND 7 = 0 \<longleftrightarrow> unat y mod 8 = 0" for y :: u64
  proof -
    have t: "y AND 15 = take_bit 4 y" "y AND 7 = take_bit 3 y" by (simp_all add: take_bit_eq_mask mask_eq_exp_minus_1)
    have "unat (y AND 15) = unat y mod 16" "unat (y AND 7) = unat y mod 8"
      unfolding t by (simp_all add: unsigned_take_bit_eq) (simp_all add: take_bit_eq_mod)
    then show "y AND 15 = 0 \<longleftrightarrow> unat y mod 16 = 0" "y AND 7 = 0 \<longleftrightarrow> unat y mod 8 = 0"
      by (simp_all add: unat_eq_0 [symmetric])
  qed
  have "unat x mod 16 = 8" using assms unfolding m by presburger
  moreover from this have "8 \<le> unat x" by (metis mod_less_eq_dividend)
  ultimately have "unat (x - 8) mod 16 = 0" by (simp add: unat_sub word_le_nat_alt) presburger
  then show ?thesis by (simp add: m)
qed

definition trampoline_listing :: "(nat \<times> x64_insn \<times> nat) list" where
  "trampoline_listing = [(0, I_push_rm (RM_mem (EA_rip 6)), 6), (6, I_jmp_rm (RM_mem (EA_rip 8)), 6)]"

lemma trampoline_code: "x64_buffer (closure_trampoline_code ent bridge) =
    [0xff, 0x35, 0x06, 0x00, 0x00, 0x00, 0xff, 0x25, 0x08, 0x00, 0x00, 0x00] @ le_bytes 8 ent @ le_bytes 8 bridge"
  by (simp add: closure_trampoline_code_def x64_EmitBuffer_def x64_EmitInt64_def x64_new_def Let_def del: le_bytes.simps)

lemma trampoline_listing: "listing_of (x64_buffer (closure_trampoline_code ent bridge)) trampoline_listing"
  using decodes_listing [of "[]" "[0xff, 0x35, 0x06, 0, 0, 0, 0xff, 0x25, 0x08, 0, 0, 0]" trampoline_listing "le_bytes 8 ent @ le_bytes 8 bridge"]
  unfolding trampoline_code by (simp add: trampoline_listing_def parser_defs del: le_bytes.simps)

text \<open>The trampoline leaves a pointer to its entry on the stack and goes to the bridge.\<close>

lemma trampoline_run:
  assumes "holds_code (x_mem s) T (x64_buffer (closure_trampoline_code ent bridge))" "x_rip s = T" "x_reg s 4 = 184 + p" "apart p 184 T 28"
  shows "x64_run 2 s = Some (s\<lparr>x_rip := bridge, x_reg := (x_reg s)(4 := 176 + p), x_mem := store64 (x_mem s) (176 + p) ent\<rparr>)"
proof -
  have code: "holds_code (x_mem s) T ([0xff, 0x35, 0x06, 0x00, 0x00, 0x00, 0xff, 0x25, 0x08, 0x00, 0x00, 0x00] @ le_bytes 8 ent @ le_bytes 8 bridge @ [])"
    using assms(1) by (simp add: trampoline_code del: le_bytes.simps)
  have "load64 (x_mem s) (12 + T) = ent" "load64 (x_mem s) (20 + T) = bridge"
    using holds_code_load64 [OF code, of 12] holds_code_load64 [of "x_mem s" T "[0xff, 0x35, 0x06, 0x00, 0x00, 0x00, 0xff, 0x25, 0x08, 0x00, 0x00, 0x00] @ le_bytes 8 ent" bridge "[]" 20] code
    by (simp_all del: le_bytes.simps)
  moreover have "load64 (store64 (x_mem s) (176 + p) ent) (20 + T) = load64 (x_mem s) (20 + T)"
    using load64_store64_within [OF _ assms(4), of "176 + p" 20 "x_mem s" ent] by (simp add: within_def)
  ultimately have "x64_block T p 184 trampoline_listing s =
      Some (s\<lparr>x_rip := bridge, x_reg := (x_reg s)(4 := 176 + p), x_mem := store64 (x_mem s) (176 + p) ent\<rparr>)"
    using assms(2,3) by (cases s) (simp add: trampoline_listing_def exec_simps)
  from x64_block_run(1) [OF this trampoline_listing assms(1)] assms(4) show ?thesis
    by (simp add: trampoline_listing_def trampoline_code numeral_2_eq_2 del: le_bytes.simps)
qed


abbreviation bridge_image :: "u64 \<Rightarrow> u8 list" where
  "bridge_image h \<equiv> bridge_bytes 0x56 0x48 @ le_bytes 8 h @ le_bytes 8 h"

lemma bridge_targets:
  assumes "holds_code m b (bridge_image h)"
  shows "load64 m (232 + b) = h" "load64 m (240 + b) = h"
  using holds_code_load64 [OF assms, of 232] holds_code_load64 [of m b "bridge_bytes 0x56 0x48 @ le_bytes 8 h" h "[]" 240] assms
  by (simp_all del: le_bytes.simps)

text \<open>The two places the handler is called from, by stack pointer and return address.\<close>

definition call_site :: "u64 \<Rightarrow> u64 \<Rightarrow> u64 \<Rightarrow> u64 \<Rightarrow> bool" where
  "call_site b p sp ret \<longleftrightarrow> (if (16 + p) AND 15 = 0 then sp = 8 + p \<and> ret = 155 + b else sp = p \<and> ret = 177 + b)"

lemma bridge_call_run:
  assumes code: "holds_code (x_mem t) b (bridge_image h)" and ap: "apart p 184 b 248"
    and t: "x_reg t 4 = 16 + p" "x_rip t = (if (16 + p) AND 15 = 0 then 140 + b else 161 + b)"
  shows "\<exists>k u. x64_run k t = Some u \<and> x_rip u = h \<and> x_reg u 7 = x_reg t 7 \<and> x_reg u 6 = x_reg t 6 \<and> call_site b p (x_reg u 4) (x_top u) \<and>
    holds_code (x_mem u) b (bridge_image h) \<and> (\<forall>x. 184 \<le> unat (x - p) \<longrightarrow> x_mem u x = x_mem t x) \<and>
    (\<forall>c. 16 \<le> c \<and> c \<le> 176 \<longrightarrow> load64 (x_mem u) (c + p) = load64 (x_mem t) (c + p))"
proof -
  have len: "length (bridge_image h) = 248" by (simp del: le_bytes.simps)
  have data: "load64 (store64 m (8 + p) v) (232 + b) = load64 m (232 + b)"
    "load64 (store64 (store64 m (8 + p) v) p w) (240 + b) = load64 m (240 + b)" for m v w
    using load64_store64_within [OF _ ap, of "8 + p" 232] load64_store64_within [OF _ ap, of "8 + p" 240] load64_store64_within [OF _ ap, of p 240]
    by (simp_all add: within_def)
  have slots: "load64 (store64 m (8 + p) v) (c + p) = load64 m (c + p)" "load64 (store64 m p v) (c + p) = load64 m (c + p)"
    if "16 \<le> c \<and> c \<le> 176" for c m v
  proof -
    have "8 \<le> c - 8" "8 \<le> 8 - c" "8 \<le> c" "8 \<le> 0 - c"
      using that by (auto simp: word_le_nat_alt unat_sub_if' simp del: diff_0)
    then show "load64 (store64 m (8 + p) v) (c + p) = load64 m (c + p)" "load64 (store64 m p v) (c + p) = load64 m (c + p)"
      by (simp_all add: load64_store64_other)
  qed
  show ?thesis
  proof (cases "(16 + p) AND 15 = 0")
    case True
    let ?u = "t\<lparr>x_rip := h, x_reg := (x_reg t)(11 := 146 + b, 4 := 8 + p), x_mem := store64 (store64 (x_mem t) (8 + p) (146 + b)) (8 + p) (155 + b)\<rparr>"
    have "x64_block b p 184 aligned_listing t = Some ?u"
      using aligned_run [of t b p h] True t data(1) bridge_targets(1) [OF code] by simp
    from x64_block_run [OF this bridge_listings(2) code, unfolded len, OF ap] show ?thesis
      using True slots by (intro exI [of _ "length aligned_listing"] exI [of _ ?u]) (simp add: call_site_def x_top_def)
  next
    case False
    let ?u = "t\<lparr>x_rip := h, x_reg := (x_reg t)(11 := 168 + b, 4 := p), x_mem := store64 (store64 (store64 (x_mem t) (8 + p) (x_reg t 0)) p (168 + b)) p (177 + b)\<rparr>"
    have "x64_block b p 184 unaligned_listing t = Some ?u"
      using unaligned_run [of t b p h] False t data(2) bridge_targets(2) [OF code] by simp
    from x64_block_run [OF this bridge_listings(3) code, unfolded len, OF ap] show ?thesis
      using False slots by (intro exI [of _ "length unaligned_listing"] exI [of _ ?u]) (simp add: call_site_def x_top_def)
  qed
qed

lemma bridge_return_run:
  assumes code: "holds_code (x_mem t) b (bridge_image h)" and ap: "apart p 184 b 248"
    and t: "call_site b p sp (x_rip t)" "x_reg t 4 = sp + 8"
  shows "\<exists>k u. x64_run k t = Some u \<and> x_rip u = load64 (x_mem t) (176 + p) \<and> x_reg u 4 = 184 + p \<and>
    x_mem u = x_mem t \<and> x_flags u AND user_flags = load64 (x_mem t) (168 + p) AND user_flags \<and>
    map (x_reg u) context_regs = map (\<lambda>i. if i = 5 then 184 + p else load64 (x_mem t) (32 + 8 * of_nat i + p)) [0..<16]"
proof -
  let ?out = "if (16 + p) AND 15 = 0 then [(155, I_nop, 1), (156, I_jmp 18, 5)] else [(177, I_nop, 1), (178, I_pop 0, 1)]"
  have len: "length (bridge_image h) = 248" by (simp del: le_bytes.simps)
  obtain v where v: "x64_block b p 184 ?out t = Some v" "x_rip v = 179 + b" "x_reg v 4 = 16 + p" "x_mem v = x_mem t"
    using t by (auto simp: call_site_def exec_simps split: if_splits)
  have outl: "listing_of (bridge_image h) ?out" using bridge_listings(5,6) by auto
  have run: "x64_run 2 t = Some v"
    using x64_block_run(1) [OF v(1) outl code] ap len by (auto simp: numeral_2_eq_2 split: if_splits)
  obtain u where u: "x64_block b p 184 restore_listing v = Some u" "x_rip u = load64 (x_mem v) (176 + p)" "x_reg u 4 = 184 + p"
      "x_mem u = x_mem v" "x_flags u AND user_flags = load64 (x_mem v) (168 + p) AND user_flags"
      "map (x_reg u) context_regs = map (\<lambda>i. if i = 5 then 184 + p else load64 (x_mem v) (32 + 8 * of_nat i + p)) [0..<16]"
    using restore_run [OF v(2,3)] by blast
  have "x64_run (length restore_listing) v = Some u"
    using x64_block_run(1) [OF u(1) bridge_listings(4)] code ap len v(4) by auto
  then have "x64_run (2 + length restore_listing) t = Some u" using x64_run_add [OF run] by simp
  then show ?thesis using u v(4) by metis
qed

text \<open>The registers and flags of the interrupted function in a context: all but the slot for \<open>rsp\<close>, which is kept apart.\<close>

definition saved_context :: "(u64 \<Rightarrow> u8) \<Rightarrow> u64 \<Rightarrow> x64_state \<Rightarrow> bool" where
  "saved_context m ctx s \<longleftrightarrow> load64 m (ctx + 8) = x_reg s 4 \<and> load64 m (ctx + 152) = x_flags s AND stored_flags \<and>
     (\<forall>i<16. i \<noteq> 5 \<longrightarrow> load64 m (ctx + 16 + 8 * of_nat i) = x_reg s (context_regs ! i))"

definition restored_context :: "(u64 \<Rightarrow> u8) \<Rightarrow> u64 \<Rightarrow> x64_state \<Rightarrow> bool" where
  "restored_context m ctx u \<longleftrightarrow> x_flags u AND user_flags = load64 m (ctx + 152) AND user_flags \<and>
     (\<forall>i<16. i \<noteq> 5 \<longrightarrow> x_reg u (context_regs ! i) = load64 m (ctx + 16 + 8 * of_nat i))"

lemma length_context_regs [simp]: "length context_regs = 16"
  by (simp add: context_regs_def)

lemma context_slots:
  assumes "map f [0..<16] = map g context_regs" "i < 16"
  shows "f i = g (context_regs ! i)"
proof -
  have "map f [0..<16] ! i = map g context_regs ! i" using assms(1) by simp
  then show ?thesis using assms(2) by simp
qed

lemma context_regs_rsp: "i < 16 \<Longrightarrow> context_regs ! i = 4 \<longleftrightarrow> i = 5"
  by (simp add: context_regs_def nth_Cons' numeral_eq_Suc)

lemma slot_offset: "i < 16 \<Longrightarrow> 16 \<le> 32 + 8 * (of_nat i :: u64) \<and> 32 + 8 * (of_nat i :: u64) \<le> 176"
proof -
  assume "i < 16"
  then have "unat (of_nat (32 + 8 * i) :: u64) = 32 + 8 * i" by (simp only: unsigned_of_nat) (simp add: take_bit_nat_eq_self)
  moreover have "(of_nat (32 + 8 * i) :: u64) = 32 + 8 * of_nat i" by simp
  ultimately show ?thesis using \<open>i < 16\<close> by (simp add: word_le_nat_alt)
qed

lemma aligned_frame: "(184 + p) AND 7 = (16 + p) AND (7 :: u64)"
proof -
  have t: "x AND 7 = take_bit 3 x" for x :: u64 by (simp add: take_bit_eq_mask mask_eq_exp_minus_1)
  have "unat (168 + (16 + p)) mod 8 = unat (16 + p) mod 8"
  proof -
    have "unat (168 + (16 + p)) = (168 + unat (16 + p)) mod 2 ^ 64" using unat_word_ariths(1) [of 168 "16 + p"] by simp
    moreover have "(168 + n) mod 2 ^ 64 mod 8 = n mod 8" for n :: nat
    proof -
      have "(168 + n) mod 2 ^ 64 mod 8 = (168 + n) mod 8" by (rule mod_mod_cancel) simp
      also have "(168 + n) mod 8 = n mod 8" by presburger
      finally show ?thesis .
    qed
    ultimately show ?thesis by (simp only:)
  qed
  then have "unat (take_bit 3 (168 + (16 + p))) = unat (take_bit 3 (16 + p))"
    by (simp add: unsigned_take_bit_eq) (simp add: take_bit_eq_mod)
  then show ?thesis unfolding t by (simp add: word_unat_eq_iff)
qed

lemma bridge_diverts:
  assumes code: "closure_bridge_code h = Inr a" "holds_code (x_mem s) bridge (x64_buffer a)"
      "holds_code (x_mem s) T (x64_buffer (closure_trampoline_code ent bridge))"
    and s: "x_rip s = T" "x_reg s 4 AND 7 = 0"
    and ap: "apart (x_reg s 4 - 184) 184 bridge 248" "apart (x_reg s 4 - 184) 184 T 28"
  defines "ctx \<equiv> x_reg s 4 - 168"
  shows "\<exists>k t. x64_run k s = Some t \<and> x_rip t = h \<and> x_reg t 7 = ctx \<and> x_reg t 6 = ent \<and> (x_reg t 4 + 8) AND 15 = 0 \<and>
    saved_context (x_mem t) ctx s \<and> load64 (x_mem t) (x_reg s 4 - 8) = ent \<and>
    (\<forall>x. 184 \<le> unat (x - (x_reg s 4 - 184)) \<longrightarrow> x_mem t x = x_mem s x) \<and>
    (\<forall>t'. x_rip t' = x_top t \<and> x_reg t' 4 = x_reg t 4 + 8 \<and> holds_code (x_mem t') bridge (x64_buffer a) \<longrightarrow>
      (\<exists>k u. x64_run k t' = Some u \<and> x_rip u = load64 (x_mem t') (x_reg s 4 - 8) \<and> x_reg u 4 = x_reg s 4 \<and>
        restored_context (x_mem t') ctx u \<and> x_mem u = x_mem t'))"
proof -
  define p where "p = x_reg s 4 - 184"
  have sp: "x_reg s 4 = 184 + p" "ctx = 16 + p" by (simp_all add: p_def ctx_def)
  note ap' = ap [folded p_def]
  have img: "x64_buffer a = bridge_image h" using closure_bridge_code_eq [of h] code(1) by auto
  have len: "length (bridge_image h) = 248" by (simp del: le_bytes.simps)
  let ?s = "s\<lparr>x_rip := bridge, x_reg := (x_reg s)(4 := 176 + p), x_mem := store64 (x_mem s) (176 + p) ent\<rparr>"
  have run1: "x64_run 2 s = Some ?s" using trampoline_run [OF code(3) s(1) sp(1) ap'(2)] .
  have w: "within p 184 (176 + p)" by (simp add: within_def)
  have code1: "holds_code (x_mem ?s) bridge (bridge_image h)"
    using code(2) holds_code_store64 [of "176 + p" bridge "bridge_image h" "x_mem s" ent] within_apart [OF w ap'(1)]
    by (simp add: img len del: le_bytes.simps)
  have "x_rip ?s = bridge" "x_reg ?s 4 = 176 + p" by simp_all
  from save_run [OF this] obtain v where v: "x64_block bridge p 184 save_listing ?s = Some v" "x_reg v 4 = 16 + p" "x_reg v 7 = 16 + p"
      "x_reg v 6 = ent" "x_rip v = (if (16 + p) AND 15 = 0 then 140 + bridge else 161 + bridge)"
      "load64 (x_mem v) (24 + p) = 184 + p" "load64 (x_mem v) (168 + p) = x_flags s AND stored_flags" "load64 (x_mem v) (176 + p) = ent"
      "map (\<lambda>i. load64 (x_mem v) (32 + 8 * of_nat i + p)) [0..<16] = map (\<lambda>r. if r = 4 then 32 + p else x_reg ?s r) context_regs"
    by auto
  note run2 = x64_block_run [OF v(1) bridge_listings(1) code1, unfolded len, OF ap'(1)]
  obtain k t where t: "x64_run k v = Some t" "x_rip t = h" "x_reg t 7 = 16 + p" "x_reg t 6 = ent" "call_site bridge p (x_reg t 4) (x_top t)"
      "\<forall>x. 184 \<le> unat (x - p) \<longrightarrow> x_mem t x = x_mem v x" "\<forall>c. 16 \<le> c \<and> c \<le> 176 \<longrightarrow> load64 (x_mem t) (c + p) = load64 (x_mem v) (c + p)"
    using bridge_call_run [OF run2(2) ap'(1) v(2,5)] v(3,4) by auto
  have "x64_run (2 + (length save_listing + k)) s = Some t"
    using x64_run_add [OF run1] x64_run_add [OF run2(1)] t(1) by simp
  moreover have "(x_reg t 4 + 8) AND 15 = 0"
  proof -
    have "(16 + p) AND 7 = 0" using s(2) aligned_frame [of p] by (simp add: sp(1))
    then show ?thesis using t(5) misaligned_by_8 [of "16 + p"] by (auto simp: call_site_def add.commute split: if_splits)
  qed
  moreover have "saved_context (x_mem t) ctx s"
  proof -
    have "load64 (x_mem t) (ctx + 16 + 8 * of_nat i) = x_reg s (context_regs ! i)" if i: "i < 16" "i \<noteq> 5" for i
      using context_slots [OF v(9) i(1)] i slot_offset [OF i(1)] context_regs_rsp [OF i(1)]
        t(7) [rule_format, of "32 + 8 * of_nat i"] by (simp add: sp(2) ac_simps)
    then show ?thesis using t(7) v(6,7) by (simp add: saved_context_def sp)
  qed
  moreover have "load64 (x_mem t) (x_reg s 4 - 8) = ent" using t(7) v(8) by (simp add: sp)
  moreover have "x_mem t x = x_mem s x" if "184 \<le> unat (x - p)" for x
    using t(6) run2(3) store64_outside [OF w that] that by simp
  moreover have "\<exists>k u. x64_run k t' = Some u \<and> x_rip u = load64 (x_mem t') (x_reg s 4 - 8) \<and> x_reg u 4 = x_reg s 4 \<and>
        restored_context (x_mem t') ctx u \<and> x_mem u = x_mem t'"
    if "x_rip t' = x_top t" "x_reg t' 4 = x_reg t 4 + 8" "holds_code (x_mem t') bridge (x64_buffer a)" for t'
  proof -
    have "call_site bridge p (x_reg t 4) (x_rip t')" using t(5) that(1) by simp
    from bridge_return_run [OF that(3) [unfolded img] ap'(1) this that(2)] obtain k u where u: "x64_run k t' = Some u"
        "x_rip u = load64 (x_mem t') (176 + p)" "x_reg u 4 = 184 + p" "x_mem u = x_mem t'"
        "x_flags u AND user_flags = load64 (x_mem t') (168 + p) AND user_flags"
        "map (x_reg u) context_regs = map (\<lambda>i. if i = 5 then 184 + p else load64 (x_mem t') (32 + 8 * of_nat i + p)) [0..<16]" by blast
    have "x_reg u (context_regs ! i) = load64 (x_mem t') (ctx + 16 + 8 * of_nat i)" if "i < 16" "i \<noteq> 5" for i
      using context_slots [OF u(6) [symmetric] that(1)] that(2) by (simp add: sp(2) ac_simps)
    then have "restored_context (x_mem t') ctx u" using u(5) by (simp add: restored_context_def sp(2) ac_simps)
    then show ?thesis using u by (auto simp: sp(1))
  qed
  ultimately show ?thesis using t(2-4) unfolding sp(2) p_def [symmetric] by blast
qed

section \<open>Properties\<close>

text \<open>
  C13. An instrumented function reaches the handler: from the closure trampoline, whatever the registers, flags and stack
  pointer (aligned to 8 bytes), execution arrives at the common bridge handler with a \<open>RegisterContext\<close> as first and the entry
  as second argument, the stack aligned as the calling convention demands, every general register, the flags and the
  original stack pointer in the context, and no byte outside the 184 bytes below the stack pointer changed.
\<close>
theorem closure_bridge_calls_handler:
  assumes "closure_bridge_code h = Inr a" "holds_code (x_mem s) bridge (x64_buffer a)"
      "holds_code (x_mem s) T (x64_buffer (closure_trampoline_code ent bridge))"
    and "x_rip s = T" "x_reg s 4 AND 7 = 0"
    and "apart (x_reg s 4 - 184) 184 bridge 248" "apart (x_reg s 4 - 184) 184 T 28"
  shows "\<exists>k t. x64_run k s = Some t \<and> x_rip t = h \<and> x_reg t 7 = x_reg s 4 - 168 \<and> x_reg t 6 = ent \<and> (x_reg t 4 + 8) AND 15 = 0 \<and>
    saved_context (x_mem t) (x_reg s 4 - 168) s \<and> (\<forall>x. 184 \<le> unat (x - (x_reg s 4 - 184)) \<longrightarrow> x_mem t x = x_mem s x)"
  using bridge_diverts [OF assms] by blast

definition demo_bridge_state :: x64_state where
  "demo_bridge_state = \<lparr>x_reg = (\<lambda>r. if r = 4 then 0x8000 else of_nat r), x_rip = 0x2000, x_flags = 0x246,
     x_mem = poke (poke (\<lambda>_. 0) 0x1000 (bridge_image 0x5000)) 0x2000 (x64_buffer (closure_trampoline_code 0x7000 0x1000))\<rparr>"

lemma demo_bridge_ready:
  "holds_code (x_mem demo_bridge_state) 0x1000 (bridge_image 0x5000)"
  "holds_code (x_mem demo_bridge_state) 0x2000 (x64_buffer (closure_trampoline_code 0x7000 0x1000))"
  "x_rip demo_bridge_state = 0x2000" "x_reg demo_bridge_state 4 = 0x8000" "x_flags demo_bridge_state = 0x246"
proof -
  have len: "length (x64_buffer (closure_trampoline_code 0x7000 0x1000)) = 28" "length (bridge_image 0x5000) = 248"
    by (simp_all add: trampoline_code del: le_bytes.simps)
  show "holds_code (x_mem demo_bridge_state) 0x1000 (bridge_image 0x5000)"
    using holds_code_poke [of "bridge_image 0x5000" "\<lambda>_. 0" "0x1000"] len
    by (simp add: demo_bridge_state_def holds_code_apart apart_def del: le_bytes.simps append_assoc)
  show "holds_code (x_mem demo_bridge_state) 0x2000 (x64_buffer (closure_trampoline_code 0x7000 0x1000))"
    using len by (simp add: demo_bridge_state_def holds_code_poke)
qed (simp_all add: demo_bridge_state_def)

theorem closure_bridge_calls_handler_witness:
  "\<exists>k t. x64_run k demo_bridge_state = Some t \<and> x_rip t = 0x5000 \<and> x_reg t 6 = 0x7000 \<and> saved_context (x_mem t) 0x7F58 demo_bridge_state"
proof -
  obtain a where "closure_bridge_code 0x5000 = Inr a" "x64_buffer a = bridge_image 0x5000" using closure_bridge_code_eq by blast
  with closure_bridge_calls_handler [of "0x5000" a demo_bridge_state "0x1000" "0x2000" "0x7000"] demo_bridge_ready
  show ?thesis by (auto simp: apart_def)
qed

text \<open>What \<open>set_routing_bridge_next_hop\<close> leaves of a context: the word below the stack pointer is the next hop, all else is as before.\<close>

lemma next_hop_context:
  assumes "saved_context m ctx s" "x_reg s 4 = ctx + 168"
    and "\<forall>x. unat (x - ctx) < 168 \<longrightarrow> m' x = x64_set_routing_bridge_next_hop ctx next_hop m x"
  shows "load64 m' (ctx + 160) = next_hop" "c \<le> 152 \<Longrightarrow> load64 m' (ctx + of_nat c) = load64 m (ctx + of_nat c)"
proof -
  have m: "x64_set_routing_bridge_next_hop ctx next_hop m = store64 m (ctx + 160) next_hop"
    using assms(1,2) by (simp add: x64_set_routing_bridge_next_hop_def saved_context_def add.commute)
  have ld: "load64 m' (ctx + of_nat c) = load64 (store64 m (ctx + 160) next_hop) (ctx + of_nat c)" if "c \<le> 160" for c
  proof (rule load64_cong)
    fix i :: nat assume "i < 8"
    then have "unat (of_nat (c + i) :: u64) < 168" using that by (simp only: unsigned_of_nat) (simp add: take_bit_nat_eq_self)
    then show "m' (ctx + of_nat c + of_nat i) = store64 m (ctx + 160) next_hop (ctx + of_nat c + of_nat i)"
      using assms(3) m by simp
  qed
  then show "load64 m' (ctx + 160) = next_hop" using ld [of 160] by simp
  show "load64 m' (ctx + of_nat c) = load64 m (ctx + of_nat c)" if c: "c \<le> 152"
  proof -
    have "unat (of_nat c :: u64) = c" using c by (simp only: unsigned_of_nat) (simp add: take_bit_nat_eq_self)
    then have "8 \<le> of_nat c - (160 :: u64)" "8 \<le> (160 :: u64) - of_nat c"
      using c by (simp_all add: word_le_nat_alt unat_sub_if')
    then show ?thesis using ld [of c] c by (simp add: load64_store64_other)
  qed
qed

text \<open>Restoring a saved context gives back the registers and the flags.\<close>

lemma restore_saved:
  assumes "saved_context m ctx s" "restored_context m' ctx u" "x_reg u 4 = x_reg s 4"
    and old: "\<And>c. c \<le> 152 \<Longrightarrow> load64 m' (ctx + of_nat c) = load64 m (ctx + of_nat c)"
  shows "r < 16 \<Longrightarrow> x_reg u r = x_reg s r" "x_flags u AND user_flags = x_flags s AND user_flags"
proof -
  have regs: "x_reg u (context_regs ! i) = x_reg s (context_regs ! i)" if i: "i < 16" "i \<noteq> 5" for i
    using assms(1,2) i old [of "16 + 8 * i"] by (simp add: restored_context_def saved_context_def add.assoc)
  show "x_reg u r = x_reg s r" if "r < 16"
  proof (cases "r = 4")
    case False
    have "r \<in> set context_regs" using that by (simp add: context_regs_def) presburger
    then obtain i where i: "i < 16" "context_regs ! i = r" by (auto simp: in_set_conv_nth)
    then have "i \<noteq> 5" using False context_regs_rsp by blast
    then show ?thesis using regs i by blast
  qed (simp add: assms(3))
  have "x_flags u AND user_flags = (x_flags s AND stored_flags) AND user_flags"
    using assms(1,2) old [of 152] by (simp add: restored_context_def saved_context_def)
  also have "\<dots> = x_flags s AND (stored_flags AND user_flags)" by (simp only: and.assoc)
  finally show "x_flags u AND user_flags = x_flags s AND user_flags" by (simp add: stored_flags_def user_flags_def)
qed

text \<open>
  C14. An instrumented function resumes: when the handler has called \<open>set_routing_bridge_next_hop\<close> and returns with the context
  otherwise as it got it, execution continues at the next hop with every general register, the stack pointer included, and
  every flag user code can change as they were at the instrumented address.
\<close>
theorem closure_bridge_resumes:
  assumes "closure_bridge_code h = Inr a" "holds_code (x_mem s) bridge (x64_buffer a)"
      "holds_code (x_mem s) T (x64_buffer (closure_trampoline_code ent bridge))"
    and "x_rip s = T" "x_reg s 4 AND 7 = 0"
    and "apart (x_reg s 4 - 184) 184 bridge 248" "apart (x_reg s 4 - 184) 184 T 28"
  shows "\<exists>k t. x64_run k s = Some t \<and> x_rip t = h \<and> x_reg t 7 = x_reg s 4 - 168 \<and> load64 (x_mem t) (x_reg t 7 + 8) = x_reg s 4 \<and>
    holds_code (x_mem t) bridge (x64_buffer a) \<and>
    (\<forall>t' next_hop. x_rip t' = x_top t \<and> x_reg t' 4 = x_reg t 4 + 8 \<and> holds_code (x_mem t') bridge (x64_buffer a) \<and>
       (\<forall>x. unat (x - x_reg t 7) < 168 \<longrightarrow> x_mem t' x = x64_set_routing_bridge_next_hop (x_reg t 7) next_hop (x_mem t) x) \<longrightarrow>
      (\<exists>k u. x64_run k t' = Some u \<and> x_rip u = next_hop \<and> (\<forall>r<16. x_reg u r = x_reg s r) \<and>
        x_flags u AND user_flags = x_flags s AND user_flags))"
proof -
  define ctx where "ctx = x_reg s 4 - 168"
  have sp: "x_reg s 4 = ctx + 168" by (simp add: ctx_def)
  obtain k t where t: "x64_run k s = Some t" "x_rip t = h" "x_reg t 7 = ctx" "saved_context (x_mem t) ctx s"
      "\<And>x. 184 \<le> unat (x - (x_reg s 4 - 184)) \<Longrightarrow> x_mem t x = x_mem s x"
    and ret: "\<And>t'. x_rip t' = x_top t \<Longrightarrow> x_reg t' 4 = x_reg t 4 + 8 \<Longrightarrow> holds_code (x_mem t') bridge (x64_buffer a) \<Longrightarrow>
      \<exists>k u. x64_run k t' = Some u \<and> x_rip u = load64 (x_mem t') (ctx + 160) \<and> x_reg u 4 = x_reg s 4 \<and>
        restored_context (x_mem t') ctx u \<and> x_mem u = x_mem t'"
    using bridge_diverts [OF assms] by (auto simp: ctx_def)
  have "length (x64_buffer a) = 248" using closure_bridge_code_eq [of h] assms(1) by (auto simp del: le_bytes.simps)
  then have "holds_code (x_mem t) bridge (x64_buffer a)"
    using peek_frame [OF assms(6), of "x_mem t" "x_mem s"] t(5) assms(2) by (simp add: holds_code_def)
  moreover have "\<exists>k u. x64_run k t' = Some u \<and> x_rip u = next_hop \<and> (\<forall>r<16. x_reg u r = x_reg s r) \<and>
        x_flags u AND user_flags = x_flags s AND user_flags"
    if t': "x_rip t' = x_top t" "x_reg t' 4 = x_reg t 4 + 8" "holds_code (x_mem t') bridge (x64_buffer a)"
      "\<forall>x. unat (x - ctx) < 168 \<longrightarrow> x_mem t' x = x64_set_routing_bridge_next_hop ctx next_hop (x_mem t) x" for t' next_hop
    using ret [OF t'(1-3)] restore_saved [OF t(4)] next_hop_context [OF t(4) sp t'(4)] by metis
  moreover have "load64 (x_mem t) (ctx + 8) = x_reg s 4" using t(4) by (simp add: saved_context_def)
  ultimately show ?thesis
    unfolding ctx_def [symmetric] using t(1-3) by - (rule exI [of _ k], rule exI [of _ t], auto)
qed

theorem closure_bridge_resumes_witness:
  "\<exists>k t k' u. x64_run k demo_bridge_state = Some t \<and> x_rip t = 0x5000 \<and>
    x64_run k' (t\<lparr>x_rip := x_top t, x_reg := (x_reg t)(4 := x_reg t 4 + 8),
      x_mem := x64_set_routing_bridge_next_hop (x_reg t 7) 0x6000 (x_mem t)\<rparr>) = Some u \<and> x_rip u = 0x6000 \<and> x_reg u 3 = 3"
proof -
  obtain a where "closure_bridge_code 0x5000 = Inr a" "x64_buffer a = bridge_image 0x5000" using closure_bridge_code_eq by blast
  then obtain k t where t: "x64_run k demo_bridge_state = Some t" "x_rip t = 0x5000" "x_reg t 7 = 0x7F58" "load64 (x_mem t) 0x7F60 = 0x8000"
      "holds_code (x_mem t) 0x1000 (bridge_image 0x5000)"
    and ret: "\<forall>t' next_hop. x_rip t' = x_top t \<and> x_reg t' 4 = x_reg t 4 + 8 \<and> holds_code (x_mem t') 0x1000 (bridge_image 0x5000) \<and>
       (\<forall>x. unat (x - x_reg t 7) < 168 \<longrightarrow> x_mem t' x = x64_set_routing_bridge_next_hop (x_reg t 7) next_hop (x_mem t) x) \<longrightarrow>
      (\<exists>k u. x64_run k t' = Some u \<and> x_rip u = next_hop \<and> (\<forall>r<16. x_reg u r = x_reg demo_bridge_state r) \<and>
        x_flags u AND user_flags = x_flags demo_bridge_state AND user_flags)"
    using closure_bridge_resumes [of "0x5000" a demo_bridge_state "0x1000" "0x2000" "0x7000"] demo_bridge_ready
    by (auto simp: apart_def)
  let ?t = "t\<lparr>x_rip := x_top t, x_reg := (x_reg t)(4 := x_reg t 4 + 8), x_mem := x64_set_routing_bridge_next_hop (x_reg t 7) 0x6000 (x_mem t)\<rparr>"
  have "holds_code (x_mem ?t) 0x1000 (bridge_image 0x5000)"
    using t(3-5) by (simp add: x64_set_routing_bridge_next_hop_def holds_code_store64 apart_def del: le_bytes.simps)
  then obtain k' u where "x64_run k' ?t = Some u" "x_rip u = 0x6000" "\<forall>r<16. x_reg u r = x_reg demo_bridge_state r"
    using ret [rule_format, of ?t "0x6000"] by auto
  moreover from this(3) have "x_reg u 3 = 3" by (simp add: demo_bridge_state_def)
  ultimately show ?thesis using t(1,2) by blast
qed

end
