(* ===== verification/X64Relocation.thy ===== *)
theory X64Relocation
  imports X64Assembler X64Machine X86Properties CodeBuilder
begin

text \<open>
  The x64 instruction relocator, \<open>source/InstructionRelocation/x64/X64InstructionRelocation.cc\<close>: the instructions of the
  overwritten prologue are decoded one after the other; those with a relative operand are rewritten for their new place,
  the others are copied, and a jump back to the rest of the function follows. The code is generated for a chunk whose size
  is guessed first; when it does not fit, a larger chunk is tried.
\<close>

section \<open>One instruction\<close>

text \<open>
  \<open>bytes\<close> is the memory from \<open>buffer_cursor\<close> on. An \<open>int8_t\<close> is sign-extended when it is added to an address, and again
  when \<open>Emit32\<close> receives it.
\<close>

definition x64_conf :: x86_options where "x64_conf = \<lparr>mode = 64\<rparr>"

definition relo_jcc_rel8 :: "x64_assembler \<Rightarrow> x86_insn_decode_t \<Rightarrow> u64 \<Rightarrow> u64 \<Rightarrow> x64_assembler" where
  "relo_jcc_rel8 a insn curr_orig_ip curr_relo_ip =
    (let orig_offset = ucast (immediate insn) :: u8;
         new_offset = ucast (curr_orig_ip + scast orig_offset - curr_relo_ip) :: u32;
         opcode = 0x80 OR (primary_opcode insn AND 0x0f)
     in x64_Emit (x64_Emit1 (x64_Emit1 a 0x0F) opcode) new_offset)"

definition relo_jmp_rel8 :: "x64_assembler \<Rightarrow> x86_insn_decode_t \<Rightarrow> u64 \<Rightarrow> u64 \<Rightarrow> x64_assembler" where
  "relo_jmp_rel8 a insn curr_orig_ip curr_relo_ip =
    (let orig_offset = ucast (immediate insn) :: u8;
         new_offset = ucast (curr_orig_ip + scast orig_offset - curr_relo_ip) :: u8
     in x64_Emit (x64_Emit1 a 0xE9) (scast new_offset))"

definition relo_rip :: "x64_assembler \<Rightarrow> x86_insn_decode_t \<Rightarrow> u8 list \<Rightarrow> u64 \<Rightarrow> u64 \<Rightarrow> x64_assembler" where
  "relo_rip a insn bytes curr_orig_ip curr_relo_ip =
    (let orig_disp = disp (mem (mem_op insn));
         new_disp = ucast (curr_orig_ip + scast orig_disp - curr_relo_ip) :: u32;
         a = x64_Emit (x64_EmitBuffer a (take (unat (displacement_offset insn)) bytes)) new_disp
     in if immediate_offset insn \<noteq> 0
        then x64_EmitBuffer a (take (unat (insn_length insn - ucast (immediate_offset insn))) (drop (unat (immediate_offset insn)) bytes))
        else a)"

definition relo_rel32 :: "x64_assembler \<Rightarrow> x86_insn_decode_t \<Rightarrow> u8 list \<Rightarrow> u64 \<Rightarrow> u64 \<Rightarrow> x64_assembler" where
  "relo_rel32 a insn bytes curr_orig_ip curr_relo_ip =
    (let orig_offset = ucast (immediate insn) :: u32;
         offset = ucast (curr_orig_ip + scast orig_offset - curr_relo_ip) :: u32
     in x64_Emit (x64_EmitBuffer a (take (unat (immediate_offset insn)) bytes)) offset)"

definition x64_relocate_one :: "x64_assembler \<Rightarrow> x86_insn_decode_t \<Rightarrow> u8 list \<Rightarrow> u64 \<Rightarrow> u64 \<Rightarrow> x64_assembler res" where
  "x64_relocate_one a insn bytes curr_orig_ip curr_relo_ip =
    (let opc = primary_opcode insn in
     if 0x70 \<le> opc \<and> opc \<le> 0x7F then Inr (relo_jcc_rel8 a insn curr_orig_ip curr_relo_ip)
     else if opc = 0xEB then Inr (relo_jmp_rel8 a insn curr_orig_ip curr_relo_ip)
     else if insn_flags insn AND X86_INSN_DECODE_FLAG_IP_RELATIVE \<noteq> 0 \<and> base (mem (mem_op insn)) = ia32e_code RIP
     then Inr (relo_rip a insn bytes curr_orig_ip curr_relo_ip)
     else if opc = 0xE8 \<or> opc = 0xE9 then Inr (relo_rel32 a insn bytes curr_orig_ip curr_relo_ip)
     else if 0xE0 \<le> opc \<and> opc \<le> 0xE2 then Inl Unimplemented
     else if opc = 0xE3 then Inl Unimplemented
     else Inr (x64_EmitBuffer a (take (unat (insn_length insn)) bytes)))"

section \<open>The loop over the prologue\<close>

text \<open>
  \<open>m\<close> is the memory of the process; the decoder reads fifteen bytes from \<open>buffer_cursor\<close> on and an instruction has at most
  twenty. The cursor is kept as an offset from \<open>buffer\<close>; \<open>relo\<close> is the address of the relocated code.
\<close>

function x64_relocate_loop ::
  "(u64 \<Rightarrow> u8) \<Rightarrow> u64 \<Rightarrow> nat \<Rightarrow> u64 \<Rightarrow> nat \<Rightarrow> u64 \<Rightarrow> u64 \<Rightarrow> x64_assembler \<Rightarrow> (u64 \<times> u64 \<times> x64_assembler) res" where
  "x64_relocate_loop m buf sz relo cursor curr_orig_ip curr_relo_ip a =
    (if cursor < sz
     then let bytes = peek m (buf + of_nat cursor) 20 in
          rbind (x86_insn_decode zero_insn bytes x64_conf) (\<lambda>insn.
          rbind (x64_relocate_one a insn bytes curr_orig_ip curr_relo_ip) (\<lambda>a.
          x64_relocate_loop m buf sz relo (cursor + unat (insn_length insn)) (curr_orig_ip + ucast (insn_length insn))
            (relo + of_int (x64_ip_offset a)) a))
     else Inr (curr_orig_ip, curr_relo_ip, a))"
  by pat_completeness auto
termination
  by (relation "measure (\<lambda>(m, buf, sz, relo, cursor, _). sz - cursor)") (auto dest: decode_progress)

declare x64_relocate_loop.simps [simp del]

section \<open>Relocating into a chunk\<close>

definition RT_FAILED :: int where "RT_FAILED = - 1"
definition RT_SUCCESS :: int where "RT_SUCCESS = 0"

definition re_init_region_range :: "u64 \<Rightarrow> u32 \<Rightarrow> MemoryChunk" where
  "re_init_region_range address sz = init_region_range address (scast sz)"

text \<open>The code behind the loop: \<open>jmp [rip]\<close> with the address of the rest of the function behind it.\<close>

definition x64_jump_back :: "x64_assembler \<Rightarrow> u64 \<Rightarrow> u64 \<Rightarrow> x64_assembler" where
  "x64_jump_back a curr_orig_ip curr_relo_ip =
    (let stub_addr = curr_relo_ip + 6 in x64_EmitInt64 (x64_JmpNearIndirect a stub_addr) curr_orig_ip)"

text \<open>The status, the origin with the length of the instructions that were relocated, and the state.\<close>

definition x64_GenRelocateCodeFixed ::
  "hook_env \<Rightarrow> u64 \<Rightarrow> MemoryChunk \<Rightarrow> MemoryChunk \<Rightarrow> dobby \<Rightarrow> (int \<times> MemoryChunk \<times> dobby) res" where
  "x64_GenRelocateCodeFixed env buf origin relocated st =
    (let relo = raw_instruction_start relocated in
     rbind (x64_relocate_loop (db_memory st) buf (unat (raw_instruction_size origin)) relo 0 (raw_instruction_start origin) relo
              (x64_new relo)) (\<lambda>(curr_orig_ip, curr_relo_ip, a).
     let a = x64_jump_back a curr_orig_ip curr_relo_ip;
         new_origin_len = ucast (curr_orig_ip - raw_instruction_start origin) :: u32;
         origin = re_init_region_range (raw_instruction_start origin) new_origin_len;
         relo_len = of_nat (length (x64_buffer a)) :: u64
     in if relo_len > raw_instruction_size relocated then Inr (RT_FAILED, origin, st)
        else rbind (FinalizeFromTurboAssembler env (x64_buffer a) (x64_realized_address a) st) (\<lambda>(_, st).
             Inr (RT_SUCCESS, origin, st))))"

section \<open>The loop over chunk sizes\<close>

text \<open>\<open>None\<close> when no chunk could be allocated.\<close>

definition x64_prealloc :: "hook_env \<Rightarrow> MemoryChunk \<Rightarrow> u32 \<Rightarrow> dobby \<Rightarrow> MemoryChunk option \<times> dobby" where
  "x64_prealloc env relocated relo_code_chunk_size st =
    (if raw_instruction_start relocated = 0
     then let (cchunk, ar) = MemoryArena_AllocateCodeChunk (hv_mmap env) (hv_page_size env) relo_code_chunk_size (db_arena st)
          in (map_option (\<lambda>c. re_init_region_range (chunk_address c) (ucast (chunk_length c))) cchunk, st\<lparr>db_arena := ar\<rparr>)
     else (Some relocated, st))"

text \<open>
  The body behind the label \<open>x64_try_again\<close>; \<open>envs n\<close> is what the system provides to the \<open>n\<close>-th attempt. \<open>Destroy\<close> does nothing.
\<close>

partial_function (option) x64_try_again ::
  "(nat \<Rightarrow> hook_env) \<Rightarrow> nat \<Rightarrow> u64 \<Rightarrow> MemoryChunk \<Rightarrow> MemoryChunk \<Rightarrow> u32 \<Rightarrow> dobby \<Rightarrow> (MemoryChunk \<times> MemoryChunk \<times> dobby) run" where
  "x64_try_again envs n buf origin relocated relo_code_chunk_size st =
    (case x64_prealloc (envs n) relocated relo_code_chunk_size st of
       (None, st) \<Rightarrow> Some (Inr (origin, relocated, st))
     | (Some relocated, st) \<Rightarrow>
       (case x64_GenRelocateCodeFixed (envs n) buf origin relocated st of
          Inl e \<Rightarrow> Some (Inl e)
        | Inr (ret, origin, st) \<Rightarrow>
            if ret \<noteq> RT_SUCCESS
            then x64_try_again envs (n + 1) buf origin (re_init_region_range 0 0) (relo_code_chunk_size + 16) st
            else Some (Inr (origin, relocated, st))))"

definition x64_GenRelocateCodeAndBranch ::
  "(nat \<Rightarrow> hook_env) \<Rightarrow> u64 \<Rightarrow> MemoryChunk \<Rightarrow> MemoryChunk \<Rightarrow> dobby \<Rightarrow> (MemoryChunk \<times> MemoryChunk \<times> dobby) run" where
  "x64_GenRelocateCodeAndBranch envs buf origin relocated st = x64_try_again envs 0 buf origin relocated 32 st"

section \<open>How much code a relocation emits\<close>

definition relo_size :: "x86_insn_decode_t \<Rightarrow> u8 list \<Rightarrow> nat" where
  "relo_size insn bytes =
    (let opc = primary_opcode insn; n = unat (insn_length insn) in
     if 0x70 \<le> opc \<and> opc \<le> 0x7F then 6 else if opc = 0xEB then 5
     else if insn_flags insn AND X86_INSN_DECODE_FLAG_IP_RELATIVE \<noteq> 0 \<and> base (mem (mem_op insn)) = ia32e_code RIP
     then length (take (unat (displacement_offset insn)) bytes) + 4 +
       (if immediate_offset insn \<noteq> 0
        then length (take (unat (insn_length insn - ucast (immediate_offset insn))) (drop (unat (immediate_offset insn)) bytes)) else 0)
     else if opc = 0xE8 \<or> opc = 0xE9 then length (take (unat (immediate_offset insn)) bytes) + 4
     else length (take n bytes))"

lemma relo_size_le: "length bytes = 20 \<Longrightarrow> relo_size insn bytes \<le> 44"
  by (auto simp: relo_size_def Let_def min_def)

lemma relocate_one_length:
  "x64_relocate_one a insn bytes o' r = Inr a' \<Longrightarrow> length (x64_buffer a') = length (x64_buffer a) + relo_size insn bytes \<and>
     x64_realized_address a' = x64_realized_address a"
  by (auto simp: x64_relocate_one_def relo_size_def Let_def relo_jcc_rel8_def relo_jmp_rel8_def relo_rip_def relo_rel32_def
      x64_Emit_def x64_Emit1_def x64_EmitBuffer_def split: if_splits)

lemma relocate_loop_unfold:
  "x64_relocate_loop m buf sz relo c o' r a =
    (if c < sz
     then let bytes = peek m (buf + of_nat c) 20 in
          rbind (x86_insn_decode zero_insn bytes x64_conf) (\<lambda>insn.
          rbind (x64_relocate_one a insn bytes o' r) (\<lambda>a.
          x64_relocate_loop m buf sz relo (c + unat (insn_length insn)) (o' + ucast (insn_length insn)) (relo + of_int (x64_ip_offset a)) a))
     else Inr (o', r, a))"
  by (rule x64_relocate_loop.simps)

lemma relocate_loop_length:
  "x64_relocate_loop m buf sz relo c o' r a = Inr (o'', r', a') \<Longrightarrow>
    length (x64_buffer a') \<le> length (x64_buffer a) + 44 * (sz - c) \<and> x64_realized_address a' = x64_realized_address a"
proof (induction m buf sz relo c o' r a rule: x64_relocate_loop.induct)
  case (1 m buf sz relo c o' r a)
  show ?case
  proof (cases "c < sz")
    case True
    let ?b = "peek m (buf + of_nat c) 20"
    obtain insn a1 where d: "x86_insn_decode zero_insn ?b x64_conf = Inr insn" and one: "x64_relocate_one a insn ?b o' r = Inr a1"
      and rec: "x64_relocate_loop m buf sz relo (c + unat (insn_length insn)) (o' + ucast (insn_length insn)) (relo + of_int (x64_ip_offset a1)) a1 = Inr (o'', r', a')"
      using "1.prems" True by (subst (asm) relocate_loop_unfold) (auto simp: Let_def)
    have "0 < unat (insn_length insn)" using decode_progress [OF d] by simp
    then have "44 + 44 * (sz - (c + unat (insn_length insn))) \<le> 44 * (sz - c)" using True by auto
    then show ?thesis
      using "1.IH" [OF True refl d one rec] relocate_one_length [OF one] relo_size_le [of ?b insn] by simp
  next
    case False
    then show ?thesis using "1.prems" by (simp add: relocate_loop_unfold)
  qed
qed

text \<open>The loop stops at the end of an instruction; with that size as the prologue it stops at the same place.\<close>

lemma relocate_loop_end:
  "x64_relocate_loop m buf sz relo c o' r a = Inr (o'', r', a') \<Longrightarrow>
    \<exists>e\<ge>c. e \<le> max c (sz + 19) \<and> o'' = o' + of_nat (e - c) \<and>
      (\<forall>relo2 r2 a2 x. x64_relocate_loop m buf e relo2 c o' r2 a2 = Inr x \<longrightarrow> fst x = o' + of_nat (e - c))"
proof (induction m buf sz relo c o' r a rule: x64_relocate_loop.induct)
  case (1 m buf sz relo c o' r a)
  show ?case
  proof (cases "c < sz")
    case True
    let ?b = "peek m (buf + of_nat c) 20"
    obtain insn a1 where d: "x86_insn_decode zero_insn ?b x64_conf = Inr insn" and one: "x64_relocate_one a insn ?b o' r = Inr a1"
      and rec: "x64_relocate_loop m buf sz relo (c + unat (insn_length insn)) (o' + ucast (insn_length insn)) (relo + of_int (x64_ip_offset a1)) a1 = Inr (o'', r', a')"
      using "1.prems" True by (subst (asm) relocate_loop_unfold) (auto simp: Let_def)
    define l where "l = unat (insn_length insn)"
    have l: "0 < l" "l \<le> 20" using decode_progress [OF d] by (simp_all add: l_def)
    have ul: "ucast (insn_length insn) = (of_nat l :: u64)" by (simp add: l_def unsigned_ucast_eq of_nat_unat)
    obtain e where e: "c + l \<le> e" "e \<le> max (c + l) (sz + 19)" "o'' = o' + of_nat l + of_nat (e - (c + l))"
        "\<forall>relo2 r2 a2 x. x64_relocate_loop m buf e relo2 (c + l) (o' + of_nat l) r2 a2 = Inr x \<longrightarrow> fst x = o' + of_nat l + of_nat (e - (c + l))"
      using "1.IH" [OF True refl d one rec] unfolding l_def [symmetric] ul by blast
    have sum: "o' + of_nat l + of_nat (e - (c + l)) = o' + of_nat (e - c)"
    proof -
      have "e - c = l + (e - (c + l))" using e(1) by simp
      then have "(of_nat (e - c) :: u64) = of_nat (l + (e - (c + l)))" by (rule arg_cong)
      then show ?thesis by (simp only: of_nat_add add.assoc)
    qed
    have "fst x = o' + of_nat (e - c)" if "x64_relocate_loop m buf e relo2 c o' r2 a2 = Inr x" for relo2 r2 a2 x
    proof -
      have "c < e" using e(1) l by simp
      then have "rbind (x64_relocate_one a2 insn ?b o' r2) (\<lambda>a. x64_relocate_loop m buf e relo2 (c + l) (o' + of_nat l)
          (relo2 + of_int (x64_ip_offset a)) a) = Inr x"
        using that d by (simp add: relocate_loop_unfold [of m buf e relo2 c o' r2 a2] Let_def l_def [symmetric] ul)
      then show ?thesis unfolding sum [symmetric] using e(4) unfolding rbind_eq_Inr by blast
    qed
    then show ?thesis using e(1-3) sum l True by (intro exI [of _ e]) auto
  next
    case False
    then show ?thesis using "1.prems" by (intro exI [of _ c]) (auto simp: relocate_loop_unfold)
  qed
qed


section \<open>The loop over chunk sizes ends\<close>

text \<open>The size of the origin is where the loop stops.\<close>

definition settled :: "(u64 \<Rightarrow> u8) \<Rightarrow> u64 \<Rightarrow> MemoryChunk \<Rightarrow> bool" where
  "settled m buf origin \<longleftrightarrow> (\<forall>relo r a x. x64_relocate_loop m buf (unat (raw_instruction_size origin)) relo 0 (raw_instruction_start origin) r a = Inr x \<longrightarrow>
     fst x = raw_instruction_start origin + raw_instruction_size origin)"

lemma jump_back_length: "length (x64_buffer (x64_jump_back a o' r)) = length (x64_buffer a) + 14"
  by (simp add: x64_jump_back_def x64_JmpNearIndirect_def x64_EmitInt64_def x64_Emit_def x64_Emit1_def x64_EmitBuffer_def Let_def)

lemma small_of_nat: "n < 2 ^ 31 \<Longrightarrow> scast (ucast (of_nat n :: u64) :: u32) = (of_nat n :: u64)"
proof -
  assume n: "n < 2 ^ 31"
  have "unat (ucast (of_nat n :: u64) :: u32) = n" using n by (simp add: unsigned_ucast_eq unsigned_of_nat take_bit_nat_eq_self)
  then have "unat (scast (ucast (of_nat n :: u64) :: u32) :: u64) = n" using n scast_small [of "ucast (of_nat n :: u64)"] by simp
  then show ?thesis using n by (simp add: word_unat_eq_iff unsigned_of_nat take_bit_nat_eq_self)
qed

text \<open>An attempt that fails: the chunk was smaller than the code, the state is as before and the origin is settled.\<close>

lemma GenRelocateCodeFixed_fails:
  assumes "x64_GenRelocateCodeFixed env buf origin relocated st = Inr (ret, origin', st')" "ret \<noteq> RT_SUCCESS"
    and "unat (raw_instruction_size origin) \<le> 2 ^ 20"
  shows "st' = st" "unat (raw_instruction_size relocated) < 14 + 44 * unat (raw_instruction_size origin)"
    "unat (raw_instruction_size origin') \<le> unat (raw_instruction_size origin) + 19" "settled (db_memory st) buf origin'"
    "settled (db_memory st) buf origin \<Longrightarrow> origin' = origin"
proof -
  let ?s = "raw_instruction_start origin" and ?n = "unat (raw_instruction_size origin)" and ?relo = "raw_instruction_start relocated"
  obtain o' r a where loop: "x64_relocate_loop (db_memory st) buf ?n ?relo 0 ?s ?relo (x64_new ?relo) = Inr (o', r, a)"
    and o: "origin' = re_init_region_range ?s (ucast (o' - ?s))" "st' = st"
    and len: "raw_instruction_size relocated < of_nat (length (x64_buffer (x64_jump_back a o' r)))"
    using assms(1,2) by (auto simp: x64_GenRelocateCodeFixed_def Let_def RT_SUCCESS_def split: if_splits)
  show "st' = st" by (rule o(2))
  have l: "length (x64_buffer a) \<le> 44 * ?n" using relocate_loop_length [OF loop] by (simp add: x64_new_def)
  then have "unat (of_nat (length (x64_buffer a) + 14) :: u64) = length (x64_buffer a) + 14"
    using assms(3) by (simp only: unsigned_of_nat) (simp add: take_bit_nat_eq_self)
  then show "unat (raw_instruction_size relocated) < 14 + 44 * ?n"
    using len l by (simp only: jump_back_length word_less_nat_alt)
  obtain e where e: "e \<le> ?n + 19" "o' = ?s + of_nat e"
      "\<forall>relo2 r2 a2 x. x64_relocate_loop (db_memory st) buf e relo2 0 ?s r2 a2 = Inr x \<longrightarrow> fst x = ?s + of_nat e"
    using relocate_loop_end [OF loop] by auto
  have e31: "e < 2 ^ 31" using e(1) assms(3) by simp
  then have o': "origin' = \<lparr>chunk_address = ?s, chunk_length = of_nat e\<rparr>" "unat (of_nat e :: u64) = e"
    using o(1) e(2) small_of_nat [OF e31] by (simp_all add: re_init_region_range_def init_region_range_def unsigned_of_nat take_bit_nat_eq_self)
  then show "unat (raw_instruction_size origin') \<le> ?n + 19" using e(1) by (simp add: raw_instruction_size_def)
  show "settled (db_memory st) buf origin'"
    using e(3) o' by (simp add: settled_def raw_instruction_size_def raw_instruction_start_def)
  show "origin' = origin" if "settled (db_memory st) buf origin"
  proof -
    have "o' = ?s + raw_instruction_size origin" using that loop by (force simp: settled_def)
    then have "of_nat e = raw_instruction_size origin" using e(2) by simp
    then show ?thesis using o'(1) by (simp add: raw_instruction_size_def raw_instruction_start_def)
  qed
qed


lemma prealloc_chunk:
  assumes "raw_instruction_start relocated = 0" "x64_prealloc env relocated sz st = (Some c, st')" "unat sz < 2 ^ 31"
  shows "unat (raw_instruction_size c) = unat sz" "db_memory st' = db_memory st"
proof -
  obtain chunk ar where "MemoryArena_AllocateCodeChunk (hv_mmap env) (hv_page_size env) sz (db_arena st) = (Some chunk, ar)"
    and c: "c = re_init_region_range (chunk_address chunk) (ucast (chunk_length chunk))" "st' = st\<lparr>db_arena := ar\<rparr>"
    using assms(1,2) by (auto simp: x64_prealloc_def split: prod.splits)
  then have "chunk_length chunk = scast sz"
    by (auto simp: MemoryArena_AllocateCodeChunk_def MemoryArena_AllocateChunk_def push_chunk_def Let_def split: option.splits if_splits)
  moreover have "ucast (scast sz :: u64) = sz" by (rule bit_word_eqI) (auto simp: bit_simps)
  ultimately have "ucast (chunk_length chunk) = sz" by simp
  then show "unat (raw_instruction_size c) = unat sz" "db_memory st' = db_memory st"
    using c assms(3) scast_small [of sz] by (simp_all add: re_init_region_range_def init_region_range_def raw_instruction_size_def)
qed

lemma prealloc_memory: "x64_prealloc env relocated sz st = (c, st') \<Longrightarrow> db_memory st' = db_memory st"
  by (auto simp: x64_prealloc_def split: prod.splits if_splits)

lemma re_init_empty: "raw_instruction_start (re_init_region_range 0 0) = 0"
  by (simp add: re_init_region_range_def init_region_range_def raw_instruction_start_def)

lemma try_again_settled:
  assumes "settled (db_memory st) buf origin" "unat (raw_instruction_size origin) \<le> 2 ^ 20" "raw_instruction_start relocated = 0"
    "unat sz \<le> 2 ^ 30"
  shows "\<exists>res. x64_try_again envs n buf origin relocated sz st = Some res"
  using assms
proof (induction "2 ^ 30 - unat sz" arbitrary: n relocated sz st rule: less_induct)
  case less
  obtain oc st1 where pre: "x64_prealloc (envs n) relocated sz st = (oc, st1)" by (cases "x64_prealloc (envs n) relocated sz st")
  show ?case
  proof (cases oc)
    case (Some c)
    have c: "unat (raw_instruction_size c) = unat sz" "db_memory st1 = db_memory st"
      using prealloc_chunk [OF less.prems(3) pre [unfolded Some]] less.prems(4) by simp_all
    have settled: "settled (db_memory st1) buf origin" using less.prems(1) c(2) by simp
    show ?thesis
    proof (cases "x64_GenRelocateCodeFixed (envs n) buf origin c st1")
      case (Inr x)
      obtain ret origin' st2 where x: "x = (ret, origin', st2)" by (cases x)
      show ?thesis
      proof (cases "ret = RT_SUCCESS")
        case False
        note F = GenRelocateCodeFixed_fails [OF Inr [unfolded x] False less.prems(2)]
        have o: "origin' = origin" "st2 = st1" using F(1) F(5) [OF settled] by simp_all
        have "unat sz < 14 + 44 * 2 ^ 20" using F(2) c(1) less.prems(2) by simp
        moreover from this have "unat (sz + 16) = unat sz + 16" by (simp add: unat_add_lem [THEN iffD1])
        ultimately have "\<exists>res. x64_try_again envs (n + 1) buf origin (re_init_region_range 0 0) (sz + 16) st1 = Some res"
          using less.hyps [of "sz + 16" st1 "re_init_region_range 0 0" "n + 1"] settled less.prems(2) re_init_empty by simp
        then show ?thesis using False by (subst x64_try_again.simps) (simp add: pre Some Inr x o)
      qed (subst x64_try_again.simps, simp add: pre Some Inr x)
    qed (subst x64_try_again.simps, simp add: pre Some)
  qed (subst x64_try_again.simps, simp add: pre)
qed

text \<open>
  C15. Relocating a prologue on x64 always comes to an end: the loop over its instructions does, and so does the loop that retries with
  a larger chunk, whatever the bytes of the prologue (of less than half a megabyte), whatever chunk is passed and whatever the
  system allocates for each attempt.
\<close>
theorem x64_relocation_terminates:
  assumes "unat (raw_instruction_size origin) < 2 ^ 19"
  shows "\<exists>res. x64_GenRelocateCodeAndBranch envs buf origin relocated st = Some res"
proof -
  obtain oc st1 where pre: "x64_prealloc (envs 0) relocated 32 st = (oc, st1)" by (cases "x64_prealloc (envs 0) relocated 32 st")
  show ?thesis
  proof (cases oc)
    case (Some c)
    show ?thesis
    proof (cases "x64_GenRelocateCodeFixed (envs 0) buf origin c st1")
      case (Inr x)
      obtain ret origin' st2 where x: "x = (ret, origin', st2)" by (cases x)
      show ?thesis
      proof (cases "ret = RT_SUCCESS")
        case False
        note F = GenRelocateCodeFixed_fails [OF Inr [unfolded x] False]
        have "\<exists>res. x64_try_again envs 1 buf origin' (re_init_region_range 0 0) 48 st2 = Some res"
          using try_again_settled [of st2 buf origin' "re_init_region_range 0 0" 48 envs 1] F assms re_init_empty by simp
        then show ?thesis using False unfolding x64_GenRelocateCodeAndBranch_def
          by (subst x64_try_again.simps) (simp add: pre Some Inr x)
      qed (unfold x64_GenRelocateCodeAndBranch_def, subst x64_try_again.simps, simp add: pre Some Inr x)
    qed (unfold x64_GenRelocateCodeAndBranch_def, subst x64_try_again.simps, simp add: pre Some)
  qed (unfold x64_GenRelocateCodeAndBranch_def, subst x64_try_again.simps, simp add: pre)
qed


theorem x64_relocation_terminates_witness:
  "\<exists>res. x64_GenRelocateCodeAndBranch (\<lambda>n. \<lparr>hv_mmap = (\<lambda>_ _ _ _. None), hv_page_size = 4096, hv_new_instance = 0, hv_new_node = 0\<rparr>)
    0x4000 \<lparr>chunk_address = 0x4000, chunk_length = 6\<rparr> \<lparr>chunk_address = 0x10000, chunk_length = 8\<rparr>
    \<lparr>db_memory = (\<lambda>_. 0x90), db_arena = None, db_interceptor = \<lparr>ic_head = 0, ic_links = \<lparr>nxt = (\<lambda>_. 0), prv = (\<lambda>_. 0)\<rparr>, ic_entry = (\<lambda>_. new_HookEntry)\<rparr>\<rparr> = Some res"
  by (rule x64_relocation_terminates) (simp add: raw_instruction_size_def)

end
