(* ===== verification/X64Branches.thy ===== *)
theory X64Branches
  imports X64Relocation
begin

text \<open>
  Where the code that the x64 relocator emits for a relative branch goes, compared with the branch it replaces. Both are read
  with the disassembler of \<open>X64Machine\<close>, which is the architecture's and not the repository's.
\<close>

section \<open>Where relocated branches go\<close>

text \<open>The target of the direct branch at an address.\<close>

definition branch_target :: "u8 list \<Rightarrow> u64 \<Rightarrow> u64 option" where
  "branch_target bytes ip = (case x64_disasm bytes of
       Some (I_call d, n) \<Rightarrow> Some (ip + of_nat n + d)
     | Some (I_jmp d, n) \<Rightarrow> Some (ip + of_nat n + d)
     | Some (I_jcc cc d, n) \<Rightarrow> Some (ip + of_nat n + d)
     | _ \<Rightarrow> None)"

text \<open>A distance that fits in the 32 bits of a displacement.\<close>

definition near :: "u64 \<Rightarrow> bool" where
  "near x \<longleftrightarrow> scast (ucast x :: u32) = x"

lemma le_bytes_of_le_bytes_4: "length bs = 4 \<Longrightarrow> le_bytes 4 (of_le_bytes bs :: u32) = bs"
proof -
  assume "length bs = 4"
  then obtain b0 b1 b2 b3 where bs: "bs = [b0, b1, b2, b3]" by (auto simp: numeral_eq_Suc length_Suc_conv)
  have "ucast (of_le_bytes bs :: u32) = b0" "ucast (drop_bit 8 (of_le_bytes bs :: u32)) = b1"
    "ucast (drop_bit 16 (of_le_bytes bs :: u32)) = b2" "ucast (drop_bit 24 (of_le_bytes bs :: u32)) = b3"
    unfolding bs by (rule bit_word_eqI; auto simp: bit_simps dest: bit_imp_le_length)+
  then show ?thesis by (simp add: le_bytes_numeral bs)
qed

lemma pdisp32_le: "pdisp32 (le_bytes 4 v @ r) = Some (scast (v :: u32), r)"
  by (simp add: pdisp32_def del: le_bytes.simps)

lemma short_jcc_range:
  fixes op :: u8
  assumes "0x70 \<le> op \<and> op \<le> 0x7F"
  shows "drop_bit 4 op = 7"
proof -
  have "unat (drop_bit 4 op) = unat op div 16" unfolding unat_drop_bit_eq by (simp add: drop_bit_eq_div)
  also have "\<dots> = 7" using assms by (simp add: word_le_nat_alt) presburger
  finally show ?thesis by (simp add: word_unat_eq_iff)
qed

lemma near_jcc_range:
  fixes op :: u8
  shows "0x80 \<le> (0x80 OR (op AND 0x0f))" "(0x80 OR (op AND 0x0f)) \<le> 0x8F"
proof -
  have b: "\<not> (bit (0x80 :: u8) n \<and> n < 4)" for n by (auto simp: numeral_eq_Suc less_Suc_eq)
  have m: "(0x0f :: u8) = mask 4" by (simp add: mask_eq_exp_minus_1)
  have "0x80 + (op AND 0x0f) = (0x80 OR (op AND 0x0f))" unfolding m using b by (intro disjunctive_add) (auto simp: bit_simps)
  then have eq: "(0x80 OR (op AND 0x0f)) = 0x80 + (op AND 0x0f)" by (rule sym)
  have "op AND 0x0f \<le> 0x0f" by (rule word_and_le1)
  then show "0x80 \<le> (0x80 OR (op AND 0x0f))" "(0x80 OR (op AND 0x0f)) \<le> 0x8F"
    unfolding eq by (simp_all add: word_le_nat_alt unat_add_lem [THEN iffD1])
qed

lemmas branch_parse = branch_target_def x64_disasm_def p_insn_def p_opcode_def p_two_byte_def pdisp8_def pbind_def pbyte_def preturn_def

lemma branch_target_rel32:
  "op = 0xE8 \<or> op = 0xE9 \<Longrightarrow> branch_target (op # le_bytes 4 v @ r) ip = Some (ip + 5 + scast (v :: u32))"
  using pdisp32_le [of v r] by (auto simp: branch_parse simp del: le_bytes.simps)

lemma branch_target_rel8:
  assumes "op = 0xEB \<or> 0x70 \<le> op \<and> op \<le> 0x7F"
  shows "branch_target (op # d # r) ip = Some (ip + 2 + scast d)"
proof (cases "op = 0xEB")
  case False
  with assms have r: "0x70 \<le> op" "op \<le> 0x7F" by simp_all
  then have "op \<noteq> 0x90" "op \<noteq> 0x9C" "op \<noteq> 0x9D" "op \<noteq> 0xC3" "\<not> op \<le> 0x57" "\<not> op \<le> 0x5F" "op \<noteq> 0xE8" "op \<noteq> 0xE9"
    by (auto simp: word_le_nat_alt)
  then show ?thesis using r False short_jcc_range [of op] by (simp add: branch_parse)
qed (simp add: branch_parse)

lemma branch_target_jcc32:
  "branch_target (0x0F # (0x80 OR (op AND 0x0f)) # le_bytes 4 v @ r) ip = Some (ip + 6 + scast (v :: u32))"
  using pdisp32_le [of v r] near_jcc_range [of op] by (simp add: branch_parse del: le_bytes.simps)

lemma emitted: "x64_buffer (x64_Emit (x64_EmitBuffer a bs) v) = x64_buffer a @ bs @ le_bytes 4 v"
  "x64_buffer (x64_Emit (x64_Emit1 a b) v) = x64_buffer a @ b # le_bytes 4 v"
  "x64_buffer (x64_Emit (x64_Emit1 (x64_Emit1 a b) c) v) = x64_buffer a @ b # c # le_bytes 4 v"
  "x64_buffer (x64_Emit1 a b) = x64_buffer a @ [b]"
  by (simp_all add: x64_Emit_def x64_Emit1_def x64_EmitBuffer_def)

lemma relo_arith: "near (o' + d - r) \<Longrightarrow> r + n + scast (ucast (o' + d - r) :: u32) = o' + n + d"
  by (simp add: near_def)

text \<open>
  C24. A \<open>call\<close> or \<open>jmp\<close> with a 32-bit displacement still goes where it went: when the new place is within reach, the code the relocator
  emits for it is a branch whose target from the new address is that of the original from the old one.
\<close>
theorem x64_relocated_rel32_target:
  assumes "14 \<le> length bs" "op = 0xE8 \<or> op = 0xE9"
    and "near (orig + scast (of_le_bytes (take 4 bs) :: u32) - relo)"
  shows "\<exists>i a' code. x86_insn_decode zero_insn (op # bs) x64_conf = Inr i \<and> insn_length i = 5 \<and>
    x64_relocate_one a i (op # bs) orig relo = Inr a' \<and> x64_buffer a' = x64_buffer a @ code \<and> length code = 5 \<and>
    branch_target code relo = branch_target (op # bs) orig \<and> branch_target (op # bs) orig \<noteq> None"
proof -
  let ?v = "of_le_bytes (take 4 bs) :: u32"
  obtain i where i: "x86_insn_decode zero_insn (op # bs) x64_conf = Inr i" "insn_length i = 5" "primary_opcode i = op"
      "immediate_offset i = 1" "immediate i = ucast ?v" "insn_flags i = 0"
    using decode_call_jmp_rel32 [OF assms(1,2)] by (auto simp: x64_conf_def)
  have bs: "le_bytes 4 ?v @ drop 4 bs = bs" using assms(1) by (simp add: le_bytes_of_le_bytes_4 del: le_bytes.simps)
  let ?code = "op # le_bytes 4 (ucast (orig + scast ?v - relo) :: u32)"
  have "branch_target ?code relo = Some (orig + 5 + scast ?v)"
    using branch_target_rel32 [OF assms(2), of "ucast (orig + scast ?v - relo)" "[]" relo] relo_arith [OF assms(3), of 5] by (simp del: le_bytes.simps)
  moreover have "branch_target (op # bs) orig = Some (orig + 5 + scast ?v)"
    using branch_target_rel32 [OF assms(2), of ?v "drop 4 bs" orig] bs by simp
  moreover have "x64_relocate_one a i (op # bs) orig relo = Inr (relo_rel32 a i (op # bs) orig relo)"
    using assms(2) i(3,6) by (auto simp: x64_relocate_one_def)
  moreover have "x64_buffer (relo_rel32 a i (op # bs) orig relo) = x64_buffer a @ ?code"
    using i(4,5) by (simp add: relo_rel32_def emitted del: le_bytes.simps)
  ultimately show ?thesis using i(1,2) by (intro exI [of _ i] exI [of _ "relo_rel32 a i (op # bs) orig relo"] exI [of _ ?code]) simp
qed


text \<open>
  C37. A short conditional jump is relocated to the wrong place: within reach, the near jump that replaces it has the same condition but
  goes four bytes beyond the original target, because the displacement is taken for an instruction of the same length.
\<close>
theorem x64_relocated_jcc_off_by_four:
  assumes "13 \<le> length bs" "0x70 \<le> op \<and> op \<le> 0x7F" "near (orig + scast d - relo)"
  shows "\<exists>i a' code. x86_insn_decode zero_insn (op # d # bs) x64_conf = Inr i \<and>
    x64_relocate_one a i (op # d # bs) orig relo = Inr a' \<and> x64_buffer a' = x64_buffer a @ code \<and>
    branch_target (op # d # bs) orig = Some (orig + 2 + scast d) \<and> branch_target code relo = Some (orig + 2 + scast d + 4)"
proof -
  obtain i where i: "x86_insn_decode zero_insn (op # d # bs) x64_conf = Inr i" "primary_opcode i = op" "immediate i = ucast d"
    using decode_jcc_jmp_rel8 [OF assms(1), of op d] assms(2) by (auto simp: x64_conf_def)
  have d: "ucast (ucast d :: u64) = d" by (rule bit_word_eqI) (auto simp: bit_simps)
  let ?code = "0x0F # (0x80 OR (op AND 0x0f)) # le_bytes 4 (ucast (orig + scast d - relo) :: u32)"
  have "branch_target ?code relo = Some (orig + 2 + scast d + 4)"
    using branch_target_jcc32 [of op "ucast (orig + scast d - relo)" "[]" relo] relo_arith [OF assms(3), of 6]
    by (simp add: algebra_simps del: le_bytes.simps)
  moreover have "branch_target (op # d # bs) orig = Some (orig + 2 + scast d)" using assms(2) by (simp add: branch_target_rel8)
  moreover have "x64_relocate_one a i (op # d # bs) orig relo = Inr (relo_jcc_rel8 a i orig relo)"
    using assms(2) i(2) by (simp add: x64_relocate_one_def)
  moreover have "x64_buffer (relo_jcc_rel8 a i orig relo) = x64_buffer a @ ?code"
    using i(2,3) by (simp add: relo_jcc_rel8_def emitted d del: le_bytes.simps)
  ultimately show ?thesis using i(1) by (intro exI [of _ i] exI [of _ "relo_jcc_rel8 a i orig relo"] exI [of _ ?code]) simp
qed

text \<open>
  A short jump is relocated to the wrong place: the distance is cut to eight bits, so that the jump that replaces it lands
  within 128 bytes of the relocated code, wherever the original went.
\<close>
lemma x64_relocated_jmp_rel8_truncated:
  assumes "13 \<le> length bs"
  shows "\<exists>i a' code. x86_insn_decode zero_insn (0xEB # d # bs) x64_conf = Inr i \<and>
    x64_relocate_one a i (0xEB # d # bs) orig relo = Inr a' \<and> x64_buffer a' = x64_buffer a @ code \<and>
    branch_target (0xEB # d # bs) orig = Some (orig + 2 + scast d) \<and>
    branch_target code relo = Some (relo + 5 + scast (ucast (orig + scast d - relo) :: u8))"
proof -
  obtain i where i: "x86_insn_decode zero_insn (0xEB # d # bs) x64_conf = Inr i" "primary_opcode i = 0xEB" "immediate i = ucast d"
    using decode_jcc_jmp_rel8 [OF assms, of "0xEB" d] by (auto simp: x64_conf_def)
  have d: "ucast (ucast d :: u64) = d" by (rule bit_word_eqI) (auto simp: bit_simps)
  have sc: "scast (scast x :: u32) = (scast x :: u64)" for x :: u8 by (rule bit_word_eqI) (auto simp: bit_simps min_def)
  let ?code = "0xE9 # le_bytes 4 (scast (ucast (orig + scast d - relo) :: u8) :: u32)"
  have "branch_target ?code relo = Some (relo + 5 + scast (ucast (orig + scast d - relo) :: u8))"
    using branch_target_rel32 [of "0xE9" "scast (ucast (orig + scast d - relo) :: u8)" "[]" relo] by (simp add: sc del: le_bytes.simps)
  moreover have "branch_target (0xEB # d # bs) orig = Some (orig + 2 + scast d)" by (simp add: branch_target_rel8)
  moreover have "x64_relocate_one a i (0xEB # d # bs) orig relo = Inr (relo_jmp_rel8 a i orig relo)"
    using i(2) by (simp add: x64_relocate_one_def)
  moreover have "x64_buffer (relo_jmp_rel8 a i orig relo) = x64_buffer a @ ?code"
    using i(3) by (simp add: relo_jmp_rel8_def emitted d del: le_bytes.simps)
  ultimately show ?thesis using i(1) by (intro exI [of _ i] exI [of _ "relo_jmp_rel8 a i orig relo"] exI [of _ ?code]) simp
qed

section \<open>Operands relative to the instruction pointer\<close>

lemma immediate_keeps:
  "x86_insn_decode_immediate rd insn conf = Inr (rd', insn') \<Longrightarrow> rd_own rd \<Longrightarrow>
     insn_flags insn' = insn_flags insn \<and> mem_op insn' = mem_op insn \<and> displacement_offset insn' = displacement_offset insn \<and>
     (rd' = rd \<and> insn' = insn \<or> immediate_offset insn' = ucast (of_nat (rd_cursor rd) :: u32))"
  by (auto simp: x86_insn_decode_immediate_def reader_offset_def Let_def split: if_splits option.splits)

lemma window_split:
  assumes "n + 5 \<le> 15" "15 \<le> length bs"
  shows "drop n (window bs) = bs ! n # bs ! (n + 1) # bs ! (n + 2) # bs ! (n + 3) # bs ! (n + 4) # drop (n + 5) (window bs)"
proof -
  have w: "window bs ! i = bs ! i" if "i < 15" for i using that assms(2) by (rule window_nth)
  have l: "length (window bs) = 20" using assms(2) by simp
  show ?thesis using assms(1) l by (simp add: Cons_nth_drop_Suc [symmetric] w eval_nat_numeral)
qed

lemma narrow_offset: "k \<le> 20 \<Longrightarrow> (ucast (of_nat k :: u32) :: u8) = of_nat k"
  by (simp add: word_unat_eq_iff unsigned_ucast_eq unsigned_of_nat take_bit_nat_eq_self)

lemma decode_rip:
  assumes len: "15 \<le> length bs" and pfx: "prefix_len x64_conf (take 15 bs) \<le> 9"
  defines "l \<equiv> layout x64_conf bs"
  assumes sse: "\<not> 19 < spec_group (lay_raw l)" and modrm: "x86_insn_has_modrm_byte (lay_spec l)"
  defines "n \<equiv> lay_modrm_at l"
  assumes rip: "rip_relative (window bs ! n)" and size: "layout_size l \<le> 15"
  shows "\<exists>i. x86_insn_decode zero_insn bs x64_conf = Inr i \<and> insn_length i = of_nat (layout_size l) \<and>
    primary_opcode i = window bs ! (n - 1) \<and>
    insn_flags i = X86_INSN_DECODE_FLAG_IP_RELATIVE \<and> base (mem (mem_op i)) = ia32e_code RIP \<and>
    disp (mem (mem_op i)) = of_le_bytes (take 4 (drop (n + 1) bs)) \<and> displacement_offset i = of_nat (n + 1) \<and>
    (immediate_offset i = 0 \<and> layout_size l = n + 5 \<or> immediate_offset i = of_nat (n + 5)) \<and> n + 5 \<le> layout_size l"
proof -
  have mode: "mode x64_conf = 64" by (simp add: x64_conf_def)
  obtain i where dec: "x86_insn_decode zero_insn bs x64_conf = Inr i" "insn_length i = of_nat (layout_size l)"
      "primary_opcode i = window bs ! (n - 1)"
    using decode_ok [OF len pfx] sse mode unfolding l_def n_def flat_mode_def by blast
  have "lay_modrm_len l = modrm_len (address_bits x64_conf (lay_mask l)) (lay_rex l) (window bs ! n) (window bs ! (n + 1))"
    using modrm by (simp add: n_def l_def layout_def Let_def)
  then have "lay_modrm_len l = 5" using rip by (simp add: modrm_len_def disp_len_def rip_relative_def)
  then have n5: "n + 5 \<le> layout_size l" by (simp add: layout_size_def n_def)
  then have n: "n + 5 \<le> 15" using size by simp
  let ?rd = "forward (start_reader bs) n" and ?i = "head_insn x64_conf bs"
  have rd: "rd_own ?rd" "rd_cursor ?rd = n" by simp_all
  have b: "bs ! n = window bs ! n" using n len by (simp add: window_nth)
  have d: "take 4 (drop (n + 1) bs) = [bs ! (n + 1), bs ! (n + 2), bs ! (n + 3), bs ! (n + 4)]"
    using n len by (simp add: Cons_nth_drop_Suc [symmetric] eval_nat_numeral)
  have "rest ?rd = bs ! n # bs ! (n + 1) # bs ! (n + 2) # bs ! (n + 3) # bs ! (n + 4) # drop (n + 5) (window bs)"
    using window_split [OF n len] by simp
  from decode_rip_relative [OF mode rd(1) this, of ?i, unfolded b, OF rip, folded d, unfolded rd(2)] obtain i2 where
    i2: "x86_insn_decode_modrm_sib ?rd ?i x64_conf = Inr (forward ?rd 5, i2)"
      "insn_flags i2 = X86_INSN_DECODE_FLAG_IP_RELATIVE" "base (mem (mem_op i2)) = ia32e_code RIP"
      "disp (mem (mem_op i2)) = of_le_bytes (take 4 (drop (n + 1) bs))" "displacement_offset i2 = of_nat (n + 1)"
      "immediate_offset i2 = immediate_offset ?i"
    by blast
  have io: "immediate_offset ?i = 0" by (simp add: head_insn_def Let_def set_rex_def zero_insn_def split: option.split)
  obtain rd3 i3 where i3: "(if x86_insn_has_immediate (insn_spec i2) then x86_insn_decode_immediate (forward (start_reader bs) (n + 5)) i2 x64_conf
        else Inr (forward (start_reader bs) (n + 5), i2)) = Inr (rd3, i3)" "reader_offset rd3 = Inr (insn_length i)" "i = i3\<lparr>insn_length := insn_length i\<rparr>"
    using dec(1) modrm i2(1) decode_head [OF len pfx sse [unfolded l_def]] unfolding l_def [symmetric] n_def [symmetric] by (auto split del: if_split)
  have keeps: "insn_flags i3 = insn_flags i2 \<and> mem_op i3 = mem_op i2 \<and> displacement_offset i3 = displacement_offset i2 \<and>
     (rd3 = forward ?rd 5 \<and> i3 = i2 \<or> immediate_offset i3 = ucast (of_nat (rd_cursor (forward ?rd 5)) :: u32))"
    using i3(1) immediate_keeps [of "forward ?rd 5" i2 x64_conf rd3 i3] by (auto split: if_splits)
  have "immediate_offset i = 0 \<and> layout_size l = n + 5 \<or> immediate_offset i = of_nat (n + 5)"
  proof (cases "rd3 = forward ?rd 5 \<and> i3 = i2")
    case True
    then have "(of_nat (n + 5) :: u32) = of_nat (layout_size l)" using i3(2) dec(2) by (simp add: reader_offset_def)
    then have "unat (of_nat (n + 5) :: u32) = unat (of_nat (layout_size l) :: u32)" by simp
    then have "layout_size l = n + 5" using n size by (simp only: unsigned_of_nat) (simp add: take_bit_nat_eq_self)
    moreover have "immediate_offset i = 0" using True i2(6) io by (subst i3(3)) simp
    ultimately show ?thesis by simp
  next
    case False
    then have "immediate_offset i3 = ucast (of_nat (n + 5) :: u32)" using keeps by auto
    then show ?thesis using narrow_offset [of "n + 5"] n by (subst (2) i3(3)) simp
  qed
  moreover have "insn_flags i = insn_flags i2" "mem_op i = mem_op i2" "displacement_offset i = displacement_offset i2"
    using keeps by (subst i3(3), simp)+
  ultimately show ?thesis using dec i2 n5 by auto
qed

lemma small_offset: "n \<le> 20 \<Longrightarrow> unat (of_nat n :: u8) = n" "n \<le> 20 \<Longrightarrow> unat (of_nat n :: u32) = n"
  by (simp_all add: unsigned_of_nat take_bit_nat_eq_self)

lemma small_difference: "m \<le> n \<Longrightarrow> n \<le> 20 \<Longrightarrow> unat ((of_nat n :: u32) - ucast (of_nat m :: u8)) = n - m"
proof -
  assume "m \<le> n" "n \<le> 20"
  moreover from this have "(ucast (of_nat m :: u8) :: u32) = of_nat m" by (simp add: word_unat_eq_iff unsigned_ucast_eq unsigned_of_nat take_bit_nat_eq_self)
  moreover have "(of_nat n :: u32) - of_nat m = of_nat (n - m)" using \<open>m \<le> n\<close> by simp
  ultimately show ?thesis by (simp only: small_offset)
qed


section \<open>Near conditional jumps\<close>

lemma two_byte_jcc: "c < 16 \<Longrightarrow> \<exists>x. x86_opcode_map_two_byte ! (0x80 + c) = op1 x ''Jz''"
  using two_byte_nth [of 8 c]
  by (auto simp: two_byte_80_def foreach_x86_condition_def simp del: list.map)

lemma near_jcc_entry:
  fixes op :: u8
  assumes "0x80 \<le> op \<and> op \<le> 0x8F"
  defines "e \<equiv> x86_opcode_map_two_byte ! unat op"
  shows "\<not> x86_insn_has_modrm_byte e \<and> x86_insn_has_immediate e \<and> imm_type e = CHR ''z'' \<and> spec_group e = 0"
proof -
  have "unat op = 0x80 + (unat op - 0x80)" "unat op - 0x80 < 16" using assms(1) by (auto simp: word_le_nat_alt)
  then obtain x where "e = op1 x ''Jz''" using two_byte_jcc unfolding e_def by metis
  then show ?thesis by (simp add: spec_eval)
qed

lemma near_jcc_plain:
  fixes op :: u8
  assumes "0x80 \<le> op \<and> op \<le> 0x8F"
  shows "\<not> (0x70 \<le> op \<and> op \<le> 0x7F)" "op \<noteq> 0xEB" "op \<noteq> 0xE8" "op \<noteq> 0xE9" "\<not> (0xE0 \<le> op \<and> op \<le> 0xE2)" "op \<noteq> 0xE3"
  using assms by (auto simp: word_le_nat_alt)

lemma decode_near_jcc:
  assumes "13 \<le> length bs" "0x80 \<le> op \<and> op \<le> 0x8F"
  shows "\<exists>i. x86_insn_decode zero_insn (0x0F # op # bs) x64_conf = Inr i \<and> insn_length i = 6 \<and> primary_opcode i = op \<and> insn_flags i = 0"
proof -
  let ?b = "0x0F # op # bs"
  let ?l = "layout x64_conf ?b"
  have len: "15 \<le> length ?b" using assms(1) by simp
  define e where "e = x86_opcode_map_two_byte ! unat op"
  have e: "\<not> x86_insn_has_modrm_byte e" "x86_insn_has_immediate e" "imm_type e = CHR ''z''" "spec_group e = 0"
    using near_jcc_entry [OF assms(2)] by (simp_all add: e_def)
  have esc: "legacy_prefix 0x0F = 0" "\<not> is_rex x64_conf 0x0F" by (simp_all add: legacy_prefix_def is_rex_def)
  have p: "prefix_len x64_conf (take 15 ?b) = 0" "legacy_bytes (take 15 ?b) = []" "rex_byte x64_conf (take 15 ?b) = None"
    by (simp_all add: take_Cons' esc)
  have w: "window ?b ! 0 = 0x0F" "window ?b ! Suc 0 = op" by (simp_all add: window_def take_Cons')
  have spec: "raw_spec 0x0F op = e" "group_entry e mrm = e" for mrm using e(4) by (simp_all add: raw_spec_def group_entry_def e_def)
  have lay: "lay_modrm_at ?l = 2" "lay_spec ?l = e" "lay_modrm_len ?l = 0" "lay_raw ?l = e" "lay_imm_bits ?l = 32"
    unfolding layout_def Let_def p w by (simp_all add: w opcode_len_def spec e imm_bits_def operand_bits_def)
  have sse: "\<not> 19 < spec_group (lay_raw ?l)" unfolding lay by (simp add: e)
  obtain i where i: "x86_insn_decode zero_insn ?b x64_conf = Inr i" "insn_length i = of_nat (layout_size ?l)" "primary_opcode i = window ?b ! (lay_modrm_at ?l - 1)"
    using decode_ok [OF len _ _ sse] p(1) by (auto simp: flat_mode_def x64_conf_def)
  have no: "\<not> x86_insn_has_modrm_byte (lay_spec ?l)" unfolding lay by (rule e(1))
  have f: "insn_flags (head_insn x64_conf ?b) = 0" unfolding head_insn_def Let_def p by (simp add: set_rex_def zero_insn_def)
  let ?rd = "forward (start_reader ?b) (lay_modrm_at ?l)"
  have imm: "x86_insn_has_immediate (insn_spec (head_insn x64_conf ?b))" using e(2) by (simp only: head_insn_def Let_def lay(2)) simp
  have "rbind (x86_insn_decode_immediate ?rd (head_insn x64_conf ?b) x64_conf) (\<lambda>(rd, insn).
      rbind (reader_offset rd) (\<lambda>len. Inr (insn\<lparr>insn_length := len\<rparr>))) = Inr i"
    using i(1) decode_head [OF len _ sse] p(1) no imm by simp
  then have "insn_flags i = 0"
    using immediate_keeps [of ?rd "head_insn x64_conf ?b" x64_conf] f by (fastforce simp: rbind_eq_Inr)
  then show ?thesis using i w(2) by (auto simp: layout_size_def lay imm_len_def)
qed

text \<open>
  A near conditional jump (\<open>0F 80\<close> to \<open>0F 8F\<close>) in a prologue is not relocated: it is copied with its displacement, so that its target
  moves with the code, by the distance between the new and the old place.
\<close>
lemma x64_near_jcc_not_relocated:
  assumes "13 \<le> length bs" "0x80 \<le> op \<and> op \<le> 0x8F"
  shows "\<exists>i a' t. x86_insn_decode zero_insn (0x0F # op # bs) x64_conf = Inr i \<and> x64_relocate_one a i (0x0F # op # bs) orig relo = Inr a' \<and>
    x64_buffer a' = x64_buffer a @ take 6 (0x0F # op # bs) \<and>
    branch_target (0x0F # op # bs) orig = Some t \<and> branch_target (take 6 (0x0F # op # bs)) relo = Some (t + (relo - orig))"
proof -
  obtain i where i: "x86_insn_decode zero_insn (0x0F # op # bs) x64_conf = Inr i" "insn_length i = 6" "primary_opcode i = op" "insn_flags i = 0"
    using decode_near_jcc [OF assms] by blast
  have one: "x64_relocate_one a i (0x0F # op # bs) orig relo = Inr (x64_EmitBuffer a (take 6 (0x0F # op # bs)))"
    using near_jcc_plain [OF assms(2)] i(2-4) by (auto simp: x64_relocate_one_def Let_def)
  let ?v = "of_le_bytes (take 4 bs) :: u32"
  have v: "le_bytes 4 ?v = take 4 bs" using assms(1) by (intro le_bytes_of_le_bytes_4) simp
  have target: "branch_target (0x0F # op # le_bytes 4 ?v @ r) ip = Some (ip + 6 + scast ?v)" for r ip
    using pdisp32_le [of ?v r] assms(2) by (simp add: branch_parse del: le_bytes.simps)
  have "branch_target (0x0F # op # bs) orig = Some (orig + 6 + scast ?v)" using target [of "drop 4 bs" orig] by (simp add: v)
  moreover have "branch_target (take 6 (0x0F # op # bs)) relo = Some (orig + 6 + scast ?v + (relo - orig))"
    using target [of "[]" relo] by (simp add: v)
  ultimately show ?thesis using i(1) one by (auto simp: x64_EmitBuffer_def)
qed

section \<open>Witnesses\<close>

theorem x64_relocated_rel32_target_witness:
  "\<exists>i a'. x86_insn_decode zero_insn (0xE8 # [0x10, 0, 0, 0] @ replicate 10 0x90) x64_conf = Inr i \<and>
    x64_relocate_one (x64_new 0x402000) i (0xE8 # [0x10, 0, 0, 0] @ replicate 10 0x90) 0x401000 0x402000 = Inr a' \<and>
    branch_target (x64_buffer a') 0x402000 = Some 0x401015"
  using x64_relocated_rel32_target [of "[0x10, 0, 0, 0] @ replicate 10 0x90" "0xE8" "0x401000" "0x402000" "x64_new 0x402000"]
    branch_target_rel32 [of "0xE8" "0x10" "replicate 10 0x90" "0x401000"]
  by (auto simp: near_def x64_new_def le_bytes_numeral)

theorem x64_relocated_jcc_off_by_four_witness:
  "\<exists>i a'. x86_insn_decode zero_insn (0x74 # 0x10 # replicate 13 0x90) x64_conf = Inr i \<and>
    x64_relocate_one (x64_new 0x402000) i (0x74 # 0x10 # replicate 13 0x90) 0x401000 0x402000 = Inr a' \<and>
    branch_target (x64_buffer a') 0x402000 = Some 0x401016"
  using x64_relocated_jcc_off_by_four [of "replicate 13 0x90" "0x74" "0x401000" "0x10" "0x402000" "x64_new 0x402000"]
  by (auto simp: near_def x64_new_def)


end
