(* ===== verification/X64Prologue.thy ===== *)
theory X64Prologue
  imports X64Relocation
begin

text \<open>
  What the code that the x64 relocator places in memory does when it runs. The instructions of the original prologue are read with
  the disassembler of \<open>X64Machine\<close> and executed as a block at their old place; the relocated code is executed at its new place.
\<close>

section \<open>Running a relocated prologue\<close>

text \<open>An instruction the relocator copies, and one whose effect does not depend on where it stands.\<close>

definition copied :: "x86_insn_decode_t \<Rightarrow> bool" where
  "copied insn \<longleftrightarrow> (let opc = primary_opcode insn in
     \<not> (0x70 \<le> opc \<and> opc \<le> 0x7F) \<and> opc \<noteq> 0xEB \<and>
     \<not> (insn_flags insn AND X86_INSN_DECODE_FLAG_IP_RELATIVE \<noteq> 0 \<and> base (mem (mem_op insn)) = ia32e_code RIP) \<and>
     opc \<noteq> 0xE8 \<and> opc \<noteq> 0xE9 \<and> \<not> (0xE0 \<le> opc \<and> opc \<le> 0xE2) \<and> opc \<noteq> 0xE3)"

fun fixed_rm :: "x64_rm \<Rightarrow> bool" where
  "fixed_rm (RM_reg r) = True"
| "fixed_rm (RM_mem (EA bs idx d)) = True"
| "fixed_rm (RM_mem (EA_rip d)) = False"

fun fixed_insn :: "x64_insn \<Rightarrow> bool" where
  "fixed_insn I_nop = True"
| "fixed_insn (I_mov_store rm r) = fixed_rm rm"
| "fixed_insn (I_mov_load r rm) = fixed_rm rm"
| "fixed_insn (I_alu f rm v) = fixed_rm rm"
| "fixed_insn (I_push r) = True"
| "fixed_insn (I_pop r) = True"
| "fixed_insn (I_push_rm rm) = fixed_rm rm"
| "fixed_insn I_pushf = True"
| "fixed_insn I_popf = True"
| "fixed_insn i = False"

text \<open>
  The instructions of a prologue, as the architecture reads them, when each is of this kind and the decoder finds the same length.
\<close>

function prologue_listing :: "(u64 \<Rightarrow> u8) \<Rightarrow> u64 \<Rightarrow> nat \<Rightarrow> nat \<Rightarrow> (nat \<times> x64_insn \<times> nat) list option" where
  "prologue_listing m buf sz c =
    (if c < sz
     then (case x86_insn_decode zero_insn (peek m (buf + of_nat c) 20) x64_conf of
         Inl e \<Rightarrow> None
       | Inr insn \<Rightarrow> (case x64_disasm (peek m (buf + of_nat c) (unat (insn_length insn))) of
           None \<Rightarrow> None
         | Some (i, l) \<Rightarrow>
             if l = unat (insn_length insn) \<and> l \<le> 15 \<and> copied insn \<and> fixed_insn i
             then map_option (\<lambda>is. (c, i, l) # is) (prologue_listing m buf sz (c + unat (insn_length insn)))
             else None))
     else Some [])"
  by pat_completeness auto
termination
  by (relation "measure (\<lambda>(m, buf, sz, c). sz - c)") (auto dest: decode_progress)

declare prologue_listing.simps [simp del]

lemma relocate_one_copied: "copied insn \<Longrightarrow> x64_relocate_one a insn bs o' r = Inr (x64_EmitBuffer a (take (unat (insn_length insn)) bs))"
  by (auto simp: copied_def x64_relocate_one_def Let_def)

text \<open>Moving the instruction pointer commutes with such instructions.\<close>

lemma fixed_rm_moves:
  "fixed_rm rm \<Longrightarrow> rm_read rm (s\<lparr>x_rip := v\<rparr>) = rm_read rm s"
  "fixed_rm rm \<Longrightarrow> rm_write rm w (s\<lparr>x_rip := v\<rparr>) = (rm_write rm w s)\<lparr>x_rip := v\<rparr>"
  by (induction rm rule: fixed_rm.induct) (simp_all split: option.split)

lemma fixed_effect:
  "fixed_insn i \<Longrightarrow> x64_effect i (s\<lparr>x_rip := v\<rparr>) = (x64_effect i s)\<lparr>x_rip := v\<rparr>"
  by (induction i rule: fixed_insn.induct) (simp_all add: fixed_rm_moves x_push_def x_drop_def x_top_def Let_def)

lemma fixed_exec:
  assumes "fixed_insn i"
  shows "x_rip (x64_exec i l s) = x_rip s + of_nat l" "x64_exec i l (s\<lparr>x_rip := v\<rparr>) = (x64_exec i l s)\<lparr>x_rip := v + of_nat l\<rparr>"
  using fixed_effect [OF assms] by (simp_all add: x64_exec_def)

lemma fixed_ea: "fixed_rm (RM_mem ea) \<Longrightarrow> ea_addr ea (s\<lparr>x_rip := v\<rparr>) = ea_addr ea s"
  by (cases ea) (simp_all split: option.split)

lemma fixed_writes: "fixed_insn i \<Longrightarrow> writes_within p n i (s\<lparr>x_rip := v\<rparr>) = writes_within p n i s"
  by (induction p n i s rule: writes_within.induct) (simp_all add: fixed_ea)

definition listing_size :: "(nat \<times> x64_insn \<times> nat) list \<Rightarrow> nat" where
  "listing_size is = sum_list (map (\<lambda>(off, i, l). l) is)"

lemma block_moves:
  assumes "list_all (\<lambda>(off, i, l). fixed_insn i) is" "x64_block b p n is s = Some t"
  shows "x_rip t = x_rip s + of_nat (listing_size is)"
    "x64_block b' p n is (s\<lparr>x_rip := x_rip s - b + b'\<rparr>) = Some (t\<lparr>x_rip := x_rip t - b + b'\<rparr>)"
proof -
  have "x_rip t = x_rip s + of_nat (listing_size is) \<and> x64_block b' p n is (s\<lparr>x_rip := x_rip s - b + b'\<rparr>) = Some (t\<lparr>x_rip := x_rip t - b + b'\<rparr>)"
    using assms
  proof (induction "is" arbitrary: s)
    case (Cons e "is")
    obtain off i l where e: "e = (off, i, l)" by (cases e)
    have f: "fixed_insn i" and w: "x_rip s = b + of_nat off" "writes_within p n i (s\<lparr>x_rip := x_rip s + of_nat l\<rparr>)"
      "x64_block b p n is (x64_exec i l s) = Some t" "list_all (\<lambda>(off, i, l). fixed_insn i) is"
      using Cons.prems by (auto simp: e split: if_splits)
    show ?case using Cons.IH [OF w(4,3)] w(1,2) f
      by (simp add: e listing_size_def fixed_exec fixed_writes algebra_simps)
  qed (simp add: listing_size_def)
  then show "x_rip t = x_rip s + of_nat (listing_size is)"
    "x64_block b' p n is (s\<lparr>x_rip := x_rip s - b + b'\<rparr>) = Some (t\<lparr>x_rip := x_rip t - b + b'\<rparr>)" by auto
qed

text \<open>The relocated code of such a prologue is the prologue itself.\<close>

lemma prologue_relocated:
  "prologue_listing m buf sz c = Some is \<Longrightarrow> length (x64_buffer a) = c \<Longrightarrow> r = relo + of_nat c \<Longrightarrow>
    \<exists>a'. x64_relocate_loop m buf sz relo c o' r a = Inr (o' + of_nat (listing_size is), relo + of_nat (c + listing_size is), a') \<and>
    x64_buffer a' = x64_buffer a @ peek m (buf + of_nat c) (listing_size is) \<and> x64_realized_address a' = x64_realized_address a \<and>
    list_all (\<lambda>(off, i, l). fixed_insn i) is \<and> listing_of (x64_buffer a' @ post) is"
proof (induction m buf sz c arbitrary: "is" o' r a rule: prologue_listing.induct)
  case (1 m buf sz c)
  show ?case
  proof (cases "c < sz")
    case True
    let ?b = "peek m (buf + of_nat c) 20"
    obtain insn i l is' where d: "x86_insn_decode zero_insn ?b x64_conf = Inr insn"
        "x64_disasm (peek m (buf + of_nat c) (unat (insn_length insn))) = Some (i, l)"
      and l: "l = unat (insn_length insn)" "l \<le> 15" "copied insn" "fixed_insn i"
      and rec: "prologue_listing m buf sz (c + unat (insn_length insn)) = Some is'" and "is": "is = (c, i, l) # is'"
      using "1.prems"(1) True by (subst (asm) prologue_listing.simps) (auto split: sum.splits option.splits if_splits)
    let ?a = "x64_EmitBuffer a (take l ?b)" and ?n = "listing_size is'"
    have tk: "take l ?b = peek m (buf + of_nat c) l" using l(2) by (simp add: peek_take)
    have ul: "ucast (insn_length insn) = (of_nat l :: u64)" by (simp add: l(1) unsigned_ucast_eq of_nat_unat)
    have len: "length (x64_buffer ?a) = c + l" using "1.prems"(2) l(2) by (simp add: x64_EmitBuffer_def)
    have c: "l = unat (insn_length insn) \<and> l \<le> 15 \<and> copied insn \<and> fixed_insn i" using l by simp
    from "1.IH" [OF True d(1,2) refl c rec len [unfolded l(1)] refl, of "o' + ucast (insn_length insn)"]
    obtain a' where a': "x64_relocate_loop m buf sz relo (c + l) (o' + of_nat l) (relo + of_nat (c + l)) ?a =
        Inr (o' + of_nat l + of_nat ?n, relo + of_nat (c + l + ?n), a')" "x64_realized_address a' = x64_realized_address ?a"
        "x64_buffer a' = x64_buffer ?a @ peek m (buf + of_nat (c + l)) ?n" "list_all (\<lambda>(off, i, l). fixed_insn i) is'"
        "listing_of (x64_buffer a' @ post) is'" unfolding l(1) [symmetric] ul by blast
    have step: "x64_relocate_loop m buf sz relo c o' r a = x64_relocate_loop m buf sz relo (c + l) (o' + of_nat l) (relo + of_nat (c + l)) ?a"
      using True d(1) relocate_one_copied [OF l(3)] len by (subst relocate_loop_unfold) (simp add: l(1) [symmetric] ul x64_ip_offset_def)
    have bytes: "x64_buffer a' = x64_buffer a @ peek m (buf + of_nat c) l @ peek m (buf + of_nat (c + l)) ?n"
      using a'(3) tk by (simp add: x64_EmitBuffer_def)
    then have "x64_disasm (take 15 (drop c (x64_buffer a' @ post))) = Some (i, l)"
      using disasm_append [OF d(2) [folded l(1)]] "1.prems"(2) l(2) by simp
    then have listing: "listing_of (x64_buffer a' @ post) is" using a'(5) by (simp add: "is" listing_of_def)
    have n: "listing_size is = l + ?n" by (simp add: "is" listing_size_def)
    have "x64_buffer a' = x64_buffer a @ peek m (buf + of_nat c) (l + ?n)" using bytes by (simp add: peek_append add.assoc)
    moreover have "x64_realized_address a' = x64_realized_address a" using a'(2) by (simp add: x64_EmitBuffer_def)
    moreover have "list_all (\<lambda>(off, i, l). fixed_insn i) is" using a'(4) l(4) by (simp add: "is")
    ultimately show ?thesis using step a'(1) listing n by (intro exI [of _ a']) (simp add: add.assoc)
  next
    case False
    then show ?thesis using "1.prems" by (simp add: prologue_listing.simps relocate_loop_unfold listing_size_def listing_of_def peek_def)
  qed
qed

text \<open>The jump back goes to the rest of the function.\<close>

lemma jump_back_code:
  assumes "x64_realized_address a + of_nat (length (x64_buffer a)) = r"
  shows "x64_buffer (x64_jump_back a o' r) = x64_buffer a @ [0xFF, 0x25, 0, 0, 0, 0] @ le_bytes 8 o'"
  using assms by (auto simp: x64_jump_back_def x64_JmpNearIndirect_def x64_EmitInt64_def x64_Emit_def x64_Emit1_def x64_EmitBuffer_def
      x64_CurrentIP_def x64_ip_offset_def Let_def algebra_simps le_bytes_numeral)

lemma jump_back_run:
  assumes "holds_code (x_mem s) (x_rip s) ([0xFF, 0x25, 0, 0, 0, 0] @ le_bytes 8 v)"
  shows "x64_run 1 s = Some (s\<lparr>x_rip := v\<rparr>)"
proof -
  let ?c = "[0xFF, 0x25, 0, 0, 0, 0] @ le_bytes 8 v"
  have "x64_disasm [0xFF, 0x25, 0, 0, 0, 0] = Some (I_jmp_rm (RM_mem (EA_rip 0)), 6)" by code_simp
  then have "x64_disasm (take 15 (drop 0 ?c)) = Some (I_jmp_rm (RM_mem (EA_rip 0)), 6)"
    using disasm_append [of "[0xFF, 0x25, 0, 0, 0, 0]" _ _ "le_bytes 8 v"] by (simp del: le_bytes.simps)
  from x64_run_code [OF assms _ this, of 0] have "x64_run 1 s = Some (s\<lparr>x_rip := load64 (x_mem s) (x_rip s + 6)\<rparr>)"
    by (simp add: x64_exec_def del: le_bytes.simps)
  moreover have "load64 (x_mem s) (x_rip s + 6) = v"
    using assms unfolding holds_code_append by (intro holds_code_word) simp
  ultimately show ?thesis by simp
qed

text \<open>What a successful relocation of such a prologue leaves in memory.\<close>

lemma prologue_placed:
  assumes "x64_GenRelocateCodeFixed env buf origin relocated st = Inr (RT_SUCCESS, origin', st')"
    and "raw_instruction_start relocated \<noteq> 0"
    and "prologue_listing (db_memory st) buf (unat (raw_instruction_size origin)) 0 = Some is"
  shows "\<exists>code. holds_code (db_memory st') (raw_instruction_start relocated)
        (code @ [0xFF, 0x25, 0, 0, 0, 0] @ le_bytes 8 (raw_instruction_start origin + of_nat (listing_size is))) \<and>
      length code = listing_size is \<and> listing_of (code @ post) is \<and> list_all (\<lambda>(off, i, l). fixed_insn i) is"
proof -
  let ?relo = "raw_instruction_start relocated" and ?orig = "raw_instruction_start origin" and ?n = "listing_size is"
  obtain a where a: "x64_relocate_loop (db_memory st) buf (unat (raw_instruction_size origin)) ?relo 0 ?orig ?relo (x64_new ?relo) =
      Inr (?orig + of_nat ?n, ?relo + of_nat ?n, a)" "x64_buffer a = peek (db_memory st) buf ?n" "x64_realized_address a = ?relo"
      "list_all (\<lambda>(off, i, l). fixed_insn i) is" "listing_of (x64_buffer a @ post) is"
    using prologue_relocated [OF assms(3), of "x64_new ?relo" ?relo ?relo ?orig post] by (auto simp: x64_new_def)
  let ?code = "x64_buffer a @ [0xFF, 0x25, 0, 0, 0, 0] @ le_bytes 8 (?orig + of_nat ?n)"
  have jb: "x64_buffer (x64_jump_back a (?orig + of_nat ?n) (?relo + of_nat ?n)) = ?code"
      "x64_realized_address (x64_jump_back a (?orig + of_nat ?n) (?relo + of_nat ?n)) = ?relo"
    using a(2,3) jump_back_code [of a "?relo + of_nat ?n"]
    by (simp_all add: x64_jump_back_def x64_JmpNearIndirect_def x64_EmitInt64_def x64_Emit_def x64_Emit1_def x64_EmitBuffer_def Let_def)
  let ?a = "x64_jump_back a (?orig + of_nat ?n) (?relo + of_nat ?n)"
  have "\<exists>c. FinalizeFromTurboAssembler env (x64_buffer ?a) (x64_realized_address ?a) st = Inr (c, st')"
    using assms(1) a(1) by (auto simp: x64_GenRelocateCodeFixed_def Let_def RT_FAILED_def RT_SUCCESS_def split: if_splits)
  then have "\<exists>ps. CodePatch ps ?relo ?code (db_memory st) = Inr (db_memory st')"
    unfolding jb using assms(2) by (auto simp: FinalizeFromTurboAssembler_def simp del: le_bytes.simps)
  then obtain ps where "CodePatch ps ?relo ?code (db_memory st) = Inr (db_memory st')" by blast
  then have "holds_code (db_memory st') ?relo ?code" by (rule CodePatch_holds)
  then show ?thesis using a(2,4,5) by (intro exI [of _ "x64_buffer a"]) simp
qed

text \<open>The code that is placed, run from its start: the instructions and then the jump back.\<close>

lemma placed_prologue_runs:
  assumes "holds_code (x_mem s) relo (bs @ [0xFF, 0x25, 0, 0, 0, 0] @ le_bytes 8 (orig + of_nat (listing_size is)))"
    and "length bs = listing_size is" "listing_of (bs @ [0xFF, 0x25, 0, 0, 0, 0] @ le_bytes 8 (orig + of_nat (listing_size is))) is"
    and "list_all (\<lambda>(off, i, l). fixed_insn i) is" "x_rip s = orig" "x64_block orig p n is s = Some t" "apart p n relo (listing_size is + 14)"
  shows "\<exists>k. x64_run k (s\<lparr>x_rip := relo\<rparr>) = Some t"
proof -
  let ?n = "listing_size is"
  let ?jb = "[0xFF, 0x25, 0, 0, 0, 0] @ le_bytes 8 (orig + of_nat ?n)" and ?s = "s\<lparr>x_rip := relo\<rparr>" and ?t = "t\<lparr>x_rip := relo + of_nat ?n\<rparr>"
  note moved = block_moves [OF assms(4,6)]
  have t: "x_rip t = orig + of_nat ?n" using moved(1) assms(5) by simp
  have block: "x64_block relo p n is ?s = Some ?t" using moved(2) [of relo] assms(5) t by (simp add: add.commute)
  have len: "length (bs @ ?jb) = ?n + 14" using assms(2) by (simp del: le_bytes.simps)
  note run = x64_block_run [OF block assms(3), unfolded len, OF _ assms(7)]
  have held: "holds_code (x_mem ?s) relo (bs @ ?jb)" using assms(1) by simp
  have "holds_code (x_mem ?t) (x_rip ?t) ?jb" using run(2) [OF held] unfolding holds_code_append [of _ _ bs] assms(2) by simp
  from jump_back_run [OF this] have "x64_run 1 ?t = Some t" using t by simp
  then have "x64_run (length is + 1) ?s = Some t" by (simp only: x64_run_add [OF run(1) [OF held]])
  then show ?thesis by blast
qed


definition demo_prologue :: "u64 \<Rightarrow> u8" where
  "demo_prologue = poke (\<lambda>_. 0x90) 0x1000 [0x55, 0x48, 0x89, 0xE5, 0x48, 0x83, 0xEC, 0x20]"

definition demo_prologue_env :: hook_env where
  "demo_prologue_env = \<lparr>hv_mmap = (\<lambda>_ _ _ _. None), hv_page_size = 4096, hv_new_instance = 0, hv_new_node = 0\<rparr>"

definition demo_prologue_state :: dobby where
  "demo_prologue_state = \<lparr>db_memory = demo_prologue, db_arena = None,
     db_interceptor = \<lparr>ic_head = 0, ic_links = \<lparr>nxt = (\<lambda>_. 0), prv = (\<lambda>_. 0)\<rparr>, ic_entry = (\<lambda>_. new_HookEntry)\<rparr>\<rparr>"

lemma demo_prologue_listing:
  "prologue_listing demo_prologue 0x1000 8 0 = Some [(0, I_push 5, 1), (1, I_mov_store (RM_reg 5) 4, 3), (4, I_alu ALU_sub (RM_reg 4) 32, 4)]"
  by code_simp


section \<open>Retries\<close>

text \<open>The bytes of a prologue read as its listing wherever they stand.\<close>

lemma prologue_bytes:
  assumes "prologue_listing m buf sz 0 = Some is"
  shows "listing_of (peek m buf (listing_size is) @ post) is" "list_all (\<lambda>(off, i, l). fixed_insn i) is"
  using prologue_relocated [OF assms, of "x64_new 0" 0 0 0 post] by (auto simp: x64_new_def)

lemma peek_sub:
  assumes "peek m buf n = peek m' buf n" "c + k \<le> n"
  shows "peek m (buf + of_nat c) k = peek m' (buf + of_nat c) k"
proof -
  have "peek m (buf + of_nat c) k = take k (drop c (peek m buf n))" "peek m' (buf + of_nat c) k = take k (drop c (peek m' buf n))"
    using assms(2) by (simp_all add: peek_drop peek_take)
  then show ?thesis using assms(1) by simp
qed

lemma prologue_listing_cong:
  "prologue_listing m buf sz c = Some is \<Longrightarrow> peek m buf 64 = peek m' buf 64 \<Longrightarrow> sz \<le> 44 \<Longrightarrow> prologue_listing m' buf sz c = Some is"
proof (induction m buf sz c arbitrary: "is" rule: prologue_listing.induct)
  case (1 m buf sz c)
  show ?case
  proof (cases "c < sz")
    case True
    have b: "peek m (buf + of_nat c) k = peek m' (buf + of_nat c) k" if "k \<le> 20" for k
      using peek_sub [OF "1.prems"(2)] True "1.prems"(3) that by simp
    obtain insn i is' where d: "x86_insn_decode zero_insn (peek m (buf + of_nat c) 20) x64_conf = Inr insn"
        "x64_disasm (peek m (buf + of_nat c) (unat (insn_length insn))) = Some (i, unat (insn_length insn))"
      and l: "unat (insn_length insn) \<le> 15" "copied insn" "fixed_insn i"
      and rec: "prologue_listing m buf sz (c + unat (insn_length insn)) = Some is'" and "is": "is = (c, i, unat (insn_length insn)) # is'"
      using "1.prems"(1) True by (subst (asm) prologue_listing.simps) (auto split: sum.splits option.splits if_splits)
    have "prologue_listing m' buf sz (c + unat (insn_length insn)) = Some is'"
      using "1.IH" [OF True d refl _ rec "1.prems"(2,3)] l by simp
    then show ?thesis using True d l b [of 20] b [of "unat (insn_length insn)"] by (subst prologue_listing.simps) (simp add: "is")
  next
    case False
    then show ?thesis using "1.prems"(1) by (simp add: prologue_listing.simps)
  qed
qed

text \<open>With the size of its instructions as its size, a prologue has the same instructions.\<close>

lemma prologue_listing_size:
  "prologue_listing m buf sz c = Some is \<Longrightarrow> sz \<le> c + listing_size is \<and> c + listing_size is \<le> max c (sz + 14) \<and>
    prologue_listing m buf (c + listing_size is) c = Some is"
proof (induction m buf sz c arbitrary: "is" rule: prologue_listing.induct)
  case (1 m buf sz c)
  show ?case
  proof (cases "c < sz")
    case True
    obtain insn i is' where d: "x86_insn_decode zero_insn (peek m (buf + of_nat c) 20) x64_conf = Inr insn"
        "x64_disasm (peek m (buf + of_nat c) (unat (insn_length insn))) = Some (i, unat (insn_length insn))"
      and l: "unat (insn_length insn) \<le> 15" "copied insn" "fixed_insn i"
      and rec: "prologue_listing m buf sz (c + unat (insn_length insn)) = Some is'" and "is": "is = (c, i, unat (insn_length insn)) # is'"
      using "1.prems"(1) True by (subst (asm) prologue_listing.simps) (auto split: sum.splits option.splits if_splits)
    have n: "c + listing_size is = c + unat (insn_length insn) + listing_size is'" by (simp add: "is" listing_size_def)
    have p: "0 < unat (insn_length insn)" using decode_progress [OF d(1)] by simp
    note ih = "1.IH" [OF True d refl _ rec, folded n]
    then have "prologue_listing m buf (c + listing_size is) c = Some is"
      using d l p by (subst prologue_listing.simps) (simp add: "is" listing_size_def)
    then show ?thesis using ih l True n p by (auto simp: add.assoc)
  next
    case False
    then show ?thesis using "1.prems"(1) by (simp add: prologue_listing.simps listing_size_def)
  qed
qed

text \<open>One attempt to relocate such a prologue: it fails and changes nothing, or places its instructions and the jump back.\<close>

abbreviation jump_back :: "u64 \<Rightarrow> u8 list" where
  "jump_back v \<equiv> [0xFF, 0x25, 0, 0, 0, 0] @ le_bytes 8 v"

lemma fixed_prologue:
  assumes "x64_GenRelocateCodeFixed env buf origin relocated st = Inr (ret, origin', st')"
    and "prologue_listing (db_memory st) buf (unat (raw_instruction_size origin)) 0 = Some is" "listing_size is < 2 ^ 31"
  shows "origin' = \<lparr>chunk_address = raw_instruction_start origin, chunk_length = of_nat (listing_size is)\<rparr>"
    "ret \<noteq> RT_SUCCESS \<Longrightarrow> st' = st"
    "ret = RT_SUCCESS \<Longrightarrow> raw_instruction_start relocated \<noteq> 0 \<Longrightarrow>
      st' = st\<lparr>db_memory := poke (db_memory st) (raw_instruction_start relocated)
        (peek (db_memory st) buf (listing_size is) @ jump_back (raw_instruction_start origin + of_nat (listing_size is)))\<rparr>"
proof -
  let ?relo = "raw_instruction_start relocated" and ?orig = "raw_instruction_start origin" and ?n = "listing_size is"
  obtain a where a: "x64_relocate_loop (db_memory st) buf (unat (raw_instruction_size origin)) ?relo 0 ?orig ?relo (x64_new ?relo) =
      Inr (?orig + of_nat ?n, ?relo + of_nat ?n, a)" "x64_buffer a = peek (db_memory st) buf ?n" "x64_realized_address a = ?relo"
    using prologue_relocated [OF assms(2), of "x64_new ?relo" ?relo ?relo ?orig] by (auto simp: x64_new_def)
  let ?a = "x64_jump_back a (?orig + of_nat ?n) (?relo + of_nat ?n)"
  have jb: "x64_buffer ?a = peek (db_memory st) buf ?n @ jump_back (?orig + of_nat ?n)" "x64_realized_address ?a = ?relo"
    using a(2,3) jump_back_code [of a "?relo + of_nat ?n"]
    by (simp_all add: x64_jump_back_def x64_JmpNearIndirect_def x64_EmitInt64_def x64_Emit_def x64_Emit1_def x64_EmitBuffer_def Let_def)
  show "origin' = \<lparr>chunk_address = ?orig, chunk_length = of_nat ?n\<rparr>"
    using assms(1) a(1) small_of_nat [OF assms(3)]
    by (auto simp: x64_GenRelocateCodeFixed_def Let_def re_init_region_range_def init_region_range_def split: if_splits)
  show "st' = st" if "ret \<noteq> RT_SUCCESS"
    using assms(1) a(1) that by (auto simp: x64_GenRelocateCodeFixed_def Let_def split: if_splits)
  show "st' = st\<lparr>db_memory := poke (db_memory st) ?relo (peek (db_memory st) buf ?n @ jump_back (?orig + of_nat ?n))\<rparr>"
    if r: "ret = RT_SUCCESS" "?relo \<noteq> 0"
  proof -
    have "\<exists>c. FinalizeFromTurboAssembler env (x64_buffer ?a) (x64_realized_address ?a) st = Inr (c, st')"
      using assms(1) a(1) r(1) by (auto simp: x64_GenRelocateCodeFixed_def Let_def RT_FAILED_def RT_SUCCESS_def split: if_splits)
    then obtain m where m: "CodePatch (hv_page_size env) ?relo (x64_buffer ?a) (db_memory st) = Inr m" "st' = st\<lparr>db_memory := m\<rparr>"
      unfolding jb(2) using r(2) by (auto simp: FinalizeFromTurboAssembler_def simp del: le_bytes.simps)
    from m(1) have "m = poke (db_memory st) ?relo (x64_buffer ?a)" by (auto simp: CodePatch_def Let_def split: if_splits)
    then show ?thesis using m(2) unfolding jb by simp
  qed
qed

lemmas try_again_induct = x64_try_again.raw_induct [rotated, consumes 1, case_names round]

text \<open>However often the chunk is too small: the last attempt relocates the prologue of the function.\<close>

lemma try_again_prologue:
  "x64_try_again envs n buf origin relocated sz st = Some res \<Longrightarrow> res = Inr (origin', relocated', st') \<Longrightarrow>
    raw_instruction_start relocated' \<noteq> 0 \<Longrightarrow> raw_instruction_start origin = A \<Longrightarrow>
    prologue_listing (db_memory st) buf (unat (raw_instruction_size origin)) 0 = Some is \<Longrightarrow> listing_size is < 2 ^ 31 \<Longrightarrow>
    origin' = \<lparr>chunk_address = A, chunk_length = of_nat (listing_size is)\<rparr> \<and> db_interceptor st' = db_interceptor st \<and>
    db_memory st' = poke (db_memory st) (raw_instruction_start relocated') (peek (db_memory st) buf (listing_size is) @ jump_back (A + of_nat (listing_size is)))"
proof (induction envs n buf origin relocated sz st res rule: try_again_induct)
  case (round f envs n buf origin relocated sz st res)
  note listing = round.prems(4)
  obtain oc st1 where pre: "x64_prealloc (envs n) relocated sz st = (oc, st1)" by (cases "x64_prealloc (envs n) relocated sz st")
  have pm: "db_memory st1 = db_memory st" "db_interceptor st1 = db_interceptor st"
    using pre by (auto simp: x64_prealloc_def split: prod.splits if_splits)
  show ?case
  proof (cases oc)
    case None
    then have "raw_instruction_start relocated = 0" using pre by (auto simp: x64_prealloc_def split: if_splits)
    then show ?thesis using round.hyps round.prems(1,2) pre None by auto
  next
    case (Some c)
    obtain ret o1 st2 where fixed: "x64_GenRelocateCodeFixed (envs n) buf origin c st1 = Inr (ret, o1, st2)"
      using round.hyps round.prems(1) pre Some by (auto split: sum.splits)
    note fx = fixed_prologue [OF fixed, unfolded pm(1), OF listing round.prems(5)]
    show ?thesis
    proof (cases "ret = RT_SUCCESS")
      case True
      then have "relocated' = c" "origin' = o1" "st' = st2" using round.hyps round.prems(1) pre Some fixed by auto
      then show ?thesis using fx(1,3) True round.prems(2,3) pm by simp
    next
      case False
      have "f envs (n + 1) buf o1 (re_init_region_range 0 0) (sz + 16) st2 = Some res"
        using round.hyps pre Some fixed False by auto
      from round.IH [OF this round.prems(1,2)] show ?thesis
        using fx(1,2) False pm round.prems(3,5) prologue_listing_size [OF listing]
        by (simp add: raw_instruction_start_def raw_instruction_size_def unsigned_of_nat take_bit_nat_eq_self)
    qed
  qed
qed

text \<open>It succeeds when the chunk is big enough and does not cross a page.\<close>

lemma fixed_prologue_succeeds:
  assumes "prologue_listing (db_memory st) buf (unat (raw_instruction_size origin)) 0 = Some is" "listing_size is < 2 ^ 31"
    and "raw_instruction_start relocated \<noteq> 0" "of_nat (listing_size is + 14) \<le> raw_instruction_size relocated"
      "in_page (hv_page_size env) (raw_instruction_start relocated) (listing_size is + 14)"
  shows "\<exists>origin' st'. x64_GenRelocateCodeFixed env buf origin relocated st = Inr (RT_SUCCESS, origin', st')"
proof -
  let ?relo = "raw_instruction_start relocated" and ?orig = "raw_instruction_start origin" and ?n = "listing_size is"
  obtain a where a: "x64_relocate_loop (db_memory st) buf (unat (raw_instruction_size origin)) ?relo 0 ?orig ?relo (x64_new ?relo) =
      Inr (?orig + of_nat ?n, ?relo + of_nat ?n, a)" "x64_buffer a = peek (db_memory st) buf ?n" "x64_realized_address a = ?relo"
    using prologue_relocated [OF assms(1), of "x64_new ?relo" ?relo ?relo ?orig] by (auto simp: x64_new_def)
  let ?a = "x64_jump_back a (?orig + of_nat ?n) (?relo + of_nat ?n)"
  have jb: "length (x64_buffer ?a) = ?n + 14" "x64_realized_address ?a = ?relo"
    using a(2,3) jump_back_code [of a "?relo + of_nat ?n"]
    by (simp_all add: x64_jump_back_def x64_JmpNearIndirect_def x64_EmitInt64_def x64_Emit_def x64_Emit1_def x64_EmitBuffer_def Let_def)
  have "CodePatch (hv_page_size env) ?relo (x64_buffer ?a) (db_memory st) = Inr (poke (db_memory st) ?relo (x64_buffer ?a))"
    using assms(5) unfolding jb(1) [symmetric] by (rule CodePatch_in_page)
  then show ?thesis
    using a(1) jb assms(3) not_less [THEN iffD2, OF assms(4)] by (simp add: x64_GenRelocateCodeFixed_def FinalizeFromTurboAssembler_def Let_def del: le_bytes.simps)
qed

text \<open>The first attempt succeeds with a chunk of 32 bytes that holds the prologue and the jump back.\<close>

lemma first_attempt_succeeds:
  assumes "MemoryArena_AllocateCodeChunk (hv_mmap (envs 0)) (hv_page_size (envs 0)) 32 (db_arena st) = (Some c, ar)"
    and "prologue_listing (db_memory st) buf (unat (raw_instruction_size origin)) 0 = Some is" "listing_size is + 14 \<le> 32"
    and "chunk_address c \<noteq> 0" "chunk_length c = 32" "in_page (hv_page_size (envs 0)) (chunk_address c) (listing_size is + 14)"
  shows "\<exists>origin' db. x64_GenRelocateCodeAndBranch envs buf origin \<lparr>chunk_address = 0, chunk_length = 0\<rparr> st = Some (Inr (origin', c, db))"
proof -
  let ?st = "st\<lparr>db_arena := ar\<rparr>"
  have pre: "x64_prealloc (envs 0) \<lparr>chunk_address = 0, chunk_length = 0\<rparr> 32 st = (Some c, ?st)"
    using assms(1,5) by (cases c) (simp add: x64_prealloc_def raw_instruction_start_def re_init_region_range_def init_region_range_def)
  have "of_nat (listing_size is + 14) \<le> (32 :: u64)"
    using assms(3) by (simp only: word_le_nat_alt unsigned_of_nat) (simp add: take_bit_nat_eq_self)
  then obtain origin' st' where "x64_GenRelocateCodeFixed (envs 0) buf origin c ?st = Inr (RT_SUCCESS, origin', st')"
    using fixed_prologue_succeeds [of ?st buf origin "is" c "envs 0"] assms(2-6)
    by (auto simp: raw_instruction_start_def raw_instruction_size_def)
  then show ?thesis unfolding x64_GenRelocateCodeAndBranch_def by (subst x64_try_again.simps) (simp add: pre)
qed

end
