(* ===== verification/NearMemoryArena.thy ===== *)
theory NearMemoryArena
  imports MemoryArena ProcessMemory
begin

text \<open>
  \<open>MemoryAllocator/NearMemoryArena.cc\<close>: chunks within a given distance of an address, for branches of limited range. Pages are
  placed in gaps of the memory layout of the process, which is a parameter (\<open>ProcessRuntimeUtility\<close> reads it from
  \<open>/proc/self/maps\<close>), as is what \<open>mmap\<close> answers to each call. A new page is all zero.
\<close>

section \<open>Addresses\<close>

definition addr_max :: "u64 \<Rightarrow> u64 \<Rightarrow> u64" where
  "addr_max a b = (if a > b then a else b)"

definition addr_sub :: "u64 \<Rightarrow> u64 \<Rightarrow> u64" where
  "addr_sub a b = (if a > a - b then a - b else 0)"

definition addr_add :: "u64 \<Rightarrow> u64 \<Rightarrow> u64" where
  "addr_add a b = (if a < a + b then a + b else - 1)"

definition prev_page :: "u64 \<Rightarrow> u32 \<Rightarrow> u64" where
  "prev_page cur pagesize =
    (let aligned_addr = ALIGN_FLOOR cur (scast pagesize); ret = aligned_addr - scast pagesize
     in if ret \<le> aligned_addr then ret else aligned_addr)"

definition next_page :: "u64 \<Rightarrow> u32 \<Rightarrow> u64" where
  "next_page cur pagesize =
    (let aligned_addr = ALIGN_FLOOR cur (scast pagesize); ret = aligned_addr + scast pagesize
     in if ret \<ge> aligned_addr then ret else aligned_addr)"

section \<open>Searching a page\<close>

record MemoryRegion =
  mr_address :: u64
  mr_length :: u64
  mr_permission :: MemoryPermission

definition region_end :: "MemoryRegion \<Rightarrow> u64" where
  "region_end r = mr_address r + mr_length r"

text \<open>The system during one search: \<open>mmap\<close> for each call, the page size, the memory layout, and whether it is ARM.\<close>

record near_env =
  ne_mmap :: "nat \<Rightarrow> mmap"
  ne_page_size :: u32
  ne_layout :: "MemoryRegion list"
  ne_arm :: bool

definition near_allocate :: "near_env \<Rightarrow> nat \<Rightarrow> u64 \<Rightarrow> u64" where
  "near_allocate env k address = OSMemory_Allocate (ne_mmap env k) address (ne_page_size env) kReadExecute"

text \<open>
  One round of the loop for region \<open>i\<close>: \<open>assumePageAddr\<close> and \<open>resultPageAddr\<close>, which ends the loop unless it is 0.
  \<open>process_memory_layout.size() - 2\<close> is unsigned; with a single region the next one is read outside the vector.
\<close>

definition near_left_blank :: "near_env \<Rightarrow> u64 \<Rightarrow> nat \<Rightarrow> u64 \<Rightarrow> u64 \<times> u64" where
  "near_left_blank env min_page_addr i assumePageAddr =
    (if i \<ge> 1 \<and> assumePageAddr = min_page_addr
     then let prev_region_end = next_page (region_end (ne_layout env ! (i - 1))) (ne_page_size env)
       in if mr_address (ne_layout env ! i) > prev_region_end
          then let assumePageAddr = addr_max min_page_addr prev_region_end
               in (assumePageAddr, near_allocate env (2 + 2 * i) assumePageAddr)
          else (assumePageAddr, 0)
     else (assumePageAddr, 0))"

definition near_right_blank :: "near_env \<Rightarrow> nat \<Rightarrow> u64 \<Rightarrow> (u64 \<times> u64) res" where
  "near_right_blank env i assumePageAddr =
    (if (of_nat i :: u64) \<le> of_nat (length (ne_layout env)) - 2
     then if i + 1 < length (ne_layout env)
       then if region_end (ne_layout env ! i) < mr_address (ne_layout env ! (i + 1))
            then let assumePageAddr = next_page (region_end (ne_layout env ! i)) (ne_page_size env)
                 in Inr (assumePageAddr, near_allocate env (3 + 2 * i) assumePageAddr)
            else Inr (assumePageAddr, 0)
       else Inl OutOfBounds
     else Inr (assumePageAddr, 0))"

fun near_region_loop :: "near_env \<Rightarrow> u64 \<Rightarrow> u64 \<Rightarrow> nat \<Rightarrow> nat \<Rightarrow> u64 \<Rightarrow> u64 res" where
  "near_region_loop env min_page_addr max_page_addr i 0 assumePageAddr = Inr 0"
| "near_region_loop env min_page_addr max_page_addr i (Suc n) assumePageAddr =
    (let region = ne_layout env ! i in
     if region_end region < max_page_addr \<and> mr_address region \<ge> min_page_addr
     then case near_left_blank env min_page_addr i assumePageAddr of (assumePageAddr, resultPageAddr) \<Rightarrow>
       if resultPageAddr \<noteq> 0 then Inr resultPageAddr
       else rbind (near_right_blank env i assumePageAddr) (\<lambda>(assumePageAddr, resultPageAddr).
         if resultPageAddr \<noteq> 0 then Inr resultPageAddr
         else near_region_loop env min_page_addr max_page_addr (i + 1) n assumePageAddr)
     else near_region_loop env min_page_addr max_page_addr (i + 1) n assumePageAddr)"

definition search_near_blank_page :: "near_env \<Rightarrow> u64 \<Rightarrow> u64 \<Rightarrow> u64 res" where
  "search_near_blank_page env pos alloc_range =
    (let min_page_addr = next_page (addr_sub pos alloc_range) (ne_page_size env);
         max_page_addr = prev_page (addr_add pos alloc_range) (ne_page_size env);
         layout = ne_layout env
     in if layout = [] then Inl OutOfBounds
        else let result = (if min_page_addr < mr_address (layout ! 0) then near_allocate env 0 min_page_addr else 0) in
          if result \<noteq> 0 then Inr result
          else let result = (if max_page_addr < region_end (last layout) then near_allocate env 1 min_page_addr else 0) in
            if result \<noteq> 0 then Inr result
            else near_region_loop env min_page_addr max_page_addr 0 (length layout) min_page_addr)"

section \<open>Searching blank memory\<close>

text \<open>\<open>memmem\<close> with a needle of zeros: the first place in the given number of bytes. On ARM it is told of three more bytes than the needle has.\<close>

fun find_zeros :: "(u64 \<Rightarrow> u8) \<Rightarrow> nat \<Rightarrow> u64 \<Rightarrow> nat \<Rightarrow> u64 option" where
  "find_zeros m sz a 0 = (if sz = 0 then Some a else None)"
| "find_zeros m sz a (Suc n) =
    (if Suc n < sz then None else if peek m a sz = replicate sz 0 then Some a else find_zeros m sz (a + 1) n)"

definition search_near_blank_memory_chunk :: "near_env \<Rightarrow> (u64 \<Rightarrow> u8) \<Rightarrow> u64 \<Rightarrow> u64 \<Rightarrow> u32 \<Rightarrow> u64 res" where
  "search_near_blank_memory_chunk env m pos alloc_range alloc_size =
    (let min_page_addr = next_page (addr_sub pos alloc_range) (ne_page_size env);
         max_page_addr = prev_page (addr_add pos alloc_range) (ne_page_size env);
         usable = (\<lambda>r. (mr_permission r = kReadExecute \<or> mr_permission r = kRead) \<and>
           region_end r \<le> max_page_addr \<and> mr_address r \<ge> min_page_addr);
         found = List.map_filter (\<lambda>r. if usable r then find_zeros m (unat alloc_size) (mr_address r) (unat (mr_length r)) else None) (ne_layout env)
     in if ne_arm env \<and> (\<exists>r\<in>set (ne_layout env). usable r) then Inl OutOfBounds
        else Inr (case found of [] \<Rightarrow> 0 | a # _ \<Rightarrow> a))"

section \<open>Allocation\<close>

text \<open>\<open>llabs\<close> of the signed distance, compared as an unsigned number.\<close>

definition near_distance :: "u64 \<Rightarrow> u64 \<Rightarrow> u64" where
  "near_distance a b = (let d = a - b in if bit d 63 then - d else d)"

definition near_page_fits :: "u64 \<Rightarrow> u64 \<Rightarrow> u64 \<Rightarrow> MemoryPermission \<Rightarrow> PageChunk \<Rightarrow> bool" where
  "near_page_fits position alloc_range alloc_size permission p \<longleftrightarrow>
     page_permission p = permission \<and> near_distance (page_cursor p) position < alloc_range \<and>
     page_cursor p + alloc_size < chunk_address (page p) + chunk_length (page p)"

definition NearMemoryArena_PushPage :: "u32 \<Rightarrow> u64 \<Rightarrow> MemoryPermission \<Rightarrow> PageChunk list \<Rightarrow> PageChunk list" where
  "NearMemoryArena_PushPage page_size page_addr permission pages = pages @ [new_page page_addr page_size permission]"

text \<open>
  The code behind \<open>search_once_more\<close>: a chunk is cut off the first page that fits; otherwise a page is searched, added, and the search
  starts again. \<open>envs k\<close> is the system at the \<open>k\<close>-th round. The state is the pages and the memory.
\<close>

partial_function (option) near_search_once_more ::
  "(nat \<Rightarrow> near_env) \<Rightarrow> nat \<Rightarrow> u64 \<Rightarrow> u64 \<Rightarrow> u32 \<Rightarrow> MemoryPermission \<Rightarrow> PageChunk list \<Rightarrow> (u64 \<Rightarrow> u8) \<Rightarrow>
    (MemoryChunk option \<times> PageChunk list \<times> (u64 \<Rightarrow> u8)) run" where
  "near_search_once_more envs k position alloc_range alloc_size permission pages m =
    (case find_page (near_page_fits position alloc_range (scast alloc_size) permission) pages of
       Some i \<Rightarrow> (case push_chunk (scast alloc_size) (pages ! i) of (chunk, p) \<Rightarrow> Some (Inr (Some chunk, pages[i := p], m)))
     | None \<Rightarrow>
       (case search_near_blank_page (envs k) position alloc_range of
          Inl e \<Rightarrow> Some (Inl e)
        | Inr blank_page_addr \<Rightarrow>
            if blank_page_addr \<noteq> 0
            then near_search_once_more envs (k + 1) position alloc_range alloc_size permission
              (NearMemoryArena_PushPage (ne_page_size (envs k)) blank_page_addr permission pages)
              (poke m blank_page_addr (replicate (unat (ne_page_size (envs k))) 0))
            else if permission = kReadWrite then Some (Inr (None, pages, m))
            else case search_near_blank_memory_chunk (envs k) m position alloc_range alloc_size of
                Inl e \<Rightarrow> Some (Inl e)
              | Inr blank_chunk_addr \<Rightarrow>
                  if blank_chunk_addr \<noteq> 0
                  then Some (Inr (Some \<lparr>chunk_address = blank_chunk_addr, chunk_length = scast alloc_size\<rparr>, pages, m))
                  else Some (Inr (None, pages, m))))"

definition NearMemoryArena_AllocateChunk ::
  "(nat \<Rightarrow> near_env) \<Rightarrow> u64 \<Rightarrow> u64 \<Rightarrow> u32 \<Rightarrow> MemoryPermission \<Rightarrow> arena \<Rightarrow> (u64 \<Rightarrow> u8) \<Rightarrow> (MemoryChunk option \<times> arena \<times> (u64 \<Rightarrow> u8)) run" where
  "NearMemoryArena_AllocateChunk envs position alloc_range alloc_size permission page_chunks m =
    run_bind (near_search_once_more envs 0 position alloc_range alloc_size permission (arena_pages page_chunks) m)
      (\<lambda>(chunk, pages, m). Some (Inr (chunk, Some pages, m)))"

definition NearMemoryArena_AllocateDataChunk ::
  "(nat \<Rightarrow> near_env) \<Rightarrow> u64 \<Rightarrow> u64 \<Rightarrow> u32 \<Rightarrow> arena \<Rightarrow> (u64 \<Rightarrow> u8) \<Rightarrow> (MemoryChunk option \<times> arena \<times> (u64 \<Rightarrow> u8)) run" where
  "NearMemoryArena_AllocateDataChunk envs position alloc_range alloc_size =
    NearMemoryArena_AllocateChunk envs position alloc_range alloc_size kReadWrite"

definition NearMemoryArena_AllocateCodeChunk ::
  "(nat \<Rightarrow> near_env) \<Rightarrow> u64 \<Rightarrow> u64 \<Rightarrow> u32 \<Rightarrow> arena \<Rightarrow> (u64 \<Rightarrow> u8) \<Rightarrow> (MemoryChunk option \<times> arena \<times> (u64 \<Rightarrow> u8)) run" where
  "NearMemoryArena_AllocateCodeChunk envs position alloc_range alloc_size =
    NearMemoryArena_AllocateChunk envs position alloc_range alloc_size kReadExecute"

section \<open>Distance\<close>

lemmas near_search_induct = near_search_once_more.raw_induct [rotated, consumes 1, case_names round]

text \<open>A data chunk is always cut off a page; it starts within the range.\<close>

lemma near_search_data:
  "near_search_once_more envs k position alloc_range alloc_size perm pages m = Some res \<Longrightarrow> perm = kReadWrite \<Longrightarrow>
    res = Inr (Some c, pages', m') \<Longrightarrow> near_distance (chunk_address c) position < alloc_range \<and> chunk_length c = scast alloc_size"
proof (induction envs k position alloc_range alloc_size perm pages m res arbitrary: c pages' m' rule: near_search_induct)
  case (round f envs k position alloc_range alloc_size perm pages m res)
  show ?case
  proof (cases "find_page (near_page_fits position alloc_range (scast alloc_size) perm) pages")
    case (Some i)
    then show ?thesis using round.hyps round.prems find_page_Some [OF Some] by (auto simp: push_chunk_def Let_def near_page_fits_def)
  next
    case None
    then show ?thesis using round by (auto split: sum.splits if_splits)
  qed
qed

section \<open>Where pages are placed\<close>

lemma unat_pow2: "j < LENGTH('a) \<Longrightarrow> unat (2 ^ j :: 'a::len word) = 2 ^ j"
proof -
  assume "j < LENGTH('a)"
  then have "take_bit LENGTH('a) (2 ^ j) = (2 ^ j :: nat)" by (intro take_bit_nat_eq_self power_strict_increasing) simp_all
  moreover have "(2 ^ j :: 'a word) = of_nat (2 ^ j)" by simp
  ultimately show ?thesis by (simp only: unsigned_of_nat of_nat_id)
qed

lemma scast_page: "j < 31 \<Longrightarrow> scast (2 ^ j :: u32) = (2 ^ j :: u64)"
proof -
  assume j: "j < 31"
  then have "unat (2 ^ j :: u32) = 2 ^ j" by (intro unat_pow2) simp
  moreover have "(2 :: nat) ^ j < 2 ^ 31" using j by (intro power_strict_increasing) simp_all
  moreover have "unat (2 ^ j :: u64) = 2 ^ j" using j by (intro unat_pow2) simp
  ultimately show ?thesis by (simp add: word_unat_eq_iff scast_small)
qed

lemma unat_next_page:
  assumes "j < 31" "unat x + 2 ^ j < 2 ^ 64"
  shows "unat (next_page x (2 ^ j)) = unat x - unat x mod 2 ^ j + 2 ^ j"
proof -
  have u: "unat (2 ^ j :: u64) = 2 ^ j" using assms(1) by (intro unat_pow2) simp
  have f: "unat (ALIGN_FLOOR x (2 ^ j)) = unat x - unat x mod 2 ^ j" by (rule unat_ALIGN_FLOOR)
  then have "unat (ALIGN_FLOOR x (2 ^ j) + 2 ^ j) = unat x - unat x mod 2 ^ j + 2 ^ j"
    using assms(2) u by (simp add: unat_add_lem [THEN iffD1])
  then show ?thesis using f by (simp add: next_page_def scast_page [OF assms(1)] Let_def word_le_nat_alt)
qed

lemma unat_prev_page:
  assumes "j < 31" "2 ^ j \<le> unat x"
  shows "unat (prev_page x (2 ^ j)) = unat x - unat x mod 2 ^ j - 2 ^ j"
proof -
  have u: "unat (2 ^ j :: u64) = 2 ^ j" using assms(1) by (intro unat_pow2) simp
  have f: "unat (ALIGN_FLOOR x (2 ^ j)) = unat x - unat x mod 2 ^ j" by (rule unat_ALIGN_FLOOR)
  have "2 ^ j \<le> unat x - unat x mod 2 ^ j"
    using assms(2) by (metis div_greater_zero_iff minus_mod_eq_mult_div mult_le_mono2 nat_mult_1_right One_nat_def Suc_leI zero_less_numeral zero_less_power)
  then have "unat (ALIGN_FLOOR x (2 ^ j) - 2 ^ j) = unat x - unat x mod 2 ^ j - 2 ^ j"
    using f u by (simp add: unat_sub word_le_nat_alt)
  moreover from this have "ALIGN_FLOOR x (2 ^ j) - 2 ^ j \<le> ALIGN_FLOOR x (2 ^ j)" using f unfolding word_le_nat_alt by linarith
  ultimately show ?thesis by (simp add: prev_page_def scast_page [OF assms(1)] Let_def)
qed

text \<open>The addresses whose distance is less than the range, away from both ends of the address space.\<close>

definition near_position :: "u64 \<Rightarrow> u64 \<Rightarrow> nat \<Rightarrow> bool" where
  "near_position pos alloc_range j \<longleftrightarrow> j < 31 \<and> 2 ^ j \<le> unat alloc_range \<and> unat alloc_range \<le> unat pos \<and> unat pos + unat alloc_range < 2 ^ 63"

lemma near_bounds:
  assumes "near_position pos rng j"
  shows "unat pos - unat rng < unat (next_page (addr_sub pos rng) (2 ^ j))"
    "unat (prev_page (addr_add pos rng) (2 ^ j)) < unat pos + unat rng"
    "2 ^ j dvd unat (prev_page (addr_add pos rng) (2 ^ j))"
    "unat (next_page (addr_sub pos rng) (2 ^ j)) \<le> unat pos - unat rng + 2 ^ j"
proof -
  have a: "j < 31" "2 ^ j \<le> unat rng" "unat rng \<le> unat pos" "unat pos + unat rng < 2 ^ 63" using assms by (simp_all add: near_position_def)
  have r: "0 < unat rng" using a(2) by (meson less_le_trans zero_less_numeral zero_less_power)
  have s: "unat (addr_sub pos rng) = unat pos - unat rng"
    using a(3) r by (auto simp: addr_sub_def word_less_nat_alt unat_sub word_le_nat_alt)
  have p: "unat (addr_add pos rng) = unat pos + unat rng"
    using a(4) r by (auto simp: addr_add_def word_less_nat_alt unat_add_lem [THEN iffD1])
  have j: "(2 :: nat) ^ j < 2 ^ 31" using a(1) by (intro power_strict_increasing) simp_all
  have m: "x mod 2 ^ j < 2 ^ j" for x :: nat by simp
  have n: "unat (next_page (addr_sub pos rng) (2 ^ j)) = unat pos - unat rng - (unat pos - unat rng) mod 2 ^ j + 2 ^ j"
    using unat_next_page [of j "addr_sub pos rng"] a j s by simp
  then show "unat pos - unat rng < unat (next_page (addr_sub pos rng) (2 ^ j))"
    "unat (next_page (addr_sub pos rng) (2 ^ j)) \<le> unat pos - unat rng + 2 ^ j" using m [of "unat pos - unat rng"] by linarith+
  have q: "unat (prev_page (addr_add pos rng) (2 ^ j)) = unat pos + unat rng - (unat pos + unat rng) mod 2 ^ j - 2 ^ j"
    using unat_prev_page [of j "addr_add pos rng"] a p by simp
  then show "unat (prev_page (addr_add pos rng) (2 ^ j)) < unat pos + unat rng" using r a(2) by (simp add: q)
  show "2 ^ j dvd unat (prev_page (addr_add pos rng) (2 ^ j))"
    unfolding q by (intro dvd_diff_nat dvd_minus_mod) simp
qed

text \<open>What is relied on of the system: a page is mapped at the address asked for or not at all, and regions do not wrap around.\<close>

definition near_env_ok :: "nat \<Rightarrow> near_env \<Rightarrow> bool" where
  "near_env_ok j env \<longleftrightarrow> ne_page_size env = 2 ^ j \<and> ne_layout env \<noteq> [] \<and> length (ne_layout env) \<noteq> 1 \<and> length (ne_layout env) < 2 ^ 63 \<and>
     (\<forall>k a. near_allocate env k a \<in> {0, a}) \<and>
     list_all (\<lambda>r. unat (mr_address r) + unat (mr_length r) < 2 ^ 63) (ne_layout env)"

lemma unat_region_end:
  "near_env_ok j env \<Longrightarrow> i < length (ne_layout env) \<Longrightarrow>
    unat (region_end (ne_layout env ! i)) = unat (mr_address (ne_layout env ! i)) + unat (mr_length (ne_layout env ! i)) \<and>
    unat (region_end (ne_layout env ! i)) < 2 ^ 63"
  by (auto simp: near_env_ok_def list_all_length region_end_def unat_add_lem [THEN iffD1])

lemma near_right_blank_ok:
  assumes "near_env_ok j env" "i < length (ne_layout env)"
  shows "\<exists>a r. near_right_blank env i assume = Inr (a, r) \<and> (r = 0 \<or> r = next_page (region_end (ne_layout env ! i)) (2 ^ j))"
proof -
  have "(of_nat i :: u64) \<le> of_nat (length (ne_layout env)) - 2 \<Longrightarrow> i + 1 < length (ne_layout env)"
  proof -
    assume le: "(of_nat i :: u64) \<le> of_nat (length (ne_layout env)) - 2"
    have n: "2 \<le> length (ne_layout env)" "length (ne_layout env) < 2 ^ 63"
      using assms(1) by (auto simp: near_env_ok_def neq_Nil_conv)
    have "(of_nat (length (ne_layout env)) - 2 :: u64) = of_nat (length (ne_layout env) - 2)" using n(1) by simp
    then have "unat (of_nat i :: u64) \<le> unat (of_nat (length (ne_layout env) - 2) :: u64)" using le by (simp only: word_le_nat_alt)
    then have "i \<le> length (ne_layout env) - 2" using n assms(2) by (simp only: unsigned_of_nat) (simp add: take_bit_nat_eq_self)
    then show "i + 1 < length (ne_layout env)" using n(1) by simp
  qed
  moreover have "near_allocate env k a \<in> {0, a}" "ne_page_size env = 2 ^ j" for k a using assms(1) by (simp_all add: near_env_ok_def)
  ultimately show ?thesis by (auto simp: near_right_blank_def Let_def)
qed

text \<open>Every page lies between the lowest and the highest page in range.\<close>

lemma near_left_blank_bounds:
  assumes "near_env_ok j env" "near_left_blank env lo i assume = (a, r)" "r \<noteq> 0" "lo \<le> mr_address (ne_layout env ! i)"
  shows "lo \<le> r \<and> r \<le> mr_address (ne_layout env ! i)"
proof -
  have al: "near_allocate env k x = 0 \<or> near_allocate env k x = x" for k x using assms(1) by (simp add: near_env_ok_def)
  define pe where "pe = next_page (region_end (ne_layout env ! (i - 1))) (ne_page_size env)"
  have "r = near_allocate env (2 + 2 * i) (addr_max lo pe)" "pe < mr_address (ne_layout env ! i)"
    using assms(2,3) by (auto simp: near_left_blank_def pe_def Let_def split: if_splits)
  then have "r = addr_max lo pe" "pe < mr_address (ne_layout env ! i)" using al [of "2 + 2 * i" "addr_max lo pe"] assms(3) by auto
  then show ?thesis using assms(4) by (auto simp: addr_max_def)
qed

lemma next_page_below:
  assumes "j < 31" "unat x < 2 ^ 63" "x < hi" "2 ^ j dvd unat hi"
  shows "x \<le> next_page x (2 ^ j) \<and> next_page x (2 ^ j) \<le> hi"
proof -
  have "(2 :: nat) ^ j < 2 ^ 31" using assms(1) by (intro power_strict_increasing) simp_all
  then have n: "unat (next_page x (2 ^ j)) = unat x - unat x mod 2 ^ j + 2 ^ j" using assms(1,2) by (intro unat_next_page) simp_all
  have x: "unat x < unat hi" using assms(3) by (simp add: word_less_nat_alt)
  obtain q where q: "unat hi = 2 ^ j * q" using assms(4) by blast
  have d: "unat x - unat x mod 2 ^ j = 2 ^ j * (unat x div 2 ^ j)" by (simp add: minus_mod_eq_mult_div)
  have "unat x div 2 ^ j < q" using x q by (simp add: less_mult_imp_div_less mult.commute)
  then have "2 ^ j * (unat x div 2 ^ j) + 2 ^ j \<le> 2 ^ j * q" by (metis Suc_leI add.commute mult_Suc_right mult_le_mono2)
  moreover have "unat x \<le> unat x - unat x mod 2 ^ j + 2 ^ j" 
  proof -
    have "unat x mod 2 ^ j < 2 ^ j" by simp
    then show ?thesis by linarith
  qed
  ultimately show ?thesis by (simp only: word_le_nat_alt n d q)
qed

lemma near_region_loop_bounds:
  assumes "near_env_ok j env" "j < 31" "2 ^ j dvd unat hi"
  shows "i + n \<le> length (ne_layout env) \<Longrightarrow> \<exists>r. near_region_loop env lo hi i n assume = Inr r \<and> (r = 0 \<or> lo \<le> r \<and> r \<le> hi)"
proof (induction n arbitrary: i "assume")
  case (Suc n)
  let ?r = "ne_layout env ! i"
  have i: "i < length (ne_layout env)" using Suc.prems by simp
  have e: "unat (region_end ?r) = unat (mr_address ?r) + unat (mr_length ?r)" "unat (region_end ?r) < 2 ^ 63" using unat_region_end [OF assms(1) i] by auto
  show ?case
  proof (cases "region_end ?r < hi \<and> mr_address ?r \<ge> lo")
    case True
    have ae: "mr_address ?r \<le> region_end ?r" using e(1) by (simp add: word_le_nat_alt)
    obtain a1 r1 where l: "near_left_blank env lo i assume = (a1, r1)" by fastforce
    obtain a2 r2 where rb: "near_right_blank env i a1 = Inr (a2, r2)" "r2 = 0 \<or> r2 = next_page (region_end ?r) (2 ^ j)"
      using near_right_blank_ok [OF assms(1) i, of a1] by blast
    have "r1 = 0 \<or> lo \<le> r1 \<and> r1 \<le> hi" using near_left_blank_bounds [OF assms(1) l] True ae by fastforce
    moreover have "r2 = 0 \<or> lo \<le> r2 \<and> r2 \<le> hi"
      using rb(2) next_page_below [OF assms(2) e(2) _ assms(3)] True ae by fastforce
    moreover obtain r where "near_region_loop env lo hi (i + 1) n a2 = Inr r" "r = 0 \<or> lo \<le> r \<and> r \<le> hi"
      using Suc.IH [of "i + 1" a2] Suc.prems by auto
    ultimately show ?thesis using True l rb(1) by (auto simp: Let_def)
  next
    case False
    then show ?thesis using Suc.IH [of "i + 1" "assume"] Suc.prems by (auto simp: Let_def)
  qed
qed simp

lemma bit_63: "bit (d :: u64) 63 \<longleftrightarrow> 2 ^ 63 \<le> unat d"
proof -
  have "unat d < 2 ^ 64" using unsigned_less [of d, where ?'a = nat] by simp
  then have "unat d div 2 ^ 63 < 2" by (simp add: less_mult_imp_div_less)
  moreover have "1 \<le> unat d div 2 ^ 63 \<longleftrightarrow> 2 ^ 63 \<le> unat d" by (simp add: less_eq_div_iff_mult_less_eq)
  ultimately have "odd (unat d div 2 ^ 63) \<longleftrightarrow> 2 ^ 63 \<le> unat d" by (cases "unat d div 2 ^ 63") auto
  then show ?thesis using bit_unsigned_iff [of d 63, where ?'a = nat] by (simp add: bit_iff_odd)
qed

lemma unat_minus_pos: "0 < unat (d :: u64) \<Longrightarrow> unat (- d) = 2 ^ 64 - unat d"
  using unat_plus_if' [of "- d" d] by (auto split: if_splits)

lemma near_distance_less:
  assumes "unat rng \<le> unat pos" "unat pos + unat rng < 2 ^ 63" "unat pos - unat rng < unat r" "unat r < unat pos + unat rng"
  shows "near_distance r pos < rng \<and> unat r < 2 ^ 63"
proof -
  have *: "unat (r - pos) = unat r - unat pos" if "unat pos \<le> unat r" using that by (simp add: unat_sub word_le_nat_alt)
  have **: "unat (pos - r) = unat pos - unat r" if "unat r \<le> unat pos" using that by (simp add: unat_sub word_le_nat_alt)
  show ?thesis
  proof (cases "unat pos \<le> unat r")
    case True
    then have "\<not> bit (r - pos) 63" using * assms by (simp add: bit_63)
    then show ?thesis using * True assms by (simp add: near_distance_def word_less_nat_alt)
  next
    case False
    then have p: "unat (pos - r) = unat pos - unat r" "0 < unat (pos - r)" using ** by simp_all
    have "r - pos = - (pos - r)" by simp
    moreover have "unat (- (pos - r)) = 2 ^ 64 - unat (pos - r)" using p(2) by (intro unat_minus_pos)
    ultimately have "bit (r - pos) 63" using p assms by (simp add: bit_63)
    then show ?thesis using p False assms by (simp add: near_distance_def word_less_nat_alt)
  qed
qed

lemma search_in_range:
  assumes "near_env_ok j env" "near_position pos rng j"
  shows "\<exists>r. search_near_blank_page env pos rng = Inr r \<and> (r = 0 \<or> near_distance r pos < rng \<and> unat r < 2 ^ 63)"
proof -
  let ?lo = "next_page (addr_sub pos rng) (2 ^ j)" and ?hi = "prev_page (addr_add pos rng) (2 ^ j)"
  have j: "j < 31" "2 ^ j \<le> unat rng" "unat rng \<le> unat pos" "unat pos + unat rng < 2 ^ 63" using assms(2) by (simp_all add: near_position_def)
  have b: "unat pos - unat rng < unat ?lo" "unat ?hi < unat pos + unat rng" "2 ^ j dvd unat ?hi" "unat ?lo \<le> unat pos - unat rng + 2 ^ j"
    using near_bounds [OF assms(2)] by simp_all
  note near = near_distance_less [OF j(3,4)]
  have ps: "ne_page_size env = 2 ^ j" "ne_layout env \<noteq> []" "near_allocate env k a = 0 \<or> near_allocate env k a = a" for k a
    using assms(1) by (simp_all add: near_env_ok_def)
  have lo: "near_distance ?lo pos < rng \<and> unat ?lo < 2 ^ 63" using b j by (intro near) simp_all
  obtain r where r: "near_region_loop env ?lo ?hi 0 (length (ne_layout env)) ?lo = Inr r" "r = 0 \<or> ?lo \<le> r \<and> r \<le> ?hi"
    using near_region_loop_bounds [OF assms(1) j(1) b(3), of 0 "length (ne_layout env)"] by auto
  then have "r = 0 \<or> near_distance r pos < rng \<and> unat r < 2 ^ 63" using b near [of r] by (auto simp: word_le_nat_alt)
  moreover have "near_allocate env k ?lo = 0 \<or> near_distance (near_allocate env k ?lo) pos < rng \<and> unat (near_allocate env k ?lo) < 2 ^ 63" for k
    using ps(3) [of k ?lo] lo by auto
  note this [of 0] this [of 1]
  ultimately show ?thesis unfolding search_near_blank_page_def Let_def ps(1) using ps(2) r(1) by (simp split: if_split) blast
qed

section \<open>Properties\<close>

lemma find_page_snoc: "P p \<Longrightarrow> \<exists>i. find_page P (ps @ [p]) = Some i"
  by (induction ps) auto

lemma new_page_fits:
  fixes sz :: u32
  assumes "near_distance r pos < rng" "unat r < 2 ^ 63" "j < 31" "unat sz < 2 ^ j"
  shows "near_page_fits pos rng (scast sz) perm (new_page r (2 ^ j) perm)"
proof -
  have j: "(2 :: nat) ^ j < 2 ^ 31" using assms(3) by (intro power_strict_increasing) simp_all
  have "unat sz < 2 ^ 31" using assms(4) j by (rule less_trans)
  then have "unat (r + scast sz) = unat r + unat sz" using assms(2) by (simp add: scast_small unat_add_lem [THEN iffD1])
  moreover have "unat (r + 2 ^ j) = unat r + 2 ^ j" using assms(2,3) j by (simp add: unat_pow2 unat_add_lem [THEN iffD1])
  ultimately show ?thesis using assms by (simp add: near_page_fits_def new_page_def scast_page word_less_nat_alt)
qed

text \<open>
  C38. A request for a chunk near an address returns, for every size below the page size: a page the allocator maps is always close enough
  to serve the request in the next round.
\<close>
theorem near_allocation_returns:
  assumes "\<And>k. near_env_ok j (envs k)" "near_position position alloc_range j" "unat alloc_size < 2 ^ j"
  shows "\<exists>res. NearMemoryArena_AllocateChunk envs position alloc_range alloc_size permission page_chunks m = Some res"
proof -
  have j: "j < 31" using assms(2) by (simp add: near_position_def)
  let ?P = "near_page_fits position alloc_range (scast alloc_size) permission"
  have found: "\<exists>res. near_search_once_more envs k position alloc_range alloc_size permission pages m = Some res"
    if "find_page ?P pages = Some i" for k pages m i
    using that by (subst near_search_once_more.simps) (simp add: push_chunk_def Let_def)
  have "\<exists>res. near_search_once_more envs 0 position alloc_range alloc_size permission pages m = Some res" for pages
  proof (cases "find_page ?P pages")
    case None
    obtain r where r: "search_near_blank_page (envs 0) position alloc_range = Inr r" "r = 0 \<or> near_distance r position < alloc_range \<and> unat r < 2 ^ 63"
      using search_in_range [OF assms(1,2)] by blast
    have ps: "ne_page_size (envs 0) = 2 ^ j" using assms(1) by (simp add: near_env_ok_def)
    show ?thesis
    proof (cases "r = 0")
      case False
      then have "?P (new_page r (2 ^ j) permission)" using r(2) j assms(3) by (intro new_page_fits) auto
      then obtain i where "find_page ?P (pages @ [new_page r (2 ^ j) permission]) = Some i" using find_page_snoc by blast
      from found [OF this, of 1 "poke m r (replicate (2 ^ j) 0)"] show ?thesis
        using None r(1) False ps j by (subst near_search_once_more.simps) (simp add: NearMemoryArena_PushPage_def unat_pow2)
    qed (use None r(1) in \<open>subst near_search_once_more.simps, simp split: sum.split\<close>)
  qed (rule found)
  then obtain res where res: "near_search_once_more envs 0 position alloc_range alloc_size permission (arena_pages page_chunks) m = Some res" by blast
  then show ?thesis by (cases res) (auto simp: NearMemoryArena_AllocateChunk_def run_bind_simps)
qed

text \<open>
  C16. A data chunk the allocator returns starts within the range of the address it was asked for, whatever the system does.
\<close>
theorem near_chunk_in_range:
  assumes "NearMemoryArena_AllocateDataChunk envs position alloc_range alloc_size page_chunks m = Some (Inr (Some c, page_chunks', m'))"
  shows "near_distance (chunk_address c) position < alloc_range \<and> chunk_length c = scast alloc_size"
proof -
  obtain pages' m'' where "near_search_once_more envs 0 position alloc_range alloc_size kReadWrite (arena_pages page_chunks) m = Some (Inr (Some c, pages', m''))"
    using assms by (auto simp: NearMemoryArena_AllocateDataChunk_def NearMemoryArena_AllocateChunk_def run_bind_def split: option.splits sum.splits)
  then show ?thesis using near_search_data by blast
qed

text \<open>
  C39. A request of a page or more never returns: every page that is mapped for it is too small, and the search starts again, as long as the
  system has pages.
\<close>
theorem near_allocation_diverges:
  assumes "\<And>k. near_env_ok j (envs k)" "near_position position alloc_range j" "2 ^ j \<le> unat alloc_size" "unat alloc_size < 2 ^ 31"
    and "\<And>k. search_near_blank_page (envs k) position alloc_range \<noteq> Inr 0"
  shows "NearMemoryArena_AllocateChunk envs position alloc_range alloc_size permission None m = None"
proof -
  have j: "j < 31" using assms(2) by (simp add: near_position_def)
  have "near_search_once_more es k pos rng sz perm pages m = Some res \<Longrightarrow> es = envs \<Longrightarrow> pos = position \<Longrightarrow> rng = alloc_range \<Longrightarrow> sz = alloc_size \<Longrightarrow>
      list_all (\<lambda>p. \<not> near_page_fits position alloc_range (scast alloc_size) perm p) pages \<Longrightarrow> False" for es k pos rng sz perm pages m res
  proof (induction es k pos rng sz perm pages m res rule: near_search_induct)
    case (round f es k pos rng sz perm pages m res)
    let ?P = "near_page_fits position alloc_range (scast alloc_size) perm"
    have none: "find_page ?P pages = None" using round.prems(5) find_page_Some [of ?P pages] by (cases "find_page ?P pages") (auto simp: list_all_length)
    obtain r where r: "search_near_blank_page (envs k) position alloc_range = Inr r" "r \<noteq> 0" "unat r < 2 ^ 63"
      using search_in_range [OF assms(1,2), of k] assms(5) [of k] by auto
    have ps: "ne_page_size (envs k) = 2 ^ j" using assms(1) by (simp add: near_env_ok_def)
    have "\<not> ?P (new_page r (2 ^ j) perm)"
    proof -
      have u: "(2 :: nat) ^ j < 2 ^ 31" using j by (intro power_strict_increasing) simp_all
      have "unat (r + scast alloc_size) = unat r + unat alloc_size" using r(3) assms(4) by (simp add: scast_small unat_add_lem [THEN iffD1])
      moreover have "unat (r + 2 ^ j) = unat r + 2 ^ j" using r(3) j u by (simp add: unat_pow2 unat_add_lem [THEN iffD1])
      ultimately show ?thesis using assms(3) j by (simp add: near_page_fits_def new_page_def scast_page word_less_nat_alt)
    qed
    then have "list_all (\<lambda>p. \<not> ?P p) (NearMemoryArena_PushPage (2 ^ j) r perm pages)"
      using round.prems(5) by (simp add: NearMemoryArena_PushPage_def)
    then show ?case using round none r ps by auto
  qed
  then have "near_search_once_more envs 0 position alloc_range alloc_size permission [] m = None"
    by (cases "near_search_once_more envs 0 position alloc_range alloc_size permission [] m") (simp_all, metis list.pred_inject(1))
  then show ?thesis by (simp add: NearMemoryArena_AllocateChunk_def arena_pages_def run_bind_def)
qed

text \<open>
  C40. The search maps over memory that is in use: when the memory layout begins at or below the lowest page in range and ends above the highest
  one, that page is mapped at a fixed address without a look at the regions that cover it, and its contents become zero.
\<close>
theorem near_page_overwrites_mapping:
  assumes "near_env_ok j (envs 0)" "near_position position alloc_range j" "unat alloc_size < 2 ^ j"
  defines "lo \<equiv> next_page (addr_sub position alloc_range) (2 ^ j)"
  assumes "mr_address (hd (ne_layout (envs 0))) \<le> lo" "prev_page (addr_add position alloc_range) (2 ^ j) < region_end (last (ne_layout (envs 0)))"
    and "near_allocate (envs 0) 1 lo = lo"
  shows "\<exists>c page_chunks' m'. NearMemoryArena_AllocateDataChunk envs position alloc_range alloc_size None m = Some (Inr (Some c, page_chunks', m')) \<and>
    chunk_address c = lo \<and> peek m' lo (2 ^ j) = replicate (2 ^ j) 0"
proof -
  have j: "j < 31" using assms(2) by (simp add: near_position_def)
  have e: "ne_page_size (envs 0) = 2 ^ j" "ne_layout (envs 0) \<noteq> []" using assms(1) by (simp_all add: near_env_ok_def)
  have p: "unat alloc_range \<le> unat position" "unat position + unat alloc_range < 2 ^ 63" "2 ^ j \<le> unat alloc_range"
    using assms(2) by (simp_all add: near_position_def)
  have l: "unat position - unat alloc_range < unat lo" "unat lo \<le> unat position - unat alloc_range + 2 ^ j"
    using near_bounds [OF assms(2)] by (simp_all add: lo_def)
  then have b: "0 < unat lo" "near_distance lo position < alloc_range" "unat lo < 2 ^ 63"
    using near_distance_less [OF p(1,2) l(1)] p by simp_all
  then have "lo \<noteq> 0" by auto
  have search: "search_near_blank_page (envs 0) position alloc_range = Inr lo"
    using assms(5-7) e \<open>lo \<noteq> 0\<close> by (simp add: search_near_blank_page_def lo_def [symmetric] hd_conv_nth Let_def not_less [symmetric])
  let ?m = "poke m lo (replicate (2 ^ j) 0)" and ?p = "new_page lo (2 ^ j) kReadWrite"
  have fit: "near_page_fits position alloc_range (scast alloc_size) kReadWrite ?p" using b j assms(3) by (intro new_page_fits)
  have "near_search_once_more envs 0 position alloc_range alloc_size kReadWrite [] m =
      Some (Inr (Some \<lparr>chunk_address = lo, chunk_length = scast alloc_size\<rparr>, [snd (push_chunk (scast alloc_size) ?p)], ?m))"
    using search \<open>lo \<noteq> 0\<close> e(1) fit j
    by (subst near_search_once_more.simps, simp, subst near_search_once_more.simps)
      (simp add: NearMemoryArena_PushPage_def unat_pow2 push_chunk_def new_page_def Let_def)
  moreover have "peek ?m lo (2 ^ j) = replicate (2 ^ j) 0"
    using peek_poke [of "replicate (2 ^ j) 0" m lo] j power_strict_increasing [of j 64 "2 :: nat"] by simp
  ultimately show ?thesis
    by (simp add: NearMemoryArena_AllocateDataChunk_def NearMemoryArena_AllocateChunk_def arena_pages_def run_bind_simps)
qed

section \<open>Witnesses\<close>

definition demo_near_env :: near_env where
  "demo_near_env = \<lparr>ne_mmap = (\<lambda>_ a _ _ _. Some a), ne_page_size = 2 ^ 12,
     ne_layout = [\<lparr>mr_address = 0x1000, mr_length = 0x40000000, mr_permission = kReadWrite\<rparr>,
       \<lparr>mr_address = 0x7F0000000000, mr_length = 0x1000, mr_permission = kReadExecute\<rparr>], ne_arm = False\<rparr>"

lemma demo_near_ok: "near_env_ok 12 demo_near_env" "near_position 0x40000800 0x20000000 12"
  by (simp_all add: near_env_ok_def demo_near_env_def near_allocate_def OSMemory_Allocate_def near_position_def)

lemma demo_near_lo: "next_page (addr_sub 0x40000800 0x20000000) (2 ^ 12) = 0x20001000"
  by code_simp

lemma demo_near_search: "search_near_blank_page demo_near_env 0x40000800 0x20000000 = Inr 0x20001000"
  by code_simp

theorem near_allocation_returns_witness:
  "\<exists>res. NearMemoryArena_AllocateChunk (\<lambda>_. demo_near_env) 0x40000800 0x20000000 8 kReadExecute None (\<lambda>_. 0) = Some res"
  by (rule near_allocation_returns [OF demo_near_ok]) simp

theorem near_allocation_diverges_witness:
  "NearMemoryArena_AllocateChunk (\<lambda>_. demo_near_env) 0x40000800 0x20000000 0x1000 kReadWrite None (\<lambda>_. 0) = None"
  by (rule near_allocation_diverges [OF demo_near_ok]) (simp_all add: demo_near_search)

lemma demo_near_covered: "mr_address (hd (ne_layout demo_near_env)) \<le> 0x20001000" "near_allocate demo_near_env 1 0x20001000 = 0x20001000"
  "prev_page (addr_add 0x40000800 0x20000000) (2 ^ 12) < region_end (last (ne_layout demo_near_env))"
  by code_simp+

theorem near_page_overwrites_mapping_witness:
  "\<exists>c page_chunks' m'. NearMemoryArena_AllocateDataChunk (\<lambda>_. demo_near_env) 0x40000800 0x20000000 8 None (\<lambda>_. 0x55) =
      Some (Inr (Some c, page_chunks', m')) \<and> chunk_address c = 0x20001000 \<and> peek m' 0x20001000 (2 ^ 12) = replicate (2 ^ 12) 0 \<and>
    mr_address (hd (ne_layout demo_near_env)) \<le> 0x20001000 \<and> 0x20002000 \<le> region_end (hd (ne_layout demo_near_env))"
proof -
  have "0x20002000 \<le> region_end (hd (ne_layout demo_near_env))" by code_simp
  with near_page_overwrites_mapping [of 12 "\<lambda>_. demo_near_env" "0x40000800" "0x20000000" 8 "\<lambda>_. 0x55", OF demo_near_ok] demo_near_covered
  show ?thesis unfolding demo_near_lo by simp
qed

theorem near_chunk_in_range_witness:
  "\<exists>c a m. NearMemoryArena_AllocateDataChunk (\<lambda>_. demo_near_env) 0x40000800 0x20000000 8 None (\<lambda>_. 0x55) = Some (Inr (Some c, a, m)) \<and>
    near_distance (chunk_address c) 0x40000800 < 0x20000000"
proof -
  let ?p = "new_page 0x20001000 (2 ^ 12) kReadWrite"
  have fit: "near_page_fits 0x40000800 0x20000000 8 kReadWrite ?p" by code_simp
  have ps: "ne_page_size demo_near_env = 2 ^ 12" by (simp add: demo_near_env_def)
  have "\<exists>ps m. near_search_once_more (\<lambda>_. demo_near_env) 0 0x40000800 0x20000000 8 kReadWrite [] (\<lambda>_. 0x55) =
      Some (Inr (Some \<lparr>chunk_address = 0x20001000, chunk_length = 8\<rparr>, ps, m))"
    by (subst near_search_once_more.simps, simp add: demo_near_search, subst near_search_once_more.simps)
      (use fit in \<open>simp add: NearMemoryArena_PushPage_def ps push_chunk_def new_page_def Let_def\<close>)
  then obtain a m where "NearMemoryArena_AllocateDataChunk (\<lambda>_. demo_near_env) 0x40000800 0x20000000 8 None (\<lambda>_. 0x55) =
      Some (Inr (Some \<lparr>chunk_address = 0x20001000, chunk_length = 8\<rparr>, a, m))"
    by (auto simp: NearMemoryArena_AllocateDataChunk_def NearMemoryArena_AllocateChunk_def arena_pages_def)
  with near_chunk_in_range [OF this] show ?thesis by blast
qed

end
