(* ===== verification/X64Engine.thy ===== *)
theory X64Engine
  imports X64Prologue X64Branches X64ClosureBridge NearMemoryArena
begin

text \<open>
  Hooking and instrumenting on x64: the trampoline of \<open>TrampolineBridge/Trampoline/x64\<close>, the routing of \<open>InterceptRouting.cpp\<close>,
  \<open>function-inline-replace.cc\<close> and \<open>dynamic-binary-instrument.cc\<close>, \<open>DobbyHook\<close>, \<open>DobbyInstrument\<close>, and what runs when an
  instrumented function is called. The near branch plugin has no effect on x64: its trampoline is always \<open>NULL\<close>.
\<close>

section \<open>State\<close>

text \<open>
  The engine with the near arena and the static variable of the closure bridge; and the system during a call, one view of it for each
  place that asks for memory, with the addresses of the objects \<open>new\<close> returns.
\<close>

record x64_engine =
  xe_db :: dobby
  xe_near :: arena
  xe_closure_bridge :: u64

record x64_env =
  xv_hook :: hook_env
  xv_near :: "nat \<Rightarrow> near_env"
  xv_relocate :: "nat \<Rightarrow> hook_env"
  xv_closure :: hook_env
  xv_bridge :: hook_env
  xv_closure_entry :: u64
  xv_hook_entry :: u64

section \<open>The trampoline\<close>

definition AllocIndirectStub :: "x64_env \<Rightarrow> u64 \<Rightarrow> x64_engine \<Rightarrow> (u64 \<times> x64_engine) run" where
  "AllocIndirectStub env branch_address st =
    run_bind (NearMemoryArena_AllocateDataChunk (xv_near env) branch_address (2 * 1024 * 1024 * 1024) 8 (xe_near st) (db_memory (xe_db st)))
      (\<lambda>(forwardStub, page_chunks, m).
       let st = st\<lparr>xe_near := page_chunks, xe_db := (xe_db st)\<lparr>db_memory := m\<rparr>\<rparr>
       in Some (Inr (case forwardStub of None \<Rightarrow> 0 | Some c \<Rightarrow> chunk_address c, st)))"

definition x64_GenerateNormalTrampolineBuffer :: "x64_env \<Rightarrow> u64 \<Rightarrow> u64 \<Rightarrow> x64_engine \<Rightarrow> (u8 list \<times> x64_engine) run" where
  "x64_GenerateNormalTrampolineBuffer env src dst st =
    run_bind (AllocIndirectStub env src st) (\<lambda>(branch_stub, st).
    if branch_stub = 0 then Some (Inl NullPointer)
    else let st = st\<lparr>xe_db := (xe_db st)\<lparr>db_memory := store64 (db_memory (xe_db st)) branch_stub dst\<rparr>\<rparr>
      in Some (Inr (x64_buffer (x64_JmpNearIndirect (x64_new src) branch_stub), st)))"

section \<open>Routing\<close>

definition x64_GenerateTrampolineBuffer :: "x64_env \<Rightarrow> u64 \<Rightarrow> u64 \<Rightarrow> x64_engine \<Rightarrow> (u8 list \<times> x64_engine) run" where
  "x64_GenerateTrampolineBuffer env src dst st = x64_GenerateNormalTrampolineBuffer env src dst st"

definition x64_GenerateRelocatedCode :: "x64_env \<Rightarrow> nat \<Rightarrow> HookEntry \<Rightarrow> x64_engine \<Rightarrow> (bool \<times> HookEntry \<times> x64_engine) run" where
  "x64_GenerateRelocatedCode env tramp_size ent st =
    (let origin = FinalizeFromAddress (he_address ent) (of_nat tramp_size); relocated = FinalizeFromAddress 0 0 in
     run_bind (x64_GenRelocateCodeAndBranch (xv_relocate env) (he_address ent) origin relocated (xe_db st)) (\<lambda>(origin, relocated, db).
     let st = st\<lparr>xe_db := db\<rparr> in
     if raw_instruction_start relocated = 0 then Some (Inr (False, ent, st))
     else let ent = ent\<lparr>he_relocated := raw_instruction_start relocated\<rparr>; sz = unat (raw_instruction_size origin) in
       if sz > 64 then Some (Inl OutOfBounds)
       else Some (Inr (True, ent\<lparr>he_origin_buffer := peek (db_memory db) (raw_instruction_start origin) sz, he_origin_chunk := origin\<rparr>, st))))"

definition x64_DispatchRouting :: "x64_env \<Rightarrow> u64 \<Rightarrow> HookEntry \<Rightarrow> x64_engine \<Rightarrow> (u8 list \<times> HookEntry \<times> x64_engine) run" where
  "x64_DispatchRouting env replace_call ent st =
    (let ent = ent\<lparr>he_trampoline_target := replace_call\<rparr> in
     run_bind (x64_GenerateTrampolineBuffer env (he_address ent) (he_trampoline_target ent) st) (\<lambda>(trampoline, st).
     run_bind (x64_GenerateRelocatedCode env (length trampoline) ent st) (\<lambda>(_, ent, st).
     Some (Inr (trampoline, ent, st)))))"

text \<open>The closure trampoline is used without a check for \<open>NULL\<close>.\<close>

definition BuildDynamicBinaryInstrumentRouting ::
  "x64_env \<Rightarrow> u64 \<Rightarrow> u64 \<Rightarrow> HookEntry \<Rightarrow> x64_engine \<Rightarrow> (u8 list \<times> ClosureTrampolineEntry \<times> HookEntry \<times> x64_engine) run" where
  "BuildDynamicBinaryInstrumentRouting env instrument_routing_dispatch common_bridge_handler ent st =
    run_bind (Some (x64_CreateClosureTrampoline (xv_closure env) (xv_bridge env) (xv_closure_entry env) (xv_hook_entry env)
        instrument_routing_dispatch common_bridge_handler (xe_closure_bridge st) (xe_db st))) (\<lambda>(closure_trampoline, bridge, db).
    let st = st\<lparr>xe_closure_bridge := bridge, xe_db := db\<rparr> in
    case closure_trampoline of
      None \<Rightarrow> Some (Inl NullPointer)
    | Some cte \<Rightarrow>
      let ent = ent\<lparr>he_trampoline_target := cte_address cte\<rparr> in
      run_bind (x64_GenerateTrampolineBuffer env (he_address ent) (he_trampoline_target ent) st) (\<lambda>(trampoline, st).
      Some (Inr (trampoline, cte, ent, st))))"

definition instrument_DispatchRouting ::
  "x64_env \<Rightarrow> u64 \<Rightarrow> u64 \<Rightarrow> HookEntry \<Rightarrow> x64_engine \<Rightarrow> (u8 list \<times> ClosureTrampolineEntry \<times> HookEntry \<times> x64_engine) run" where
  "instrument_DispatchRouting env instrument_routing_dispatch common_bridge_handler ent st =
    run_bind (BuildDynamicBinaryInstrumentRouting env instrument_routing_dispatch common_bridge_handler ent st) (\<lambda>(trampoline, cte, ent, st).
    run_bind (x64_GenerateRelocatedCode env (length trampoline) ent st) (\<lambda>(_, ent, st).
    Some (Inr (trampoline, cte, ent, st))))"

section \<open>DobbyHook and DobbyInstrument\<close>

definition x64_register :: "x64_env \<Rightarrow> HookEntry \<Rightarrow> u8 list \<Rightarrow> x64_engine \<Rightarrow> x64_engine run" where
  "x64_register env ent trampoline st =
    (let db = (xe_db st)\<lparr>db_interceptor := AddHookEntry (hv_new_node (xv_hook env)) ent (db_interceptor (xe_db st))\<rparr> in
     run_bind (Some (InterceptRouting_Active (xv_hook env) (he_address ent) trampoline db)) (\<lambda>db. Some (Inr (st\<lparr>xe_db := db\<rparr>))))"

definition x64_DobbyHook :: "x64_env \<Rightarrow> u64 \<Rightarrow> u64 \<Rightarrow> x64_engine \<Rightarrow> (int \<times> u64 option \<times> x64_engine) run" where
  "x64_DobbyHook env address replace_call st =
    (if address = 0 then Some (Inr (RS_FAILED, None, st))
     else let ic = SharedInstance (hv_new_instance (xv_hook env)) (db_interceptor (xe_db st));
              st = st\<lparr>xe_db := (xe_db st)\<lparr>db_interceptor := ic\<rparr>\<rparr> in
       run_bind (map_option Inr (FindHookEntry address ic)) (\<lambda>found.
       if (case found of None \<Rightarrow> False | Some ent \<Rightarrow> he_trampoline_target ent = replace_call)
       then Some (Inr (RS_FAILED, None, st))
       else
         run_bind (map_option Inr (GetHookEntryCount ic)) (\<lambda>count.
         let ent = new_HookEntry\<lparr>he_id := count, he_type := kFunctionInlineHook, he_address := address, he_handler := replace_call\<rparr> in
         run_bind (x64_DispatchRouting env replace_call ent st) (\<lambda>(trampoline, ent, st).
         run_bind (x64_register env ent trampoline st) (\<lambda>st. Some (Inr (RS_SUCCESS, Some (he_relocated ent), st)))))))"

text \<open>The addresses of \<open>instrument_routing_dispatch\<close> and of the common bridge handler are those the linker gives.\<close>

definition DobbyInstrument ::
  "x64_env \<Rightarrow> u64 \<Rightarrow> u64 \<Rightarrow> u64 \<Rightarrow> u64 \<Rightarrow> x64_engine \<Rightarrow> (int \<times> (ClosureTrampolineEntry \<times> HookEntry) option \<times> x64_engine) run" where
  "DobbyInstrument env instrument_routing_dispatch common_bridge_handler address handler st =
    (if address = 0 then Some (Inr (RS_FAILED, None, st))
     else let ic = SharedInstance (hv_new_instance (xv_hook env)) (db_interceptor (xe_db st));
              st = st\<lparr>xe_db := (xe_db st)\<lparr>db_interceptor := ic\<rparr>\<rparr> in
       run_bind (map_option Inr (FindHookEntry address ic)) (\<lambda>found.
       if (case found of None \<Rightarrow> False | Some ent \<Rightarrow> he_handler ent = handler)
       then Some (Inr (RS_FAILED, None, st))
       else
         run_bind (map_option Inr (GetHookEntryCount ic)) (\<lambda>count.
         let ent = new_HookEntry\<lparr>he_id := count, he_type := kDynamicBinaryInstrument, he_address := address, he_handler := handler\<rparr> in
         run_bind (instrument_DispatchRouting env instrument_routing_dispatch common_bridge_handler ent st) (\<lambda>(trampoline, cte, ent, st).
         run_bind (x64_register env ent trampoline st) (\<lambda>st. Some (Inr (RS_SUCCESS, Some (cte, ent), st)))))))"

section \<open>The handlers\<close>

text \<open>
  \<open>DBICallTy\<close> handlers are parameters that change memory: \<open>dbi handler ctx entry_info\<close>. \<open>call\<close> is the call of the routing handler whose
  address the closure trampoline carries; \<open>entry_at\<close> is the hook entry at an address.
\<close>

record HookEntryInfo =
  hook_id :: int
  instruction_address :: u64

type_synonym mem_change = "(u64 \<Rightarrow> u8) \<Rightarrow> u64 \<Rightarrow> u8"

definition instrument_call_forward_handler :: "(u64 \<Rightarrow> u64 \<Rightarrow> HookEntryInfo \<Rightarrow> mem_change) \<Rightarrow> u64 \<Rightarrow> HookEntry \<Rightarrow> mem_change" where
  "instrument_call_forward_handler dbi ctx ent m =
    (let m = (if he_handler ent \<noteq> 0
              then dbi (he_handler ent) ctx \<lparr>hook_id = he_id ent, instruction_address = he_address ent\<rparr> m else m)
     in x64_set_routing_bridge_next_hop ctx (he_relocated ent) m)"

definition instrument_routing_dispatch ::
  "(u64 \<Rightarrow> u64 \<Rightarrow> HookEntryInfo \<Rightarrow> mem_change) \<Rightarrow> (u64 \<Rightarrow> HookEntry) \<Rightarrow> u64 \<Rightarrow> ClosureTrampolineEntry \<Rightarrow> mem_change" where
  "instrument_routing_dispatch dbi entry_at ctx closure_trampoline_entry =
    instrument_call_forward_handler dbi ctx (entry_at (cte_carry_data closure_trampoline_entry))"

definition intercept_routing_common_bridge_handler ::
  "(u64 \<Rightarrow> u64 \<Rightarrow> ClosureTrampolineEntry \<Rightarrow> mem_change) \<Rightarrow> u64 \<Rightarrow> ClosureTrampolineEntry \<Rightarrow> mem_change" where
  "intercept_routing_common_bridge_handler call ctx entry = call (cte_carry_handler entry) ctx entry"

section \<open>Patching a function\<close>

text \<open>
  The conditions under which a function can be patched to go to \<open>dst\<close>: its prologue, as the architecture reads it, depends on no
  place; the near arena finds room for the stub, in reach of the jump and without mapping over the function; the relocation finds
  memory apart from both; and the patch does not cross a page.
\<close>

definition x64_patch_plan ::
  "x64_env \<Rightarrow> u64 \<Rightarrow> u64 \<Rightarrow> x64_engine \<Rightarrow> u64 \<Rightarrow> arena \<Rightarrow> (u64 \<Rightarrow> u8) \<Rightarrow> MemoryChunk \<Rightarrow> dobby \<Rightarrow> (nat \<times> x64_insn \<times> nat) list \<Rightarrow> bool" where
  "x64_patch_plan env address dst st stub page_chunks m relocated db is \<longleftrightarrow>
     prologue_listing (db_memory (xe_db st)) address 6 0 = Some is \<and>
     NearMemoryArena_AllocateDataChunk (xv_near env) address 0x80000000 8 (xe_near st) (db_memory (xe_db st)) =
       Some (Inr (Some \<lparr>chunk_address = stub, chunk_length = 8\<rparr>, page_chunks, m)) \<and>
     stub \<noteq> 0 \<and> near (stub - (address + 6)) \<and> peek m address 64 = peek (db_memory (xe_db st)) address 64 \<and> apart stub 8 address 64 \<and>
     (\<exists>origin. x64_GenRelocateCodeAndBranch (xv_relocate env) address \<lparr>chunk_address = address, chunk_length = 6\<rparr>
         \<lparr>chunk_address = 0, chunk_length = 0\<rparr> ((xe_db st)\<lparr>db_memory := store64 m stub dst\<rparr>) = Some (Inr (origin, relocated, db))) \<and>
     raw_instruction_start relocated \<noteq> 0 \<and> apart (raw_instruction_start relocated) (listing_size is + 14) address 64 \<and>
     apart (raw_instruction_start relocated) (listing_size is + 14) stub 8 \<and> in_page (hv_page_size (xv_hook env)) address 6"

definition x64_trampoline :: "u64 \<Rightarrow> u64 \<Rightarrow> u8 list" where
  "x64_trampoline address stub = [0xFF, 0x25] @ le_bytes 4 (ucast (stub - (address + 6)) :: u32)"

lemma trampoline_bytes: "x64_buffer (x64_JmpNearIndirect (x64_new address) stub) = x64_trampoline address stub" "length (x64_trampoline address stub) = 6"
  by (simp_all add: x64_JmpNearIndirect_def x64_Emit_def x64_Emit1_def x64_EmitBuffer_def x64_new_def x64_CurrentIP_def x64_ip_offset_def
      x64_trampoline_def Let_def le_bytes_numeral)

text \<open>What the patch leaves in memory.\<close>

definition patched_memory :: "u64 \<Rightarrow> u64 \<Rightarrow> dobby \<Rightarrow> u64 \<Rightarrow> u8" where
  "patched_memory address stub db = poke (db_memory db) address (x64_trampoline address stub)"

definition patched_entry :: "u64 \<Rightarrow> (u64 \<Rightarrow> u8) \<Rightarrow> MemoryChunk \<Rightarrow> (nat \<times> x64_insn \<times> nat) list \<Rightarrow> HookEntry \<Rightarrow> HookEntry" where
  "patched_entry address m relocated is ent = ent\<lparr>he_relocated := raw_instruction_start relocated,
     he_origin_buffer := peek m address (listing_size is), he_origin_chunk := \<lparr>chunk_address = address, chunk_length = of_nat (listing_size is)\<rparr>\<rparr>"

lemma planD:
  assumes "x64_patch_plan env address dst st stub page_chunks m relocated db is"
  shows "prologue_listing (db_memory (xe_db st)) address 6 0 = Some is"
    "NearMemoryArena_AllocateDataChunk (xv_near env) address 0x80000000 8 (xe_near st) (db_memory (xe_db st)) =
       Some (Inr (Some \<lparr>chunk_address = stub, chunk_length = 8\<rparr>, page_chunks, m))"
    "stub \<noteq> 0" "near (stub - (address + 6))" "peek m address 64 = peek (db_memory (xe_db st)) address 64" "apart stub 8 address 64"
    "\<exists>origin. x64_GenRelocateCodeAndBranch (xv_relocate env) address \<lparr>chunk_address = address, chunk_length = 6\<rparr>
         \<lparr>chunk_address = 0, chunk_length = 0\<rparr> ((xe_db st)\<lparr>db_memory := store64 m stub dst\<rparr>) = Some (Inr (origin, relocated, db))"
    "raw_instruction_start relocated \<noteq> 0" "apart (raw_instruction_start relocated) (listing_size is + 14) address 64"
    "apart (raw_instruction_start relocated) (listing_size is + 14) stub 8" "in_page (hv_page_size (xv_hook env)) address 6"
  using assms unfolding x64_patch_plan_def by blast+

lemma plan_relocated:
  assumes "x64_patch_plan env address dst st stub page_chunks m relocated db is"
  shows "x64_GenRelocateCodeAndBranch (xv_relocate env) address \<lparr>chunk_address = address, chunk_length = 6\<rparr>
      \<lparr>chunk_address = 0, chunk_length = 0\<rparr> ((xe_db st)\<lparr>db_memory := store64 m stub dst\<rparr>) =
        Some (Inr (\<lparr>chunk_address = address, chunk_length = of_nat (listing_size is)\<rparr>, relocated, db))"
    "6 \<le> listing_size is" "listing_size is \<le> 20" "db_interceptor db = db_interceptor (xe_db st)"
    "db_memory db = poke (store64 m stub dst) (raw_instruction_start relocated) (peek (db_memory (xe_db st)) address (listing_size is) @ jump_back (address + of_nat (listing_size is)))"
    "peek (db_memory db) address 64 = peek (db_memory (xe_db st)) address 64"
proof -
  let ?m = "db_memory (xe_db st)" and ?m2 = "store64 m stub dst"
  note p = planD [OF assms]
  have same: "peek ?m2 address 64 = peek ?m address 64" using peek_store64_apart [OF p(6), of m dst] p(5) by (rule trans)
  have l: "prologue_listing ?m2 address 6 0 = Some is" by (rule prologue_listing_cong [OF p(1) same [symmetric]]) simp
  show n: "6 \<le> listing_size is" "listing_size is \<le> 20" using prologue_listing_size [OF l] by simp_all
  obtain origin where o: "x64_try_again (xv_relocate env) 0 address \<lparr>chunk_address = address, chunk_length = 6\<rparr>
      \<lparr>chunk_address = 0, chunk_length = 0\<rparr> 32 ((xe_db st)\<lparr>db_memory := ?m2\<rparr>) = Some (Inr (origin, relocated, db))"
    using p(7) by (auto simp: x64_GenRelocateCodeAndBranch_def)
  have r: "origin = \<lparr>chunk_address = address, chunk_length = of_nat (listing_size is)\<rparr>" "db_interceptor db = db_interceptor (xe_db st)"
      "db_memory db = poke ?m2 (raw_instruction_start relocated) (peek ?m2 address (listing_size is) @ jump_back (address + of_nat (listing_size is)))"
    using try_again_prologue [OF o refl p(8), of address "is"] l n by (simp_all add: raw_instruction_start_def raw_instruction_size_def)
  show "x64_GenRelocateCodeAndBranch (xv_relocate env) address \<lparr>chunk_address = address, chunk_length = 6\<rparr>
      \<lparr>chunk_address = 0, chunk_length = 0\<rparr> ((xe_db st)\<lparr>db_memory := ?m2\<rparr>) =
        Some (Inr (\<lparr>chunk_address = address, chunk_length = of_nat (listing_size is)\<rparr>, relocated, db))"
    using o r(1) by (simp add: x64_GenRelocateCodeAndBranch_def)
  show "db_interceptor db = db_interceptor (xe_db st)" by (rule r(2))
  have "peek ?m2 address (listing_size is) = peek ?m address (listing_size is)" using peek_sub [OF same, of 0 "listing_size is"] n by simp
  then show mem: "db_memory db = poke ?m2 (raw_instruction_start relocated) (peek ?m address (listing_size is) @ jump_back (address + of_nat (listing_size is)))"
    using r(3) by simp
  show "peek (db_memory db) address 64 = peek ?m address 64"
    unfolding mem using p(9) same by (subst peek_poke_apart) (simp_all del: le_bytes.simps)
qed

lemma patch_runs:
  assumes plan: "x64_patch_plan env address dst st stub page_chunks m relocated db is" and ent: "he_address ent = address"
  shows "x64_GenerateTrampolineBuffer env address dst st = Some (Inr (x64_trampoline address stub,
      st\<lparr>xe_near := page_chunks, xe_db := (xe_db st)\<lparr>db_memory := store64 m stub dst\<rparr>\<rparr>))"
    "x64_GenerateRelocatedCode env 6 ent (st\<lparr>xe_near := page_chunks, xe_db := (xe_db st)\<lparr>db_memory := store64 m stub dst\<rparr>\<rparr>) =
      Some (Inr (True, patched_entry address (db_memory (xe_db st)) relocated is ent, st\<lparr>xe_near := page_chunks, xe_db := db\<rparr>))"
    "he_address ent' = address \<Longrightarrow> x64_register env ent' (x64_trampoline address stub) (st\<lparr>xe_near := page_chunks, xe_db := db\<rparr>) =
      Some (Inr (st\<lparr>xe_near := page_chunks, xe_db := db\<lparr>db_memory := patched_memory address stub db,
         db_interceptor := AddHookEntry (hv_new_node (xv_hook env)) ent' (db_interceptor db)\<rparr>\<rparr>))"
proof -
  note p = planD [OF plan] and r = plan_relocated [OF plan]
  show "x64_GenerateTrampolineBuffer env address dst st = Some (Inr (x64_trampoline address stub,
      st\<lparr>xe_near := page_chunks, xe_db := (xe_db st)\<lparr>db_memory := store64 m stub dst\<rparr>\<rparr>))"
    using p(2,3) by (simp add: x64_GenerateTrampolineBuffer_def x64_GenerateNormalTrampolineBuffer_def AllocIndirectStub_def trampoline_bytes Let_def)
  have n: "unat (of_nat (listing_size is) :: u64) = listing_size is" using r(3) by (simp add: unsigned_of_nat take_bit_nat_eq_self)
  have "peek (db_memory db) address (listing_size is) = peek (db_memory (xe_db st)) address (listing_size is)"
    using peek_sub [OF r(6), of 0 "listing_size is"] r(3) by simp
  then show "x64_GenerateRelocatedCode env 6 ent (st\<lparr>xe_near := page_chunks, xe_db := (xe_db st)\<lparr>db_memory := store64 m stub dst\<rparr>\<rparr>) =
      Some (Inr (True, patched_entry address (db_memory (xe_db st)) relocated is ent, st\<lparr>xe_near := page_chunks, xe_db := db\<rparr>))"
    using p(8) r(1,3) n ent by (simp add: x64_GenerateRelocatedCode_def FinalizeFromAddress_def init_region_range_def raw_instruction_size_def
        raw_instruction_start_def patched_entry_def Let_def)
  show "x64_register env ent' (x64_trampoline address stub) (st\<lparr>xe_near := page_chunks, xe_db := db\<rparr>) =
      Some (Inr (st\<lparr>xe_near := page_chunks, xe_db := db\<lparr>db_memory := patched_memory address stub db,
         db_interceptor := AddHookEntry (hv_new_node (xv_hook env)) ent' (db_interceptor db)\<rparr>\<rparr>))" if "he_address ent' = address"
    using p(11) that by (simp add: x64_register_def InterceptRouting_Active_def CodePatch_in_page trampoline_bytes patched_memory_def Let_def)
qed

text \<open>The patched function jumps to the target; the relocated code does what the prologue did.\<close>

lemma trampoline_step:
  assumes "holds_code (x_mem s) (x_rip s) (x64_trampoline (x_rip s) stub)" "near (stub - (x_rip s + 6))" "load64 (x_mem s) stub = dst"
  shows "x64_run 1 s = Some (s\<lparr>x_rip := dst\<rparr>)"
proof -
  let ?d = "ucast (stub - (x_rip s + 6)) :: u32"
  have "x64_disasm (x64_trampoline (x_rip s) stub) = Some (I_jmp_rm (RM_mem (EA_rip (scast ?d))), 6)"
    using pdisp32_le [of ?d "[]"]
    by (simp add: x64_trampoline_def x64_disasm_def p_insn_def p_opcode_def p_group5_def p_modrm_def pbind_def pbyte_def preturn_def
        field3_def rex_ext_def del: le_bytes.simps)
  then have "x64_disasm (take 15 (drop 0 (x64_trampoline (x_rip s) stub))) = Some (I_jmp_rm (RM_mem (EA_rip (scast ?d))), 6)"
    by (simp add: trampoline_bytes)
  from x64_run_code [OF assms(1) _ this, of 0] have "x64_run 1 s = Some (s\<lparr>x_rip := load64 (x_mem s) (x_rip s + 6 + scast ?d)\<rparr>)"
    by (simp add: x64_exec_def)
  moreover have "x_rip s + 6 + scast ?d = stub" using assms(2) by (simp add: near_def)
  ultimately show ?thesis using assms(3) by simp
qed

lemma patched_holds:
  assumes "x64_patch_plan env address dst st stub page_chunks m relocated db is"
  shows "holds_code (patched_memory address stub db) address (x64_trampoline address stub)"
    "load64 (patched_memory address stub db) stub = dst"
    "holds_code (patched_memory address stub db) (raw_instruction_start relocated)
      (peek (db_memory (xe_db st)) address (listing_size is) @ jump_back (address + of_nat (listing_size is)))"
proof -
  let ?relo = "raw_instruction_start relocated" and ?n = "listing_size is" and ?code = "peek (db_memory (xe_db st)) address (listing_size is) @ jump_back (address + of_nat (listing_size is))"
  note p = planD [OF assms] and r = plan_relocated [OF assms]
  have len: "length ?code = ?n + 14" by (simp del: le_bytes.simps)
  have ap: "apart address 6 stub 8" "apart address 6 ?relo (?n + 14)" using p(6,9) by (auto simp: apart_def)
  show "holds_code (patched_memory address stub db) address (x64_trampoline address stub)"
    unfolding patched_memory_def by (rule holds_code_poke) (simp add: trampoline_bytes)
  have "holds_code (db_memory db) ?relo ?code" unfolding r(5) by (rule holds_code_poke) (use r(3) len in simp)
  then show "holds_code (patched_memory address stub db) ?relo ?code"
    unfolding patched_memory_def using ap(2) by (subst holds_code_apart) (simp_all only: trampoline_bytes len)
  have "holds_code (db_memory db) stub (le_bytes 8 dst)"
    unfolding r(5) using p(10) len peek_poke [of "le_bytes 8 dst" m stub]
    by (subst holds_code_apart) (simp_all add: holds_code_def store64_def del: le_bytes.simps)
  then have "holds_code (patched_memory address stub db) stub (le_bytes 8 dst)"
    unfolding patched_memory_def using ap(1) by (subst holds_code_apart) (simp_all add: trampoline_bytes del: le_bytes.simps)
  then show "load64 (patched_memory address stub db) stub = dst" by (rule holds_code_word)
qed

lemma patched_function_jumps:
  assumes "x64_patch_plan env address dst st stub page_chunks m relocated db is" "x_mem s = patched_memory address stub db" "x_rip s = address"
  shows "x64_run 1 s = Some (s\<lparr>x_rip := dst\<rparr>)"
  using trampoline_step [of s stub dst] patched_holds [OF assms(1)] planD(4) [OF assms(1)] assms(2,3) by simp

lemma relocated_code_runs:
  assumes "x64_patch_plan env address dst st stub page_chunks m relocated db is"
    and "holds_code (x_mem s) (raw_instruction_start relocated)
      (peek (db_memory (xe_db st)) address (listing_size is) @ jump_back (address + of_nat (listing_size is)))"
    and "x_rip s = address" "x64_block address p k is s = Some t" "apart p k (raw_instruction_start relocated) (listing_size is + 14)"
  shows "\<exists>j. x64_run j (s\<lparr>x_rip := raw_instruction_start relocated\<rparr>) = Some t"
  by (rule placed_prologue_runs [OF assms(2) _ prologue_bytes [OF planD(1) [OF assms(1)]] assms(3-5)]) simp

section \<open>Hooking\<close>

definition x64_shared :: "x64_env \<Rightarrow> x64_engine \<Rightarrow> x64_engine" where
  "x64_shared env st = st\<lparr>xe_db := (xe_db st)\<lparr>db_interceptor := SharedInstance (hv_new_instance (xv_hook env)) (db_interceptor (xe_db st))\<rparr>\<rparr>"

definition not_hooked_by :: "(HookEntry \<Rightarrow> u64) \<Rightarrow> HookEntry list \<Rightarrow> u64 \<Rightarrow> u64 \<Rightarrow> bool" where
  "not_hooked_by field es address v \<longleftrightarrow> (case find (\<lambda>e. he_address e = address) es of None \<Rightarrow> True | Some e \<Rightarrow> field e \<noteq> v)"

lemma x64_DobbyHook_eq:
  assumes "address \<noteq> 0" "registry_ready (xv_hook env) (xe_db st) es" "not_hooked_by he_trampoline_target es address replace_call"
    and plan: "x64_patch_plan env address replace_call (x64_shared env st) stub page_chunks m relocated db is"
  shows "\<exists>ent. x64_DobbyHook env address replace_call st = Some (Inr (RS_SUCCESS, Some (raw_instruction_start relocated),
      (x64_shared env st)\<lparr>xe_near := page_chunks, xe_db := db\<lparr>db_memory := patched_memory address stub db,
         db_interceptor := AddHookEntry (hv_new_node (xv_hook env)) ent (db_interceptor db)\<rparr>\<rparr>)) \<and>
    he_address ent = address \<and> he_trampoline_target ent = replace_call \<and> he_relocated ent = raw_instruction_start relocated"
proof -
  define ic where "ic = SharedInstance (hv_new_instance (xv_hook env)) (db_interceptor (xe_db st))"
  have ic: "ic_holds ic es" using assms(2) by (simp add: registry_ready_def ic_def Let_def)
  let ?ent = "new_HookEntry\<lparr>he_id := int (length es), he_type := kFunctionInlineHook, he_address := address, he_handler := replace_call,
    he_trampoline_target := replace_call\<rparr>"
  let ?e = "patched_entry address (db_memory (xe_db (x64_shared env st))) relocated is ?ent"
  have st: "st\<lparr>xe_db := (xe_db st)\<lparr>db_interceptor := ic\<rparr>\<rparr> = x64_shared env st" by (simp add: x64_shared_def ic_def)
  have a: "he_address ?ent = address" "he_address ?e = address" by (simp_all add: patched_entry_def)
  note runs = patch_runs [OF plan a(1)] patch_runs(3) [OF plan a(1) a(2)]
  have "x64_DobbyHook env address replace_call st = Some (Inr (RS_SUCCESS, Some (raw_instruction_start relocated),
      (x64_shared env st)\<lparr>xe_near := page_chunks, xe_db := db\<lparr>db_memory := patched_memory address stub db,
         db_interceptor := AddHookEntry (hv_new_node (xv_hook env)) ?e (db_interceptor db)\<rparr>\<rparr>))"
    using assms(1,3) interceptor.lookup_holds [OF ic, of address] interceptor.count_holds [OF ic] runs
    by (auto simp: x64_DobbyHook_def ic_def [symmetric] st not_hooked_by_def x64_DispatchRouting_def trampoline_bytes patched_entry_def Let_def
        split: option.splits)
  then show ?thesis by (intro exI [of _ ?e]) (simp add: patched_entry_def)
qed

section \<open>Instrumenting\<close>

text \<open>Creating the closure trampoline leaves it and the bridge in memory, and the registry as it is.\<close>

abbreviation closure_code :: "u64 \<Rightarrow> u64 \<Rightarrow> u8 list" where
  "closure_code ent bridge \<equiv> x64_buffer (closure_trampoline_code ent bridge)"

lemma closure_code_length [simp]: "length (closure_code ent bridge) = 28"
  by (simp add: trampoline_code del: le_bytes.simps)

lemma bridge_image_length: "length (bridge_image h) = 248"
  by (simp del: le_bytes.simps)

lemma get_closure_bridge_placed:
  assumes "x64_get_closure_bridge env h closure_bridge db = Inr (bridge, db')"
    and "closure_bridge = 0 \<or> holds_code (db_memory db) closure_bridge (bridge_image h)"
  shows "holds_code (db_memory db') bridge (bridge_image h)" "db_interceptor db' = db_interceptor db"
proof -
  obtain a where a: "closure_bridge_code h = Inr a" "x64_realized_address a = 0" "x64_buffer a = bridge_image h"
    using closure_bridge_code_eq [of h] by auto
  show "holds_code (db_memory db') bridge (bridge_image h)"
    using assms a CodePatch_holds [of _ _ "bridge_image h"]
    by (auto simp: x64_get_closure_bridge_def FinalizeFromTurboAssembler_def Let_def simp del: le_bytes.simps split: if_splits option.splits prod.splits)
  show "db_interceptor db' = db_interceptor db"
    using assms(1) a
    by (auto simp: x64_get_closure_bridge_def FinalizeFromTurboAssembler_def Let_def simp del: le_bytes.simps split: if_splits option.splits prod.splits)
qed

lemma CreateClosureTrampoline_placed:
  assumes "x64_CreateClosureTrampoline env benv entry carry_data carry_handler h closure_bridge db = Inr (Some cte, bridge, db')"
    and "closure_bridge = 0 \<or> holds_code (db_memory db) closure_bridge (bridge_image h)" "apart (cte_address cte) 28 bridge 248"
  shows "holds_code (db_memory db') bridge (bridge_image h)" "holds_code (db_memory db') (cte_address cte) (closure_code entry bridge)"
    "db_interceptor db' = db_interceptor db" "cte_carry_handler cte = carry_handler" "cte_carry_data cte = carry_data"
proof -
  obtain c ar db1 m where alloc: "MemoryArena_AllocateCodeChunk (hv_mmap env) (hv_page_size env) 32 (db_arena db) = (Some c, ar)"
    and get: "x64_get_closure_bridge benv h closure_bridge (db\<lparr>db_arena := ar\<rparr>) = Inr (bridge, db1)"
    and patch: "CodePatch (hv_page_size env) (chunk_address c) (closure_code entry bridge) (db_memory db1) = Inr m"
    and r: "cte_address cte = raw_instruction_start c" "cte_carry_handler cte = carry_handler" "cte_carry_data cte = carry_data" "db' = db1\<lparr>db_memory := m\<rparr>"
    using assms(1) by (auto simp: x64_CreateClosureTrampoline_def Let_def split: prod.splits option.splits)
  note g = get_closure_bridge_placed [OF get, simplified, OF assms(2)]
  have m: "m = poke (db_memory db1) (cte_address cte) (closure_code entry bridge)"
    using patch r(1) by (auto simp: CodePatch_def Let_def raw_instruction_start_def split: if_splits)
  show "holds_code (db_memory db') bridge (bridge_image h)"
    using g(1) assms(3) r(4) unfolding m by (simp add: holds_code_apart bridge_image_length del: le_bytes.simps)
  show "holds_code (db_memory db') (cte_address cte) (closure_code entry bridge)"
    using r(4) unfolding m by (simp add: holds_code_poke)
  show "db_interceptor db' = db_interceptor db" "cte_carry_handler cte = carry_handler" "cte_carry_data cte = carry_data"
    using g(2) r by simp_all
qed

text \<open>
  The conditions for instrumenting a function: the closure trampoline can be created, the function can be patched to go to it, and
  neither the near arena nor the patch touches the trampoline and the bridge.
\<close>

definition x64_instrument_plan ::
  "x64_env \<Rightarrow> u64 \<Rightarrow> u64 \<Rightarrow> u64 \<Rightarrow> x64_engine \<Rightarrow> ClosureTrampolineEntry \<Rightarrow> u64 \<Rightarrow> dobby \<Rightarrow> u64 \<Rightarrow> arena \<Rightarrow> (u64 \<Rightarrow> u8) \<Rightarrow> MemoryChunk \<Rightarrow> dobby \<Rightarrow>
    (nat \<times> x64_insn \<times> nat) list \<Rightarrow> bool" where
  "x64_instrument_plan env dispatch h address st cte bridge db1 stub page_chunks m relocated db is \<longleftrightarrow>
     x64_CreateClosureTrampoline (xv_closure env) (xv_bridge env) (xv_closure_entry env) (xv_hook_entry env) dispatch h
       (xe_closure_bridge st) (xe_db st) = Inr (Some cte, bridge, db1) \<and>
     (xe_closure_bridge st = 0 \<or> holds_code (db_memory (xe_db st)) (xe_closure_bridge st) (bridge_image h)) \<and>
     x64_patch_plan env address (cte_address cte) (st\<lparr>xe_closure_bridge := bridge, xe_db := db1\<rparr>) stub page_chunks m relocated db is \<and>
     apart (cte_address cte) 28 bridge 248 \<and>
     list_all (\<lambda>(b, n). peek m b n = peek (db_memory db1) b n \<and> apart stub 8 b n \<and> apart address 6 b n \<and>
       apart (raw_instruction_start relocated) (listing_size is + 14) b n) [(bridge, 248), (cte_address cte, 28)]"

lemma patched_keeps:
  assumes "x64_patch_plan env address dst st stub page_chunks m relocated db is"
    and "peek m b n = peek (db_memory (xe_db st)) b n" "apart stub 8 b n" "apart address 6 b n"
      "apart (raw_instruction_start relocated) (listing_size is + 14) b n"
  shows "peek (patched_memory address stub db) b n = peek (db_memory (xe_db st)) b n"
proof -
  have "peek (patched_memory address stub db) b n = peek (db_memory db) b n"
    unfolding patched_memory_def using assms(4) by (intro peek_poke_apart) (simp add: trampoline_bytes)
  also have "\<dots> = peek (store64 m stub dst) b n"
    unfolding plan_relocated(5) [OF assms(1)] using assms(5) by (intro peek_poke_apart) (simp del: le_bytes.simps)
  also have "\<dots> = peek m b n" using assms(3) by (rule peek_store64_apart)
  finally show ?thesis using assms(2) by simp
qed

lemma DobbyInstrument_eq:
  assumes "address \<noteq> 0" "registry_ready (xv_hook env) (xe_db st) es" "not_hooked_by he_handler es address handler"
    and plan: "x64_instrument_plan env dispatch h address (x64_shared env st) cte bridge db1 stub page_chunks m relocated db is"
  shows "\<exists>ent st'. DobbyInstrument env dispatch h address handler st = Some (Inr (RS_SUCCESS, Some (cte, ent), st')) \<and>
    he_address ent = address \<and> he_handler ent = handler \<and> he_relocated ent = raw_instruction_start relocated \<and>
    db_memory (xe_db st') = patched_memory address stub db \<and> xe_closure_bridge st' = bridge \<and>
    FindHookEntry address (db_interceptor (xe_db st')) = Some (Some ent)"
proof -
  let ?s = "x64_shared env st"
  let ?s1 = "?s\<lparr>xe_closure_bridge := bridge, xe_db := db1\<rparr>"
  define ic where "ic = SharedInstance (hv_new_instance (xv_hook env)) (db_interceptor (xe_db st))"
  have ic: "ic_holds ic es" "ic_unused (hv_new_node (xv_hook env)) ic" using assms(2) by (simp_all add: registry_ready_def ic_def Let_def)
  have p: "x64_CreateClosureTrampoline (xv_closure env) (xv_bridge env) (xv_closure_entry env) (xv_hook_entry env) dispatch h
       (xe_closure_bridge ?s) (xe_db ?s) = Inr (Some cte, bridge, db1)"
      "xe_closure_bridge ?s = 0 \<or> holds_code (db_memory (xe_db ?s)) (xe_closure_bridge ?s) (bridge_image h)"
      "x64_patch_plan env address (cte_address cte) ?s1 stub page_chunks m relocated db is" "apart (cte_address cte) 28 bridge 248"
    using plan unfolding x64_instrument_plan_def by blast+
  have i1: "db_interceptor db1 = ic"
    using CreateClosureTrampoline_placed(3) [OF p(1,2,4)] by (simp add: x64_shared_def ic_def)
  let ?ent = "new_HookEntry\<lparr>he_id := int (length es), he_type := kDynamicBinaryInstrument, he_address := address, he_handler := handler,
    he_trampoline_target := cte_address cte\<rparr>"
  let ?e = "patched_entry address (db_memory db1) relocated is ?ent"
  have st: "st\<lparr>xe_db := (xe_db st)\<lparr>db_interceptor := ic\<rparr>\<rparr> = ?s" by (simp add: x64_shared_def ic_def)
  have a: "he_address ?ent = address" "he_address ?e = address" by (simp_all add: patched_entry_def)
  note runs = patch_runs(1,2) [OF p(3) a(1)] patch_runs(3) [OF p(3) a(1) a(2)]
  let ?st' = "?s1\<lparr>xe_near := page_chunks, xe_db := db\<lparr>db_memory := patched_memory address stub db,
         db_interceptor := AddHookEntry (hv_new_node (xv_hook env)) ?e (db_interceptor db)\<rparr>\<rparr>"
  have "DobbyInstrument env dispatch h address handler st = Some (Inr (RS_SUCCESS, Some (cte, ?e), ?st'))"
    using assms(1,3) interceptor.lookup_holds [OF ic(1), of address] interceptor.count_holds [OF ic(1)] runs p(1)
    by (auto simp: DobbyInstrument_def ic_def [symmetric] st not_hooked_by_def instrument_DispatchRouting_def
        BuildDynamicBinaryInstrumentRouting_def trampoline_bytes patched_entry_def Let_def split: option.splits)
  moreover have "FindHookEntry address (db_interceptor (xe_db ?st')) = Some (Some ?e)"
    using interceptor.lookup_add [OF ic, of address ?e] plan_relocated(4) [OF p(3)] i1 a(2) by simp
  ultimately show ?thesis by (intro exI [of _ ?e] exI [of _ ?st']) (simp add: patched_entry_def)
qed

text \<open>What the handlers leave: the word below the stack pointer is the relocated code, when the user's handler keeps the stack pointer of the context.\<close>

abbreviation handled :: "(u64 \<Rightarrow> u64 \<Rightarrow> HookEntryInfo \<Rightarrow> mem_change) \<Rightarrow> (u64 \<Rightarrow> HookEntry) \<Rightarrow> u64 \<Rightarrow> u64 \<Rightarrow> ClosureTrampolineEntry \<Rightarrow> mem_change" where
  "handled dbi entry_at dispatch \<equiv>
    intercept_routing_common_bridge_handler (\<lambda>f. if f = dispatch then instrument_routing_dispatch dbi entry_at else (\<lambda>_ _ m. m))"

lemma handled_next_hop:
  assumes "cte_carry_handler cte = dispatch" "saved_context m ctx s" "x_reg s 4 = ctx + 168"
    and keeps: "\<And>info. load64 (dbi (he_handler (entry_at (cte_carry_data cte))) ctx info m) (ctx + 8) = load64 m (ctx + 8)"
    and m': "\<And>x. unat (x - ctx) < 168 \<Longrightarrow> m' x = handled dbi entry_at dispatch ctx cte m x"
  shows "load64 m' (ctx + 160) = he_relocated (entry_at (cte_carry_data cte))"
proof -
  let ?e = "entry_at (cte_carry_data cte)"
  obtain m1 where m1: "handled dbi entry_at dispatch ctx cte m = x64_set_routing_bridge_next_hop ctx (he_relocated ?e) m1"
      "load64 m1 (ctx + 8) = load64 m (ctx + 8)"
    using assms(1) keeps
    by (cases "he_handler ?e = 0") (simp_all add: intercept_routing_common_bridge_handler_def instrument_routing_dispatch_def
        instrument_call_forward_handler_def Let_def)
  have h: "handled dbi entry_at dispatch ctx cte m = store64 m1 (ctx + 160) (he_relocated ?e)"
    using m1 assms(2,3) by (simp add: x64_set_routing_bridge_next_hop_def saved_context_def add.commute)
  have "load64 m' (ctx + 160) = load64 (store64 m1 (ctx + 160) (he_relocated ?e)) (ctx + 160)"
  proof (rule load64_cong)
    fix i :: nat assume "i < 8"
    then have "unat (of_nat (160 + i) :: u64) < 168" by (simp only: unsigned_of_nat) (simp add: take_bit_nat_eq_self)
    then show "m' (ctx + 160 + of_nat i) = store64 m1 (ctx + 160) (he_relocated ?e) (ctx + 160 + of_nat i)"
      using m' [of "ctx + 160 + of_nat i"] h by simp
  qed
  then show ?thesis by simp
qed

lemma plan_bridge:
  assumes "x64_instrument_plan env dispatch h address st cte bridge db1 stub page_chunks m relocated db is"
  shows "holds_code (patched_memory address stub db) bridge (bridge_image h)"
    "holds_code (patched_memory address stub db) (cte_address cte) (closure_code (xv_closure_entry env) bridge)"
    "cte_carry_handler cte = dispatch" "cte_carry_data cte = xv_hook_entry env"
    "x64_patch_plan env address (cte_address cte) (st\<lparr>xe_closure_bridge := bridge, xe_db := db1\<rparr>) stub page_chunks m relocated db is"
proof -
  note p = assms [unfolded x64_instrument_plan_def]
  have c: "x64_CreateClosureTrampoline (xv_closure env) (xv_bridge env) (xv_closure_entry env) (xv_hook_entry env) dispatch h
       (xe_closure_bridge st) (xe_db st) = Inr (Some cte, bridge, db1)"
      "xe_closure_bridge st = 0 \<or> holds_code (db_memory (xe_db st)) (xe_closure_bridge st) (bridge_image h)" "apart (cte_address cte) 28 bridge 248"
    using p by blast+
  show plan: "x64_patch_plan env address (cte_address cte) (st\<lparr>xe_closure_bridge := bridge, xe_db := db1\<rparr>) stub page_chunks m relocated db is"
    using p by blast
  note k = CreateClosureTrampoline_placed [OF c]
  show "cte_carry_handler cte = dispatch" "cte_carry_data cte = xv_hook_entry env" using k(4,5) .
  have keeps: "peek (patched_memory address stub db) b n = peek (db_memory db1) b n" if "(b, n) \<in> set [(bridge, 248), (cte_address cte, 28)]" for b n
    using patched_keeps [OF plan, of b n] p that by (auto simp: list_all_iff)
  show "holds_code (patched_memory address stub db) bridge (bridge_image h)"
    using keeps k(1) by (simp add: holds_code_def bridge_image_length del: le_bytes.simps)
  show "holds_code (patched_memory address stub db) (cte_address cte) (closure_code (xv_closure_entry env) bridge)"
    using keeps k(2) by (simp add: holds_code_def)
qed

lemma instrumented_call:
  assumes plan: "x64_instrument_plan env dispatch h address st cte bridge db1 stub page_chunks m relocated db is"
    and s: "x_mem s = patched_memory address stub db" "x_rip s = address" "x_reg s 4 AND 7 = 0"
    and ap: "apart (x_reg s 4 - 184) 184 bridge 248" "apart (x_reg s 4 - 184) 184 (cte_address cte) 28"
  shows "\<exists>k t. x64_run k s = Some t \<and> x_rip t = h \<and> x_reg t 7 = x_reg s 4 - 168 \<and> x_reg t 6 = xv_closure_entry env \<and>
    saved_context (x_mem t) (x_reg s 4 - 168) s \<and> (\<forall>x. 184 \<le> unat (x - (x_reg s 4 - 184)) \<longrightarrow> x_mem t x = x_mem s x) \<and>
    (\<forall>t'. x_rip t' = x_top t \<and> x_reg t' 4 = x_reg t 4 + 8 \<and> holds_code (x_mem t') bridge (bridge_image h) \<longrightarrow>
      (\<exists>k u. x64_run k t' = Some u \<and> x_rip u = load64 (x_mem t') (x_reg s 4 - 8) \<and> x_reg u 4 = x_reg s 4 \<and>
        restored_context (x_mem t') (x_reg s 4 - 168) u \<and> x_mem u = x_mem t'))"
proof -
  note b = plan_bridge [OF plan]
  let ?s = "s\<lparr>x_rip := cte_address cte\<rparr>"
  obtain a where a: "closure_bridge_code h = Inr a" "x64_buffer a = bridge_image h" using closure_bridge_code_eq by blast
  have run1: "x64_run 1 s = Some ?s" by (rule patched_function_jumps [OF b(5) s(1,2)])
  have sc: "saved_context mm c ?s = saved_context mm c s" for mm c by (simp add: saved_context_def)
  from bridge_diverts [of h a ?s bridge "cte_address cte" "xv_closure_entry env"]
  obtain k t where "x64_run k ?s = Some t \<and> x_rip t = h \<and> x_reg t 7 = x_reg s 4 - 168 \<and> x_reg t 6 = xv_closure_entry env \<and>
    saved_context (x_mem t) (x_reg s 4 - 168) s \<and> (\<forall>x. 184 \<le> unat (x - (x_reg s 4 - 184)) \<longrightarrow> x_mem t x = x_mem s x) \<and>
    (\<forall>t'. x_rip t' = x_top t \<and> x_reg t' 4 = x_reg t 4 + 8 \<and> holds_code (x_mem t') bridge (bridge_image h) \<longrightarrow>
      (\<exists>k u. x64_run k t' = Some u \<and> x_rip u = load64 (x_mem t') (x_reg s 4 - 8) \<and> x_reg u 4 = x_reg s 4 \<and>
        restored_context (x_mem t') (x_reg s 4 - 168) u \<and> x_mem u = x_mem t'))"
    using a b(1,2) s ap by (auto simp: sc simp del: le_bytes.simps)
  then show ?thesis using x64_run_add [OF run1] by (intro exI [of _ "1 + k"] exI [of _ t]) simp
qed

text \<open>
  The return of the common bridge handler, called in state \<open>t\<close>: to state \<open>t'\<close>, in which the context is what the handlers left of it. The user's
  handler may change the other registers of the context, not the stack pointer, and nothing has overwritten the bridge and the relocated code.
\<close>

definition handler_returned ::
  "(u64 \<Rightarrow> u64 \<Rightarrow> HookEntryInfo \<Rightarrow> mem_change) \<Rightarrow> (u64 \<Rightarrow> HookEntry) \<Rightarrow> u64 \<Rightarrow> ClosureTrampolineEntry \<Rightarrow> u64 \<Rightarrow> u64 \<Rightarrow> u64 \<Rightarrow> u8 list \<Rightarrow>
    x64_state \<Rightarrow> x64_state \<Rightarrow> bool" where
  "handler_returned dbi entry_at dispatch cte bridge h relo relocated_code t t' \<longleftrightarrow>
     x_rip t' = x_top t \<and> x_reg t' 4 = x_reg t 4 + 8 \<and>
     holds_code (x_mem t') bridge (bridge_image h) \<and> holds_code (x_mem t') relo relocated_code \<and>
     (\<forall>info. load64 (dbi (he_handler (entry_at (cte_carry_data cte))) (x_reg t 7) info (x_mem t)) (x_reg t 7 + 8) = load64 (x_mem t) (x_reg t 7 + 8)) \<and>
     (\<forall>x. unat (x - x_reg t 7) < 168 \<longrightarrow> x_mem t' x = handled dbi entry_at dispatch (x_reg t 7) cte (x_mem t) x)"

text \<open>From \<open>t'\<close> the program gets to where the prologue leads from the state whose registers and flags are those of the context.\<close>

definition resumes_prologue :: "u64 \<Rightarrow> u64 \<Rightarrow> u64 \<Rightarrow> u64 \<Rightarrow> (nat \<times> x64_insn \<times> nat) list \<Rightarrow> x64_state \<Rightarrow> bool" where
  "resumes_prologue address sp ctx relo is t' \<longleftrightarrow>
     (\<exists>orig. x_rip orig = address \<and> x_mem orig = x_mem t' \<and> x_reg orig 4 = sp \<and> restored_context (x_mem t') ctx orig \<and>
       (\<forall>p n u. x64_block address p n is orig = Some u \<and> apart p n relo (listing_size is + 14) \<longrightarrow> (\<exists>j. x64_run j t' = Some u)))"

lemma handler_returns:
  assumes plan: "x64_instrument_plan env dispatch h address st cte bridge db1 stub page_chunks m relocated db is"
    and t: "x_reg t 7 = x_reg s 4 - 168" "saved_context (x_mem t) (x_reg s 4 - 168) s"
    and u: "x64_run k t' = Some u" "x_rip u = load64 (x_mem t') (x_reg s 4 - 8)" "x_reg u 4 = x_reg s 4"
      "restored_context (x_mem t') (x_reg s 4 - 168) u" "x_mem u = x_mem t'"
    and ret: "handler_returned dbi entry_at dispatch cte bridge h (raw_instruction_start relocated)
      (peek (db_memory db1) address (listing_size is) @ jump_back (address + of_nat (listing_size is))) t t'"
    and ent: "he_relocated (entry_at (xv_hook_entry env)) = raw_instruction_start relocated"
  shows "resumes_prologue address (x_reg s 4) (x_reg t 7) (raw_instruction_start relocated) is t'"
proof -
  note b = plan_bridge [OF plan] and r = ret [unfolded handler_returned_def]
  have "load64 (x_mem t') (x_reg t 7 + 160) = he_relocated (entry_at (cte_carry_data cte))"
  proof (rule handled_next_hop [OF b(3)])
    show "saved_context (x_mem t) (x_reg t 7) s" "x_reg s 4 = x_reg t 7 + 168" using t by simp_all
  qed (use r in simp_all)
  then have rip: "x_rip u = raw_instruction_start relocated" using u(2) t(1) ent b(4) by simp
  let ?o = "u\<lparr>x_rip := address\<rparr>"
  have o: "?o\<lparr>x_rip := raw_instruction_start relocated\<rparr> = u" using rip by simp
  have "\<exists>j. x64_run j t' = Some w"
    if w: "x64_block address p n is ?o = Some w" "apart p n (raw_instruction_start relocated) (listing_size is + 14)" for p n w
  proof -
    obtain j where "x64_run j (?o\<lparr>x_rip := raw_instruction_start relocated\<rparr>) = Some w"
      using relocated_code_runs [OF b(5), of ?o p n w] w r u(5) by auto
    then show ?thesis using x64_run_add [OF u(1), of j] o by auto
  qed
  moreover have "restored_context (x_mem t') (x_reg t 7) ?o" using u(4) t(1) by (simp add: restored_context_def)
  ultimately show ?thesis using u(3,5) unfolding resumes_prologue_def by (intro exI [of _ ?o]) auto
qed

section \<open>An example\<close>

text \<open>A function at \<open>0x40000800\<close> that begins with \<open>push rbp; mov rbp, rsp; sub rsp, 32\<close>, and a system that gives pages at \<open>0x50000000\<close>.\<close>

definition demo_engine :: x64_engine where
  "demo_engine = \<lparr>xe_db = \<lparr>db_memory = poke (\<lambda>_. 0x90) 0x40000800 [0x55, 0x48, 0x89, 0xE5, 0x48, 0x83, 0xEC, 0x20], db_arena = None,
       db_interceptor = \<lparr>ic_head = 0, ic_links = \<lparr>nxt = (\<lambda>_. 0), prv = (\<lambda>_. 0)\<rparr>, ic_entry = (\<lambda>_. new_HookEntry)\<rparr>\<rparr>,
     xe_near = Some [new_page 0x40002000 0x1000 kReadWrite], xe_closure_bridge = 0\<rparr>"

definition demo_engine_env :: x64_env where
  "demo_engine_env = (let env = \<lparr>hv_mmap = (\<lambda>_ _ _ _. Some 0x50000000), hv_page_size = 0x1000, hv_new_instance = 0x900, hv_new_node = 0x980\<rparr> in
     \<lparr>xv_hook = env, xv_near = (\<lambda>_. \<lparr>ne_mmap = (\<lambda>_ _ _ _ _. None), ne_page_size = 0x1000, ne_layout = [], ne_arm = False\<rparr>),
      xv_relocate = (\<lambda>_. env), xv_closure = env, xv_bridge = env, xv_closure_entry = 0x7000, xv_hook_entry = 0x6000\<rparr>)"

abbreviation demo_is :: "(nat \<times> x64_insn \<times> nat) list" where
  "demo_is \<equiv> [(0, I_push 5, 1), (1, I_mov_store (RM_reg 5) 4, 3), (4, I_alu ALU_sub (RM_reg 4) 32, 4)]"

lemma demo_engine_listing: "prologue_listing (db_memory (xe_db demo_engine)) 0x40000800 6 0 = Some demo_is"
  by code_simp

lemma demo_engine_ready: "registry_ready (xv_hook demo_engine_env) (xe_db demo_engine) []" "not_hooked_by field [] address v"
proof -
  show "registry_ready (xv_hook demo_engine_env) (xe_db demo_engine) []"
    by (rule fresh_registry_ready) (simp_all add: demo_engine_def demo_engine_env_def Let_def)
qed (simp add: not_hooked_by_def)

lemma demo_stub:
  "\<exists>page_chunks. NearMemoryArena_AllocateDataChunk (xv_near demo_engine_env) 0x40000800 0x80000000 8 (xe_near demo_engine) m =
     Some (Inr (Some \<lparr>chunk_address = 0x40002000, chunk_length = 8\<rparr>, page_chunks, m))"
  unfolding NearMemoryArena_AllocateDataChunk_def NearMemoryArena_AllocateChunk_def
  by (subst near_search_once_more.simps)
     (simp add: demo_engine_def arena_pages_def near_page_fits_def new_page_def near_distance_def push_chunk_def Let_def)

text \<open>What the relocation of this prologue needs, wherever its chunk is.\<close>

lemma demo_patch:
  assumes "db_memory (xe_db st) = dm" "xe_near st = xe_near demo_engine" "prologue_listing dm 0x40000800 6 0 = Some demo_is"
    and "MemoryArena_AllocateCodeChunk (\<lambda>_ _ _ _. Some 0x50000000) 0x1000 32 (db_arena (xe_db st)) = (Some c, ar)"
    and "chunk_address c = 0x50000000 \<or> chunk_address c = 0x5000011C" "chunk_length c = 32"
  shows "\<exists>page_chunks db. x64_patch_plan demo_engine_env 0x40000800 dst st 0x40002000 page_chunks dm c db demo_is"
proof -
  obtain page_chunks where n: "NearMemoryArena_AllocateDataChunk (xv_near demo_engine_env) 0x40000800 0x80000000 8 (xe_near st) dm =
     Some (Inr (Some \<lparr>chunk_address = 0x40002000, chunk_length = 8\<rparr>, page_chunks, dm))" using demo_stub assms(2) by metis
  have al: "ALIGN_FLOOR 0x40000800 0x1000 = (0x40000000 :: u64)" "ALIGN_FLOOR 0x50000000 0x1000 = (0x50000000 :: u64)"
    "ALIGN_FLOOR 0x5000011C 0x1000 = (0x50000000 :: u64)" by code_simp+
  have e: "xv_relocate demo_engine_env 0 = \<lparr>hv_mmap = (\<lambda>_ _ _ _. Some 0x50000000), hv_page_size = 0x1000, hv_new_instance = 0x900, hv_new_node = 0x980\<rparr>"
    "hv_page_size (xv_hook demo_engine_env) = 0x1000"
    by (simp_all add: demo_engine_env_def Let_def)
  let ?db = "(xe_db st)\<lparr>db_memory := store64 dm 0x40002000 dst\<rparr>"
  have ap: "apart 0x40002000 8 0x40000800 64" by (simp add: apart_def)
  have l: "prologue_listing (store64 dm 0x40002000 dst) 0x40000800 6 0 = Some demo_is"
    by (rule prologue_listing_cong [OF assms(3) peek_store64_apart [OF ap, symmetric]]) simp
  have "\<exists>origin' db. x64_GenRelocateCodeAndBranch (xv_relocate demo_engine_env) 0x40000800 \<lparr>chunk_address = 0x40000800, chunk_length = 6\<rparr>
      \<lparr>chunk_address = 0, chunk_length = 0\<rparr> ?db = Some (Inr (origin', c, db))"
    by (rule first_attempt_succeeds [of _ _ c ar _ _ demo_is])
      (use assms l in \<open>auto simp: e listing_size_def raw_instruction_size_def in_page_def al\<close>)
  then obtain origin' db where r: "x64_GenRelocateCodeAndBranch (xv_relocate demo_engine_env) 0x40000800 \<lparr>chunk_address = 0x40000800, chunk_length = 6\<rparr>
      \<lparr>chunk_address = 0, chunk_length = 0\<rparr> ?db = Some (Inr (origin', c, db))" by blast
  have "x64_patch_plan demo_engine_env 0x40000800 dst st 0x40002000 page_chunks dm c db demo_is"
    unfolding x64_patch_plan_def assms(1) using n r assms(3,5)
    by (auto simp: near_def apart_def listing_size_def in_page_def al e raw_instruction_start_def)
  then show ?thesis by blast
qed

lemma demo_closure:
  assumes "db_arena db = None"
  shows "\<exists>db1 ar. x64_CreateClosureTrampoline (xv_closure demo_engine_env) (xv_bridge demo_engine_env) 0x7000 0x6000 dispatch h 0 db =
      Inr (Some \<lparr>cte_address = 0x50000000, cte_size = 32, cte_carry_handler = dispatch, cte_carry_data = 0x6000\<rparr>, 0x50000020, db1) \<and>
    db_memory db1 = poke (poke (db_memory db) 0x50000020 (bridge_image h)) 0x50000000 (closure_code 0x7000 0x50000020) \<and>
    MemoryArena_AllocateCodeChunk (\<lambda>_ _ _ _. Some 0x50000000) 0x1000 32 (db_arena db1) =
      (Some \<lparr>chunk_address = 0x5000011C, chunk_length = 32\<rparr>, ar)"
proof -
  let ?bridge = "bridge_image h" and ?tramp = "closure_code 0x7000 0x50000020"
  define pc where "pc n cs = Some [\<lparr>page = \<lparr>chunk_address = 0x50000000, chunk_length = 0x1000\<rparr>, page_cursor = n,
     page_permission = kReadExecute, page_chunk_list = cs\<rparr>]" for n :: u64 and cs
  let ?c1 = "\<lparr>chunk_address = 0x50000000, chunk_length = 32\<rparr>" and ?c2 = "\<lparr>chunk_address = 0x50000020, chunk_length = 252\<rparr>"
    and ?c3 = "\<lparr>chunk_address = 0x5000011C, chunk_length = 32\<rparr>"
  note alloc = MemoryArena_AllocateCodeChunk_def MemoryArena_AllocateChunk_def OSMemory_Allocate_def push_chunk_def new_page_def pc_def
    page_fits_def arena_pages_def Let_def
  have al: "MemoryArena_AllocateCodeChunk (\<lambda>_ _ _ _. Some 0x50000000) 0x1000 32 None = (Some ?c1, pc 0x50000020 [?c1])"
      "MemoryArena_AllocateCodeChunk (\<lambda>_ _ _ _. Some 0x50000000) 0x1000 252 (pc 0x50000020 [?c1]) = (Some ?c2, pc 0x5000011C [?c1, ?c2])"
      "MemoryArena_AllocateCodeChunk (\<lambda>_ _ _ _. Some 0x50000000) 0x1000 32 (pc 0x5000011C [?c1, ?c2]) = (Some ?c3, pc 0x5000013C [?c1, ?c2, ?c3])"
    by (simp_all add: alloc)
  obtain a where a: "closure_bridge_code h = Inr a" "x64_realized_address a = 0" "x64_buffer a = ?bridge" using closure_bridge_code_eq [of h] by auto
  have lb: "length ?bridge = 248" by (rule bridge_image_length)
  have fl: "ALIGN_FLOOR 0x50000000 0x1000 = (0x50000000 :: u64)" "ALIGN_FLOOR 0x50000020 0x1000 = (0x50000000 :: u64)" by code_simp+
  have patch: "CodePatch 0x1000 0x50000020 ?bridge m = Inr (poke m 0x50000020 ?bridge)" "CodePatch 0x1000 0x50000000 ?tramp m = Inr (poke m 0x50000000 ?tramp)" for m
    by (rule CodePatch_in_page; simp add: in_page_def lb fl del: le_bytes.simps)+
  have "x64_CreateClosureTrampoline (xv_closure demo_engine_env) (xv_bridge demo_engine_env) 0x7000 0x6000 dispatch h 0 db =
      Inr (Some \<lparr>cte_address = 0x50000000, cte_size = 32, cte_carry_handler = dispatch, cte_carry_data = 0x6000\<rparr>, 0x50000020,
        db\<lparr>db_arena := pc 0x5000011C [?c1, ?c2], db_memory := poke (poke (db_memory db) 0x50000020 ?bridge) 0x50000000 ?tramp\<rparr>)"
    using assms al(1,2) patch a
    by (simp add: x64_CreateClosureTrampoline_def x64_get_closure_bridge_def FinalizeFromTurboAssembler_def demo_engine_env_def Let_def lb
        raw_instruction_start_def raw_instruction_size_def del: le_bytes.simps append.simps)
  then show ?thesis using al(3) by auto
qed

abbreviation demo_cte :: ClosureTrampolineEntry where
  "demo_cte \<equiv> \<lparr>cte_address = 0x50000000, cte_size = 32, cte_carry_handler = 0x2000, cte_carry_data = 0x6000\<rparr>"

lemma demo_instrument_plan:
  "\<exists>db1 page_chunks db. x64_instrument_plan demo_engine_env 0x2000 0x3000 0x40000800 (x64_shared demo_engine_env demo_engine) demo_cte 0x50000020 db1
      0x40002000 page_chunks (db_memory db1) \<lparr>chunk_address = 0x5000011C, chunk_length = 32\<rparr> db demo_is"
proof -
  let ?st = "x64_shared demo_engine_env demo_engine" and ?c = "\<lparr>chunk_address = 0x5000011C, chunk_length = 32\<rparr>"
  have sh: "xe_near ?st = xe_near demo_engine" "db_arena (xe_db ?st) = None" "db_memory (xe_db ?st) = db_memory (xe_db demo_engine)"
      "xe_closure_bridge ?st = 0" "xv_closure_entry demo_engine_env = 0x7000" "xv_hook_entry demo_engine_env = 0x6000"
    by (simp_all add: x64_shared_def demo_engine_def demo_engine_env_def Let_def)
  obtain cte db1 ar where c: "x64_CreateClosureTrampoline (xv_closure demo_engine_env) (xv_bridge demo_engine_env) 0x7000 0x6000 0x2000 0x3000 0 (xe_db ?st) =
      Inr (Some cte, 0x50000020, db1)" "cte = \<lparr>cte_address = 0x50000000, cte_size = 32, cte_carry_handler = 0x2000, cte_carry_data = 0x6000\<rparr>"
    and m: "db_memory db1 = poke (poke (db_memory (xe_db demo_engine)) 0x50000020 (bridge_image 0x3000)) 0x50000000 (closure_code 0x7000 0x50000020)"
    and al: "MemoryArena_AllocateCodeChunk (\<lambda>_ _ _ _. Some 0x50000000) 0x1000 32 (db_arena db1) = (Some ?c, ar)"
    using demo_closure [OF sh(2), of "0x2000" "0x3000"] sh(3) by auto
  have same: "peek (db_memory (xe_db demo_engine)) 0x40000800 64 = peek (db_memory db1) 0x40000800 64"
    unfolding m by (simp add: peek_poke_apart apart_def bridge_image_length del: le_bytes.simps append.simps)
  have l: "prologue_listing (db_memory db1) 0x40000800 6 0 = Some demo_is"
    by (rule prologue_listing_cong [OF demo_engine_listing same]) simp
  have "\<exists>page_chunks db. x64_patch_plan demo_engine_env 0x40000800 0x50000000 (?st\<lparr>xe_closure_bridge := 0x50000020, xe_db := db1\<rparr>) 0x40002000 page_chunks
      (db_memory db1) ?c db demo_is"
    by (rule demo_patch [of _ _ ?c ar]) (use sh(1) l al in simp_all)
  then obtain page_chunks db where "x64_patch_plan demo_engine_env 0x40000800 0x50000000 (?st\<lparr>xe_closure_bridge := 0x50000020, xe_db := db1\<rparr>) 0x40002000 page_chunks
      (db_memory db1) ?c db demo_is" by blast
  then have "x64_instrument_plan demo_engine_env 0x2000 0x3000 0x40000800 ?st cte 0x50000020 db1 0x40002000 page_chunks (db_memory db1) ?c db demo_is"
    using c sh(4-6) unfolding x64_instrument_plan_def by (simp add: apart_def raw_instruction_start_def listing_size_def)
  then show ?thesis unfolding c(2) by blast
qed

lemma demo_handled:
  assumes "saved_context m 0x7F58 s" "x_reg s 4 = 0x8000"
  shows "handled (\<lambda>_ _ _ m. m) (\<lambda>_. ent) 0x2000 0x7F58 demo_cte m = store64 m 0x7FF8 (he_relocated ent)"
  using assms by (simp add: intercept_routing_common_bridge_handler_def instrument_routing_dispatch_def instrument_call_forward_handler_def
      x64_set_routing_bridge_next_hop_def saved_context_def Let_def)

section \<open>Properties\<close>





end
