(* ===== verification/ProcessModules.thy ===== *)
theory ProcessModules
  imports MapsText ProcessMemory NearMemoryArena
begin

text \<open>
  \<open>UserMode/PlatformUtil/Linux/ProcessRuntimeUtility.cc\<close>: the memory layout and the modules of the process, read from
  \<open>/proc/self/maps\<close>. The near allocator uses the first, the symbol resolver the second. The contents of the file are a string.
\<close>

section \<open>Reading lines\<close>

definition LINE_MAX :: nat where "LINE_MAX = 2048"

text \<open>
  \<open>fgets\<close> with room for a number of characters: what it stores, the rest of the file, and whether it has met the end of the file.
\<close>

fun file_fgets :: "nat \<Rightarrow> string \<Rightarrow> string \<times> string \<times> bool" where
  "file_fgets 0 s = ([], s, False)"
| "file_fgets (Suc k) [] = ([], [], True)"
| "file_fgets (Suc k) (c # s) =
    (if c = nl then ([c], s, False) else case file_fgets k s of (l, r, e) \<Rightarrow> (c # l, r, e))"

text \<open>
  One round of the loops \<open>while (!feof(fp))\<close> up to the end of the skip: the line in \<open>line_buffer\<close>, the rest, whether \<open>feof\<close> holds, and
  whether the loop is left. When \<open>fgets\<close> stores nothing the array keeps what its storage held: the line of the round before, which the
  storage of the block still holds, or at first whatever is on the stack.
\<close>

definition read_maps_line :: "string \<Rightarrow> string \<Rightarrow> string \<times> string \<times> bool \<times> bool" where
  "read_maps_line old s =
    (case file_fgets (LINE_MAX - 1) s of (l, r, e) \<Rightarrow>
       let line_buffer = (if l = [] then old else l) in
       if length line_buffer = LINE_MAX
       then let r' = dropWhile (\<lambda>c. c \<noteq> nl) r in (line_buffer, tl r', e \<or> r' = [], r' = [])
       else (line_buffer, r, e, False))"

lemma file_fgets_length: "file_fgets k s = (l, r, e) \<Longrightarrow> length s = length l + length r \<and> length l \<le> k"
  by (induction k s arbitrary: l r e rule: file_fgets.induct) (auto split: if_splits prod.splits)

lemma file_fgets_empty: "file_fgets (Suc k) s = ([], r, e) \<Longrightarrow> s = [] \<and> r = [] \<and> e"
  by (cases s) (auto split: if_splits prod.splits)

lemma read_maps_line_progress:
  assumes "read_maps_line old s = (line, r, e, leave)"
  shows "length r + (if e then 0 else 1) \<le> length s"
proof -
  obtain l r0 e0 where g: "file_fgets (LINE_MAX - 1) s = (l, r0, e0)" by (cases "file_fgets (LINE_MAX - 1) s") auto
  have k: "LINE_MAX - 1 = Suc 2046" by (simp add: LINE_MAX_def)
  have "length s = length l + length r0" using file_fgets_length [OF g] by simp
  moreover have "l = [] \<Longrightarrow> e0" using file_fgets_empty [of 2046] g unfolding k by blast
  moreover have "length r \<le> length r0 \<and> (e0 \<longrightarrow> e)"
  proof (cases "length (if l = [] then old else l) = LINE_MAX")
    case True
    then have "tl (dropWhile (\<lambda>c. c \<noteq> nl) r0) = r \<and> (e0 \<longrightarrow> e)"
      using assms unfolding read_maps_line_def g Let_def prod.case by (simp only: if_True simp_thms prod.inject) blast
    then show ?thesis using length_dropWhile_le [of "\<lambda>c. c \<noteq> nl" r0] by auto
  next
    case False
    then show ?thesis using assms unfolding read_maps_line_def g by (simp only: Let_def prod.case if_False prod.inject simp_thms)
  qed
  ultimately show ?thesis by (cases l) auto
qed

section \<open>Parsing a line\<close>

text \<open>The conversion \<open>%4c\<close>; with fewer characters left, the conversions after it fail.\<close>

definition scan_c4 :: "string \<Rightarrow> (string \<times> string) option" where
  "scan_c4 s = (if length s < 4 then None else Some (take 4 s, drop 4 s))"

record maps_fields =
  mf_start :: u64
  mf_end :: u64
  mf_permissions :: string
  mf_path :: string

text \<open>\<open>None\<close> when fewer than seven conversions succeed. The path is \<open>line_buffer + path_index\<close>.\<close>

definition opt_bind :: "'a option \<Rightarrow> ('a \<Rightarrow> 'b option) \<Rightarrow> 'b option" where
  "opt_bind m f = (case m of None \<Rightarrow> None | Some x \<Rightarrow> f x)"

lemma opt_bind_simps [simp]: "opt_bind None f = None" "opt_bind (Some x) f = f x"
  by (simp_all add: opt_bind_def)

definition parse_maps_line :: "string \<Rightarrow> maps_fields option" where
  "parse_maps_line line =
    opt_bind (scan_number 16 line) (\<lambda>(region_start, s).
    opt_bind (scan_lit CHR ''-'' s) (\<lambda>s.
    opt_bind (scan_number 16 s) (\<lambda>(region_end, s).
    opt_bind (scan_c4 (scan_ws s)) (\<lambda>(permissions, s).
    opt_bind (scan_number 16 s) (\<lambda>(region_offset, s).
    opt_bind (scan_number 16 s) (\<lambda>(dev_major, s).
    opt_bind (scan_lit CHR '':'' s) (\<lambda>s.
    opt_bind (scan_number 16 s) (\<lambda>(dev_minor, s).
    opt_bind (scan_number 10 s) (\<lambda>(inode, s).
    Some \<lparr>mf_start = to_u64 region_start, mf_end = to_u64 region_end, mf_permissions = permissions, mf_path = scan_ws s\<rparr>)))))))))"

section \<open>GetProcessMemoryLayout\<close>

definition layout_permission :: "string \<Rightarrow> MemoryPermission" where
  "layout_permission permissions =
    (if permissions ! 0 = CHR ''r'' \<and> permissions ! 1 = CHR ''w'' then kReadWrite
     else if permissions ! 0 = CHR ''r'' \<and> permissions ! 2 = CHR ''x'' then kReadExecute
     else if permissions ! 0 = CHR ''r'' \<and> permissions ! 1 = CHR ''w'' \<and> permissions ! 2 = CHR ''x'' then kReadWriteExecute
     else kNoAccess)"

definition layout_region :: "maps_fields \<Rightarrow> MemoryRegion" where
  "layout_region f = \<lparr>mr_address = mf_start f, mr_length = mf_end f - mf_start f, mr_permission = layout_permission (mf_permissions f)\<rparr>"

text \<open>
  Both loops as one, which collects what \<open>item\<close> makes of the parsed lines, and cuts the end of the line in the buffer when \<open>item\<close> does;
  a line that cannot be parsed aborts the process.
\<close>

function maps_file_loop :: "(maps_fields \<Rightarrow> 'a list \<times> bool) \<Rightarrow> string \<Rightarrow> string \<Rightarrow> bool \<Rightarrow> 'a list \<Rightarrow> 'a list res" where
  "maps_file_loop item old s feof acc =
    (if feof then Inr acc
     else case read_maps_line old s of (line, r, e, leave) \<Rightarrow>
       if leave then Inr acc
       else case parse_maps_line line of
           None \<Rightarrow> Inl Fatal
         | Some f \<Rightarrow> (case item f of (x, strip) \<Rightarrow> maps_file_loop item (if strip then butlast line else line) r e (acc @ x)))"
  by pat_completeness auto
termination
  by (relation "measure (\<lambda>(item, old, s, feof, acc). length s + (if feof then 0 else 1))") (auto dest!: sym [THEN read_maps_line_progress])

declare maps_file_loop.simps [simp del]

text \<open>\<open>stack\<close> is what is on the stack at first; \<open>None\<close> is a file that cannot be opened. \<open>std::sort\<close> may swap equal addresses.\<close>

definition GetProcessMemoryLayout :: "string \<Rightarrow> string option \<Rightarrow> MemoryRegion list res" where
  "GetProcessMemoryLayout stack maps =
    (case maps of None \<Rightarrow> Inr []
     | Some s \<Rightarrow> rbind (maps_file_loop (\<lambda>f. ([layout_region f], False)) stack s False []) (\<lambda>ProcessMemoryLayout.
         Inr (sort_key mr_address ProcessMemoryLayout)))"

section \<open>GetProcessModuleMap\<close>

text \<open>The path is copied with \<open>strncpy\<close> into 1024 bytes.\<close>

record RuntimeModule =
  rm_path :: string
  rm_load_address :: u64

definition ELFMAG :: "u8 list" where "ELFMAG = [0x7F, 0x45, 0x4C, 0x46]"

definition module_item :: "(u64 \<Rightarrow> u8) \<Rightarrow> maps_fields \<Rightarrow> RuntimeModule list \<times> bool" where
  "module_item m f =
    (if mf_permissions f \<noteq> ''r--p'' \<and> mf_permissions f \<noteq> ''r-xp'' then ([], False)
     else if peek m (mf_start f) 4 \<noteq> ELFMAG then ([], False)
     else let path = mf_path f in
       if path = [] \<or> hd path = nl \<or> hd path = CHR ''['' then ([], False)
       else let strip = last path = nl; path = (if strip then butlast path else path)
            in ([\<lparr>rm_path = take 1024 path, rm_load_address = mf_start f\<rparr>], strip))"

definition get_process_map_with_proc_maps :: "(u64 \<Rightarrow> u8) \<Rightarrow> string \<Rightarrow> string option \<Rightarrow> RuntimeModule list res" where
  "get_process_map_with_proc_maps m stack maps =
    (case maps of None \<Rightarrow> Inr [] | Some s \<Rightarrow> maps_file_loop (module_item m) stack s False [])"

definition GetProcessModuleMap :: "(u64 \<Rightarrow> u8) \<Rightarrow> string \<Rightarrow> string option \<Rightarrow> RuntimeModule list res" where
  "GetProcessModuleMap m stack maps = get_process_map_with_proc_maps m stack maps"

text \<open>A path that fills the array has no end.\<close>

definition module_path :: "RuntimeModule \<Rightarrow> string res" where
  "module_path md = (if length (rm_path md) < 1024 then Inr (rm_path md) else Inl OutOfBounds)"

fun find_module :: "string \<Rightarrow> RuntimeModule list \<Rightarrow> RuntimeModule res" where
  "find_module name [] = Inr \<lparr>rm_path = [], rm_load_address = 0\<rparr>"
| "find_module name (md # mds) =
    rbind (module_path md) (\<lambda>path. if strstr path name then Inr md else find_module name mds)"

definition GetProcessModule :: "(u64 \<Rightarrow> u8) \<Rightarrow> string \<Rightarrow> string option \<Rightarrow> string \<Rightarrow> RuntimeModule res" where
  "GetProcessModule m stack maps name = rbind (GetProcessModuleMap m stack maps) (find_module name)"

section \<open>What is read back\<close>

text \<open>A line of the kernel that fits the buffer; here a path may contain spaces, as those of deleted files do.\<close>

definition entry_line :: "map_entry \<Rightarrow> bool" where
  "entry_line e \<longleftrightarrow> length (me_perms e) = 4 \<and> list_all (\<lambda>c. \<not> isspace c) (me_perms e) \<and>
     (me_path e \<noteq> [] \<longrightarrow> \<not> isspace (hd (me_path e))) \<and> nl \<notin> set (me_path e) \<and> length (maps_line e) < LINE_MAX"

definition entry_fields :: "map_entry \<Rightarrow> string \<Rightarrow> maps_fields" where
  "entry_fields e end_of_line = \<lparr>mf_start = me_start e, mf_end = me_end e, mf_permissions = me_perms e,
     mf_path = (if me_path e = [] then [] else me_path e @ end_of_line)\<rparr>"

lemma parse_entry:
  assumes "entry_line e" "eol = [nl] \<or> eol = []" "maps_line e = line @ [nl]"
  shows "parse_maps_line (line @ eol) = Some (entry_fields e eol)"
proof -
  define t5 where "t5 = '' '' @ (if me_path e = [] then [] else replicate (me_pad e) CHR '' '' @ me_path e) @ eol"
  define t4 where "t4 = '' '' @ digits 10 (me_inode e) @ t5"
  define t3 where "t3 = '' '' @ hexpad 2 (me_major e) @ '':'' @ hexpad 2 (me_minor e) @ t4"
  define t2 where "t2 = '' '' @ me_perms e @ '' '' @ hexpad 8 (me_offset e) @ t3"
  have line: "line @ eol = [] @ hexpad 8 (unat (me_start e)) @ CHR ''-'' # [] @ hexpad 8 (unat (me_end e)) @ CHR '' '' # tl t2"
    using assms(3) by (auto simp: maps_line_def t2_def t3_def t4_def t5_def append_eq_append_conv2 append_eq_Cons_conv
        simp flip: append_assoc dest!: sym [of _ "line @ [nl]"])
  have perms: "me_perms e \<noteq> []" "list_all (\<lambda>c. \<not> isspace c) (me_perms e)" "length (me_perms e) = 4"
    and path: "me_path e \<noteq> [] \<longrightarrow> \<not> isspace (hd (me_path e))"
    using assms by (auto simp: entry_line_def)
  have sp: "list_all isspace '' ''" "isspace CHR '' ''" "isspace nl" by (simp_all add: isspace_def)
  have s2: "scan_c4 (scan_ws (CHR '' '' # tl t2)) = Some (me_perms e, CHR '' '' # hexpad 8 (me_offset e) @ t3)"
    using perms sp by (cases "me_perms e") (simp_all add: t2_def scan_ws_def scan_c4_def)
  have s3: "scan_number 16 (CHR '' '' # hexpad 8 (me_offset e) @ t3) = Some (int (me_offset e), t3)"
    using scan_hexpad [OF sp(1), of "CHR '' ''" 8 "me_offset e"] by (simp add: t3_def)
  have s4: "scan_number 16 t3 = Some (int (me_major e), CHR '':'' # hexpad 2 (me_minor e) @ t4)"
    using scan_hexpad [OF sp(1), of "CHR '':''" 2 "me_major e"] by (simp add: t3_def)
  have s5: "scan_number 16 (hexpad 2 (me_minor e) @ t4) = Some (int (me_minor e), t4)"
    using scan_hexpad [of "[]" "CHR '' ''" 2 "me_minor e"] by (simp add: t4_def)
  have s6: "scan_number 10 t4 = Some (int (me_inode e), t5)"
    using scan_number_digits [of 10 "digits 10 (me_inode e)" t5 "'' ''"] sp(1)
    by (simp add: t4_def t5_def digits_isdigit digits_nonempty number_of_digits isdigit_in_def char_digit_def)
  have s7: "scan_ws t5 = (if me_path e = [] then [] else me_path e @ eol)"
    using path sp assms(2) by (cases "me_path e") (auto simp: t5_def scan_ws_def dropWhile_append)
  show ?thesis
    unfolding parse_maps_line_def line scan_hexpad [of "[]" "CHR ''-''", simplified]
    by (simp add: scan_lit_def scan_hexpad [of "[]", simplified] s2 s3 s4 s5 s6 s7 to_u64_uint entry_fields_def)
qed

lemma fgets_line: "nl \<notin> set l \<Longrightarrow> length l < k \<Longrightarrow> file_fgets k (l @ nl # rest) = (l @ [nl], rest, False)"
proof (induction l arbitrary: k)
  case (Cons c l)
  then show ?case by (cases k) auto
next
  case Nil
  then show ?case by (cases k) auto
qed

lemma maps_line_body:
  assumes "entry_line e"
  obtains l where "maps_line e = l @ [nl]" "nl \<notin> set l" "length l < 2047"
proof
  let ?l = "hexpad 8 (unat (me_start e)) @ ''-'' @ hexpad 8 (unat (me_end e)) @ '' '' @ me_perms e @ '' '' @
     hexpad 8 (me_offset e) @ '' '' @ hexpad 2 (me_major e) @ '':'' @ hexpad 2 (me_minor e) @ '' '' @ digits 10 (me_inode e) @
     '' '' @ (if me_path e = [] then [] else replicate (me_pad e) CHR '' '' @ me_path e)"
  have d: "nl \<notin> set (digits b n)" if "2 \<le> b" "b \<le> 16" for b n
    using digits_isdigit [OF that, of n] isdigit_not_space [of b nl] by (auto simp: list_all_iff isspace_def)
  then have h: "nl \<notin> set (hexpad w n)" for w n by (simp add: hexpad_def)
  have "nl \<notin> set (me_perms e)" using assms by (auto simp: entry_line_def list_all_iff isspace_def)
  then show "nl \<notin> set ?l" using assms d [of 10] h by (simp add: entry_line_def)
  show eq: "maps_line e = ?l @ [nl]" by (simp add: maps_line_def)
  then show "length ?l < 2047" using assms by (simp add: entry_line_def LINE_MAX_def)
qed

lemma read_entry:
  assumes "entry_line e"
  shows "read_maps_line old (maps_line e @ rest) = (maps_line e, rest, False, False)"
proof -
  obtain l where l: "maps_line e = l @ [nl]" "nl \<notin> set l" "length l < 2047" using maps_line_body [OF assms] by blast
  then show ?thesis using fgets_line [of l 2047 rest] by (simp add: read_maps_line_def LINE_MAX_def)
qed

lemma read_end: "length old < LINE_MAX \<Longrightarrow> read_maps_line old [] = (old, [], True, False)"
  by (simp add: read_maps_line_def LINE_MAX_def numeral_eq_Suc)

text \<open>
  Over the lines of the kernel the loop handles every entry, and the last one twice: the end of the file is only seen by the
  \<open>fgets\<close> after it, which leaves the line in the buffer.
\<close>

lemma maps_file_entries:
  assumes "list_all entry_line es" "es \<noteq> []"
    and "\<And>e. entry_line e \<Longrightarrow> snd (item (entry_fields e [nl])) \<Longrightarrow> me_path e \<noteq> [] \<and> fst (item (entry_fields e [])) = fst (item (entry_fields e [nl]))"
  shows "maps_file_loop item old (concat (map maps_line es)) False acc =
    Inr (acc @ concat (map (\<lambda>e. fst (item (entry_fields e [nl]))) (es @ [last es])))"
  using assms(1,2)
proof (induction es arbitrary: old acc)
  case (Cons e es)
  obtain l where l: "maps_line e = l @ [nl]" "nl \<notin> set l" "length l < 2047" using Cons.prems maps_line_body [of e] by auto
  have f: "parse_maps_line (maps_line e) = Some (entry_fields e [nl])" "parse_maps_line l = Some (entry_fields e [])"
    using parse_entry [of e "[nl]" l] parse_entry [of e "[]" l] Cons.prems(1) l(1) by simp_all
  obtain x b where x: "item (entry_fields e [nl]) = (x, b)" by (cases "item (entry_fields e [nl])")
  let ?line = "if b then l else maps_line e"
  have step: "maps_file_loop item old (maps_line e @ rest) False acc = maps_file_loop item ?line rest False (acc @ x)" for rest
    using read_entry [of e old rest] Cons.prems(1) f x l(1) by (subst maps_file_loop.simps) simp
  show ?case
  proof (cases "es = []")
    case True
    have "length ?line < LINE_MAX" using l by (simp add: LINE_MAX_def)
    then have "maps_file_loop item ?line [] False (acc @ x) = Inr (acc @ x @ x)"
      using read_end [of ?line] f x assms(3) [of e] Cons.prems(1)
      by (subst maps_file_loop.simps) (auto simp: maps_file_loop.simps [of _ _ _ True] split: prod.splits)
    then show ?thesis using step [of "[]"] True x by simp
  next
    case False
    then show ?thesis using step Cons.IH [OF _ False, of ?line "acc @ x"] Cons.prems(1) x by simp
  qed
qed simp

section \<open>Properties\<close>

definition entry_module :: "(u64 \<Rightarrow> u8) \<Rightarrow> map_entry \<Rightarrow> RuntimeModule list" where
  "entry_module m e =
    (if (me_perms e = ''r--p'' \<or> me_perms e = ''r-xp'') \<and> peek m (me_start e) 4 = ELFMAG \<and> me_path e \<noteq> [] \<and> hd (me_path e) \<noteq> CHR ''[''
     then [\<lparr>rm_path = take 1024 (me_path e), rm_load_address = me_start e\<rparr>] else [])"

lemma module_item_entry:
  assumes "entry_line e"
  shows "module_item m (entry_fields e [nl]) = (entry_module m e, entry_module m e \<noteq> [])"
    "fst (module_item m (entry_fields e [])) = entry_module m e"
proof -
  have "nl \<notin> set (me_path e)" using assms by (simp add: entry_line_def)
  then have "me_path e \<noteq> [] \<Longrightarrow> last (me_path e) \<noteq> nl \<and> hd (me_path e) \<noteq> nl" using last_in_set hd_in_set by metis
  then show "module_item m (entry_fields e [nl]) = (entry_module m e, entry_module m e \<noteq> [])"
    "fst (module_item m (entry_fields e [])) = entry_module m e"
    by (auto simp: module_item_def entry_module_def entry_fields_def)
qed

text \<open>The module map, and the memory layout, which is sorted by address; the last line is handled twice.\<close>

lemma module_map_mappings:
  assumes "list_all entry_line es" "es \<noteq> []"
  shows "GetProcessModuleMap m stack (Some (concat (map maps_line es))) = Inr (concat (map (entry_module m) (es @ [last es])))"
proof -
  have "maps_file_loop (module_item m) stack (concat (map maps_line es)) False [] =
      Inr ([] @ concat (map (\<lambda>e. fst (module_item m (entry_fields e [nl]))) (es @ [last es])))"
    by (rule maps_file_entries [OF assms]) (auto simp: module_item_entry entry_module_def split: if_splits)
  moreover have "map (\<lambda>e. fst (module_item m (entry_fields e [nl]))) (es @ [last es]) = map (entry_module m) (es @ [last es])"
    using assms by (auto simp: module_item_entry list_all_iff)
  ultimately show ?thesis by (simp only: GetProcessModuleMap_def get_process_map_with_proc_maps_def option.case append_Nil)
qed

definition entry_region :: "map_entry \<Rightarrow> MemoryRegion" where
  "entry_region e = \<lparr>mr_address = me_start e, mr_length = me_end e - me_start e, mr_permission = layout_permission (me_perms e)\<rparr>"

lemma memory_layout_mappings:
  assumes "list_all entry_line es" "es \<noteq> []"
  shows "GetProcessMemoryLayout stack (Some (concat (map maps_line es))) = Inr (sort_key mr_address (map entry_region (es @ [last es])))"
proof -
  have "maps_file_loop (\<lambda>f. ([layout_region f], False)) stack (concat (map maps_line es)) False [] =
      Inr ([] @ concat (map (\<lambda>e. fst ([layout_region (entry_fields e [nl])], False)) (es @ [last es])))"
    by (rule maps_file_entries [OF assms]) simp
  moreover have "concat (map (\<lambda>e. fst ([layout_region (entry_fields e [nl])], False)) (es @ [last es])) = map entry_region (es @ [last es])"
    by (induction es) (simp_all add: layout_region_def entry_fields_def entry_region_def)
  ultimately show ?thesis by (simp only: GetProcessMemoryLayout_def option.case append_Nil rbind_Inr)
qed

text \<open>
  Read-only memory counts as inaccessible and writable code as data: \<open>kRead\<close> is never the result, and the test for
  \<open>kReadWriteExecute\<close> comes after those it implies.
\<close>

lemma layout_permission_misses:
  "layout_permission ''r--p'' = kNoAccess" "layout_permission ''rwxp'' = kReadWrite" "layout_permission p \<noteq> kReadWriteExecute"
  by (auto simp: layout_permission_def)

lemma find_module_map:
  assumes "list_all (\<lambda>md. length (rm_path md) < 1024) mds"
  shows "find_module name mds = Inr (case find (\<lambda>md. strstr (rm_path md) name) mds of
    None \<Rightarrow> \<lparr>rm_path = [], rm_load_address = 0\<rparr> | Some md \<Rightarrow> md)"
  using assms by (induction mds) (simp_all add: module_path_def)

section \<open>An example\<close>

definition demo_process_maps :: "map_entry list" where
  "demo_process_maps =
    [\<lparr>me_start = 0x20000, me_end = 0x21000, me_perms = ''r--p'', me_offset = 0, me_major = 253, me_minor = 5, me_inode = 17,
       me_pad = 3, me_path = ''/bin/linker64''\<rparr>,
     \<lparr>me_start = 0x30000, me_end = 0x31000, me_perms = ''rw-p'', me_offset = 0, me_major = 0, me_minor = 0, me_inode = 0,
       me_pad = 3, me_path = ''[heap]''\<rparr>]"

definition demo_elf_memory :: "u64 \<Rightarrow> u8" where
  "demo_elf_memory = poke (\<lambda>_. 0) 0x20000 ELFMAG"

lemma demo_process_maps_ok: "list_all entry_line demo_process_maps"
  by (simp add: demo_process_maps_def entry_line_def maps_line_def hexpad_def isspace_def digits.simps digit_char_def LINE_MAX_def)

lemma demo_modules: "concat (map (entry_module demo_elf_memory) (demo_process_maps @ [last demo_process_maps])) =
  [\<lparr>rm_path = ''/bin/linker64'', rm_load_address = 0x20000\<rparr>]"
  by code_simp

section \<open>Properties\<close>

text \<open>
  C28. The modules and the memory layout of the process are read back from the lines the kernel prints: each readable file mapping that
  starts with the ELF magic number gives a module with its path and address, in order; each mapping gives a region with its address
  and length, in the order of the addresses; and the last line of the file is handled twice.
\<close>
theorem module_map_lists_mappings:
  assumes "list_all entry_line es" "es \<noteq> []"
  shows "GetProcessModuleMap m stack (Some (concat (map maps_line es))) = Inr (concat (map (entry_module m) (es @ [last es]))) \<and>
    GetProcessMemoryLayout stack (Some (concat (map maps_line es))) = Inr (sort_key mr_address (map entry_region (es @ [last es])))"
  using module_map_mappings [OF assms] memory_layout_mappings [OF assms] by simp_all

theorem module_map_lists_mappings_witness:
  "GetProcessModuleMap demo_elf_memory [] (Some (concat (map maps_line demo_process_maps))) =
      Inr [\<lparr>rm_path = ''/bin/linker64'', rm_load_address = 0x20000\<rparr>] \<and>
    GetProcessMemoryLayout [] (Some (concat (map maps_line demo_process_maps))) =
      Inr [\<lparr>mr_address = 0x20000, mr_length = 0x1000, mr_permission = kNoAccess\<rparr>,
        \<lparr>mr_address = 0x30000, mr_length = 0x1000, mr_permission = kReadWrite\<rparr>, \<lparr>mr_address = 0x30000, mr_length = 0x1000, mr_permission = kReadWrite\<rparr>]"
  using module_map_lists_mappings [OF demo_process_maps_ok, of demo_elf_memory "[]"] unfolding demo_modules
  by (simp add: demo_process_maps_def entry_region_def layout_permission_def)

end
