(* ===== verification/ElfSymbols.thy ===== *)
theory ElfSymbols
  imports ProcessModules
begin

text \<open>
  \<open>builtin-plugin/SymbolResolver/elf/dobby_symbol_resolver.cc\<close>: the address of a symbol of a loaded library, looked up in the symbol
  tables of its file. The module finds the function of the linker it hooks this way. The structures are those of \<open>elf.h\<close> for
  64-bit files; \<open>dlsym\<close>, the files and where \<open>mmap\<close> places them are parameters.
\<close>

section \<open>Mapped files\<close>

text \<open>A file mapped at an address; a read outside it faults.\<close>

record elf_file =
  ef_base :: u64
  ef_data :: "u8 list"

definition elf_read :: "elf_file \<Rightarrow> u64 \<Rightarrow> nat \<Rightarrow> 'a::len word res" where
  "elf_read f a n =
    (let off = unat (a - ef_base f)
     in if off + n \<le> length (ef_data f) then Inr (of_le_bytes (take n (drop off (ef_data f)))) else Inl OutOfBounds)"

text \<open>What \<open>open\<close>, \<open>fstat\<close> and \<open>mmap\<close> answer for a file: its contents, \<open>None\<close> if \<open>fstat\<close> fails, and the address, \<open>None\<close> for \<open>MAP_FAILED\<close>.\<close>

record opened_file =
  of_contents :: "u8 list option"
  of_mmap :: "u64 option"

definition file_mmap :: "(string \<Rightarrow> opened_file option) \<Rightarrow> string \<Rightarrow> elf_file" where
  "file_mmap files file_path =
    (case files file_path of
       None \<Rightarrow> \<lparr>ef_base = 0, ef_data = []\<rparr>
     | Some fd \<Rightarrow> (case of_contents fd of
         None \<Rightarrow> \<lparr>ef_base = 0, ef_data = []\<rparr>
       | Some data \<Rightarrow> (case of_mmap fd of
           None \<Rightarrow> \<lparr>ef_base = - 1, ef_data = []\<rparr>
         | Some a \<Rightarrow> \<lparr>ef_base = a, ef_data = data\<rparr>)))"

text \<open>\<open>strcmp\<close> of a string in the file with a constant: whether they are equal.\<close>

definition byte_of :: "char \<Rightarrow> u8" where
  "byte_of c = word_of_nat (of_char c)"

fun elf_streq :: "elf_file \<Rightarrow> u64 \<Rightarrow> string \<Rightarrow> bool res" where
  "elf_streq f a [] = rbind (elf_read f a 1) (\<lambda>b :: u8. Inr (b = 0))"
| "elf_streq f a (c # cs) = rbind (elf_read f a 1) (\<lambda>b :: u8. if b = byte_of c then elf_streq f (a + 1) cs else Inr False)"

section \<open>The context\<close>

text \<open>Null pointers are 0. The fields for hash tables stay zero.\<close>

record elf_ctx =
  ctx_header :: u64
  ctx_load_bias :: u64
  ctx_sym_sh :: u64
  ctx_dynsym_sh :: u64
  ctx_strtab :: u64
  ctx_symtab :: u64
  ctx_dynstrtab :: u64
  ctx_dynsymtab :: u64

definition zero_ctx :: elf_ctx where
  "zero_ctx = \<lparr>ctx_header = 0, ctx_load_bias = 0, ctx_sym_sh = 0, ctx_dynsym_sh = 0, ctx_strtab = 0, ctx_symtab = 0, ctx_dynstrtab = 0, ctx_dynsymtab = 0\<rparr>"

definition PT_LOAD :: u32 where "PT_LOAD = 1"
definition PT_DYNAMIC :: u32 where "PT_DYNAMIC = 2"
definition PT_PHDR :: u32 where "PT_PHDR = 6"
definition SHT_SYMTAB :: u32 where "SHT_SYMTAB = 2"
definition SHT_STRTAB :: u32 where "SHT_STRTAB = 3"
definition SHT_DYNSYM :: u32 where "SHT_DYNSYM = 11"

text \<open>The loop over the program headers; \<open>dyn\<close> and \<open>addr\<close> are not used after it and left out.\<close>

fun elf_phdr_loop :: "elf_file \<Rightarrow> u64 \<Rightarrow> nat \<Rightarrow> nat \<Rightarrow> elf_ctx \<Rightarrow> elf_ctx res" where
  "elf_phdr_loop f phdr i 0 ctx = Inr ctx"
| "elf_phdr_loop f phdr i (Suc n) ctx =
    (let ph = phdr + of_nat (56 * i) in
     rbind (elf_read f ph 4) (\<lambda>p_type.
     rbind (if p_type = PT_DYNAMIC then Inr ctx
            else if p_type = PT_LOAD
            then if ctx_load_bias ctx = 0
              then rbind (elf_read f (ph + 16) 8) (\<lambda>p_vaddr. rbind (elf_read f (ph + 8) 8) (\<lambda>p_offset.
                Inr (ctx\<lparr>ctx_load_bias := ctx_header ctx - (p_vaddr - p_offset)\<rparr>)))
              else Inr ctx
            else if p_type = PT_PHDR
            then rbind (elf_read f (ph + 16) 8) (\<lambda>p_vaddr. Inr (ctx\<lparr>ctx_load_bias := phdr - p_vaddr\<rparr>))
            else Inr ctx) (\<lambda>ctx.
     elf_phdr_loop f phdr (i + 1) n ctx)))"

text \<open>One section header at \<open>sh\<close>, and the loop over them.\<close>

definition elf_section_name :: "elf_file \<Rightarrow> u64 \<Rightarrow> u64 \<Rightarrow> string \<Rightarrow> bool res" where
  "elf_section_name f shstrtab sh name = rbind (elf_read f sh 4) (\<lambda>sh_name :: u32. elf_streq f (shstrtab + ucast sh_name) name)"

definition elf_section :: "elf_file \<Rightarrow> u64 \<Rightarrow> u64 \<Rightarrow> elf_ctx \<Rightarrow> elf_ctx res" where
  "elf_section f shstrtab sh ctx =
    rbind (elf_read f (sh + 4) 4) (\<lambda>sh_type.
    let sh_offset = elf_read f (sh + 24) 8 in
    if sh_type = SHT_SYMTAB
    then rbind sh_offset (\<lambda>off. Inr (ctx\<lparr>ctx_sym_sh := sh, ctx_symtab := ctx_header ctx + off\<rparr>))
    else rbind (if sh_type = SHT_STRTAB then elf_section_name f shstrtab sh ''.strtab'' else Inr False) (\<lambda>is_strtab.
      if is_strtab then rbind sh_offset (\<lambda>off. Inr (ctx\<lparr>ctx_strtab := ctx_header ctx + off\<rparr>))
      else if sh_type = SHT_DYNSYM
      then rbind sh_offset (\<lambda>off. Inr (ctx\<lparr>ctx_dynsym_sh := sh, ctx_dynsymtab := ctx_header ctx + off\<rparr>))
      else rbind (if sh_type = SHT_STRTAB then elf_section_name f shstrtab sh ''.dynstr'' else Inr False) (\<lambda>is_dynstr.
        if is_dynstr then rbind sh_offset (\<lambda>off. Inr (ctx\<lparr>ctx_dynstrtab := ctx_header ctx + off\<rparr>)) else Inr ctx)))"

fun elf_shdr_loop :: "elf_file \<Rightarrow> u64 \<Rightarrow> u64 \<Rightarrow> nat \<Rightarrow> nat \<Rightarrow> elf_ctx \<Rightarrow> elf_ctx res" where
  "elf_shdr_loop f shstrtab shdr i 0 ctx = Inr ctx"
| "elf_shdr_loop f shstrtab shdr i (Suc n) ctx =
    rbind (elf_section f shstrtab (shdr + of_nat (64 * i)) ctx) (elf_shdr_loop f shstrtab shdr (i + 1) n)"

definition elf_ctx_init :: "elf_file \<Rightarrow> elf_ctx \<Rightarrow> elf_ctx res" where
  "elf_ctx_init f ctx =
    (let ehdr = ef_base f; ctx = ctx\<lparr>ctx_header := ehdr\<rparr> in
     rbind (elf_read f (ehdr + 32) 8) (\<lambda>e_phoff :: u64.
     rbind (elf_read f (ehdr + 56) 2) (\<lambda>e_phnum :: u16.
     rbind (elf_phdr_loop f (ehdr + e_phoff) 0 (unat e_phnum) ctx) (\<lambda>ctx.
     rbind (elf_read f (ehdr + 40) 8) (\<lambda>e_shoff :: u64.
     rbind (elf_read f (ehdr + 62) 2) (\<lambda>e_shstrndx :: u16.
     let shdr = ehdr + e_shoff in
     rbind (elf_read f (shdr + 64 * ucast e_shstrndx + 24) 8) (\<lambda>sh_offset :: u64.
     rbind (elf_read f (ehdr + 60) 2) (\<lambda>e_shnum :: u16.
     elf_shdr_loop f (ehdr + sh_offset) shdr 0 (unat e_shnum) ctx))))))))"

text \<open>\<open>get_syms\<close>, which nothing calls: the tables by name, with the size of an entry the header gives. The result is what it stores.\<close>

definition get_syms_section :: "elf_file \<Rightarrow> u64 \<Rightarrow> u64 \<Rightarrow> u64 \<Rightarrow> u64 option \<times> u64 option \<times> u32 option \<Rightarrow> (u64 option \<times> u64 option \<times> u32 option) res" where
  "get_syms_section f header section_strtab sh out =
    rbind (elf_read f (sh + 4) 4) (\<lambda>sh_type.
    rbind (if sh_type = SHT_SYMTAB then elf_section_name f section_strtab sh ''.symtab'' else Inr False) (\<lambda>is_symtab.
    rbind (if is_symtab
           then rbind (elf_read f (sh + 24) 8) (\<lambda>off. rbind (elf_read f (sh + 32) 8) (\<lambda>sz :: u64.
             Inr (Some (header + off), fst (snd out), Some (ucast (sz div 24)))))
           else Inr out) (\<lambda>out.
    rbind (if sh_type = SHT_STRTAB then elf_section_name f section_strtab sh ''.strtab'' else Inr False) (\<lambda>is_strtab.
    if is_strtab then rbind (elf_read f (sh + 24) 8) (\<lambda>off. Inr (fst out, Some (header + off), snd (snd out))) else Inr out))))"

fun get_syms_loop :: "elf_file \<Rightarrow> u64 \<Rightarrow> u64 \<Rightarrow> u64 \<Rightarrow> u64 \<Rightarrow> nat \<Rightarrow> u64 option \<times> u64 option \<times> u32 option \<Rightarrow> (u64 option \<times> u64 option \<times> u32 option) res" where
  "get_syms_loop f header section_strtab e_shentsize sh 0 out = Inr out"
| "get_syms_loop f header section_strtab e_shentsize sh (Suc n) out =
    rbind (get_syms_section f header section_strtab sh out) (get_syms_loop f header section_strtab e_shentsize (sh + e_shentsize) n)"

definition get_syms :: "elf_file \<Rightarrow> u64 \<Rightarrow> (u64 option \<times> u64 option \<times> u32 option) res" where
  "get_syms f header =
    rbind (elf_read f (header + 40) 8) (\<lambda>e_shoff :: u64.
    rbind (elf_read f (header + 62) 2) (\<lambda>e_shstrndx :: u16.
    rbind (elf_read f (header + 58) 2) (\<lambda>e_shentsize :: u16.
    rbind (elf_read f (header + e_shoff + ucast e_shstrndx * ucast e_shentsize + 24) 8) (\<lambda>sh_offset :: u64.
    rbind (elf_read f (header + 60) 2) (\<lambda>e_shnum :: u16.
    get_syms_loop f header (header + sh_offset) (ucast e_shentsize) (header + e_shoff) (unat e_shnum) (None, None, None))))))"

section \<open>Looking a symbol up\<close>

text \<open>\<open>count\<close> is an \<open>int\<close>.\<close>

fun elf_symbol_loop :: "elf_file \<Rightarrow> string \<Rightarrow> u64 \<Rightarrow> u64 \<Rightarrow> nat \<Rightarrow> nat \<Rightarrow> u64 res" where
  "elf_symbol_loop f symbol_name symtab strtab i 0 = Inr 0"
| "elf_symbol_loop f symbol_name symtab strtab i (Suc n) =
    (let sym = symtab + of_nat (24 * i) in
     rbind (elf_read f sym 4) (\<lambda>st_name :: u32.
     rbind (elf_streq f (strtab + ucast st_name) symbol_name) (\<lambda>eq.
     if eq then elf_read f (sym + 8) 8 else elf_symbol_loop f symbol_name symtab strtab (i + 1) n)))"

definition iterate_symbol_table_impl :: "elf_file \<Rightarrow> string \<Rightarrow> u64 \<Rightarrow> u64 \<Rightarrow> u32 \<Rightarrow> u64 res" where
  "iterate_symbol_table_impl f symbol_name symtab strtab count = elf_symbol_loop f symbol_name symtab strtab 0 (nat (sint count))"

definition elf_table :: "elf_file \<Rightarrow> string \<Rightarrow> u64 \<Rightarrow> u64 \<Rightarrow> u64 \<Rightarrow> u64 res" where
  "elf_table f symbol_name symtab strtab sh =
    (if symtab \<noteq> 0 \<and> strtab \<noteq> 0
     then rbind (elf_read f (sh + 32) 8) (\<lambda>sh_size :: u64.
       iterate_symbol_table_impl f symbol_name symtab strtab (ucast (sh_size div 24)))
     else Inr 0)"

definition elf_ctx_iterate_symbol_table :: "elf_file \<Rightarrow> elf_ctx \<Rightarrow> string \<Rightarrow> u64 res" where
  "elf_ctx_iterate_symbol_table f ctx symbol_name =
    rbind (elf_table f symbol_name (ctx_symtab ctx) (ctx_strtab ctx) (ctx_sym_sh ctx)) (\<lambda>result.
    if result \<noteq> 0 then Inr result
    else elf_table f symbol_name (ctx_dynsymtab ctx) (ctx_dynstrtab ctx) (ctx_dynsym_sh ctx))"

section \<open>Resolving\<close>

text \<open>The system during a call; the file of the mappings is read again for the second search.\<close>

record resolver_env =
  re_dlsym :: "string \<Rightarrow> u64"
  re_files :: "string \<Rightarrow> opened_file option"
  re_maps :: "nat \<Rightarrow> string option"
  re_memory :: "u64 \<Rightarrow> u8"
  re_stack :: string

text \<open>What is done for one module; \<open>munmap\<close> has no counterpart.\<close>

definition resolve_in_module :: "resolver_env \<Rightarrow> string \<Rightarrow> RuntimeModule \<Rightarrow> u64 res" where
  "resolve_in_module env symbol_name md =
    rbind (if rm_load_address md \<noteq> 0 then rbind (module_path md) (\<lambda>path. Inr (file_mmap (re_files env) path))
           else Inr \<lparr>ef_base = 0, ef_data = []\<rparr>) (\<lambda>f.
    rbind (if ef_base f \<noteq> 0
           then rbind (elf_ctx_init f zero_ctx) (\<lambda>ctx.
             rbind (elf_ctx_iterate_symbol_table f ctx symbol_name) (\<lambda>result. Inr (result, ctx)))
           else Inr (0, zero_ctx)) (\<lambda>(result, ctx).
    Inr (if result \<noteq> 0 then result + rm_load_address md - (ef_base f - ctx_load_bias ctx) else 0)))"

fun resolve_in_modules :: "resolver_env \<Rightarrow> string \<Rightarrow> RuntimeModule list \<Rightarrow> u64 res" where
  "resolve_in_modules env symbol_name [] = Inr 0"
| "resolve_in_modules env symbol_name (md # mds) =
    rbind (resolve_in_module env symbol_name md) (\<lambda>result.
    if result \<noteq> 0 then Inr result else resolve_in_modules env symbol_name mds)"

definition resolve_elf_internal_symbol :: "resolver_env \<Rightarrow> string option \<Rightarrow> string \<Rightarrow> u64 res" where
  "resolve_elf_internal_symbol env library_name symbol_name =
    rbind (case library_name of
         None \<Rightarrow> Inr 0
       | Some lib \<Rightarrow> rbind (GetProcessModule (re_memory env) (re_stack env) (re_maps env 0) lib) (resolve_in_module env symbol_name)) (\<lambda>result.
    if result \<noteq> 0 then Inr result
    else rbind (GetProcessModuleMap (re_memory env) (re_stack env) (re_maps env 1)) (resolve_in_modules env symbol_name))"

definition DobbySymbolResolver :: "resolver_env \<Rightarrow> string option \<Rightarrow> string \<Rightarrow> u64 res" where
  "DobbySymbolResolver env image_name symbol_name_pattern =
    (let result = re_dlsym env symbol_name_pattern
     in if result \<noteq> 0 then Inr result else resolve_elf_internal_symbol env image_name symbol_name_pattern)"

section \<open>ELF files\<close>

text \<open>
  A file as the format describes it: its segments and sections, the address its first byte is linked at, and the symbols of its two
  tables with their names. The tables are those the last sections of their kind give.
\<close>

record elf_segment =
  seg_type :: u32
  seg_offset :: u64
  seg_vaddr :: u64

record elf_sec =
  sec_type :: u32
  sec_name :: string
  sec_offset :: u64
  sec_size :: u64

record elf_symbol =
  es_name :: string
  es_value :: u64

record elf_view =
  ev_phoff :: u64
  ev_shoff :: u64
  ev_shstrndx :: u16
  ev_shstrtab :: u64
  ev_segments :: "elf_segment list"
  ev_sections :: "elf_sec list"
  ev_vaddr :: u64
  ev_symbols :: "elf_symbol list"
  ev_dynsymbols :: "elf_symbol list"

fun cstring_at :: "elf_file \<Rightarrow> u64 \<Rightarrow> string \<Rightarrow> bool" where
  "cstring_at f a [] \<longleftrightarrow> elf_read f a 1 = Inr (0 :: u8)"
| "cstring_at f a (c # cs) \<longleftrightarrow> c \<noteq> CHR 0x00 \<and> elf_read f a 1 = Inr (byte_of c) \<and> cstring_at f (a + 1) cs"

fun segments_at :: "elf_file \<Rightarrow> u64 \<Rightarrow> nat \<Rightarrow> elf_segment list \<Rightarrow> bool" where
  "segments_at f phdr i [] \<longleftrightarrow> True"
| "segments_at f phdr i (s # ss) \<longleftrightarrow>
    (let ph = phdr + of_nat (56 * i) in
     elf_read f ph 4 = Inr (seg_type s) \<and> elf_read f (ph + 8) 8 = Inr (seg_offset s) \<and> elf_read f (ph + 16) 8 = Inr (seg_vaddr s) \<and>
     segments_at f phdr (i + 1) ss)"

definition section_at :: "elf_file \<Rightarrow> u64 \<Rightarrow> u64 \<Rightarrow> elf_sec \<Rightarrow> bool" where
  "section_at f shstrtab sh s \<longleftrightarrow> elf_read f (sh + 4) 4 = Inr (sec_type s) \<and> elf_read f (sh + 24) 8 = Inr (sec_offset s) \<and>
     elf_read f (sh + 32) 8 = Inr (sec_size s) \<and>
     (case elf_read f sh 4 of Inl e \<Rightarrow> False | Inr n \<Rightarrow> cstring_at f (shstrtab + ucast (n :: u32)) (sec_name s))"

fun sections_at :: "elf_file \<Rightarrow> u64 \<Rightarrow> u64 \<Rightarrow> nat \<Rightarrow> elf_sec list \<Rightarrow> bool" where
  "sections_at f shstrtab shdr i [] \<longleftrightarrow> True"
| "sections_at f shstrtab shdr i (s # ss) \<longleftrightarrow>
    section_at f shstrtab (shdr + of_nat (64 * i)) s \<and> sections_at f shstrtab shdr (i + 1) ss"

fun symbols_at :: "elf_file \<Rightarrow> u64 \<Rightarrow> u64 \<Rightarrow> nat \<Rightarrow> elf_symbol list \<Rightarrow> bool" where
  "symbols_at f symtab strtab i [] \<longleftrightarrow> True"
| "symbols_at f symtab strtab i (s # ss) \<longleftrightarrow>
    (let sym = symtab + of_nat (24 * i) in
     elf_read f (sym + 8) 8 = Inr (es_value s) \<and>
     (case elf_read f sym 4 of Inl e \<Rightarrow> False | Inr n \<Rightarrow> cstring_at f (strtab + ucast (n :: u32)) (es_name s)) \<and>
     symbols_at f symtab strtab (i + 1) ss)"

text \<open>The last section of a kind, with its index.\<close>

fun last_section :: "(elf_sec \<Rightarrow> bool) \<Rightarrow> nat \<Rightarrow> elf_sec list \<Rightarrow> (nat \<times> elf_sec) option" where
  "last_section P i [] = None"
| "last_section P i (s # ss) =
    (case last_section P (i + 1) ss of Some x \<Rightarrow> Some x | None \<Rightarrow> if P s then Some (i, s) else None)"

definition string_section :: "string \<Rightarrow> elf_sec \<Rightarrow> bool" where
  "string_section name s \<longleftrightarrow> sec_type s = SHT_STRTAB \<and> sec_name s = name"

definition symbol_table :: "elf_file \<Rightarrow> elf_view \<Rightarrow> u32 \<Rightarrow> string \<Rightarrow> elf_symbol list \<Rightarrow> bool" where
  "symbol_table f v ty strings syms \<longleftrightarrow>
    (case (last_section (\<lambda>s. sec_type s = ty) 0 (ev_sections v), last_section (string_section strings) 0 (ev_sections v)) of
       (Some (i, s), Some (j, t)) \<Rightarrow> length syms = unat (sec_size s div 24) \<and> length syms < 2 ^ 31 \<and>
         ef_base f + sec_offset s \<noteq> 0 \<and> ef_base f + sec_offset t \<noteq> 0 \<and>
         symbols_at f (ef_base f + sec_offset s) (ef_base f + sec_offset t) 0 syms
     | _ \<Rightarrow> syms = [])"

text \<open>
  The program headers place the first byte of the file at \<open>ev_vaddr\<close>: the first loaded segment and the entry for the header table,
  if there is one, agree on it.
\<close>

definition linked_at :: "elf_view \<Rightarrow> bool" where
  "linked_at v \<longleftrightarrow> list_ex (\<lambda>s. seg_type s = PT_LOAD \<or> seg_type s = PT_PHDR) (ev_segments v) \<and>
     list_all (\<lambda>s. seg_type s = PT_PHDR \<longrightarrow> seg_vaddr s = ev_vaddr v + ev_phoff v) (ev_segments v) \<and>
     (case find (\<lambda>s. seg_type s = PT_LOAD) (ev_segments v) of None \<Rightarrow> True | Some s \<Rightarrow> seg_vaddr s = ev_vaddr v + seg_offset s)"

definition elf_view_ok :: "elf_file \<Rightarrow> elf_view \<Rightarrow> bool" where
  "elf_view_ok f v \<longleftrightarrow>
     (let ehdr = ef_base f; shdr = ehdr + ev_shoff v in
      elf_read f (ehdr + 32) 8 = Inr (ev_phoff v) \<and> elf_read f (ehdr + 56) 2 = Inr (of_nat (length (ev_segments v)) :: u16) \<and>
      length (ev_segments v) < 2 ^ 16 \<and> segments_at f (ehdr + ev_phoff v) 0 (ev_segments v) \<and> linked_at v \<and> ehdr \<noteq> ev_vaddr v \<and>
      elf_read f (ehdr + 40) 8 = Inr (ev_shoff v) \<and> elf_read f (ehdr + 62) 2 = Inr (ev_shstrndx v) \<and>
      elf_read f (shdr + 64 * ucast (ev_shstrndx v) + 24) 8 = Inr (ev_shstrtab v) \<and>
      elf_read f (ehdr + 60) 2 = Inr (of_nat (length (ev_sections v)) :: u16) \<and> length (ev_sections v) < 2 ^ 16 \<and>
      sections_at f (ehdr + ev_shstrtab v) shdr 0 (ev_sections v) \<and>
      symbol_table f v SHT_SYMTAB ''.strtab'' (ev_symbols v) \<and> symbol_table f v SHT_DYNSYM ''.dynstr'' (ev_dynsymbols v))"

text \<open>The value of a name: that of its first entry in the symbol table, unless it is 0, or else in the dynamic table.\<close>

definition symbol_value :: "elf_symbol list \<Rightarrow> string \<Rightarrow> u64" where
  "symbol_value syms name = (case find (\<lambda>s. es_name s = name) syms of None \<Rightarrow> 0 | Some s \<Rightarrow> es_value s)"

definition elf_lookup :: "elf_view \<Rightarrow> string \<Rightarrow> u64" where
  "elf_lookup v name = (let r = symbol_value (ev_symbols v) name in if r \<noteq> 0 then r else symbol_value (ev_dynsymbols v) name)"

section \<open>The lookup refines the view\<close>

lemma byte_of_inject: "byte_of c = byte_of d \<longleftrightarrow> c = d"
proof
  assume "byte_of c = byte_of d"
  then have "unat (word_of_nat (of_char c) :: u8) = unat (word_of_nat (of_char d) :: u8)" by (simp add: byte_of_def)
  moreover have "take_bit 8 (of_char e :: nat) = of_char e" for e :: char
    using of_char_mod_256 [of e, where ?'a = nat] by (simp add: take_bit_eq_mod)
  ultimately have "(of_char c :: nat) = of_char d" by (simp add: unsigned_of_nat)
  then show "c = d" by simp
qed simp

lemma byte_of_zero: "byte_of c = 0 \<longleftrightarrow> c = CHR 0x00"
  using byte_of_inject [of c "CHR 0x00"] by (simp add: byte_of_def)

lemma elf_streq_cstring: "cstring_at f a s \<Longrightarrow> CHR 0x00 \<notin> set pat \<Longrightarrow> elf_streq f a pat = Inr (s = pat)"
proof (induction pat arbitrary: a s)
  case Nil
  then show ?case by (cases s) (auto simp: byte_of_zero)
next
  case (Cons c cs)
  show ?case
  proof (cases s)
    case Nil
    then show ?thesis using Cons.prems byte_of_zero [of c] by auto
  next
    case (Cons d ds)
    then show ?thesis using Cons.prems Cons.IH [of "a + 1" ds] byte_of_inject [of d c] by simp
  qed
qed

lemma elf_symbol_loop_view:
  "symbols_at f symtab strtab i syms \<Longrightarrow> CHR 0x00 \<notin> set name \<Longrightarrow>
    elf_symbol_loop f name symtab strtab i (length syms) = Inr (symbol_value syms name)"
proof (induction syms arbitrary: i)
  case (Cons s ss)
  then show ?case
    by (auto simp: Let_def symbol_value_def elf_streq_cstring split: sum.splits)
qed (simp add: symbol_value_def)

lemma elf_phdr_loop_view:
  "segments_at f phdr i segs \<Longrightarrow> list_all (\<lambda>s. seg_type s = PT_PHDR \<longrightarrow> phdr - seg_vaddr s = bias) segs \<Longrightarrow>
    ctx_load_bias ctx = bias \<or> ctx_load_bias ctx = 0 \<and>
      (case find (\<lambda>s. seg_type s = PT_LOAD) segs of None \<Rightarrow> True | Some s \<Rightarrow> ctx_header ctx - (seg_vaddr s - seg_offset s) = bias) \<Longrightarrow>
    bias \<noteq> 0 \<Longrightarrow>
    elf_phdr_loop f phdr i (length segs) ctx = Inr (ctx\<lparr>ctx_load_bias :=
      if list_ex (\<lambda>s. seg_type s = PT_LOAD \<or> seg_type s = PT_PHDR) segs then bias else ctx_load_bias ctx\<rparr>)"
proof (induction segs arbitrary: i ctx)
  case (Cons s ss)
  show ?case
  proof (cases "seg_type s = PT_LOAD \<or> seg_type s = PT_PHDR")
    case True
    have "elf_phdr_loop f phdr i (length (s # ss)) ctx = elf_phdr_loop f phdr (i + 1) (length ss) (ctx\<lparr>ctx_load_bias := bias\<rparr>)"
      using True Cons.prems by (auto simp: Let_def PT_LOAD_def PT_DYNAMIC_def PT_PHDR_def diff_diff_eq2)
    also have "\<dots> = Inr (ctx\<lparr>ctx_load_bias := bias\<rparr>)"
      using Cons.IH [of "i + 1" "ctx\<lparr>ctx_load_bias := bias\<rparr>"] Cons.prems by (simp add: Let_def)
    finally show ?thesis using True by simp
  next
    case False
    then have "elf_phdr_loop f phdr i (length (s # ss)) ctx = elf_phdr_loop f phdr (i + 1) (length ss) ctx"
      using Cons.prems(1) by (auto simp: Let_def)
    then show ?thesis using Cons.IH [of "i + 1" ctx] Cons.prems False by (auto simp: Let_def)
  qed
qed simp

text \<open>What a list of sections leaves in the context.\<close>

definition section_ctx :: "u64 \<Rightarrow> u64 \<Rightarrow> nat \<Rightarrow> elf_sec list \<Rightarrow> elf_ctx \<Rightarrow> elf_ctx" where
  "section_ctx base shdr i ss ctx =
    (let sh = (\<lambda>P d. case last_section P i ss of None \<Rightarrow> d | Some (j, s) \<Rightarrow> shdr + of_nat (64 * j));
         off = (\<lambda>P d. case last_section P i ss of None \<Rightarrow> d | Some (j, s) \<Rightarrow> base + sec_offset s);
         sym = (\<lambda>s. sec_type s = SHT_SYMTAB); dynsym = (\<lambda>s. sec_type s = SHT_DYNSYM)
     in ctx\<lparr>ctx_sym_sh := sh sym (ctx_sym_sh ctx), ctx_symtab := off sym (ctx_symtab ctx),
        ctx_strtab := off (string_section ''.strtab'') (ctx_strtab ctx),
        ctx_dynsym_sh := sh dynsym (ctx_dynsym_sh ctx), ctx_dynsymtab := off dynsym (ctx_dynsymtab ctx),
        ctx_dynstrtab := off (string_section ''.dynstr'') (ctx_dynstrtab ctx)\<rparr>)"

lemma section_name_at:
  assumes "section_at f shstrtab sh s" "CHR 0x00 \<notin> set name"
  shows "elf_section_name f shstrtab sh name = Inr (sec_name s = name)"
  using assms elf_streq_cstring by (auto simp: elf_section_name_def section_at_def split: sum.splits)

lemma elf_section_view:
  assumes "section_at f shstrtab (shdr + of_nat (64 * i)) s"
  shows "elf_section f shstrtab (shdr + of_nat (64 * i)) ctx = Inr (section_ctx (ctx_header ctx) shdr i [s] ctx)"
proof -
  have n: "elf_section_name f shstrtab (shdr + of_nat (64 * i)) ''.strtab'' = Inr (sec_name s = ''.strtab'')"
    "elf_section_name f shstrtab (shdr + of_nat (64 * i)) ''.dynstr'' = Inr (sec_name s = ''.dynstr'')"
    by (rule section_name_at [OF assms], simp)+
  show ?thesis using assms n
    by (auto simp: section_at_def elf_section_def section_ctx_def string_section_def SHT_SYMTAB_def SHT_STRTAB_def SHT_DYNSYM_def Let_def)
qed

lemma section_ctx_Cons:
  "section_ctx base shdr i (s # ss) ctx = section_ctx base shdr (i + 1) ss (section_ctx base shdr i [s] ctx)"
  by (cases ctx) (simp add: section_ctx_def Let_def split: option.split)

lemma elf_shdr_loop_view:
  "sections_at f shstrtab shdr i ss \<Longrightarrow> elf_shdr_loop f shstrtab shdr i (length ss) ctx = Inr (section_ctx (ctx_header ctx) shdr i ss ctx)"
proof (induction ss arbitrary: i ctx)
  case Nil
  then show ?case by (cases ctx) (simp add: section_ctx_def)
next
  case (Cons s ss)
  have h: "ctx_header (section_ctx b shdr i [s] ctx) = ctx_header ctx" for b by (simp add: section_ctx_def Let_def)
  show ?case using Cons elf_section_view [of f shstrtab shdr i s ctx] by (simp add: h section_ctx_Cons [of _ _ _ s ss])
qed

lemma elf_ctx_init_view:
  assumes "elf_view_ok f v"
  shows "elf_ctx_init f zero_ctx = Inr (section_ctx (ef_base f) (ef_base f + ev_shoff v) 0 (ev_sections v)
    (zero_ctx\<lparr>ctx_header := ef_base f, ctx_load_bias := ef_base f - ev_vaddr v\<rparr>))"
proof -
  let ?b = "ef_base f" and ?c = "zero_ctx\<lparr>ctx_header := ef_base f\<rparr>"
  note v = assms [unfolded elf_view_ok_def Let_def]
  have ph: "list_all (\<lambda>s. seg_type s = PT_PHDR \<longrightarrow> ?b + ev_phoff v - seg_vaddr s = ?b - ev_vaddr v) (ev_segments v)"
    using v by (auto simp: linked_at_def list_all_iff)
  have ld: "case find (\<lambda>s. seg_type s = PT_LOAD) (ev_segments v) of None \<Rightarrow> True
      | Some s \<Rightarrow> ctx_header ?c - (seg_vaddr s - seg_offset s) = ?b - ev_vaddr v"
    using v by (auto simp: linked_at_def split: option.splits)
  have loop: "elf_phdr_loop f (?b + ev_phoff v) 0 (length (ev_segments v)) ?c = Inr (?c\<lparr>ctx_load_bias := ?b - ev_vaddr v\<rparr>)"
    using elf_phdr_loop_view [OF _ ph, of f 0 ?c] ld v by (simp add: linked_at_def zero_ctx_def)
  have n: "unat (of_nat k :: u16) = k" if "k < 2 ^ 16" for k using that by (simp add: unsigned_of_nat take_bit_nat_eq_self)
  show ?thesis
    using v loop elf_shdr_loop_view [of f "?b + ev_shstrtab v" "?b + ev_shoff v" 0 "ev_sections v" "?c\<lparr>ctx_load_bias := ?b - ev_vaddr v\<rparr>"] n
    by (simp add: elf_ctx_init_def Let_def)
qed

lemma last_section_at:
  "sections_at f shstrtab shdr i ss \<Longrightarrow> last_section P i ss = Some (j, s) \<Longrightarrow> elf_read f (shdr + of_nat (64 * j) + 32) 8 = Inr (sec_size s)"
  by (induction ss arbitrary: i) (auto simp: section_at_def split: option.splits if_splits)

lemma sint_small: "unat (w :: u32) < 2 ^ 31 \<Longrightarrow> sint w = int (unat w)"
proof -
  assume "unat w < 2 ^ 31"
  then have "uint w < 2 ^ 31" by (metis of_nat_less_iff of_nat_numeral of_nat_power uint_nat)
  moreover have "- (2 ^ 31) \<le> uint w" by (rule order_trans [of _ 0]) simp_all
  ultimately have "signed_take_bit 31 (uint w) = uint w" by (intro signed_take_bit_int_eq_self)
  then show ?thesis by (simp add: sint_uint)
qed

lemma elf_table_view:
  assumes "elf_view_ok f v" "symbol_table f v ty strings syms" "CHR 0x00 \<notin> set name"
  shows "elf_table f name
      (case last_section (\<lambda>s. sec_type s = ty) 0 (ev_sections v) of None \<Rightarrow> 0 | Some (j, s) \<Rightarrow> ef_base f + sec_offset s)
      (case last_section (string_section strings) 0 (ev_sections v) of None \<Rightarrow> 0 | Some (j, s) \<Rightarrow> ef_base f + sec_offset s)
      (case last_section (\<lambda>s. sec_type s = ty) 0 (ev_sections v) of None \<Rightarrow> 0 | Some (j, s) \<Rightarrow> ef_base f + ev_shoff v + of_nat (64 * j)) =
    Inr (symbol_value syms name)"
proof (cases "last_section (\<lambda>s. sec_type s = ty) 0 (ev_sections v) = None \<or> last_section (string_section strings) 0 (ev_sections v) = None")
  case True
  then show ?thesis using assms(2) by (auto simp: elf_table_def symbol_table_def symbol_value_def split: option.splits)
next
  case False
  then obtain i s j t where st: "last_section (\<lambda>s. sec_type s = ty) 0 (ev_sections v) = Some (i, s)"
      "last_section (string_section strings) 0 (ev_sections v) = Some (j, t)" by auto
  note tab = assms(2) [unfolded symbol_table_def st option.case prod.case]
  have "sections_at f (ef_base f + ev_shstrtab v) (ef_base f + ev_shoff v) 0 (ev_sections v)"
    using assms(1) by (simp add: elf_view_ok_def Let_def)
  from last_section_at [OF this st(1)] have sz: "elf_read f (ef_base f + ev_shoff v + of_nat (64 * i) + 32) 8 = Inr (sec_size s)" .
  have "nat (sint (ucast (sec_size s div 24) :: u32)) = length syms"
  proof -
    have "unat (ucast (sec_size s div 24) :: u32) = length syms"
      using tab by (simp add: unsigned_ucast_eq take_bit_nat_eq_self)
    moreover from this have "sint (ucast (sec_size s div 24) :: u32) = int (length syms)"
      using tab sint_small [of "ucast (sec_size s div 24)"] by simp
    ultimately show ?thesis by simp
  qed
  then show ?thesis using tab sz elf_symbol_loop_view [of f _ _ 0 syms name] assms(3)
    by (simp add: st elf_table_def iterate_symbol_table_impl_def)
qed

lemma section_ctx_simps:
  "ctx_load_bias (section_ctx b shdr i ss ctx) = ctx_load_bias ctx"
  "ctx_symtab (section_ctx b shdr i ss ctx) = (case last_section (\<lambda>s. sec_type s = SHT_SYMTAB) i ss of None \<Rightarrow> ctx_symtab ctx | Some (j, s) \<Rightarrow> b + sec_offset s)"
  "ctx_dynsymtab (section_ctx b shdr i ss ctx) = (case last_section (\<lambda>s. sec_type s = SHT_DYNSYM) i ss of None \<Rightarrow> ctx_dynsymtab ctx | Some (j, s) \<Rightarrow> b + sec_offset s)"
  "ctx_strtab (section_ctx b shdr i ss ctx) = (case last_section (string_section ''.strtab'') i ss of None \<Rightarrow> ctx_strtab ctx | Some (j, s) \<Rightarrow> b + sec_offset s)"
  "ctx_dynstrtab (section_ctx b shdr i ss ctx) = (case last_section (string_section ''.dynstr'') i ss of None \<Rightarrow> ctx_dynstrtab ctx | Some (j, s) \<Rightarrow> b + sec_offset s)"
  "ctx_sym_sh (section_ctx b shdr i ss ctx) = (case last_section (\<lambda>s. sec_type s = SHT_SYMTAB) i ss of None \<Rightarrow> ctx_sym_sh ctx | Some (j, s) \<Rightarrow> shdr + of_nat (64 * j))"
  "ctx_dynsym_sh (section_ctx b shdr i ss ctx) = (case last_section (\<lambda>s. sec_type s = SHT_DYNSYM) i ss of None \<Rightarrow> ctx_dynsym_sh ctx | Some (j, s) \<Rightarrow> shdr + of_nat (64 * j))"
  by (simp_all add: section_ctx_def Let_def)

lemma elf_iterate_view:
  assumes "elf_view_ok f v" "CHR 0x00 \<notin> set name" "elf_ctx_init f zero_ctx = Inr ctx"
  shows "elf_ctx_iterate_symbol_table f ctx name = Inr (elf_lookup v name)" "ctx_load_bias ctx = ef_base f - ev_vaddr v"
proof -
  have t: "symbol_table f v SHT_SYMTAB ''.strtab'' (ev_symbols v)" "symbol_table f v SHT_DYNSYM ''.dynstr'' (ev_dynsymbols v)"
    using assms(1) by (simp_all add: elf_view_ok_def Let_def)
  let ?z = "zero_ctx\<lparr>ctx_header := ef_base f, ctx_load_bias := ef_base f - ev_vaddr v\<rparr>"
  have z: "ctx_symtab ?z = 0" "ctx_dynsymtab ?z = 0" "ctx_strtab ?z = 0" "ctx_dynstrtab ?z = 0" "ctx_sym_sh ?z = 0" "ctx_dynsym_sh ?z = 0"
    by (simp_all add: zero_ctx_def)
  let ?c = "section_ctx (ef_base f) (ef_base f + ev_shoff v) 0 (ev_sections v) (zero_ctx\<lparr>ctx_header := ef_base f, ctx_load_bias := ef_base f - ev_vaddr v\<rparr>)"
  have c: "ctx = ?c" using assms(3) elf_ctx_init_view [OF assms(1)] by simp
  have "elf_table f name (ctx_symtab ?c) (ctx_strtab ?c) (ctx_sym_sh ?c) = Inr (symbol_value (ev_symbols v) name)"
    using elf_table_view [OF assms(1) t(1) assms(2)] unfolding section_ctx_simps z .
  moreover have "elf_table f name (ctx_dynsymtab ?c) (ctx_dynstrtab ?c) (ctx_dynsym_sh ?c) = Inr (symbol_value (ev_dynsymbols v) name)"
    using elf_table_view [OF assms(1) t(2) assms(2)] unfolding section_ctx_simps z .
  ultimately show "elf_ctx_iterate_symbol_table f ctx name = Inr (elf_lookup v name)"
    by (simp add: c elf_ctx_iterate_symbol_table_def elf_lookup_def Let_def)
  show "ctx_load_bias ctx = ef_base f - ev_vaddr v" by (simp add: c section_ctx_simps)
qed

section \<open>Resolving in the modules of the process\<close>

text \<open>
  The file of a module: it cannot be opened, or it is mapped and has the given view. The address of a symbol in a module is its
  value moved by the distance between where the file is loaded and where it is linked.
\<close>

definition module_file :: "resolver_env \<Rightarrow> RuntimeModule \<Rightarrow> elf_view option \<Rightarrow> bool" where
  "module_file env md v \<longleftrightarrow> rm_load_address md \<noteq> 0 \<and> length (rm_path md) < 1024 \<and>
     (case v of None \<Rightarrow> re_files env (rm_path md) = None
      | Some v \<Rightarrow> (case re_files env (rm_path md) of None \<Rightarrow> False | Some fd \<Rightarrow>
          (case (of_contents fd, of_mmap fd) of
             (Some data, Some a) \<Rightarrow> a \<noteq> 0 \<and> elf_view_ok \<lparr>ef_base = a, ef_data = data\<rparr> v
           | _ \<Rightarrow> False)))"

definition symbol_address :: "RuntimeModule \<Rightarrow> elf_view option \<Rightarrow> string \<Rightarrow> u64" where
  "symbol_address md v name =
    (case v of None \<Rightarrow> 0 | Some v \<Rightarrow> if elf_lookup v name = 0 then 0 else elf_lookup v name - ev_vaddr v + rm_load_address md)"

lemma resolve_in_module_view:
  assumes "module_file env md v" "CHR 0x00 \<notin> set name"
  shows "resolve_in_module env name md = Inr (symbol_address md v name)"
proof (cases v)
  case None
  then show ?thesis using assms(1)
    by (simp add: module_file_def resolve_in_module_def module_path_def file_mmap_def symbol_address_def)
next
  case (Some view)
  then obtain fd data a where f: "re_files env (rm_path md) = Some fd" "of_contents fd = Some data" "of_mmap fd = Some a" "a \<noteq> 0"
      "elf_view_ok \<lparr>ef_base = a, ef_data = data\<rparr> view" "rm_load_address md \<noteq> 0" "length (rm_path md) < 1024"
    using assms(1) by (auto simp: module_file_def split: option.splits)
  obtain ctx where ctx: "elf_ctx_init \<lparr>ef_base = a, ef_data = data\<rparr> zero_ctx = Inr ctx" using elf_ctx_init_view [OF f(5)] by blast
  show ?thesis using f elf_iterate_view [OF f(5) assms(2) ctx]
    by (simp add: resolve_in_module_def module_path_def file_mmap_def ctx symbol_address_def Some algebra_simps)
qed

fun first_address :: "string \<Rightarrow> (RuntimeModule \<times> elf_view option) list \<Rightarrow> u64" where
  "first_address name [] = 0"
| "first_address name ((md, v) # mvs) = (if symbol_address md v name \<noteq> 0 then symbol_address md v name else first_address name mvs)"

lemma resolve_in_modules_view:
  "list_all (\<lambda>(md, v). module_file env md v) mvs \<Longrightarrow> CHR 0x00 \<notin> set name \<Longrightarrow>
    resolve_in_modules env name (map fst mvs) = Inr (first_address name mvs)"
  by (induction name mvs rule: first_address.induct) (auto simp: resolve_in_module_view)

text \<open>
  C10. Resolving a symbol without a library name: when the dynamic linker does not know the name, the result is its address in
  the first module, in the order of the mappings, whose file defines it, computed from the symbol tables of the file as the ELF format
  defines them and the place the module is loaded at, or 0; and no read leaves a mapped file.
\<close>

theorem resolver_finds_symbol:
  assumes "re_dlsym env name = 0" "CHR 0x00 \<notin> set name"
    and "re_maps env 1 = Some (concat (map maps_line es))" "list_all entry_line es" "es \<noteq> []"
    and "concat (map (entry_module (re_memory env)) (es @ [last es])) = map fst mvs" "list_all (\<lambda>(md, v). module_file env md v) mvs"
  shows "DobbySymbolResolver env None name = Inr (first_address name mvs)"
  using module_map_mappings [OF assms(4,5), of "re_memory env" "re_stack env"] resolve_in_modules_view [OF assms(7,2)] assms
  by (simp add: DobbySymbolResolver_def resolve_elf_internal_symbol_def)

text \<open>
  A file that \<open>open\<close> and \<open>fstat\<close> accept but \<open>mmap\<close> does not, such as an empty one, gives \<open>MAP_FAILED\<close>, which is not the null pointer the
  caller tests for: the header is read at that address.
\<close>

lemma failed_mmap_is_read:
  assumes "re_files env (rm_path md) = Some fd" "of_contents fd = Some data" "of_mmap fd = None" "rm_load_address md \<noteq> 0"
    "length (rm_path md) < 1024"
  shows "resolve_in_module env name md = Inl OutOfBounds"
  using assms by (simp add: resolve_in_module_def module_path_def file_mmap_def elf_ctx_init_def elf_read_def Let_def)

section \<open>An example\<close>

text \<open>A file of 64-bit words, so that a field is part of one of them.\<close>

lemma drop_concat_words:
  "k \<le> length ws \<Longrightarrow> drop (8 * k) (concat (map (le_bytes 8) ws)) = concat (map (le_bytes 8) (drop k (ws :: u64 list)))"
proof (induction k arbitrary: ws)
  case (Suc k)
  then show ?case by (cases ws) (simp_all del: le_bytes.simps)
qed simp

lemma length_concat_words: "length (concat (map (le_bytes 8) (ws :: u64 list))) = 8 * length ws"
  by (induction ws) (simp_all del: le_bytes.simps)

lemma elf_read_words:
  assumes "ef_data f = concat (map (le_bytes 8) (ws :: u64 list))" "off = unat (a - ef_base f)" "off mod 8 + n \<le> 8" "off div 8 < length ws"
  shows "elf_read f a n = Inr (of_le_bytes (take n (drop (off mod 8) (le_bytes 8 (ws ! (off div 8))))))"
proof -
  have "drop off (ef_data f) = drop (off mod 8) (drop (8 * (off div 8)) (ef_data f))" by (simp add: mult_div_mod_eq)
  also have "\<dots> = drop (off mod 8) (concat (map (le_bytes 8) (drop (off div 8) ws)))"
    using assms(4) unfolding assms(1) by (subst drop_concat_words) simp_all
  also have "drop (off div 8) ws = ws ! (off div 8) # drop (Suc (off div 8)) ws" using assms(4) by (simp add: Cons_nth_drop_Suc)
  finally have "take n (drop off (ef_data f)) = take n (drop (off mod 8) (le_bytes 8 (ws ! (off div 8))))"
    using assms(3) by (simp del: le_bytes.simps)
  moreover have "off + n \<le> length (ef_data f)"
    using assms(3,4) div_mult_mod_eq [of off 8] unfolding assms(1) length_concat_words by linarith
  ultimately show ?thesis by (simp add: elf_read_def Let_def assms(2) [symmetric] del: le_bytes.simps)
qed


text \<open>One loaded segment, a symbol table, and a string table that also holds the section names.\<close>

definition demo_elf_words :: "u64 list" where
  "demo_elf_words =
    [0x464C457F, 0, 0, 0, 64, 120, 0x38000000000000, 0x1000200400001,
     1, 0, 0x1000, 0, 0, 0, 0,
     0x200000000, 0, 0, 248, 48, 0, 0, 0,
     0x300000001, 0, 0, 296, 56, 0, 0, 0,
     0, 0, 0, 9, 0x1234, 0,
     0x6261747274732E00, 0x5A5F5F6C645F5F00, 0x706F6C645F6F6439, 0x4B5069634B506E65, 0x696F72646E613731, 0x697478656C645F64, 0x764B506F666E]"

definition demo_elf_file :: elf_file where
  "demo_elf_file = \<lparr>ef_base = 0x100000, ef_data = concat (map (le_bytes 8) demo_elf_words)\<rparr>"

definition demo_elf_view :: elf_view where
  "demo_elf_view = \<lparr>ev_phoff = 64, ev_shoff = 120, ev_shstrndx = 1, ev_shstrtab = 296,
     ev_segments = [\<lparr>seg_type = PT_LOAD, seg_offset = 0, seg_vaddr = 0x1000\<rparr>],
     ev_sections = [\<lparr>sec_type = SHT_SYMTAB, sec_name = [], sec_offset = 248, sec_size = 48\<rparr>,
       \<lparr>sec_type = SHT_STRTAB, sec_name = ''.strtab'', sec_offset = 296, sec_size = 56\<rparr>],
     ev_vaddr = 0x1000, ev_symbols = [\<lparr>es_name = [], es_value = 0\<rparr>, \<lparr>es_name = ''__dl__Z9do_dlopenPKciPK17android_dlextinfoPKv'', es_value = 0x1234\<rparr>], ev_dynsymbols = []\<rparr>"

lemma demo_read:
  assumes "unat (a - 0x100000) mod 8 + n \<le> 8" "unat (a - 0x100000) div 8 < 44"
  shows "elf_read demo_elf_file a n =
    Inr (of_le_bytes (take n (drop (unat (a - 0x100000) mod 8) (le_bytes 8 (demo_elf_words ! (unat (a - 0x100000) div 8))))))"
  using assms by (intro elf_read_words) (simp_all add: demo_elf_file_def demo_elf_words_def)

lemma demo_elf_ok: "elf_view_ok demo_elf_file demo_elf_view"
proof -
  have b: "ef_base demo_elf_file = 0x100000" by (simp add: demo_elf_file_def)
  show ?thesis
    by (simp add: elf_view_ok_def b demo_elf_view_def demo_read linked_at_def PT_LOAD_def PT_PHDR_def section_at_def symbol_table_def
        SHT_SYMTAB_def SHT_STRTAB_def SHT_DYNSYM_def string_section_def byte_of_def le_bytes_numeral demo_elf_words_def)
qed

definition demo_resolver :: resolver_env where
  "demo_resolver = \<lparr>re_dlsym = (\<lambda>_. 0),
     re_files = (\<lambda>path. if path = ''/bin/linker64'' then Some \<lparr>of_contents = Some (ef_data demo_elf_file), of_mmap = Some 0x100000\<rparr> else None),
     re_maps = (\<lambda>_. Some (concat (map maps_line demo_process_maps))), re_memory = demo_elf_memory, re_stack = []\<rparr>"

abbreviation demo_module_files :: "(RuntimeModule \<times> elf_view option) list" where
  "demo_module_files \<equiv> [(\<lparr>rm_path = ''/bin/linker64'', rm_load_address = 0x20000\<rparr>, Some demo_elf_view)]"

lemma demo_resolver_ok:
  "list_all (\<lambda>(md, v). module_file demo_resolver md v) demo_module_files"
  "concat (map (entry_module (re_memory demo_resolver)) (demo_process_maps @ [last demo_process_maps])) = map fst demo_module_files"
proof -
  have "\<lparr>ef_base = 0x100000, ef_data = ef_data demo_elf_file\<rparr> = demo_elf_file" by (simp add: demo_elf_file_def)
  then show "list_all (\<lambda>(md, v). module_file demo_resolver md v) demo_module_files"
    using demo_elf_ok by (simp add: module_file_def demo_resolver_def)
  show "concat (map (entry_module (re_memory demo_resolver)) (demo_process_maps @ [last demo_process_maps])) = map fst demo_module_files"
    using demo_modules by (simp add: demo_resolver_def)
qed

theorem resolver_finds_symbol_witness: "DobbySymbolResolver demo_resolver None ''__dl__Z9do_dlopenPKciPK17android_dlextinfoPKv'' = Inr 0x20234"
proof -
  have "first_address ''__dl__Z9do_dlopenPKciPK17android_dlextinfoPKv'' demo_module_files = 0x20234" by code_simp
  then show ?thesis
    using resolver_finds_symbol [of demo_resolver "''__dl__Z9do_dlopenPKciPK17android_dlextinfoPKv''" demo_process_maps demo_module_files]
      demo_process_maps_ok demo_resolver_ok
    by (simp add: demo_resolver_def demo_process_maps_def)
qed

end
