(* ===== verification/Spec2Isabelle.thy ===== *)
theory Spec2Isabelle
  imports X86Properties CodeBuffer HookEngine ZygiskModule X64ClosureBridge X64Branches X64Engine ElfSymbols
begin

text \<open>
  A model of Zygisk-Il2CppDumper and of the parts of the hooking library Dobby it rests on. Paths are relative to
  \<open>module/src/main/cpp\<close>; those of Dobby to \<open>Dobby/source\<close> below it.

  \<^bold>\<open>The program.\<close> A Zygisk module (\<open>main.cpp\<close>) looks at every app process that is specialised; in the process of the
  configured game it starts a thread (\<open>hook.cpp\<close>) that hooks a function of the dynamic linker, waits until the game has loaded
  \<open>libil2cpp.so\<close>, and then walks the metadata of the il2cpp runtime and writes it as C# declarations
  (\<open>il2cpp_dump.cpp\<close>). Hooking is done by Dobby: \<open>DobbyHook\<close> generates a trampoline, relocates the instructions it will
  overwrite into freshly allocated executable memory followed by a jump back, registers the hook and patches the function.

  \<^bold>\<open>Theories and sources.\<close>
  \<^item> \<open>Prelude\<close>: machine integers, faults and results, the bit-field macros of \<open>include/utility_macro.h\<close>, little-endian images.
  \<^item> \<open>X86Spec\<close>, \<open>X86OneByte\<close>, \<open>X86TwoByte\<close>, \<open>X86Groups\<close>, \<open>X86SseGroups\<close>: the opcode tables and groups of
    \<open>InstructionRelocation/x86/x86_insn_decode\<close>, every entry; \<open>X86Reader\<close>, \<open>X86Decode\<close>: the reader and the decoder, stage by stage;
    \<open>X86DecodeCorrect\<close>, \<open>X86Properties\<close>: lengths, operands, bounds, and the instructions decoded wrongly.
  \<^item> \<open>LiteCollections\<close>: the growing buffer and array of \<open>external/xnucxx\<close>, with the interface \<open>appendable\<close> both provide;
    \<open>CodeBuffer\<close>: \<open>MemoryAllocator/CodeBuffer\<close>; \<open>Labels\<close>: the labels of \<open>core/modules/assembler\<close>.
  \<^item> \<open>Arm64Constants\<close>, \<open>Arm64Assembler\<close>: the instruction encodings and the assembler of \<open>core/arch/arm64\<close> and
    \<open>core/modules/assembler/assembler-arm64\<close>; \<open>Arm64Relocation\<close>: \<open>InstructionRelocation/arm64\<close>; \<open>Arm64Trampoline\<close>: the normal
    trampoline of \<open>TrampolineBridge/Trampoline/arm64\<close>.
  \<^item> \<open>Arm64Machine\<close>: a reference semantics of the A64 instructions involved, written after the architecture manual and not part of
    the program; \<open>Arm64Correct\<close>, \<open>Arm64Simulation\<close>, \<open>Arm64Properties\<close>: what emitted and relocated code does on it.
  \<^item> \<open>MemoryArena\<close>: \<open>MemoryAllocator/MemoryArena\<close> over \<open>OSMemory\<close>; \<open>NearMemoryArena\<close>: \<open>MemoryAllocator/NearMemoryArena\<close>, chunks
    within the range of a branch; \<open>ProcessModules\<close>: \<open>UserMode/PlatformUtil/Linux\<close>, the memory layout and the modules as read from
    \<open>/proc/self/maps\<close>, whose lines \<open>MapsText\<close> describes; \<open>ElfSymbols\<close>: the symbol resolver of \<open>builtin-plugin/SymbolResolver/elf\<close>;
    \<open>ProcessMemory\<close>: memory as a function from addresses to bytes, and \<open>CodePatch\<close>; \<open>HookRegistry\<close>: the
    linked list of \<open>include/list_structure.h\<close> and \<open>Interceptor.cpp\<close>, behind the interface \<open>hook_registry\<close>; \<open>CodeBuilder\<close>: the state of
    the engine and \<open>AssemblyCodeBuilder\<close>; \<open>HookEngine\<close>: \<open>InterceptRouting\<close>, \<open>DobbyHook\<close> and \<open>DobbyDestroy\<close> on ARM64.
  \<^item> \<open>X64Assembler\<close>: \<open>core/arch/x64\<close>, \<open>core/modules/assembler/assembler-x64\<close> and \<open>core/modules/codegen/codegen-x64\<close>;
    \<open>X64Machine\<close>: a reference disassembler and semantics of the instructions the assembler emits, not part of the program;
    \<open>X64ClosureBridge\<close>: the generated bridge and trampolines of \<open>TrampolineBridge/ClosureTrampolineBridge\<close> on x64;
    \<open>X64Relocation\<close>: \<open>InstructionRelocation/x64\<close>, on top of the decoder; \<open>X64Branches\<close>, \<open>X64Prologue\<close>: what relocated branches,
    operands and prologues do; \<open>X64Engine\<close>: \<open>TrampolineBridge/Trampoline/x64\<close>, \<open>DobbyHook\<close> on x64 and \<open>DobbyInstrument\<close> with the handlers that
    run on a call, from \<open>InterceptRouting/Routing/DynamicBinaryInstrument\<close>.
  \<^item> \<open>TextStream\<close>: what the dumper uses of the C++ streams and of \<open>sscanf\<close>; \<open>Il2CppModel\<close>: constants, structures and the runtime as
    a record of functions; \<open>Il2CppDump\<close>: \<open>il2cpp_dump.cpp\<close>; \<open>Il2CppText\<close>: the dump as a function of the metadata, and that the
    dumper writes it; \<open>Il2CppProperties\<close>.
  \<^item> \<open>ZygiskModule\<close>: \<open>hook.cpp\<close> and \<open>main.cpp\<close>, the process as a step relation.
  \<^item> This theory: the properties that span the module, the resolver, the engine and the dumper.

  \<^bold>\<open>State and operations.\<close> A struct or class is a record with the fields of the source, an operation a function from the old state
  to the new. A call that aborts, or reads or writes where the C++ code has undefined behaviour, gives \<open>Inl\<close> with a \<open>fault\<close>. Pointers
  are addresses; the links of the hook list are functions on addresses, so that aliasing is that of the code; the memory that is
  patched is a function from addresses to bytes. The linker, \<open>mmap\<close>, \<open>malloc\<close>, JNI, \<open>/proc/self/maps\<close> and the il2cpp runtime are
  parameters, and what is relied on of them are hypotheses of the theorems (\<open>heap_available\<close>, \<open>mmap_fresh\<close>, \<open>assembly_ok\<close> and the
  predicates it uses, \<open>entry_line\<close> for the lines the kernel prints, \<open>elf_view_ok\<close> for a well-formed file). The plans \<open>hook_plan\<close>,
  \<open>x64_patch_plan\<close> and \<open>x64_instrument_plan\<close> collect the conditions under which a function can be patched at all: memory is found, in
  reach and apart from the function, and the patch stays in its page. The build is the release build: \<open>DCHECK\<close>, \<open>ASSERT\<close> and \<open>DLOG\<close> are compiled out.

  \<^bold>\<open>What is shown.\<close> The decoder never leaves its buffer and consumes the bytes of the architecture, up to listed exceptions; code
  buffers and arrays refine lists; relocated ARM64 code simulates the original instruction by instruction and returns to the
  function; trampolines reach their targets; on x64 the bridge saves and restores the whole register file around the
  handler, a relocated prologue leads where the original leads, relocation always ends, and from the call of \<open>DobbyHook\<close> or
  \<open>DobbyInstrument\<close> to the run of the patched function the parts fit together; a symbol is resolved to the address its ELF file
  defines; chunks of the arena never overlap, those of
  the near arena lie in range; a hook sends the function to its replacement,
  keeps the original callable, and can be undone; the dump is complete and in order, its addresses and modifiers can be
  read back, and it is written at most once, with the right handle, in every interleaving; the whole module reaches the
  file. Where the code does not do what it means to, the deviation is a theorem of its own.

  \<^bold>\<open>Bounds and loops.\<close> Loops over data are recursive functions. Loops that could run forever (the iterators of the runtime, the
  linked list) are \<open>partial_function (option)\<close>, and that they return is proved from the enumeration the runtime promises and from the
  shape of the list. Fuel occurs only in the reference machine, whose number of steps is existentially quantified or given. The
  decoder theorems are about at most nine prefixes and the 20-byte window of the reader; buffers are at most 1 GiB (\<open>2 ^ 30\<close>), above
  which capacities overflow \<open>int\<close>; forward branches span less than 128 MiB, the range of the instruction; the relocation
  theorems allow 50000 instructions, which keeps literals within their 1 MiB range, where a hook relocates three or four; pages of
  the arena lie in the lower half of the address space. An x64 prologue is shorter than \<open>2 ^ 19\<close> bytes, so that the chunk sizes the
  retry loop tries do not overflow. A near request of a page or more does not return, which is a theorem.

  \<^bold>\<open>Not modelled.\<close> The ARM and Thumb back end and the 32-bit x86 assembler and relocator, which repeat the shape of the two back ends that
  are; the near branch plugin (its allocator is), which is off unless an application enables it; function wrappers, which are not in the
  build; the closure bridges of other architectures than x64; the symbol resolvers and process introspection of Darwin and Windows, the
  other built-in plugins and the XNU headers they use (iOS and macOS only), logging, tests and build files. The instruction cache, page
  protection and the effect of patching a function while another thread runs in it have no counterpart in the model.
\<close>

section \<open>The whole module\<close>

text \<open>The engine as the module sees it: whether \<open>DobbyHook\<close> succeeds with the replacement at a given address.\<close>

definition engine_hooks :: "hook_env \<Rightarrow> u64 \<Rightarrow> dobby \<Rightarrow> ptr \<Rightarrow> bool" where
  "engine_hooks henv replacement db addr \<longleftrightarrow>
    (case DobbyHook henv addr replacement db of Some (Inr (status, _, _)) \<Rightarrow> status = RS_SUCCESS | _ \<Rightarrow> False)"

text \<open>
  C1. From start to file: in the process of the game, when the hooking engine can hook the linker function the module chooses, the
  game then loads \<open>libil2cpp.so\<close>, and the metadata of the runtime can be read, a run of the module calls the dumper with the
  handle of the library and the data directory, and that call writes the complete dump into it.
\<close>

theorem module_writes_dump:
  fixes args :: AppSpecializeArgs
  assumes "game_dir d" "nice_name args \<noteq> None" "app_data_dir args = Some (Some d)"
    and "hook_target (GetAndroidApiLevel (env_property env)) (env_resolve env) (env_dlsym env) = Some (addr, r)"
    and "env_dobby_hook env = engine_hooks henv replacement db"
    and "hook_plan henv addr replacement db trampoline a c arena'" "registry_ready henv db es" "\<not> hooked_with es addr replacement"
    and "strstr lib ''libil2cpp.so''" "handle \<noteq> 0"
    and "il2cpp_domain_get_assemblies (dlsym_api handle) = Some get_assemblies"
    and "get_assemblies (il2cpp_domain_get (dlsym_api handle)) = as" "length as < 2 ^ 31"
    and "list_all (assembly_ok (dlsym_api handle) view) as"
    and "il2cpp_image_get_class (dlsym_api handle) = None \<longrightarrow> reflection_available (dlsym_api handle)"
  shows "\<exists>s. sys_reachable env s \<and> sys_dumps s = [(handle, Some d)] \<and>
    il2cpp_dump dlsym_api (Some il2cpp_base) aarch64 maps handle (Some d) =
      Some (Inr (Some (d @ ''/files/dump.cs'', dump_text (dlsym_api handle) il2cpp_base view as)))"
proof -
  have "env_dobby_hook env addr"
    unfolding assms(5) engine_hooks_def DobbyHook_eq [OF assms(6-8)] by simp
  then obtain s where "sys_reachable env s" "sys_dumps s = [(handle, Some d)]"
    using reach_dump [OF assms(1-4) _ assms(9,10)] by blast
  moreover have "il2cpp_dump dlsym_api (Some il2cpp_base) aarch64 maps handle (Some d) =
      Some (Inr (Some (d @ ''/files/dump.cs'', dump_text (dlsym_api handle) il2cpp_base view as)))"
    by (rule il2cpp_dump_text [of dlsym_api handle _ _ _ _ _ _ _ view, OF refl assms(11) _ assms(12) [symmetric] assms(13-15)]) simp
  ultimately show ?thesis by blast
qed

definition demo_system :: environment where
  "demo_system = demo_env\<lparr>env_resolve := (\<lambda>_. 0x4000), env_dobby_hook := engine_hooks demo_hook_env 0x12345678 demo_dobby\<rparr>"

theorem module_writes_dump_witness:
  "\<exists>s. sys_reachable demo_system s \<and> sys_dumps s = [(7, Some ''/data/user/0/com.game.packagename'')] \<and>
    il2cpp_dump (\<lambda>_. demo_api) (Some 0x1000) True None 7 (Some ''/data/user/0/com.game.packagename'') =
      Some (Inr (Some (''/data/user/0/com.game.packagename/files/dump.cs'', dump_text demo_api 0x1000 (\<lambda>_. demo_view) [2])))"
proof -
  obtain a where plan: "hook_plan demo_hook_env 0x4000 0x12345678 demo_dobby demo_trampoline a demo_chunk demo_pages"
    using demo_plan by blast
  have "scan_number 10 ''30'' = Some (30, [])" by code_simp
  then have target: "hook_target (GetAndroidApiLevel (env_property demo_system)) (env_resolve demo_system) (env_dlsym demo_system) = Some (0x4000, New_do_dlopen_V24)"
    by (simp add: demo_system_def demo_env_def GetAndroidApiLevel_def atoi_def hook_target_def)
  have api: "il2cpp_domain_get_assemblies demo_api = Some (\<lambda>_. [2])" "il2cpp_image_get_class demo_api \<noteq> None"
    by (simp_all add: demo_api_def)
  have "env_dobby_hook demo_system = engine_hooks demo_hook_env 0x12345678 demo_dobby" by (simp add: demo_system_def)
  from module_writes_dump [OF demo_game _ _ target this plan demo_ready, of demo_args "''/lib/libil2cpp.so''" 7 "\<lambda>_. demo_api" "\<lambda>_. [2]" "[2]"
      "\<lambda>_. demo_view" "0x1000" True None] api demo_ok
  show ?thesis by auto
qed

text \<open>
  \<open>DobbySymbolResolver\<close> as the module calls it, with \<open>nullptr\<close> for the library; where the resolver would leave a mapped file the module gets
  no address.
\<close>

definition resolver_address :: "resolver_env \<Rightarrow> string \<Rightarrow> ptr" where
  "resolver_address renv symb = (case DobbySymbolResolver renv None symb of Inl _ \<Rightarrow> 0 | Inr a \<Rightarrow> a)"

text \<open>
  C11. What is hooked is the linker's own \<open>do_dlopen\<close>: on API level 30 and above, when the files mapped into the process are well-formed and
  one of them defines the symbol, the module hooks the function at the address that the symbol tables of the file and the place it is
  loaded at give, with the replacement for that signature.
\<close>
theorem hook_target_from_linker:
  defines "symb \<equiv> ''__dl__Z9do_dlopenPKciPK17android_dlextinfoPKv''"
  assumes "api_level \<ge> 30" "re_dlsym renv symb = 0"
    and "re_maps renv 1 = Some (concat (map maps_line es))" "list_all entry_line es" "es \<noteq> []"
    and "concat (map (entry_module (re_memory renv)) (es @ [last es])) = map fst mvs" "list_all (\<lambda>(md, v). module_file renv md v) mvs"
    and "first_address symb mvs \<noteq> 0"
  shows "hook_target api_level (resolver_address renv) dlsym = Some (first_address symb mvs, New_do_dlopen_V24)"
proof -
  have "CHR 0x00 \<notin> set symb" by (simp add: symb_def)
  then have "DobbySymbolResolver renv None symb = Inr (first_address symb mvs)"
    using module_map_mappings [OF assms(5,6), of "re_memory renv" "re_stack renv"] resolve_in_modules_view [OF assms(8)] assms(3,4,7)
    by (simp add: DobbySymbolResolver_def resolve_elf_internal_symbol_def)
  then show ?thesis using assms(2,9) by (simp add: hook_target_def resolver_address_def symb_def)
qed

theorem hook_target_from_linker_witness:
  "hook_target 30 (resolver_address demo_resolver) (\<lambda>_. 0) = Some (0x20234, New_do_dlopen_V24)"
proof -
  have "first_address ''__dl__Z9do_dlopenPKciPK17android_dlextinfoPKv'' demo_module_files = 0x20234" by code_simp
  then show ?thesis
    using hook_target_from_linker [of 30 demo_resolver demo_process_maps demo_module_files] demo_process_maps_ok demo_resolver_ok
    by (simp add: demo_resolver_def demo_process_maps_def)
qed

end
